(* ===== verification/Prelude.thy ===== *)
theory Prelude
  imports Main "HOL-Library.Word"
begin

text \<open>
  Shared vocabulary of the development.

  Go functions of result type \<^verbatim>\<open>(T, error)\<close> become functions into
  \<^typ>\<open>'e + 'a\<close>: \<^term>\<open>Inl e\<close> is a non-nil error, \<^term>\<open>Inr x\<close> the value.  A Go
  byte string is an Isabelle \<^typ>\<open>string\<close>, whose characters are exactly the 256
  byte values.  The theory also holds the theorem collections the component
  theories share and the lemmas on lists they have in common.
\<close>

named_theorems res_simps \<open>unfolding of the result combinators\<close>
named_theorems str_simps \<open>evaluation of the Go string functions\<close>
named_theorems keeps_intros \<open>frame rules: an operation keeps the options already set\<close>

section \<open>Results\<close>

definition bindE :: "'e + 'a \<Rightarrow> ('a \<Rightarrow> 'e + 'b) \<Rightarrow> 'e + 'b" where
  "bindE r f = (case r of Inl e \<Rightarrow> Inl e | Inr x \<Rightarrow> f x)"

lemma bindE_simps [simp, res_simps]:
  "bindE (Inl e) f = Inl e"
  "bindE (Inr x) f = f x"
  by (simp_all add: bindE_def)

lemma bindE_Inr_iff [res_simps]: "bindE r f = Inr y \<longleftrightarrow> (\<exists>x. r = Inr x \<and> f x = Inr y)"
  by (cases r) auto

lemma bindE_Inl_iff [res_simps]:
  "bindE r f = Inl e \<longleftrightarrow> r = Inl e \<or> (\<exists>x. r = Inr x \<and> f x = Inl e)"
  by (cases r) auto

lemma bindE_assoc: "bindE (bindE r f) g = bindE r (\<lambda>x. bindE (f x) g)"
  by (cases r) auto

lemma bindE_cong [fundef_cong]:
  "r = r' \<Longrightarrow> (\<And>x. r' = Inr x \<Longrightarrow> f x = f' x) \<Longrightarrow> bindE r f = bindE r' f'"
  by (cases r') auto

text \<open>\<^term>\<open>foldE f xs s\<close> is the Go loop that updates a state for each element and
  returns at the first error.\<close>

primrec foldE :: "('x \<Rightarrow> 's \<Rightarrow> 'e + 's) \<Rightarrow> 'x list \<Rightarrow> 's \<Rightarrow> 'e + 's" where
  "foldE f [] s = Inr s"
| "foldE f (x # xs) s = bindE (f x s) (foldE f xs)"

lemma foldE_append: "foldE f (xs @ ys) s = bindE (foldE f xs s) (foldE f ys)"
proof (induction xs arbitrary: s)
  case (Cons x xs)
  then show ?case by (cases "f x s") auto
qed simp

lemma foldE_invariant:
  assumes "foldE f xs s = Inr t" and "I s"
    and "\<And>x a b. x \<in> set xs \<Longrightarrow> I a \<Longrightarrow> f x a = Inr b \<Longrightarrow> I b"
  shows "I t"
  using assms
proof (induction xs arbitrary: s)
  case (Cons x xs)
  from Cons.prems(1) obtain u where u: "f x s = Inr u" "foldE f xs u = Inr t"
    by (auto simp: bindE_Inr_iff)
  have "I u" using Cons.prems(2) Cons.prems(3)[of x s u] u(1) by simp
  moreover have "\<And>y a b. y \<in> set xs \<Longrightarrow> I a \<Longrightarrow> f y a = Inr b \<Longrightarrow> I b"
    using Cons.prems(3) by (meson list.set_intros(2))
  ultimately show ?case using Cons.IH[OF u(2)] by blast
qed simp

primrec mapE :: "('x \<Rightarrow> 'e + 'y) \<Rightarrow> 'x list \<Rightarrow> 'e + 'y list" where
  "mapE f [] = Inr []"
| "mapE f (x # xs) = bindE (f x) (\<lambda>y. bindE (mapE f xs) (\<lambda>ys. Inr (y # ys)))"

lemma mapE_length: "mapE f xs = Inr ys \<Longrightarrow> length ys = length xs"
  by (induction xs arbitrary: ys) (auto simp: bindE_Inr_iff)

section \<open>Options\<close>

text \<open>A Go pointer field (\<^verbatim>\<open>*string\<close>, \<^verbatim>\<open>*bool\<close>, \<^verbatim>\<open>*int\<close>) is an
  \<^typ>\<open>'a option\<close>; \<^term>\<open>orElse\<close> is the idiom \<^verbatim>\<open>if p == nil { p = d }\<close>.\<close>

fun orElse :: "'a option \<Rightarrow> 'a option \<Rightarrow> 'a option" where
  "orElse (Some x) d = Some x"
| "orElse None d = d"

lemma orElse_None_right [simp]: "orElse x None = x"
  by (cases x) auto

lemma orElse_idem [simp]: "orElse x x = x"
  by (cases x) auto

lemma orElse_assoc: "orElse (orElse x y) z = orElse x (orElse y z)"
  by (cases x) auto

lemma orElse_eq_None [simp]: "orElse x y = None \<longleftrightarrow> x = None \<and> y = None"
  by (cases x) auto

lemma orElse_Some_right [simp]: "\<exists>y. orElse x (Some v) = Some y"
  by (cases x) auto

text \<open>\<^term>\<open>ext a b\<close>: whatever is set in \<^term>\<open>a\<close> is still set, to the same value,
  in \<^term>\<open>b\<close>.\<close>

definition ext :: "'a option \<Rightarrow> 'a option \<Rightarrow> bool" where
  "ext a b \<longleftrightarrow> (a \<noteq> None \<longrightarrow> b = a)"

lemma ext_refl [simp, intro]: "ext a a" by (simp add: ext_def)
lemma ext_None [simp]: "ext None b" by (simp add: ext_def)
lemma ext_Some [simp]: "ext (Some x) b \<longleftrightarrow> b = Some x" by (auto simp: ext_def)
lemma ext_trans: "ext a b \<Longrightarrow> ext b c \<Longrightarrow> ext a c" by (cases a) auto
lemma ext_orElse [simp, intro]: "ext a (orElse a b)" by (cases a) auto

section \<open>Lists\<close>

lemma dropWhile_length_le: "length (dropWhile P xs) \<le> length xs"
  by (induction xs) auto

lemma set_dropWhileD': "x \<in> set (dropWhile P xs) \<Longrightarrow> x \<in> set xs"
  by (induction xs) (auto split: if_splits)

text \<open>The stable removal of repeated elements, keeping the first occurrence and
  dropping what \<^term>\<open>seen\<close> already holds: the \<^verbatim>\<open>seen\<close> loops of the Go code.\<close>

primrec dedup :: "'a list \<Rightarrow> 'a list \<Rightarrow> 'a list" where
  "dedup seen [] = []"
| "dedup seen (x # xs) = (if x \<in> set seen then dedup seen xs else x # dedup (x # seen) xs)"

lemma set_dedup [simp]: "set (dedup seen xs) = set xs - set seen"
  by (induction xs arbitrary: seen) auto

lemma distinct_dedup [simp]: "distinct (dedup seen xs)"
  by (induction xs arbitrary: seen) auto

lemma dedup_cong_set: "set s = set t \<Longrightarrow> dedup s xs = dedup t xs"
proof (induction xs arbitrary: s t)
  case (Cons x xs)
  have "set (x # s) = set (x # t)" using Cons.prems by simp
  from Cons.IH[OF this] Cons.IH[OF Cons.prems] Cons.prems show ?case by simp
qed simp

end
