(* ===== verification/GoStrings.thy ===== *)
theory GoStrings
  imports Prelude "HOL-Library.Sublist" "HOL-Library.Char_ord"
begin

text \<open>
  The functions of Go's packages \<^verbatim>\<open>strings\<close> and \<^verbatim>\<open>strconv\<close> that the program
  calls, on byte strings.  They agree with Go byte for byte on ASCII input.  On
  other input Go additionally treats multi-byte Unicode white space and letters
  in \<^verbatim>\<open>TrimSpace\<close>, \<^verbatim>\<open>Fields\<close> and \<^verbatim>\<open>ToLower\<close>; here bytes from 128 on are neither
  white space nor letters.  Separators are single characters, as in every call
  of the program.
\<close>

section \<open>Search\<close>

definition newline :: string where "newline = [CHR 0x0A]"

definition hasPrefix :: "string \<Rightarrow> string \<Rightarrow> bool" where
  "hasPrefix s p \<longleftrightarrow> take (length p) s = p"

definition hasSuffix :: "string \<Rightarrow> string \<Rightarrow> bool" where
  "hasSuffix s p \<longleftrightarrow> hasPrefix (rev s) (rev p)"

text \<open>\<^verbatim>\<open>strings.Index(s, sub)\<close>\<close>

fun indexOf :: "string \<Rightarrow> string \<Rightarrow> nat option" where
  "indexOf [] sub = (if sub = [] then Some 0 else None)"
| "indexOf (c # cs) sub =
     (if hasPrefix (c # cs) sub then Some 0 else map_option Suc (indexOf cs sub))"

definition containsStr :: "string \<Rightarrow> string \<Rightarrow> bool" where
  "containsStr s sub \<longleftrightarrow> indexOf s sub \<noteq> None"

primrec indexByte :: "string \<Rightarrow> char \<Rightarrow> nat option" where
  "indexByte [] c = None"
| "indexByte (x # xs) c = (if x = c then Some 0 else map_option Suc (indexByte xs c))"

primrec lastIndexByte :: "string \<Rightarrow> char \<Rightarrow> nat option" where
  "lastIndexByte [] c = None"
| "lastIndexByte (x # xs) c =
     (case lastIndexByte xs c of Some i \<Rightarrow> Some (Suc i) | None \<Rightarrow> if x = c then Some 0 else None)"

definition containsByte :: "string \<Rightarrow> char \<Rightarrow> bool" where
  "containsByte s c \<longleftrightarrow> list_ex (\<lambda>x. x = c) s"

definition countByte :: "string \<Rightarrow> char \<Rightarrow> nat" where
  "countByte s c = length (filter (\<lambda>x. x = c) s)"

lemma containsByte_iff [simp]: "containsByte s c \<longleftrightarrow> c \<in> set s"
  by (auto simp: containsByte_def list_ex_iff)

lemma hasPrefix_append [simp]: "hasPrefix (p @ s) p"
  by (simp add: hasPrefix_def)

lemma hasPrefix_iff: "hasPrefix s p \<longleftrightarrow> (\<exists>t. s = p @ t)"
  unfolding hasPrefix_def by (metis append_eq_conv_conj append_take_drop_id)

lemma hasPrefix_single [simp]:
  "hasPrefix [] [c] = False" "hasPrefix (x # xs) [c] \<longleftrightarrow> x = c"
  by (auto simp: hasPrefix_def)

lemma indexByte_None_iff [simp]: "indexByte s c = None \<longleftrightarrow> c \<notin> set s"
  by (induction s) auto

lemma indexByte_append [simp]: "c \<notin> set s \<Longrightarrow> indexByte (s @ c # t) c = Some (length s)"
  by (induction s) auto

lemma indexByte_SomeD:
  "indexByte s c = Some i \<Longrightarrow> i < length s \<and> s ! i = c \<and> c \<notin> set (take i s)"
  by (induction s arbitrary: i) (auto split: if_splits)

lemma lastIndexByte_None_iff [simp]: "lastIndexByte s c = None \<longleftrightarrow> c \<notin> set s"
  by (induction s) (auto split: option.splits)

lemma lastIndexByte_append [simp]:
  "c \<notin> set t \<Longrightarrow> lastIndexByte (s @ c # t) c = Some (length s)"
proof (induction s)
  case Nil
  then have "lastIndexByte t c = None" using lastIndexByte_None_iff by blast
  then show ?case by (simp del: lastIndexByte_None_iff)
qed simp

lemma lastIndexByte_SomeD:
  "lastIndexByte s c = Some i \<Longrightarrow> i < length s \<and> s ! i = c \<and> c \<notin> set (drop (Suc i) s)"
  by (induction s arbitrary: i) (auto split: option.splits if_splits)

lemma countByte_0_iff [simp]: "countByte s c = 0 \<longleftrightarrow> c \<notin> set s"
  by (auto simp: countByte_def filter_empty_conv)

lemma countByte_append [simp]: "countByte (s @ t) c = countByte s c + countByte t c"
  by (simp add: countByte_def)

lemma countByte_simps [simp]:
  "countByte [] c = 0" "countByte (x # xs) c = (if x = c then Suc (countByte xs c) else countByte xs c)"
  by (simp_all add: countByte_def)

section \<open>Splitting and joining\<close>

fun consHead :: "char \<Rightarrow> string list \<Rightarrow> string list" where
  "consHead c [] = [[c]]"
| "consHead c (f # fs) = (c # f) # fs"

primrec split :: "string \<Rightarrow> char \<Rightarrow> string list" where
  "split [] c = [[]]"
| "split (x # xs) c = (if x = c then [] # split xs c else consHead x (split xs c))"

text \<open>\<^verbatim>\<open>strings.SplitN(s, sep, 2)\<close>\<close>

definition splitN2 :: "string \<Rightarrow> char \<Rightarrow> string list" where
  "splitN2 s c = (case indexByte s c of None \<Rightarrow> [s] | Some i \<Rightarrow> [take i s, drop (Suc i) s])"

primrec joinWith :: "string list \<Rightarrow> string \<Rightarrow> string" where
  "joinWith [] sep = []"
| "joinWith (f # fs) sep = f @ (case fs of [] \<Rightarrow> [] | _ \<Rightarrow> sep @ joinWith fs sep)"

lemma consHead_not_Nil [simp]: "consHead c fs \<noteq> []"
  by (cases fs) auto

lemma split_not_Nil [simp]: "split s c \<noteq> []"
  by (cases s) auto

lemma split_no_sep [simp]: "c \<notin> set s \<Longrightarrow> split s c = [s]"
  by (induction s) auto

lemma split_append_sep: "c \<notin> set f \<Longrightarrow> split (f @ c # s) c = f # split s c"
  by (induction f) auto

lemma consHead_join:
  "fs \<noteq> [] \<Longrightarrow> joinWith (consHead x fs) sep = x # joinWith fs sep"
  by (cases fs) auto

lemma join_split [simp]: "joinWith (split s c) [c] = s"
proof (induction s)
  case (Cons x s)
  have "split s c \<noteq> []" by simp
  then obtain f fs where "split s c = f # fs" by (cases "split s c") auto
  with Cons show ?case by (auto simp: consHead_join split: list.splits)
qed simp

lemma split_join:
  assumes "fs \<noteq> []" and "\<forall>f \<in> set fs. c \<notin> set f"
  shows "split (joinWith fs [c]) c = fs"
  using assms
proof (induction fs)
  case (Cons f fs)
  then show ?case by (cases fs) (auto simp: split_append_sep)
qed simp

section \<open>White space, case, numbers\<close>

definition isSpace :: "char \<Rightarrow> bool" where
  "isSpace c \<longleftrightarrow> c \<in> {CHR '' '', CHR 0x09, CHR 0x0A, CHR 0x0B, CHR 0x0C, CHR 0x0D}"

definition trimLeft :: "string \<Rightarrow> string" where
  "trimLeft s = dropWhile isSpace s"

definition trimSpace :: "string \<Rightarrow> string" where
  "trimSpace s = rev (dropWhile isSpace (rev (dropWhile isSpace s)))"

text \<open>\<^verbatim>\<open>strings.TrimRight(s, cutset)\<close> with a one-character cutset, and the like.\<close>

definition trimRightByte :: "string \<Rightarrow> char \<Rightarrow> string" where
  "trimRightByte s c = rev (dropWhile (\<lambda>x. x = c) (rev s))"

definition trimPrefix :: "string \<Rightarrow> string \<Rightarrow> string" where
  "trimPrefix s p = (if hasPrefix s p then drop (length p) s else s)"

definition trimSuffix :: "string \<Rightarrow> string \<Rightarrow> string" where
  "trimSuffix s p = (if hasSuffix s p then take (length s - length p) s else s)"

text \<open>The current field is accumulated in reverse.\<close>

primrec fieldsAcc :: "(char \<Rightarrow> bool) \<Rightarrow> string \<Rightarrow> string \<Rightarrow> string list" where
  "fieldsAcc P cur [] = (if cur = [] then [] else [rev cur])"
| "fieldsAcc P cur (x # xs) =
     (if P x then (if cur = [] then fieldsAcc P [] xs else rev cur # fieldsAcc P [] xs)
      else fieldsAcc P (x # cur) xs)"

definition Fields :: "string \<Rightarrow> string list" where
  "Fields s = fieldsAcc isSpace [] s"

definition lowerChar :: "char \<Rightarrow> char" where
  "lowerChar c = (let n = of_char c :: nat in if 65 \<le> n \<and> n \<le> 90 then char_of (n + 32) else c)"

definition upperChar :: "char \<Rightarrow> char" where
  "upperChar c = (let n = of_char c :: nat in if 97 \<le> n \<and> n \<le> 122 then char_of (n - 32) else c)"

definition toLower :: "string \<Rightarrow> string" where
  "toLower s = map lowerChar s"

definition toUpper :: "string \<Rightarrow> string" where
  "toUpper s = map upperChar s"

definition equalFold :: "string \<Rightarrow> string \<Rightarrow> bool" where
  "equalFold s t \<longleftrightarrow> toLower s = toLower t"

definition isDigit :: "char \<Rightarrow> bool" where
  "isDigit c \<longleftrightarrow> (let n = of_char c :: nat in 48 \<le> n \<and> n \<le> 57)"

definition digitVal :: "char \<Rightarrow> nat" where
  "digitVal c = of_char c - 48"

primrec digitsVal :: "nat \<Rightarrow> string \<Rightarrow> nat" where
  "digitsVal acc [] = acc"
| "digitsVal acc (c # cs) = digitsVal (acc * 10 + digitVal c) cs"

definition maxInt :: int where "maxInt = 2 ^ 63 - 1"
definition minInt :: int where "minInt = - (2 ^ 63)"

text \<open>\<^verbatim>\<open>strconv.Atoi\<close>: an optional sign and at least one digit, within the range of a
  64-bit \<^verbatim>\<open>int\<close>; \<^term>\<open>None\<close> stands for the returned error.\<close>

definition unsignedDigits :: "string \<Rightarrow> nat option" where
  "unsignedDigits s = (if s \<noteq> [] \<and> list_all isDigit s then Some (digitsVal 0 s) else None)"

definition atoi :: "string \<Rightarrow> int option" where
  "atoi s =
     (let neg = hasPrefix s ''-'';
          t = (if neg \<or> hasPrefix s ''+'' then drop 1 s else s)
      in case unsignedDigits t of
           None \<Rightarrow> None
         | Some n \<Rightarrow> let i = (if neg then - int n else int n)
                     in if minInt \<le> i \<and> i \<le> maxInt then Some i else None)"

definition digitChar :: "nat \<Rightarrow> char" where
  "digitChar d = char_of (48 + d)"

fun natDigits :: "nat \<Rightarrow> string" where
  "natDigits n = (if n < 10 then [digitChar n] else natDigits (n div 10) @ [digitChar (n mod 10)])"

declare natDigits.simps [simp del]

text \<open>\<^verbatim>\<open>strconv.Itoa\<close>\<close>

definition itoaInt :: "int \<Rightarrow> string" where
  "itoaInt i = (if i < 0 then ''-'' @ natDigits (nat (- i)) else natDigits (nat i))"

subsection \<open>Lemmas\<close>

lemma isSpace_space [simp]: "isSpace CHR '' ''" "isSpace CHR 0x09"
  by (simp_all add: isSpace_def)

lemma trimSpace_Nil [simp]: "trimSpace [] = []"
  by (simp add: trimSpace_def)

lemma trimSpace_id:
  assumes "s = [] \<or> (\<not> isSpace (hd s) \<and> \<not> isSpace (last s))"
  shows "trimSpace s = s"
proof (cases "s = []")
  case False
  then have h: "\<not> isSpace (hd s)" "\<not> isSpace (last s)" using assms by auto
  then have "dropWhile isSpace s = s" using False by (cases s) auto
  moreover have "dropWhile isSpace (rev s) = rev s"
    using h False by (cases "rev s") (auto simp: hd_rev[symmetric])
  ultimately show ?thesis by (simp add: trimSpace_def)
qed simp

lemma hd_dropWhile_not: "dropWhile P s \<noteq> [] \<Longrightarrow> \<not> P (hd (dropWhile P s))"
  by (rule hd_dropWhile)

lemma trimSpace_ends:
  assumes "trimSpace s \<noteq> []"
  shows "\<not> isSpace (hd (trimSpace s))" "\<not> isSpace (last (trimSpace s))"
proof -
  define u where "u = dropWhile isSpace s"
  define v where "v = dropWhile isSpace (rev u)"
  have t: "trimSpace s = rev v" by (simp add: trimSpace_def u_def v_def)
  have vn: "v \<noteq> []" using assms t by auto
  have "\<not> isSpace (hd v)" unfolding v_def by (rule hd_dropWhile) (use vn v_def in simp)
  then show "\<not> isSpace (last (trimSpace s))" using t vn by (simp add: last_rev)
  obtain w where w: "rev u = w @ v" unfolding v_def by (metis takeWhile_dropWhile_id)
  then have "u = rev v @ rev w" by (metis rev_append rev_rev_ident)
  then have hd: "hd u = hd (rev v)" and un: "u \<noteq> []" using vn by auto
  have "\<not> isSpace (hd u)" unfolding u_def by (rule hd_dropWhile) (use un u_def in simp)
  then show "\<not> isSpace (hd (trimSpace s))" using t hd by simp
qed

lemma trimSpace_idem [simp]: "trimSpace (trimSpace s) = trimSpace s"
  by (rule trimSpace_id) (use trimSpace_ends in blast)

lemma set_trimSpace: "set (trimSpace s) \<subseteq> set s"
  unfolding trimSpace_def by (auto dest!: set_dropWhileD)

lemma length_trimSpace: "length (trimSpace s) \<le> length s"
  unfolding trimSpace_def
  by (metis (no_types) dropWhile_length_le le_trans length_rev)

lemma toLower_append [simp]: "toLower (s @ t) = toLower s @ toLower t"
  by (simp add: toLower_def)

lemma length_toLower [simp]: "length (toLower s) = length s"
  by (simp add: toLower_def)

lemma lowerChar_lowerChar [simp]: "lowerChar (lowerChar c) = lowerChar c"
  by (auto simp: lowerChar_def Let_def)

lemma toLower_idem [simp]: "toLower (toLower s) = toLower s"
  by (simp add: toLower_def)

lemma digitVal_digitChar [simp]: "d < 10 \<Longrightarrow> digitVal (digitChar d) = d"
  by (simp add: digitVal_def digitChar_def)

lemma isDigit_digitChar [simp]: "d < 10 \<Longrightarrow> isDigit (digitChar d)"
  by (simp add: isDigit_def digitChar_def)

lemma digitVal_bound: "isDigit c \<Longrightarrow> digitVal c < 10"
  by (auto simp: isDigit_def digitVal_def Let_def)

lemma digitsVal_append: "digitsVal a (s @ t) = digitsVal (digitsVal a s) t"
  by (induction s arbitrary: a) auto

lemma natDigits_not_Nil [simp]: "natDigits n \<noteq> []"
  by (subst natDigits.simps) auto

lemma natDigits_isDigit: "list_all isDigit (natDigits n)"
  by (induction n rule: natDigits.induct) (subst natDigits.simps, simp)

lemma digitsVal_natDigits [simp]: "digitsVal 0 (natDigits n) = n"
proof (induction n rule: natDigits.induct)
  case (1 n)
  show ?case
  proof (cases "n < 10")
    case True
    then show ?thesis by (simp add: natDigits.simps[of n])
  next
    case False
    then show ?thesis using 1[OF False]
      by (simp add: natDigits.simps[of n] digitsVal_append)
  qed
qed

lemma unsignedDigits_natDigits [simp]: "unsignedDigits (natDigits n) = Some n"
  by (simp add: unsignedDigits_def natDigits_isDigit)

lemma hd_natDigits: "isDigit (hd (natDigits n))"
proof -
  obtain c cs where "natDigits n = c # cs" using natDigits_not_Nil[of n] by (cases "natDigits n") auto
  then show ?thesis using natDigits_isDigit[of n] by simp
qed

lemma atoi_natDigits: "int n \<le> maxInt \<Longrightarrow> atoi (natDigits n) = Some (int n)"
proof -
  assume n: "int n \<le> maxInt"
  obtain c cs where c: "natDigits n = c # cs"
    using natDigits_not_Nil[of n] by (cases "natDigits n") auto
  have "isDigit c" using hd_natDigits[of n] c by simp
  then have "c \<noteq> CHR ''-''" "c \<noteq> CHR ''+''" by (auto simp: isDigit_def)
  then show ?thesis using n c unsignedDigits_natDigits[of n]
    by (auto simp: atoi_def Let_def minInt_def)
qed

lemma atoi_range: "atoi s = Some i \<Longrightarrow> minInt \<le> i \<and> i \<le> maxInt"
  by (auto simp: atoi_def Let_def split: option.splits if_splits)

lemma atoi_itoaInt: "minInt \<le> i \<Longrightarrow> i \<le> maxInt \<Longrightarrow> atoi (itoaInt i) = Some i"
proof (cases "i < 0")
  case True
  assume "minInt \<le> i"
  with True show ?thesis by (simp add: itoaInt_def atoi_def Let_def maxInt_def)
next
  case False
  assume "i \<le> maxInt"
  with False show ?thesis using atoi_natDigits[of "nat i"] by (simp add: itoaInt_def)
qed

end
