(* ===== verification/Pattern.thy ===== *)
theory Pattern
  imports GoStrings
begin

text \<open>
  SSH glob patterns (\<^verbatim>\<open>pkg/sshconfig/pattern.go\<close>).  The locale
  \<^verbatim>\<open>glob_matcher\<close> is the contract of a matcher: what it answers for a pattern
  that is empty or starts with a star, a question mark or any other byte.  It has
  one consequence that matters: every matcher decides the relation
  \<^verbatim>\<open>glob\<close>.  The program has three matchers; the one of this file is
  interpreted here, the two others in the theories of their packages.
\<close>

section \<open>The language of patterns\<close>

inductive glob :: "string \<Rightarrow> string \<Rightarrow> bool" where
  glob_nil: "glob [] []"
| glob_star: "glob p v \<Longrightarrow> glob (CHR ''*'' # p) (u @ v)"
| glob_one: "glob p v \<Longrightarrow> glob (CHR ''?'' # p) (c # v)"
| glob_lit: "c \<noteq> CHR ''*'' \<Longrightarrow> c \<noteq> CHR ''?'' \<Longrightarrow> glob p v \<Longrightarrow> glob (c # p) (c # v)"

inductive_cases glob_NilE: "glob [] v"
inductive_cases glob_ConsE: "glob (c # p) v"

inductive_simps glob_Nil_iff [simp]: "glob [] v"

lemma glob_star_iff: "glob (CHR ''*'' # p) v \<longleftrightarrow> (\<exists>i \<le> length v. glob p (drop i v))"
proof
  assume "glob (CHR ''*'' # p) v"
  then obtain u w where "v = u @ w" "glob p w" by (auto elim: glob_ConsE)
  then show "\<exists>i \<le> length v. glob p (drop i v)" by (intro exI[of _ "length u"]) auto
next
  assume "\<exists>i \<le> length v. glob p (drop i v)"
  then obtain i where "glob p (drop i v)" by blast
  then have "glob (CHR ''*'' # p) (take i v @ drop i v)" by (rule glob_star)
  then show "glob (CHR ''*'' # p) v" by simp
qed

lemma glob_one_iff: "glob (CHR ''?'' # p) v \<longleftrightarrow> (\<exists>c w. v = c # w \<and> glob p w)"
  by (auto elim: glob_ConsE intro: glob.intros)

lemma glob_lit_iff:
  "c \<noteq> CHR ''*'' \<Longrightarrow> c \<noteq> CHR ''?'' \<Longrightarrow> glob (c # p) v \<longleftrightarrow> (\<exists>w. v = c # w \<and> glob p w)"
  by (auto elim: glob_ConsE intro: glob.intros)

lemma glob_star_star: "glob (CHR ''*'' # CHR ''*'' # p) v \<longleftrightarrow> glob (CHR ''*'' # p) v"
proof
  assume "glob (CHR ''*'' # CHR ''*'' # p) v"
  then obtain i where i: "i \<le> length v" "glob (CHR ''*'' # p) (drop i v)"
    by (auto simp: glob_star_iff)
  then obtain j where "j \<le> length v - i" "glob p (drop (i + j) v)"
    by (auto simp: glob_star_iff add.commute)
  then show "glob (CHR ''*'' # p) v"
    unfolding glob_star_iff using i(1) by (intro exI[of _ "i + j"]) auto
next
  assume "glob (CHR ''*'' # p) v"
  then show "glob (CHR ''*'' # CHR ''*'' # p) v"
    unfolding glob_star_iff[of "CHR ''*'' # p"] by (intro exI[of _ 0]) auto
qed

section \<open>The contract of a matcher\<close>

definition wildFree :: "string \<Rightarrow> bool" where
  "wildFree p \<longleftrightarrow> CHR ''*'' \<notin> set p \<and> CHR ''?'' \<notin> set p"

locale glob_matcher =
  fixes mtch :: "string \<Rightarrow> string \<Rightarrow> bool"
  assumes mtch_nil: "mtch [] v \<longleftrightarrow> v = []"
    and mtch_star: "mtch (CHR ''*'' # p) v \<longleftrightarrow> (\<exists>i \<le> length v. mtch p (drop i v))"
    and mtch_one: "mtch (CHR ''?'' # p) v \<longleftrightarrow> (\<exists>c w. v = c # w \<and> mtch p w)"
    and mtch_lit: "c \<noteq> CHR ''*'' \<Longrightarrow> c \<noteq> CHR ''?'' \<Longrightarrow>
                   mtch (c # p) v \<longleftrightarrow> (\<exists>w. v = c # w \<and> mtch p w)"
begin

lemma mtch_glob: "mtch p v \<longleftrightarrow> glob p v"
proof (induction p arbitrary: v)
  case Nil
  then show ?case by (simp add: mtch_nil)
next
  case (Cons c p)
  consider "c = CHR ''*''" | "c = CHR ''?''" | "c \<noteq> CHR ''*''" "c \<noteq> CHR ''?''" by blast
  then show ?case
    by cases (simp_all add: mtch_star mtch_one mtch_lit glob_star_iff glob_one_iff glob_lit_iff
        Cons.IH)
qed

lemma mtch_append: "wildFree p \<Longrightarrow> mtch (p @ q) (p @ v) \<longleftrightarrow> mtch q v"
proof (induction p)
  case (Cons c p)
  then have "c \<noteq> CHR ''*''" "c \<noteq> CHR ''?''" "wildFree p" by (auto simp: wildFree_def)
  with Cons.IH show ?case by (simp add: mtch_lit[of c])
qed simp

lemma mtch_wildFree: "wildFree p \<Longrightarrow> mtch p v \<longleftrightarrow> v = p"
proof (induction p arbitrary: v)
  case Nil
  then show ?case by (simp add: mtch_nil)
next
  case (Cons c p)
  then have "c \<noteq> CHR ''*''" "c \<noteq> CHR ''?''" "wildFree p" by (auto simp: wildFree_def)
  with Cons.IH show ?case by (auto simp: mtch_lit[of c])
qed

lemma mtch_star_all: "mtch ''*'' v"
  by (auto simp: mtch_star mtch_nil)

lemma mtch_prefix_star:
  assumes "wildFree p" shows "mtch (p @ ''*'') v \<longleftrightarrow> hasPrefix v p"
  using assms
proof (induction p arbitrary: v)
  case Nil
  then show ?case by (simp add: mtch_star_all hasPrefix_def)
next
  case (Cons c p)
  then have "c \<noteq> CHR ''*''" "c \<noteq> CHR ''?''" "wildFree p" by (auto simp: wildFree_def)
  with Cons.IH show ?case by (cases v) (auto simp: mtch_lit[of c] hasPrefix_def)
qed

lemma mtch_suffix_star:
  assumes "wildFree p" shows "mtch (CHR ''*'' # p) v \<longleftrightarrow> (\<exists>u. v = u @ p)"
proof -
  have "mtch (CHR ''*'' # p) v \<longleftrightarrow> (\<exists>i \<le> length v. drop i v = p)"
    using mtch_star mtch_wildFree[OF assms] by simp
  also have "\<dots> \<longleftrightarrow> (\<exists>u. v = u @ p)"
    by (metis append_eq_conv_conj append_take_drop_id le_add1 length_append)
  finally show ?thesis .
qed

end

lemma glob_matcher_unique:
  assumes "glob_matcher m" and "glob_matcher n" shows "m = n"
  using glob_matcher.mtch_glob[OF assms(1)] glob_matcher.mtch_glob[OF assms(2)] by blast

section \<open>The matcher of the configuration package\<close>

text \<open>\<^verbatim>\<open>for i := 0; i <= len(value); i++\<close> over \<^verbatim>\<open>value[i:]\<close>\<close>

definition tails :: "string \<Rightarrow> string list" where
  "tails v = map (\<lambda>i. drop i v) [0..<Suc (length v)]"

lemma list_ex_tails: "list_ex P (tails v) \<longleftrightarrow> (\<exists>i \<le> length v. P (drop i v))"
proof -
  have "set [0..<Suc (length v)] = {i. i \<le> length v}" by auto
  then show ?thesis by (simp only: tails_def list_ex_iff set_map) auto
qed

definition skipStars :: "string \<Rightarrow> string" where
  "skipStars p = dropWhile (\<lambda>c. c = CHR ''*'') p"

lemma length_skipStars: "length (skipStars p) \<le> length p"
  unfolding skipStars_def by (rule dropWhile_length_le)

lemma glob_skipStars: "glob (CHR ''*'' # skipStars p) v \<longleftrightarrow> glob (CHR ''*'' # p) v"
  unfolding skipStars_def by (induction p) (auto simp: glob_star_star)

function matchPattern :: "string \<Rightarrow> string \<Rightarrow> bool" where
  "matchPattern [] value = (value = [])"
| "matchPattern (c # pat) value =
     (if c = CHR ''*'' then
        (let rest = skipStars pat
         in if rest = [] then True else list_ex (matchPattern rest) (tails value))
      else if c = CHR ''?'' then
        (case value of [] \<Rightarrow> False | _ # vs \<Rightarrow> matchPattern pat vs)
      else
        (case value of [] \<Rightarrow> False | v # vs \<Rightarrow> if c \<noteq> v then False else matchPattern pat vs))"
  by pat_completeness auto
termination
  by (relation "measure (\<lambda>(p, v). length p)") (auto simp: length_skipStars less_Suc_eq_le)

declare matchPattern.simps(2) [simp del]

lemma matchPattern_glob_aux: "matchPattern p v \<longleftrightarrow> glob p v"
proof (induction p v rule: matchPattern.induct)
  case (1 v)
  then show ?case by simp
next
  case (2 c p v)
  consider (star) "c = CHR ''*''" | (one) "c = CHR ''?''"
    | (lit) "c \<noteq> CHR ''*''" "c \<noteq> CHR ''?''" by blast
  then show ?case
  proof cases
    case star
    show ?thesis
    proof (cases "skipStars p = []")
      case True
      have "glob (CHR ''*'' # skipStars p) v" using True glob_star[OF glob_nil, of v] by simp
      then have "glob (CHR ''*'' # p) v" by (simp only: glob_skipStars)
      then show ?thesis using star True by (simp add: matchPattern.simps(2))
    next
      case False
      have IH: "\<And>w. w \<in> set (tails v) \<Longrightarrow> matchPattern (skipStars p) w = glob (skipStars p) w"
        using 2(1)[OF star refl False] by blast
      have "matchPattern (c # p) v = list_ex (matchPattern (skipStars p)) (tails v)"
        using star False by (simp add: matchPattern.simps(2))
      also have "\<dots> = list_ex (glob (skipStars p)) (tails v)"
        using IH by (auto simp: list_ex_iff)
      also have "\<dots> = glob (CHR ''*'' # skipStars p) v"
        by (simp only: list_ex_tails glob_star_iff)
      also have "\<dots> = glob (CHR ''*'' # p) v" by (rule glob_skipStars)
      finally show ?thesis using star by simp
    qed
  next
    case one
    then show ?thesis using 2(2)
      by (cases v) (auto simp: matchPattern.simps(2) glob_one_iff)
  next
    case lit
    then show ?thesis using 2(3)
      by (cases v) (auto simp: matchPattern.simps(2) glob_lit_iff)
  qed
qed

interpretation mp: glob_matcher matchPattern
  by unfold_locales
    (simp_all add: matchPattern_glob_aux glob_star_iff glob_one_iff glob_lit_iff)

definition MatchPattern :: "string \<Rightarrow> string \<Rightarrow> bool" where
  "MatchPattern pattern value = matchPattern pattern value"

section \<open>Pattern lists\<close>

text \<open>The body of the loop: \<^term>\<open>None\<close> is the early \<^verbatim>\<open>return false\<close> on an exclusion.\<close>

fun matchListLoop :: "string list \<Rightarrow> string \<Rightarrow> bool \<Rightarrow> bool" where
  "matchListLoop [] value matched = matched"
| "matchListLoop (raw # rest) value matched =
     (let p = trimSpace raw in
      if p = [] then matchListLoop rest value matched
      else
        (let negated = hd p = CHR ''!'';
             q = (if negated then tl p else p)
         in if MatchPattern q value
            then if negated then False else matchListLoop rest value True
            else matchListLoop rest value matched))"

definition MatchPatternList :: "string \<Rightarrow> string \<Rightarrow> bool" where
  "MatchPatternList patternList value = matchListLoop (split patternList CHR '','') value False"

text \<open>The two kinds of elements of a pattern list, as the documentation names them.\<close>

definition positivePats :: "string \<Rightarrow> string list" where
  "positivePats l = filter (\<lambda>p. p \<noteq> [] \<and> hd p \<noteq> CHR ''!'') (map trimSpace (split l CHR '',''))"

definition negatedPats :: "string \<Rightarrow> string list" where
  "negatedPats l =
     map tl (filter (\<lambda>p. p \<noteq> [] \<and> hd p = CHR ''!'') (map trimSpace (split l CHR '','')))"

lemma matchListLoop_iff:
  "matchListLoop ps v m \<longleftrightarrow>
     (m \<or> (\<exists>p \<in> set (map trimSpace ps). p \<noteq> [] \<and> hd p \<noteq> CHR ''!'' \<and> matchPattern p v)) \<and>
     \<not> (\<exists>p \<in> set (map trimSpace ps). p \<noteq> [] \<and> hd p = CHR ''!'' \<and> matchPattern (tl p) v)"
  by (induction ps v m rule: matchListLoop.induct) (auto simp: Let_def MatchPattern_def)

section \<open>Properties\<close>

text \<open>C13: the glob matcher decides the language of patterns: it answers true exactly
  when the value splits into pieces as the pattern asks, a star standing for any
  piece and a question mark for one byte.\<close>

theorem MatchPattern_decides_glob: "MatchPattern p v \<longleftrightarrow> glob p v"
  by (simp add: MatchPattern_def mp.mtch_glob)

text \<open>A pattern list accepts a value exactly when some positive pattern matches
  it and no negated pattern does, wherever the negated pattern stands in the list;
  in particular a list of negated patterns only accepts nothing.\<close>

theorem MatchPatternList_iff:
  "MatchPatternList l v \<longleftrightarrow>
     (\<exists>p \<in> set (positivePats l). glob p v) \<and> \<not> (\<exists>p \<in> set (negatedPats l). glob p v)"
  unfolding MatchPatternList_def matchListLoop_iff positivePats_def negatedPats_def
  by (auto simp: mp.mtch_glob)

end
