(* ===== verification/ListOp.thy ===== *)
theory ListOp
  imports Pattern
begin

text \<open>
  The algorithm-list operators (\<^verbatim>\<open>pkg/sshconfig/listop.go\<close> and
  \<^verbatim>\<open>SplitAlgList\<close> of \<^verbatim>\<open>helpers.go\<close>).  The \<^verbatim>\<open>seen\<close> maps of the Go code are
  sets; the loops carry the result so far.
\<close>

section \<open>Definitions\<close>

definition splitList :: "string \<Rightarrow> string list" where
  "splitList s = filter (\<lambda>p. p \<noteq> []) (map trimSpace (split s CHR '',''))"

definition SplitAlgList :: "string \<Rightarrow> string list" where
  "SplitAlgList s = filter (\<lambda>p. p \<noteq> []) (map trimSpace (split s CHR '',''))"

primrec matchesAnyPattern :: "string \<Rightarrow> string list \<Rightarrow> bool" where
  "matchesAnyPattern value [] = False"
| "matchesAnyPattern value (p # ps) = (if MatchPattern p value then True else matchesAnyPattern value ps)"

text \<open>One loop \<^verbatim>\<open>for _, a := range xs { if !seen[a] { append; seen[a] = true } }\<close>\<close>

primrec appendUnseen :: "string list \<Rightarrow> string set \<times> string list \<Rightarrow> string set \<times> string list" where
  "appendUnseen [] st = st"
| "appendUnseen (a # as) st =
     (let (seen, result) = st
      in if a \<in> seen then appendUnseen as (seen, result)
         else appendUnseen as (insert a seen, result @ [a]))"

text \<open>The second loop of \<^verbatim>\<open>applyPrepend\<close> marks what it appends as well.\<close>

definition applyAppend :: "string \<Rightarrow> string list \<Rightarrow> string list" where
  "applyAppend value defaults =
     (let additions = splitList value
      in snd (appendUnseen additions (set defaults, defaults)))"

definition applyRemove :: "string \<Rightarrow> string list \<Rightarrow> string list" where
  "applyRemove value defaults =
     (let removals = splitList value
      in filter (\<lambda>d. \<not> matchesAnyPattern d removals) defaults)"

definition applyPrepend :: "string \<Rightarrow> string list \<Rightarrow> string list" where
  "applyPrepend value defaults =
     (let additions = splitList value
      in snd (appendUnseen defaults (appendUnseen additions ({}, []))))"

definition ApplyListOp :: "string \<Rightarrow> string list \<Rightarrow> string list" where
  "ApplyListOp value defaults =
     (case value of
        [] \<Rightarrow> defaults
      | c # rest \<Rightarrow>
          if c = CHR ''+'' then applyAppend rest defaults
          else if c = CHR ''-'' then applyRemove rest defaults
          else if c = CHR ''^'' then applyPrepend rest defaults
          else splitList value)"

section \<open>Lemmas\<close>

lemma matchesAnyPattern_iff: "matchesAnyPattern v ps \<longleftrightarrow> (\<exists>p \<in> set ps. MatchPattern p v)"
  by (induction ps) auto

lemma appendUnseen_dedup:
  "set ys = seen \<Longrightarrow>
   appendUnseen as (seen, result) = (seen \<union> set as, result @ dedup ys as)"
proof (induction as arbitrary: seen result ys)
  case (Cons a as)
  show ?case
  proof (cases "a \<in> seen")
    case True
    then show ?thesis using Cons.IH[OF Cons.prems] Cons.prems by (auto simp: insert_absorb)
  next
    case False
    have "set (a # ys) = insert a seen" using Cons.prems by simp
    from Cons.IH[OF this] False Cons.prems show ?thesis by simp
  qed
qed simp

lemma applyAppend_dedup: "applyAppend v ds = ds @ dedup ds (splitList v)"
  by (simp add: applyAppend_def Let_def appendUnseen_dedup[of ds])

lemma applyPrepend_dedup:
  "applyPrepend v ds = dedup [] (splitList v) @ dedup (splitList v) ds"
  by (simp add: applyPrepend_def Let_def appendUnseen_dedup[of "[]"]
      appendUnseen_dedup[of "splitList v"])

lemma splitList_elems: "x \<in> set (splitList s) \<Longrightarrow> x \<noteq> [] \<and> trimSpace x = x \<and> CHR '','' \<notin> set x"
proof -
  assume "x \<in> set (splitList s)"
  then obtain f where f: "f \<in> set (split s CHR '','')" "x = trimSpace f" "x \<noteq> []"
    by (auto simp: splitList_def)
  have "\<forall>g \<in> set (split s c). c \<notin> set g" for c
  proof (induction s)
    case (Cons a s)
    then show ?case by (cases "split s c") auto
  qed simp
  with f set_trimSpace[of f] show ?thesis by auto
qed

lemma splitList_join:
  assumes "\<forall>x \<in> set xs. x \<noteq> [] \<and> trimSpace x = x \<and> CHR '','' \<notin> set x"
  shows "splitList (joinWith xs '','') = xs"
proof (cases "xs = []")
  case True
  then show ?thesis by (simp add: splitList_def)
next
  case False
  then have "split (joinWith xs [CHR '','']) CHR '','' = xs"
    using assms by (intro split_join) auto
  moreover have "map trimSpace xs = xs" using assms by (induction xs) auto
  moreover have "filter (\<lambda>p. p \<noteq> []) xs = xs" using assms by (induction xs) auto
  ultimately show ?thesis by (simp add: splitList_def)
qed

lemma splitList_SplitAlgList: "SplitAlgList s = splitList s"
  by (simp add: SplitAlgList_def splitList_def)

section \<open>Properties\<close>

lemma subseq_dedup: "subseq (dedup seen xs) xs"
  by (induction xs arbitrary: seen) auto

text \<open>With a duplicate-free default list, plus appends the new names behind the
  unchanged defaults, caret puts the given names in front of the remaining defaults
  in their order, and minus removes exactly the defaults that match a pattern; no
  result has a duplicate.\<close>

theorem ApplyListOp_operators:
  assumes "distinct ds"
  shows
    "(\<exists>add. ApplyListOp (CHR ''+'' # v) ds = ds @ add \<and> distinct (ds @ add) \<and>
            set add = set (splitList v) - set ds) \<and>
     (\<exists>front back. ApplyListOp (CHR ''^'' # v) ds = front @ back \<and> distinct (front @ back) \<and>
            set front = set (splitList v) \<and> subseq back ds \<and> set back = set ds - set front) \<and>
     ApplyListOp (CHR ''-'' # v) ds =
       filter (\<lambda>d. \<not> (\<exists>p \<in> set (splitList v). glob p d)) ds"
proof (intro conjI)
  show "\<exists>add. ApplyListOp (CHR ''+'' # v) ds = ds @ add \<and> distinct (ds @ add) \<and>
            set add = set (splitList v) - set ds"
    using assms by (intro exI[of _ "dedup ds (splitList v)"])
      (auto simp: ApplyListOp_def applyAppend_dedup)
  show "\<exists>front back. ApplyListOp (CHR ''^'' # v) ds = front @ back \<and> distinct (front @ back) \<and>
            set front = set (splitList v) \<and> subseq back ds \<and> set back = set ds - set front"
    by (intro exI[of _ "dedup [] (splitList v)"] exI[of _ "dedup (splitList v) ds"])
      (auto simp: ApplyListOp_def applyPrepend_dedup subseq_dedup)
  show "ApplyListOp (CHR ''-'' # v) ds =
       filter (\<lambda>d. \<not> (\<exists>p \<in> set (splitList v). glob p d)) ds"
    by (simp add: ApplyListOp_def applyRemove_def matchesAnyPattern_iff MatchPattern_def
        mp.mtch_glob)
qed

theorem ApplyListOp_operators_witness:
  "\<exists>add. ApplyListOp ''+c, a,c'' [''a'', ''b''] = [''a'', ''b''] @ add \<and>
     distinct ([''a'', ''b''] @ add) \<and> set add = set (splitList ''c, a,c'') - set [''a'', ''b'']"
  using ApplyListOp_operators[of "[''a'', ''b'']" "''c, a,c''"] by simp

definition listOperators :: "char set" where
  "listOperators = {CHR ''+'', CHR ''-'', CHR ''^''}"

text \<open>A list without an operator replaces the defaults and is returned name by
  name as written: joining names with commas and applying the result gives those
  names back, repeated ones included, although the comment of the Go function
  promises a result without duplicates.\<close>

theorem ApplyListOp_replace:
  assumes "\<forall>x \<in> set xs. x \<noteq> [] \<and> trimSpace x = x \<and> CHR '','' \<notin> set x"
    and "xs \<noteq> []" and "hd (hd xs) \<notin> listOperators"
  shows "ApplyListOp (joinWith xs '','') ds = xs"
proof -
  obtain c f fs where xs: "xs = (c # f) # fs"
    using assms(1,2) by (cases xs; cases "hd xs") auto
  then obtain rest where "joinWith xs '','' = c # rest" by simp
  moreover have "c \<notin> listOperators" using assms(3) xs by simp
  ultimately have "ApplyListOp (joinWith xs '','') ds = splitList (joinWith xs '','')"
    by (simp add: ApplyListOp_def listOperators_def)
  then show ?thesis using splitList_join[OF assms(1)] by simp
qed

theorem ApplyListOp_replace_witness:
  "ApplyListOp ''aes,aes'' [''x''] = [''aes'', ''aes''] \<and> \<not> distinct [''aes'', ''aes'']"
  using ApplyListOp_replace[of "[''aes'', ''aes'']" "[''x'']"]
  by (simp add: listOperators_def trimSpace_def isSpace_def)

end
