(* ===== verification/ConfTypes.thy ===== *)
theory ConfTypes
  imports GoStrings
begin

text \<open>
  The data of the configuration package (\<^verbatim>\<open>pkg/sshconfig/types.go\<close>) and its
  errors.  A Go slice that may be nil is a list, nil being the empty list, where
  the code never distinguishes the two; \<^verbatim>\<open>net.IP\<close> is a byte list in an option,
  \<^term>\<open>None\<close> for nil.  Errors are values: a \<^verbatim>\<open>*ParseError\<close>, an error built
  from a format string and its arguments, one that wraps another, or one that comes
  from outside the program.
\<close>

record SourceInfo =
  srcFile :: string
  srcLine :: int

record Directive =
  dKeyword :: string
  dValue :: string
  dSource :: SourceInfo

definition noSource :: SourceInfo where
  "noSource = \<lparr>srcFile = [], srcLine = 0\<rparr>"

datatype go_error =
    ParseError SourceInfo string
  | Errorf string "string list"
  | Wrapf string "string list" go_error
  | ErrExt string

text \<open>The verbs of a format string take the arguments in order; \<^verbatim>\<open>%q\<close> adds quotes
  (escapes inside the quoted text are not modelled).\<close>

fun sprintf :: "string \<Rightarrow> string list \<Rightarrow> string" where
  "sprintf [] as = []"
| "sprintf [c] as = [c]"
| "sprintf (c # d # fs) [] = c # sprintf (d # fs) []"
| "sprintf (c # d # fs) (a # as) =
     (if c = CHR ''%''
      then (if d = CHR ''q'' then [CHR 0x22] @ a @ [CHR 0x22] else a) @ sprintf fs as
      else c # sprintf (d # fs) (a # as))"

text \<open>The numbers of the error texts: \<^verbatim>\<open>itoa\<close> of \<^verbatim>\<open>match.go\<close> on a 64-bit \<^verbatim>\<open>int\<close>.
  The loop runs while the number is positive, so the least \<^verbatim>\<open>int\<close>, whose negation
  wraps to itself, yields a sign without digits.\<close>

function itoaLoop :: "int \<Rightarrow> string \<Rightarrow> string" where
  "itoaLoop i buf =
     (if i > 0 then itoaLoop (i div 10) (char_of (48 + nat (i mod 10)) # buf) else buf)"
  by auto
termination
  by (relation "measure (\<lambda>(i, b). nat i)") auto

declare itoaLoop.simps [simp del]

definition negWrap :: "int \<Rightarrow> int" where
  "negWrap i = sint (- (word_of_int i :: 64 word))"

definition itoa :: "int \<Rightarrow> string" where
  "itoa i =
     (if i = 0 then ''0''
      else let neg = i < 0;
               i' = (if neg then negWrap i else i);
               buf = itoaLoop i' []
           in if neg then CHR ''-'' # buf else buf)"

fun errText :: "go_error \<Rightarrow> string" where
  "errText (ParseError s m) =
     (if srcFile s \<noteq> [] then srcFile s @ '':'' @ itoa (srcLine s) @ '': '' @ m else m)"
| "errText (Errorf f as) = sprintf f as"
| "errText (Wrapf f as e) = sprintf f (as @ [errText e])"
| "errText (ErrExt m) = m"

section \<open>Conditions\<close>

type_synonym IP = "8 word list"

record HostPattern =
  hpPattern :: string
  hpNegated :: bool

datatype MatchField =
    MatchFieldHost | MatchFieldOriginalHost | MatchFieldUser | MatchFieldLocalUser
  | MatchFieldTagged | MatchFieldCommand | MatchFieldVersion | MatchFieldSessionType
  | MatchFieldGroup | MatchFieldLocalPort | MatchFieldRDomain

datatype MatchAddressField = MatchAddressRemote | MatchAddressLocal

datatype Condition =
    HostCondition "HostPattern list"
  | MatchAllCondition
  | MatchCanonicalCondition
  | MatchFinalCondition
  | MatchExecCondition string
  | MatchLocalNetworkCondition "string list"
  | MatchFieldCondition MatchField string bool
  | MatchAddressCondition MatchAddressField string bool
  | MatchInvalidUserCondition
  | negatedCondition Condition

record Entry =
  eConditions :: "Condition list"
  eDirective :: Directive

record MatchContext =
  mcUser :: string
  mcHost :: string
  mcOriginalHost :: string
  mcLocalUser :: string
  mcPort :: string
  mcCommand :: string
  mcTag :: string
  mcVersion :: string
  mcSessionType :: string
  mcGroups :: "string list"
  mcRemoteAddr :: string
  mcRemoteAddrIP :: "IP option"
  mcLocalAddr :: string
  mcLocalAddrIP :: "IP option"
  mcLocalPort :: string
  mcRDomain :: string
  mcInvalidUser :: bool
  mcExecFunc :: "(string \<Rightarrow> bool) option"
  mcLocalAddresses :: "IP list"
  mcIsCanonical :: bool
  mcIsFinal :: bool

record TokenContext =
  tcRemoteHost :: string
  tcRemotePort :: string
  tcRemoteUser :: string
  tcLocalUser :: string
  tcHomeDir :: string
  tcLocalHostFQDN :: string
  tcLocalHost :: string
  tcOriginalHost :: string
  tcLocalUserID :: string
  tcProxyJump :: string
  tcHostKeyAlias :: string
  tcConnHash :: string
  tcServerKeyFingerprint :: string
  tcKnownHostsHost :: string
  tcKnownHostsReason :: string
  tcHostKeyBase64 :: string
  tcHostKeyType :: string
  tcTunnelInterface :: string

record ParseOptions =
  poBaseDir :: string
  poIsUser :: bool
  poMaxIncludeDepth :: int
  poHomeDir :: string
  poTokenContext :: "TokenContext option"

definition emptyTokenContext :: TokenContext where
  "emptyTokenContext = \<lparr>tcRemoteHost = [], tcRemotePort = [], tcRemoteUser = [], tcLocalUser = [],
     tcHomeDir = [], tcLocalHostFQDN = [], tcLocalHost = [], tcOriginalHost = [],
     tcLocalUserID = [], tcProxyJump = [], tcHostKeyAlias = [], tcConnHash = [],
     tcServerKeyFingerprint = [], tcKnownHostsHost = [], tcKnownHostsReason = [],
     tcHostKeyBase64 = [], tcHostKeyType = [], tcTunnelInterface = []\<rparr>"

definition emptyMatchContext :: MatchContext where
  "emptyMatchContext = \<lparr>mcUser = [], mcHost = [], mcOriginalHost = [], mcLocalUser = [],
     mcPort = [], mcCommand = [], mcTag = [], mcVersion = [], mcSessionType = [],
     mcGroups = [], mcRemoteAddr = [], mcRemoteAddrIP = None, mcLocalAddr = [],
     mcLocalAddrIP = None, mcLocalPort = [], mcRDomain = [], mcInvalidUser = False,
     mcExecFunc = None, mcLocalAddresses = [], mcIsCanonical = False, mcIsFinal = False\<rparr>"

section \<open>Lemmas on the numbers of error texts\<close>

lemma itoaLoop_0 [simp]: "itoaLoop 0 buf = buf"
  by (simp add: itoaLoop.simps)

lemma itoaLoop_step:
  "0 < i \<Longrightarrow> itoaLoop i buf = itoaLoop (i div 10) (digitChar (nat (i mod 10)) # buf)"
  by (subst itoaLoop.simps) (simp add: digitChar_def)

lemma natDigits_step: "\<not> n < 10 \<Longrightarrow> natDigits n = natDigits (n div 10) @ [digitChar (n mod 10)]"
  by (subst natDigits.simps) simp

lemma natDigits_small: "n < 10 \<Longrightarrow> natDigits n = [digitChar n]"
  by (subst natDigits.simps) simp

lemma itoaLoop_natDigits: "0 < i \<Longrightarrow> itoaLoop i buf = natDigits (nat i) @ buf"
proof (induction i buf rule: itoaLoop.induct)
  case (1 i buf)
  show ?case
  proof (cases "i < 10")
    case True
    then have "i div 10 = 0" "i mod 10 = i" using 1(2) by auto
    then show ?thesis using True 1(2) itoaLoop_step[of i buf] natDigits_small[of "nat i"] by simp
  next
    case False
    have pos: "0 < i div 10" using False by (simp add: pos_imp_zdiv_pos_iff)
    have nd: "nat (i div 10) = nat i div 10" "nat (i mod 10) = nat i mod 10"
      using 1(2) by (simp_all add: nat_div_distrib nat_mod_distrib)
    have big: "\<not> nat i < 10" using False by linarith
    have "itoaLoop i buf = itoaLoop (i div 10) (digitChar (nat (i mod 10)) # buf)"
      by (rule itoaLoop_step[OF 1(2)])
    also have "\<dots> = natDigits (nat (i div 10)) @ digitChar (nat (i mod 10)) # buf"
      using 1(1)[OF 1(2) pos] by (simp only: digitChar_def)
    also have "\<dots> = natDigits (nat i) @ buf"
      by (simp only: nd natDigits_step[OF big]) simp
    finally show ?thesis .
  qed
qed

lemma negWrap_exact: "minInt < i \<Longrightarrow> i \<le> maxInt \<Longrightarrow> negWrap i = - i"
proof -
  assume i: "minInt < i" "i \<le> maxInt"
  have "negWrap i = sint (word_of_int (- i) :: 64 word)" by (simp add: negWrap_def)
  also have "\<dots> = signed_take_bit 63 (- i)" 
    by (simp only: sint_sbintrunc') simp
  also have "\<dots> = - i"
    using i by (intro signed_take_bit_int_eq_self) (auto simp: minInt_def maxInt_def)
  finally show ?thesis .
qed

lemma negWrap_minInt: "negWrap minInt = minInt"
  unfolding negWrap_def minInt_def by simp

text \<open>The hand-written number printer of the error texts agrees with the
  standard one on the whole range of a 64-bit integer but its least element.\<close>

theorem itoa_correct:
  assumes "minInt < i" and "i \<le> maxInt"
  shows "itoa i = itoaInt i"
proof -
  consider "i = 0" | "i < 0" | "i > 0" by linarith
  then show ?thesis
  proof cases
    case 1
    moreover have "itoa 0 = itoaInt 0" by code_simp
    ultimately show ?thesis by simp
  next
    case 2
    then show ?thesis using negWrap_exact[OF assms] itoaLoop_natDigits[of "- i" "[]"]
      by (simp add: itoa_def itoaInt_def)
  next
    case 3
    then show ?thesis using itoaLoop_natDigits[of i "[]"]
      by (simp add: itoa_def itoaInt_def)
  qed
qed

theorem itoa_correct_witness: "itoa (- 120) = ''-120'' \<and> itoa minInt = ''-''"
proof
  have "itoa (- 120) = itoaInt (- 120)"
    by (rule itoa_correct) (simp_all add: minInt_def maxInt_def)
  then show "itoa (- 120) = ''-120''"
    by simp (code_simp)
  show "itoa minInt = ''-''"
    using negWrap_minInt by (simp add: itoa_def itoaLoop.simps minInt_def)
qed

end
