(* ===== verification/GoNet.thy ===== *)
theory GoNet
  imports ConfTypes
begin

text \<open>
  What the program uses of Go's packages \<^verbatim>\<open>net\<close>, \<^verbatim>\<open>net/netip\<close> and
  \<^verbatim>\<open>path/filepath\<close> (on Unix): addresses, prefixes, host-port pairs and lexical
  path operations.  Addresses are byte lists of length 4 or 16; an IPv4 address is
  kept in its 16-byte form, as \<^verbatim>\<open>net.ParseIP\<close> returns it.
\<close>

unbundle bit_operations_syntax

section \<open>Addresses\<close>

definition octet :: "string \<Rightarrow> 8 word option" where
  "octet f =
     (case unsignedDigits f of
        None \<Rightarrow> None
      | Some n \<Rightarrow> if (length f > 1 \<and> hd f = CHR ''0'') \<or> n > 255 then None else Some (of_nat n))"

primrec allSome :: "'a option list \<Rightarrow> 'a list option" where
  "allSome [] = Some []"
| "allSome (x # xs) = (case x of None \<Rightarrow> None | Some y \<Rightarrow> map_option ((#) y) (allSome xs))"

definition parseIPv4 :: "string \<Rightarrow> 8 word list option" where
  "parseIPv4 s =
     (let fs = split s CHR ''.''
      in if length fs = 4 then allSome (map octet fs) else None)"

definition hexVal :: "char \<Rightarrow> nat option" where
  "hexVal c =
     (let n = of_char c :: nat in
      if 48 \<le> n \<and> n \<le> 57 then Some (n - 48)
      else if 97 \<le> n \<and> n \<le> 102 then Some (n - 87)
      else if 65 \<le> n \<and> n \<le> 70 then Some (n - 55) else None)"

text \<open>One group of hexadecimal digits: its digits and the rest.\<close>

definition hexRun :: "string \<Rightarrow> string \<times> string" where
  "hexRun s = (takeWhile (\<lambda>c. hexVal c \<noteq> None) s, dropWhile (\<lambda>c. hexVal c \<noteq> None) s)"

primrec hexNum :: "nat \<Rightarrow> string \<Rightarrow> nat" where
  "hexNum acc [] = acc"
| "hexNum acc (c # cs) = hexNum (acc * 16 + (case hexVal c of Some d \<Rightarrow> d | None \<Rightarrow> 0)) cs"

text \<open>The loop of \<^verbatim>\<open>parseIPv6\<close>; \<^term>\<open>n\<close> groups remain, \<^term>\<open>bs\<close> are the bytes so
  far, \<^term>\<open>ell\<close> the position of the ellipsis.  The answer holds the bytes, the
  ellipsis and the unused rest of the string.\<close>

primrec v6Groups ::
  "nat \<Rightarrow> string \<Rightarrow> 8 word list \<Rightarrow> nat option \<Rightarrow> (8 word list \<times> nat option \<times> string) option" where
  "v6Groups 0 s bs ell = Some (bs, ell, s)"
| "v6Groups (Suc n) s bs ell =
     (let (ds, rest) = hexRun s; v = hexNum 0 ds
      in if ds = [] \<or> length ds > 4 then None
         else if hasPrefix rest ''.'' then
           (if ell = None \<and> length bs \<noteq> 12 then None
            else if length bs + 4 > 16 then None
            else case parseIPv4 s of None \<Rightarrow> None | Some q \<Rightarrow> Some (bs @ q, ell, []))
         else
           (let bs' = bs @ [of_nat (v div 256), of_nat (v mod 256)]
            in case rest of
                 [] \<Rightarrow> Some (bs', ell, [])
               | c # r \<Rightarrow>
                   if c \<noteq> CHR '':'' then None
                   else if r = [] then None
                   else if hd r = CHR '':'' then
                     (if ell \<noteq> None then None
                      else if tl r = [] then Some (bs', Some (length bs'), [])
                      else v6Groups n (tl r) bs' (Some (length bs')))
                   else v6Groups n r bs' ell))"

definition parseIPv6 :: "string \<Rightarrow> 8 word list option" where
  "parseIPv6 s =
     (let lead = hasPrefix s ''::'';
          s' = (if lead then drop 2 s else s)
      in if lead \<and> s' = [] then Some (replicate 16 0)
         else case v6Groups 8 s' [] (if lead then Some 0 else None) of
           None \<Rightarrow> None
         | Some (bs, ell, rest) \<Rightarrow>
             if rest \<noteq> [] then None
             else if length bs < 16 then
               (case ell of None \<Rightarrow> None
                | Some e \<Rightarrow> Some (take e bs @ replicate (16 - length bs) 0 @ drop e bs))
             else if ell \<noteq> None then None else Some bs)"

text \<open>\<^verbatim>\<open>netip.ParseAddr\<close> for an address without a zone: the first dot, colon or
  percent sign decides the family.  The answer tells whether it is IPv4.\<close>

fun addrKind :: "string \<Rightarrow> char option" where
  "addrKind [] = None"
| "addrKind (c # cs) = (if c = CHR ''.'' \<or> c = CHR '':'' \<or> c = CHR ''%'' then Some c else addrKind cs)"

definition parseAddr :: "string \<Rightarrow> (bool \<times> 8 word list) option" where
  "parseAddr s =
     (case addrKind s of
        None \<Rightarrow> None
      | Some k \<Rightarrow>
          if k = CHR ''.'' then map_option (Pair True) (parseIPv4 s)
          else if k = CHR '':'' then
            (if containsByte s CHR ''%'' then None else map_option (Pair False) (parseIPv6 s))
          else None)"

definition v4InV6Prefix :: "8 word list" where
  "v4InV6Prefix = replicate 10 0 @ [255, 255]"

definition as16 :: "bool \<times> 8 word list \<Rightarrow> IP" where
  "as16 a = (if fst a then v4InV6Prefix @ snd a else snd a)"

text \<open>\<^verbatim>\<open>net.ParseIP\<close> and \<^verbatim>\<open>IP.To4\<close>\<close>

definition ParseIP :: "string \<Rightarrow> IP option" where
  "ParseIP s = map_option as16 (parseAddr s)"

definition To4 :: "IP \<Rightarrow> IP option" where
  "To4 ip =
     (if length ip = 4 then Some ip
      else if length ip = 16 \<and> take 12 ip = v4InV6Prefix then Some (drop 12 ip) else None)"

section \<open>Prefixes\<close>

record IPNet =
  netIP :: IP
  netMask :: IP

text \<open>The \<^term>\<open>k\<close>-th byte of \<^verbatim>\<open>CIDRMask(n, 8 * l)\<close> and the mask itself.\<close>

definition maskByte :: "nat \<Rightarrow> nat \<Rightarrow> 8 word" where
  "maskByte n k = (if n \<ge> 8 * k + 8 then 255 else if n \<le> 8 * k then 0
                   else NOT (of_nat (255 div 2 ^ (n - 8 * k))))"

definition CIDRMask :: "nat \<Rightarrow> nat \<Rightarrow> IP" where
  "CIDRMask n l = map (maskByte n) [0..<l]"

definition andBytes :: "IP \<Rightarrow> IP \<Rightarrow> IP" where
  "andBytes a b = map2 (AND) a b"

text \<open>\<^verbatim>\<open>net.ParseCIDR\<close>: only the network is used by the program.\<close>

definition ParseCIDR :: "string \<Rightarrow> IPNet option" where
  "ParseCIDR s =
     (case indexByte s CHR ''/'' of
        None \<Rightarrow> None
      | Some i \<Rightarrow>
          (case parseAddr (take i s) of
             None \<Rightarrow> None
           | Some (is4, bs) \<Rightarrow>
               (case unsignedDigits (drop (Suc i) s) of
                  None \<Rightarrow> None
                | Some n \<Rightarrow>
                    if n > 8 * length bs then None
                    else let m = CIDRMask n (length bs)
                         in Some \<lparr>netIP = andBytes bs m, netMask = m\<rparr>)))"

text \<open>\<^verbatim>\<open>IPNet.Contains\<close>, with \<^verbatim>\<open>networkNumberAndMask\<close> written out.\<close>

definition netContains :: "IPNet \<Rightarrow> IP \<Rightarrow> bool" where
  "netContains n ip =
     (let nn = (case To4 (netIP n) of Some x \<Rightarrow> x | None \<Rightarrow> netIP n);
          m = (if length (netMask n) = 16 \<and> length nn = 4 then drop 12 (netMask n) else netMask n);
          x = (case To4 ip of Some y \<Rightarrow> y | None \<Rightarrow> ip)
      in length x = length nn \<and> length m = length nn \<and> andBytes nn m = andBytes x m)"

definition IsLoopback :: "IP \<Rightarrow> bool" where
  "IsLoopback ip =
     (case To4 ip of Some q \<Rightarrow> hd q = 127 | None \<Rightarrow> ip = replicate 15 0 @ [1])"

section \<open>Host and port\<close>

definition netSplitHostPort :: "string \<Rightarrow> (string \<times> string) option" where
  "netSplitHostPort hp =
     (case lastIndexByte hp CHR '':'' of
        None \<Rightarrow> None
      | Some i \<Rightarrow>
          if hasPrefix hp ''['' then
            (case indexByte hp CHR '']'' of
               None \<Rightarrow> None
             | Some e \<Rightarrow>
                 if e + 1 \<noteq> i then None
                 else if containsByte (drop 1 hp) CHR ''['' then None
                 else if containsByte (drop (e + 1) hp) CHR '']'' then None
                 else Some (take (e - 1) (drop 1 hp), drop (Suc i) hp))
          else
            (if containsByte (take i hp) CHR '':'' then None
             else if containsByte hp CHR ''['' then None
             else if containsByte hp CHR '']'' then None
             else Some (take i hp, drop (Suc i) hp)))"

definition JoinHostPort :: "string \<Rightarrow> string \<Rightarrow> string" where
  "JoinHostPort host port =
     (if containsByte host CHR '':'' then ''['' @ host @ '']:'' @ port else host @ '':'' @ port)"

lemma netSplit_JoinHostPort:
  assumes "\<not> containsByte host CHR ''[''" "\<not> containsByte host CHR '']''"
    and "\<not> containsByte port CHR ''[''" "\<not> containsByte port CHR '']''"
    and "\<not> containsByte port CHR '':''"
  shows "netSplitHostPort (JoinHostPort host port) = Some (host, port)"
proof (cases "CHR '':'' \<in> set host")
  case True
  define hp where "hp = CHR ''['' # host @ CHR '']'' # CHR '':'' # port"
  have l: "lastIndexByte hp CHR '':'' = Some (length host + 2)"
    using lastIndexByte_append[of "CHR '':''" port "CHR ''['' # host @ [CHR '']'']"] assms
    by (simp add: hp_def del: lastIndexByte.simps)
  have i: "indexByte hp CHR '']'' = Some (length host + 1)"
    using indexByte_append[of "CHR '']''" "CHR ''['' # host" "CHR '':'' # port"] assms
    by (simp add: hp_def del: indexByte.simps)
  have h: "hasPrefix hp ''[''" "drop 1 hp = host @ CHR '']'' # CHR '':'' # port"
    "drop (length host + 2) hp = CHR '':'' # port" "drop (Suc (length host + 2)) hp = port"
    by (simp_all add: hp_def)
  have "netSplitHostPort hp = Some (host, port)"
    unfolding netSplitHostPort_def l i option.case h(1) if_True
    using h assms by simp
  then show ?thesis using True by (simp add: JoinHostPort_def hp_def)
next
  case False
  have "\<not> hasPrefix (host @ CHR '':'' # port) ''[''"
    using assms by (cases host) auto
  then show ?thesis using False assms
    by (simp add: JoinHostPort_def netSplitHostPort_def)
qed

section \<open>Paths\<close>

fun cleanStep :: "bool \<Rightarrow> string list \<Rightarrow> string \<Rightarrow> string list" where
  "cleanStep rooted st c =
     (if c = [] \<or> c = ''.'' then st
      else if c = ''..'' then
        (case st of
           [] \<Rightarrow> if rooted then [] else [c]
         | t # ts \<Rightarrow> if t = ''..'' then c # st else ts)
      else c # st)"

definition Clean :: "string \<Rightarrow> string" where
  "Clean p =
     (let rooted = hasPrefix p ''/'';
          body = joinWith (rev (foldl (cleanStep rooted) [] (split p CHR ''/''))) ''/''
      in if rooted then CHR ''/'' # body else if body = [] then ''.'' else body)"

definition pathJoin :: "string list \<Rightarrow> string" where
  "pathJoin es =
     (let es' = dropWhile (\<lambda>e. e = []) es
      in if es' = [] then [] else Clean (joinWith es' ''/''))"

definition IsAbs :: "string \<Rightarrow> bool" where
  "IsAbs p = hasPrefix p ''/''"

definition pathDir :: "string \<Rightarrow> string" where
  "pathDir p =
     Clean (case lastIndexByte p CHR ''/'' of None \<Rightarrow> [] | Some i \<Rightarrow> take (Suc i) p)"

definition pathBase :: "string \<Rightarrow> string" where
  "pathBase p =
     (if p = [] then ''.''
      else let t = trimRightByte p CHR ''/'';
               b = (case lastIndexByte t CHR ''/'' of None \<Rightarrow> t | Some i \<Rightarrow> drop (Suc i) t)
           in if b = [] then ''/'' else b)"

text \<open>\<^verbatim>\<open>filepath.Abs\<close>, with the working directory as an argument.\<close>

definition pathAbs :: "string \<Rightarrow> string \<Rightarrow> string" where
  "pathAbs cwd p = (if IsAbs p then Clean p else pathJoin [cwd, p])"

end
