(* ===== verification/Helpers.thy ===== *)
theory Helpers
  imports ListOp GoNet
begin

text \<open>
  The helper functions of the configuration package
  (\<^verbatim>\<open>pkg/sshconfig/helpers.go\<close>; \<^verbatim>\<open>SplitAlgList\<close> is in the theory of the list
  operators).  Sizes are 64-bit words and wrap; a Go \<^verbatim>\<open>int\<close> is computed as a
  64-bit word and read as a signed number.
\<close>

section \<open>Destinations\<close>

definition stripBrackets :: "string \<Rightarrow> string" where
  "stripBrackets host =
     (if hasPrefix host ''['' then
        (case indexByte host CHR '']'' of Some idx \<Rightarrow> drop 1 (take idx host) | None \<Rightarrow> host)
      else host)"

definition ParseDestination :: "string \<Rightarrow> string \<times> string" where
  "ParseDestination dest =
     (if hasPrefix dest ''['' then
        (case indexByte dest CHR '']'' of
           Some idx \<Rightarrow> ([], drop 1 (take idx dest))
         | None \<Rightarrow> ([], dest))
      else
        (case lastIndexByte dest CHR ''@'' of
           Some atIdx \<Rightarrow> (take atIdx dest, stripBrackets (drop (Suc atIdx) dest))
         | None \<Rightarrow> ([], dest)))"

definition SplitHostPort :: "string \<Rightarrow> string \<times> string \<times> bool" where
  "SplitHostPort s =
     (if hasPrefix s ''['' then
        (case indexByte s CHR '']'' of
           None \<Rightarrow> ([], [], False)
         | Some e \<Rightarrow>
             let host = drop 1 (take e s);
                 rest = drop (Suc e) s;
                 port = (if hasPrefix rest '':'' then drop 1 rest else [])
             in (host, port, True))
      else if countByte s CHR '':'' > 1 then (s, [], False)
      else
        (case lastIndexByte s CHR '':'' of
           None \<Rightarrow> ([], [], False)
         | Some idx \<Rightarrow> (take idx s, drop (Suc idx) s, True)))"

definition SplitFields :: "string \<Rightarrow> string list" where
  "SplitFields s = fieldsAcc (\<lambda>c. c = CHR '' '' \<or> c = CHR 0x09) [] s"

section \<open>Sizes and times\<close>

primrec sizeLoop :: "string \<Rightarrow> 64 word \<Rightarrow> 64 word" where
  "sizeLoop [] n = n"
| "sizeLoop (c # cs) n =
     (if isDigit c then sizeLoop cs (n * 10 + of_nat (digitVal c)) else sizeLoop cs n)"

definition sizeSuffix :: "char \<Rightarrow> 64 word option" where
  "sizeSuffix c =
     (if c = CHR ''K'' \<or> c = CHR ''k'' then Some 1024
      else if c = CHR ''M'' \<or> c = CHR ''m'' then Some (1024 * 1024)
      else if c = CHR ''G'' \<or> c = CHR ''g'' then Some (1024 * 1024 * 1024)
      else None)"

definition ParseSize :: "string \<Rightarrow> 64 word" where
  "ParseSize s =
     (if s = [] then 0
      else case sizeSuffix (last s) of
        Some multiplier \<Rightarrow> sizeLoop (butlast s) 0 * multiplier
      | None \<Rightarrow> sizeLoop s 0 * 1)"

definition timeUnit :: "char \<Rightarrow> 64 word option" where
  "timeUnit c =
     (if c = CHR ''s'' \<or> c = CHR ''S'' then Some 1
      else if c = CHR ''m'' \<or> c = CHR ''M'' then Some 60
      else if c = CHR ''h'' \<or> c = CHR ''H'' then Some 3600
      else if c = CHR ''d'' \<or> c = CHR ''D'' then Some 86400
      else if c = CHR ''w'' \<or> c = CHR ''W'' then Some 604800
      else None)"

primrec timeLoop :: "string \<Rightarrow> 64 word \<Rightarrow> 64 word \<Rightarrow> 64 word" where
  "timeLoop [] tot current = tot + current"
| "timeLoop (c # cs) tot current =
     (if isDigit c then timeLoop cs tot (current * 10 + of_nat (digitVal c))
      else case timeUnit c of
        Some u \<Rightarrow> timeLoop cs (tot + current * u) 0
      | None \<Rightarrow> timeLoop cs tot current)"

definition ParseTimeSeconds :: "string \<Rightarrow> int" where
  "ParseTimeSeconds s = (if s = [] then 0 else sint (timeLoop s 0 0))"

definition ParseRekeyLimit :: "string \<Rightarrow> 64 word \<times> int" where
  "ParseRekeyLimit value =
     (case Fields value of
        [] \<Rightarrow> (0, 0)
      | bytesStr # rest \<Rightarrow>
          (if toLower bytesStr = ''default'' then 0 else ParseSize bytesStr,
           case rest of
             [] \<Rightarrow> 0
           | timeStr # _ \<Rightarrow> if toLower timeStr = ''none'' then 0 else ParseTimeSeconds timeStr))"

section \<open>Overrides\<close>

definition ParseOverride :: "string \<Rightarrow> go_error + string \<times> string" where
  "ParseOverride opt =
     (case indexByte opt CHR ''='' of
        Some (Suc idx) \<Rightarrow>
          (let keyword = trimSpace (take (Suc idx) opt);
               value = trimSpace (drop (Suc (Suc idx)) opt)
           in if keyword = [] then Inl (ParseError noSource ''empty keyword in override'')
              else Inr (keyword, value))
      | _ \<Rightarrow>
          (let fs = splitN2 opt CHR '' ''
           in if hd fs = [] then Inl (ParseError noSource ''empty override'')
              else Inr (hd fs, case tl fs of [] \<Rightarrow> [] | v # _ \<Rightarrow> trimSpace v)))"

section \<open>Lemmas\<close>

lemma of_nat_step: "(of_nat a :: 64 word) * 10 + of_nat d = of_nat (a * 10 + d)"
  by simp

lemma sizeLoop_of_nat: "sizeLoop s (of_nat a) = of_nat (digitsVal a (filter isDigit s))"
proof (induction s arbitrary: a)
  case (Cons c s)
  show ?case using Cons[of a] Cons[of "a * 10 + digitVal c"]
    by (simp only: sizeLoop.simps of_nat_step filter.simps split: if_split) simp
qed simp

lemma digitsVal_shift: "digitsVal a ds = a * 10 ^ length ds + digitsVal 0 ds"
proof (induction ds arbitrary: a)
  case (Cons d ds)
  from Cons[of "a * 10 + digitVal d"] Cons[of "digitVal d"] show ?case
    by (simp add: algebra_simps)
qed simp

lemma sizeLoop_digits:
  "sizeLoop s n = n * 10 ^ length (filter isDigit s) + of_nat (digitsVal 0 (filter isDigit s))"
  using sizeLoop_of_nat[of s "unat n"] by (simp add: digitsVal_shift[of "unat n"])

lemma timeLoop_digits:
  assumes "list_all isDigit ds"
  shows "timeLoop (ds @ s) t (of_nat a) = timeLoop s t (of_nat (digitsVal a ds))"
  using assms
proof (induction ds arbitrary: a)
  case (Cons d ds)
  have d: "isDigit d" "list_all isDigit ds" using Cons.prems by simp_all
  have "timeLoop ((d # ds) @ s) t (of_nat a) = timeLoop (ds @ s) t (of_nat (a * 10 + digitVal d))"
    unfolding append_Cons timeLoop.simps of_nat_step if_P[OF d(1)] ..
  also have "\<dots> = timeLoop s t (of_nat (digitsVal (a * 10 + digitVal d) ds))"
    by (rule Cons.IH[OF d(2)])
  finally show ?case by (simp only: digitsVal.simps)
qed simp

lemma timeLoop_unit:
  assumes "timeUnit u = Some w" and "\<not> isDigit u"
  shows "timeLoop (natDigits n @ u # s) t 0 = timeLoop s (t + of_nat n * w) 0"
  using timeLoop_digits[OF natDigits_isDigit, of n "u # s" t 0] assms by simp

text \<open>A time value written out: amounts with their units, then seconds.\<close>

definition timeText :: "(nat \<times> char) list \<Rightarrow> nat \<Rightarrow> string" where
  "timeText parts secs = concat (map (\<lambda>(n, u). natDigits n @ [u]) parts) @ natDigits secs"

definition timeUnits :: "char \<Rightarrow> nat" where
  "timeUnits u = (case timeUnit u of Some w \<Rightarrow> unat w | None \<Rightarrow> 0)"

definition timeValue :: "(nat \<times> char) list \<Rightarrow> nat \<Rightarrow> nat" where
  "timeValue parts secs = sum_list (map (\<lambda>(n, u). n * timeUnits u) parts) + secs"

lemma timeUnit_not_digit: "timeUnit u = Some w \<Longrightarrow> \<not> isDigit u"
proof
  assume "timeUnit u = Some w" "isDigit u"
  moreover have "list_all (\<lambda>c. \<not> isDigit c) ''sSmMhHdDwW''" by code_simp
  ultimately have "u \<notin> set ''sSmMhHdDwW''" unfolding list_all_iff by blast
  then have "timeUnit u = None" by (simp add: timeUnit_def)
  with \<open>timeUnit u = Some w\<close> show False by simp
qed

lemma timeLoop_text:
  assumes "list_all (\<lambda>(n, u). timeUnit u \<noteq> None) parts"
  shows "timeLoop (timeText parts secs) t 0 = t + of_nat (timeValue parts secs)"
  using assms
proof (induction parts arbitrary: t)
  case Nil
  show ?case using timeLoop_digits[OF natDigits_isDigit, of secs "[]" t 0]
    by (simp add: timeText_def timeValue_def)
next
  case (Cons p parts)
  obtain n u where p: "p = (n, u)" by (cases p)
  from Cons.prems p obtain w where w: "timeUnit u = Some w" by auto
  have tx: "timeText (p # parts) secs = natDigits n @ u # timeText parts secs"
    using p by (simp add: timeText_def)
  have "timeLoop (timeText (p # parts) secs) t 0 =
      timeLoop (timeText parts secs) (t + of_nat n * w) 0"
    unfolding tx by (rule timeLoop_unit[OF w timeUnit_not_digit[OF w]])
  also have "\<dots> = t + of_nat n * w + of_nat (timeValue parts secs)"
    using Cons by simp
  also have "\<dots> = t + of_nat (timeValue (p # parts) secs)"
    using p w by (simp add: timeValue_def timeUnits_def)
  finally show ?case .
qed

lemma timeText_not_Nil: "timeText parts secs \<noteq> []"
  by (simp add: timeText_def)

section \<open>Properties\<close>

text \<open>A destination \<^verbatim>\<open>user@host\<close> is taken apart as it was put together, also
  when the host is an IPv6 address in brackets and the user name contains an at
  sign.\<close>

theorem ParseDestination_roundtrip:
  assumes "\<not> hasPrefix user ''[''" and "CHR ''@'' \<notin> set host" and "CHR '']'' \<notin> set host"
  shows "ParseDestination (user @ ''@['' @ host @ '']'') = (user, host) \<and>
         (\<not> hasPrefix host ''['' \<longrightarrow> ParseDestination (user @ ''@'' @ host) = (user, host))"
proof -
  have p: "\<not> hasPrefix (user @ CHR ''@'' # t) ''[''" for t
    using assms(1) by (cases user) auto
  have i: "indexByte (CHR ''['' # host @ '']'') CHR '']'' = Some (Suc (length host))"
    using indexByte_append[of "CHR '']''" "CHR ''['' # host" "[]"] assms(3) by simp
  show ?thesis
    using p assms i lastIndexByte_append[of "CHR ''@''" "CHR ''['' # host @ '']''" user]
    by (auto simp: ParseDestination_def stripBrackets_def)
qed

theorem ParseDestination_roundtrip_witness:
  "ParseDestination ''a@b@[::1]'' = (''a@b'', ''::1'')"
  using ParseDestination_roundtrip[of "''a@b''" "''::1''"] by simp

text \<open>A size is the number its digits spell, times the power of 1024 its suffix
  names, reduced modulo \<open>2 ^ 64\<close>; other characters do not count.\<close>

theorem ParseSize_value:
  "ParseSize s =
     (if s = [] then 0
      else case sizeSuffix (last s) of
        Some m \<Rightarrow> of_nat (digitsVal 0 (filter isDigit (butlast s)) * unat m)
      | None \<Rightarrow> of_nat (digitsVal 0 (filter isDigit s)))"
  by (auto simp: ParseSize_def sizeLoop_digits split: option.splits)

text \<open>A time value is the sum of its amounts in their units plus the trailing
  seconds, exactly as long as that sum fits a 64-bit \<^verbatim>\<open>int\<close>.\<close>

theorem ParseTimeSeconds_text:
  assumes "list_all (\<lambda>(n, u). timeUnit u \<noteq> None) parts"
    and "int (timeValue parts secs) \<le> maxInt"
  shows "ParseTimeSeconds (timeText parts secs) = int (timeValue parts secs)"
proof -
  define v where "v = timeValue parts secs"
  have "timeLoop (timeText parts secs) 0 0 = word_of_int (int v)"
    using timeLoop_text[OF assms(1), of secs 0] by (simp add: v_def)
  then have "ParseTimeSeconds (timeText parts secs) = sint (word_of_int (int v) :: 64 word)"
    using timeText_not_Nil by (simp only: ParseTimeSeconds_def if_False)
  also have "\<dots> = signed_take_bit 63 (int v)" by (simp only: sint_sbintrunc') simp
  also have "\<dots> = signed_take_bit 63 (int (timeValue parts secs))" by (simp add: v_def)
  also have "\<dots> = int (timeValue parts secs)"
    using assms(2) by (intro signed_take_bit_int_eq_self) (auto simp: maxInt_def)
  finally show ?thesis .
qed

theorem ParseTimeSeconds_text_witness:
  "ParseTimeSeconds (timeText [(1, CHR ''h''), (30, CHR ''m'')] 5) = 5405"
  using ParseTimeSeconds_text[of "[(1, CHR ''h''), (30, CHR ''m'')]" 5]
  by (simp add: timeUnit_def timeValue_def timeUnits_def maxInt_def)

end
