(* ===== verification/Token.thy ===== *)
theory Token
  imports Helpers
begin

text \<open>
  Token, environment and tilde expansion (\<^verbatim>\<open>pkg/sshconfig/token.go\<close>).  What the
  code asks the operating system is gathered in the record \<^verbatim>\<open>World\<close>, an argument
  of every definition that needs it: the environment, the user database, the file
  system and the hash function.  Opening a file answers what can be read of it and
  the error that stops the reading, if any.
\<close>

section \<open>The outside world\<close>

text \<open>The address of an interface: a network, or another kind.\<close>

datatype IfAddr = IPNet IP | OtherAddr

record World =
  wEnv :: "string \<Rightarrow> string option"
  wUserHome :: "string \<Rightarrow> string option"
  wCurrentUser :: "string option"
  wHomeDir :: "string option"
  wHostname :: "string option"
  wUid :: int
  wCwd :: "string option"
  wStat :: "string \<Rightarrow> bool option"
  wOpen :: "string \<Rightarrow> go_error + string \<times> go_error option"
  wGlob :: "string \<Rightarrow> go_error + string list"
  wSha256 :: "string \<Rightarrow> 8 word list"
  wInterfaceAddrs :: "go_error + IfAddr list"
  wLookupHost :: "string \<Rightarrow> bool"

text \<open>A closed instance for evaluation: an empty machine on which nothing exists.\<close>

definition emptyWorld :: World where
  "emptyWorld = \<lparr>wEnv = (\<lambda>_. None), wUserHome = (\<lambda>_. None), wCurrentUser = None,
     wHomeDir = None, wHostname = None, wUid = 0, wCwd = Some ''/'', wStat = (\<lambda>_. None),
     wOpen = (\<lambda>p. Inl (ErrExt p)), wGlob = (\<lambda>_. Inr []), wSha256 = (\<lambda>_. replicate 32 0),
     wInterfaceAddrs = Inr [], wLookupHost = (\<lambda>_. False)\<rparr>"

section \<open>Tokens\<close>

definition hexDigit :: "nat \<Rightarrow> char" where
  "hexDigit d = (if d < 10 then char_of (48 + d) else char_of (87 + d))"

definition hexEncode :: "8 word list \<Rightarrow> string" where
  "hexEncode bs = concat (map (\<lambda>b. [hexDigit (unat b div 16), hexDigit (unat b mod 16)]) bs)"

definition connHash :: "World \<Rightarrow> TokenContext \<Rightarrow> string" where
  "connHash w ctx =
     (if tcConnHash ctx \<noteq> [] then tcConnHash ctx
      else let d = tcLocalHostFQDN ctx @ tcRemoteHost ctx @ tcRemotePort ctx @
                   tcRemoteUser ctx @ tcProxyJump ctx
           in hexEncode (wSha256 w d))"

definition tokenTable :: "(char \<times> (TokenContext \<Rightarrow> string)) list" where
  "tokenTable =
     [(CHR ''d'', tcHomeDir),
      (CHR ''f'', tcServerKeyFingerprint),
      (CHR ''H'', tcKnownHostsHost),
      (CHR ''h'', tcRemoteHost),
      (CHR ''I'', tcKnownHostsReason),
      (CHR ''i'', tcLocalUserID),
      (CHR ''j'', tcProxyJump),
      (CHR ''K'', tcHostKeyBase64),
      (CHR ''k'', tcHostKeyAlias),
      (CHR ''L'', tcLocalHost),
      (CHR ''l'', tcLocalHostFQDN),
      (CHR ''n'', tcOriginalHost),
      (CHR ''p'', tcRemotePort),
      (CHR ''r'', tcRemoteUser),
      (CHR ''T'', tcTunnelInterface),
      (CHR ''t'', tcHostKeyType),
      (CHR ''u'', tcLocalUser)]"

definition tokenReplacement :: "World \<Rightarrow> char \<Rightarrow> TokenContext \<Rightarrow> string option" where
  "tokenReplacement w ch ctx =
     (if ch = CHR ''%'' then Some ''%''
      else if ch = CHR ''C'' then Some (connHash w ctx)
      else map_option (\<lambda>get. get ctx) (map_of tokenTable ch))"

fun expandLoop :: "World \<Rightarrow> TokenContext \<Rightarrow> string \<Rightarrow> string" where
  "expandLoop w ctx [] = []"
| "expandLoop w ctx [c] = [c]"
| "expandLoop w ctx (c # d # cs) =
     (if c \<noteq> CHR ''%'' then c # expandLoop w ctx (d # cs)
      else case tokenReplacement w d ctx of
        Some r \<Rightarrow> r @ expandLoop w ctx cs
      | None \<Rightarrow> c # expandLoop w ctx (d # cs))"

definition ExpandTokens :: "World \<Rightarrow> string \<Rightarrow> TokenContext option \<Rightarrow> string" where
  "ExpandTokens w value octx =
     (case octx of
        None \<Rightarrow> value
      | Some ctx \<Rightarrow> if \<not> containsByte value CHR ''%'' then value else expandLoop w ctx value)"

section \<open>Environment variables\<close>

function expandEnvLoop :: "World \<Rightarrow> string \<Rightarrow> string \<Rightarrow> go_error + string" where
  "expandEnvLoop w value [] = Inr []"
| "expandEnvLoop w value (c # cs) =
     (if c = CHR ''$'' \<and> hasPrefix cs ''{'' then
        (let rest = drop 1 cs in
         case indexByte rest CHR ''}'' of
           None \<Rightarrow> Inl (Errorf ''unterminated ${} in %q'' [value])
         | Some e \<Rightarrow>
             (case wEnv w (take e rest) of
                None \<Rightarrow> Inl (Errorf ''environment variable %q not set'' [take e rest])
              | Some val \<Rightarrow>
                  bindE (expandEnvLoop w value (drop (Suc e) rest)) (\<lambda>out. Inr (val @ out))))
      else bindE (expandEnvLoop w value cs) (\<lambda>out. Inr (c # out)))"
  by pat_completeness auto
termination
  by (relation "measure (\<lambda>(w, v, s). length s)") auto

declare expandEnvLoop.simps(2) [simp del]

definition ExpandEnvVars :: "World \<Rightarrow> string \<Rightarrow> go_error + string" where
  "ExpandEnvVars w value = expandEnvLoop w value value"

section \<open>Home directories\<close>

definition ExpandTilde :: "World \<Rightarrow> string \<Rightarrow> string \<Rightarrow> string" where
  "ExpandTilde w path homeDir =
     (if \<not> hasPrefix path ''~'' then path
      else if path = ''~'' \<or> hasPrefix path ''~/'' then pathJoin [homeDir, drop 1 path]
      else
        (let sep = indexByte path CHR ''/'';
             username = (case sep of None \<Rightarrow> drop 1 path | Some i \<Rightarrow> drop 1 (take i path))
         in case wUserHome w username of
              None \<Rightarrow> path
            | Some h \<Rightarrow> (case sep of None \<Rightarrow> h | Some i \<Rightarrow> pathJoin [h, drop i path])))"

section \<open>Lemmas\<close>

text \<open>A template: literal bytes and tokens.\<close>

datatype piece = Lit char | Tok char

fun renderPiece :: "piece \<Rightarrow> string" where
  "renderPiece (Lit c) = [c]"
| "renderPiece (Tok c) = [CHR ''%'', c]"

fun expandPiece :: "World \<Rightarrow> TokenContext \<Rightarrow> piece \<Rightarrow> string" where
  "expandPiece w ctx (Lit c) = [c]"
| "expandPiece w ctx (Tok c) = (case tokenReplacement w c ctx of Some r \<Rightarrow> r | None \<Rightarrow> [CHR ''%'', c])"

fun wfPiece :: "World \<Rightarrow> TokenContext \<Rightarrow> piece \<Rightarrow> bool" where
  "wfPiece w ctx (Lit c) = (c \<noteq> CHR ''%'')"
| "wfPiece w ctx (Tok c) = (tokenReplacement w c ctx \<noteq> None)"

lemma expandLoop_lit: "c \<noteq> CHR ''%'' \<Longrightarrow> expandLoop w ctx (c # s) = c # expandLoop w ctx s"
  by (cases s) auto

lemma expandLoop_template:
  "list_all (wfPiece w ctx) ps \<Longrightarrow>
   expandLoop w ctx (concat (map renderPiece ps)) = concat (map (expandPiece w ctx) ps)"
proof (induction ps)
  case (Cons p ps)
  then show ?case by (cases p) (auto simp: expandLoop_lit split: option.splits)
qed simp

lemma expandLoop_id: "CHR ''%'' \<notin> set s \<Longrightarrow> expandLoop w ctx s = s"
  by (induction s) (auto simp: expandLoop_lit)

lemma ExpandTokens_loop: "ExpandTokens w s (Some ctx) = expandLoop w ctx s"
  by (simp add: ExpandTokens_def expandLoop_id)

lemma expandEnvLoop_lit:
  "c \<noteq> CHR ''$'' \<Longrightarrow>
   expandEnvLoop w v (c # s) = bindE (expandEnvLoop w v s) (\<lambda>out. Inr (c # out))"
  by (simp add: expandEnvLoop.simps(2))

lemma expandEnvLoop_var:
  assumes "CHR ''}'' \<notin> set name"
  shows "expandEnvLoop w v (''${'' @ name @ CHR ''}'' # s) =
     (case wEnv w name of
        None \<Rightarrow> Inl (Errorf ''environment variable %q not set'' [name])
      | Some val \<Rightarrow> bindE (expandEnvLoop w v s) (\<lambda>out. Inr (val @ out)))"
  using assms by (simp add: expandEnvLoop.simps(2) split: option.splits)

lemma expandEnvLoop_prefix:
  "CHR ''$'' \<notin> set p \<Longrightarrow>
   expandEnvLoop w v (p @ s) = bindE (expandEnvLoop w v s) (\<lambda>out. Inr (p @ out))"
proof (induction p)
  case Nil
  show ?case by (cases "expandEnvLoop w v s") auto
next
  case (Cons c p)
  then show ?case by (cases "expandEnvLoop w v s") (auto simp: expandEnvLoop_lit)
qed

section \<open>Properties\<close>

text \<open>C38: expanding a template of literal bytes and known tokens replaces each token
  by its value and touches nothing else; a value that itself contains percent signs
  is not expanded again.\<close>

theorem ExpandTokens_template:
  assumes "list_all (wfPiece w ctx) ps"
  shows "ExpandTokens w (concat (map renderPiece ps)) (Some ctx) =
         concat (map (expandPiece w ctx) ps)"
  using expandLoop_template[OF assms] by (simp add: ExpandTokens_loop)

theorem ExpandTokens_template_witness:
  "ExpandTokens emptyWorld ''%r@%h%%'' (Some (emptyTokenContext\<lparr>tcRemoteUser := ''%h'', tcRemoteHost := ''a''\<rparr>))
     = ''%h@a%''"
  using ExpandTokens_template[of emptyWorld
      "emptyTokenContext\<lparr>tcRemoteUser := ''%h'', tcRemoteHost := ''a''\<rparr>"
      "[Tok CHR ''r'', Lit CHR ''@'', Tok CHR ''h'', Tok CHR ''%'']"]
  by (simp add: tokenReplacement_def tokenTable_def)

text \<open>A reference to an environment variable behind text without a dollar sign
  is replaced by the variable's value, and an unset variable is an error whatever
  follows.\<close>

theorem ExpandEnvVars_reference:
  assumes "CHR ''$'' \<notin> set p" and "CHR ''}'' \<notin> set name" and "CHR ''$'' \<notin> set s"
  shows "ExpandEnvVars w (p @ ''${'' @ name @ ''}'' @ s) =
     (case wEnv w name of
        Some val \<Rightarrow> Inr (p @ val @ s)
      | None \<Rightarrow> Inl (Errorf ''environment variable %q not set'' [name]))"
proof -
  define v where "v = p @ ''${'' @ name @ ''}'' @ s"
  have s: "expandEnvLoop w v s = Inr s"
    using expandEnvLoop_prefix[OF assms(3), of w v "[]"] by simp
  have "expandEnvLoop w v (p @ ''${'' @ name @ CHR ''}'' # s) =
     bindE (expandEnvLoop w v (''${'' @ name @ CHR ''}'' # s)) (\<lambda>out. Inr (p @ out))"
    by (rule expandEnvLoop_prefix[OF assms(1)])
  then show ?thesis
    unfolding ExpandEnvVars_def v_def[symmetric] expandEnvLoop_var[OF assms(2)] s
    by (simp add: v_def split: option.splits)
qed

theorem ExpandEnvVars_reference_witness:
  "ExpandEnvVars (emptyWorld\<lparr>wEnv := [''X'' \<mapsto> ''conf.d'']\<rparr>) ''/etc/${X}/a'' = Inr ''/etc/conf.d/a''"
  using ExpandEnvVars_reference[of "''/etc/''" "''X''" "''/a''" "emptyWorld\<lparr>wEnv := [''X'' \<mapsto> ''conf.d'']\<rparr>"]
  by simp

end
