(* ===== verification/MatchCond.thy ===== *)
theory MatchCond
  imports Token
begin

text \<open>
  Host and Match blocks (\<^verbatim>\<open>pkg/sshconfig/match.go\<close>): evaluation of conditions in
  a context, and the parsers of the arguments of both directives.
\<close>

section \<open>Evaluation\<close>

text \<open>The loop of \<^verbatim>\<open>HostCondition.Match\<close>\<close>

fun hostLoop :: "HostPattern list \<Rightarrow> string \<Rightarrow> bool \<Rightarrow> bool" where
  "hostLoop [] host matched = matched"
| "hostLoop (p # ps) host matched =
     (if MatchPattern (hpPattern p) host
      then if hpNegated p then False else hostLoop ps host True
      else hostLoop ps host matched)"

fun localNetworkLoop :: "string list \<Rightarrow> IP list \<Rightarrow> bool" where
  "localNetworkLoop [] addrs = False"
| "localNetworkLoop (cidr # cidrs) addrs =
     (case ParseCIDR cidr of
        None \<Rightarrow> localNetworkLoop cidrs addrs
      | Some network \<Rightarrow>
          if list_ex (netContains network) addrs then True else localNetworkLoop cidrs addrs)"

fun fieldValue :: "MatchField \<Rightarrow> MatchContext \<Rightarrow> string" where
  "fieldValue MatchFieldHost ctx = mcHost ctx"
| "fieldValue MatchFieldOriginalHost ctx = mcOriginalHost ctx"
| "fieldValue MatchFieldUser ctx = mcUser ctx"
| "fieldValue MatchFieldLocalUser ctx = mcLocalUser ctx"
| "fieldValue MatchFieldTagged ctx = mcTag ctx"
| "fieldValue MatchFieldCommand ctx = mcCommand ctx"
| "fieldValue MatchFieldVersion ctx = mcVersion ctx"
| "fieldValue MatchFieldSessionType ctx = mcSessionType ctx"
| "fieldValue MatchFieldGroup ctx = []"
| "fieldValue MatchFieldLocalPort ctx = mcLocalPort ctx"
| "fieldValue MatchFieldRDomain ctx = mcRDomain ctx"

definition matchFieldCond :: "MatchField \<Rightarrow> string \<Rightarrow> bool \<Rightarrow> MatchContext \<Rightarrow> bool" where
  "matchFieldCond field patterns negated ctx =
     (if field = MatchFieldGroup then
        (let matched = list_ex (MatchPatternList patterns) (mcGroups ctx)
         in if negated then \<not> matched else matched)
      else
        (let result = MatchPatternList patterns (fieldValue field ctx)
         in if negated then \<not> result else result))"

definition addressPattern :: "string \<Rightarrow> string \<Rightarrow> IP option \<Rightarrow> bool" where
  "addressPattern pat ipStr ip =
     (case ip of
        Some a \<Rightarrow>
          if containsByte pat CHR ''/''
          then (case ParseCIDR pat of Some cidr \<Rightarrow> netContains cidr a | None \<Rightarrow> False)
          else MatchPattern pat ipStr
      | None \<Rightarrow> MatchPattern pat ipStr)"

text \<open>The loop over the patterns of an address condition; \<^term>\<open>None\<close> is the early
  \<^verbatim>\<open>return false\<close> on a negated pattern, which the negation of the whole criterion
  does not reach.\<close>

fun addressLoop :: "string list \<Rightarrow> string \<Rightarrow> IP option \<Rightarrow> bool \<Rightarrow> bool option" where
  "addressLoop [] ipStr ip matched = Some matched"
| "addressLoop (raw # rest) ipStr ip matched =
     (let pattern = trimSpace raw in
      if pattern = [] then addressLoop rest ipStr ip matched
      else
        (let negated = hd pattern = CHR ''!'';
             pat = (if negated then tl pattern else pattern)
         in if addressPattern pat ipStr ip
            then if negated then None else addressLoop rest ipStr ip True
            else addressLoop rest ipStr ip matched))"

fun addressOf :: "MatchAddressField \<Rightarrow> MatchContext \<Rightarrow> string \<times> IP option" where
  "addressOf MatchAddressRemote ctx = (mcRemoteAddr ctx, mcRemoteAddrIP ctx)"
| "addressOf MatchAddressLocal ctx = (mcLocalAddr ctx, mcLocalAddrIP ctx)"

definition matchAddressCond :: "MatchAddressField \<Rightarrow> string \<Rightarrow> bool \<Rightarrow> MatchContext \<Rightarrow> bool" where
  "matchAddressCond field patterns negated ctx =
     (let (ipStr, ip) = addressOf field ctx in
      case addressLoop (split patterns CHR '','') ipStr ip False of
        None \<Rightarrow> False
      | Some matched \<Rightarrow> if negated then \<not> matched else matched)"

fun condMatch :: "Condition \<Rightarrow> MatchContext \<Rightarrow> bool" where
  "condMatch (HostCondition ps) ctx = hostLoop ps (mcHost ctx) False"
| "condMatch MatchAllCondition ctx = True"
| "condMatch MatchCanonicalCondition ctx = mcIsCanonical ctx"
| "condMatch MatchFinalCondition ctx = mcIsFinal ctx"
| "condMatch (MatchExecCondition cmd) ctx =
     (case mcExecFunc ctx of None \<Rightarrow> False | Some f \<Rightarrow> f cmd)"
| "condMatch (MatchLocalNetworkCondition networks) ctx =
     (if mcLocalAddresses ctx = [] then False else localNetworkLoop networks (mcLocalAddresses ctx))"
| "condMatch (MatchFieldCondition field patterns negated) ctx =
     matchFieldCond field patterns negated ctx"
| "condMatch (MatchAddressCondition field patterns negated) ctx =
     matchAddressCond field patterns negated ctx"
| "condMatch MatchInvalidUserCondition ctx = mcInvalidUser ctx"
| "condMatch (negatedCondition inner) ctx = (\<not> condMatch inner ctx)"

primrec allMatch :: "Condition list \<Rightarrow> MatchContext \<Rightarrow> bool" where
  "allMatch [] ctx = True"
| "allMatch (c # cs) ctx = (if \<not> condMatch c ctx then False else allMatch cs ctx)"

definition EvaluateConditions :: "Condition list \<Rightarrow> MatchContext \<Rightarrow> bool" where
  "EvaluateConditions conditions ctx = (if conditions = [] then True else allMatch conditions ctx)"

section \<open>Parsing\<close>

definition hostPatternOf :: "string \<Rightarrow> HostPattern" where
  "hostPatternOf f =
     (if hasPrefix f ''!'' then \<lparr>hpPattern = drop 1 f, hpNegated = True\<rparr>
      else \<lparr>hpPattern = f, hpNegated = False\<rparr>)"

definition ParseHostPatterns :: "string \<Rightarrow> HostPattern list" where
  "ParseHostPatterns args = filter (\<lambda>p. hpPattern p \<noteq> []) (map hostPatternOf (Fields args))"

text \<open>\<^verbatim>\<open>tokenizeMatchArgs\<close>: the current token is kept in reverse.\<close>

primrec tokenizeLoop :: "string \<Rightarrow> string \<Rightarrow> bool \<Rightarrow> string list" where
  "tokenizeLoop [] cur inQuote = (if cur \<noteq> [] then [rev cur] else [])"
| "tokenizeLoop (ch # cs) cur inQuote =
     (if ch = CHR 0x22 then tokenizeLoop cs cur (\<not> inQuote)
      else if ch = CHR '' '' \<or> ch = CHR 0x09 then
        (if inQuote then tokenizeLoop cs (ch # cur) inQuote
         else if cur \<noteq> [] then rev cur # tokenizeLoop cs [] inQuote
         else tokenizeLoop cs cur inQuote)
      else tokenizeLoop cs (ch # cur) inQuote)"

definition tokenizeMatchArgs :: "string \<Rightarrow> string list" where
  "tokenizeMatchArgs args = tokenizeLoop args [] False"

definition fieldKeywords :: "(string \<times> MatchField) list" where
  "fieldKeywords =
     [(''host'', MatchFieldHost), (''originalhost'', MatchFieldOriginalHost),
      (''user'', MatchFieldUser), (''localuser'', MatchFieldLocalUser),
      (''tagged'', MatchFieldTagged), (''command'', MatchFieldCommand),
      (''version'', MatchFieldVersion), (''sessiontype'', MatchFieldSessionType),
      (''group'', MatchFieldGroup), (''localport'', MatchFieldLocalPort),
      (''rdomain'', MatchFieldRDomain)]"

definition matchFieldFromKeyword :: "string \<Rightarrow> MatchField" where
  "matchFieldFromKeyword keyword =
     (case map_of fieldKeywords keyword of Some f \<Rightarrow> f | None \<Rightarrow> MatchFieldHost)"

definition isFieldKeyword :: "string \<Rightarrow> bool" where
  "isFieldKeyword keyword \<longleftrightarrow> keyword \<in> set (map fst fieldKeywords)"

text \<open>The criteria without an argument, those with one, and the negated ones.\<close>

definition plainCriterion :: "string \<Rightarrow> Condition option" where
  "plainCriterion keyword =
     (if keyword = ''all'' then Some MatchAllCondition
      else if keyword = ''canonical'' then Some MatchCanonicalCondition
      else if keyword = ''final'' then Some MatchFinalCondition
      else if keyword = ''invalid-user'' then Some MatchInvalidUserCondition
      else None)"

definition argCriterion :: "string \<Rightarrow> (string \<Rightarrow> Condition) option" where
  "argCriterion keyword =
     (if keyword = ''exec'' then Some MatchExecCondition
      else if keyword = ''localnetwork'' then
        Some (\<lambda>arg. MatchLocalNetworkCondition (split arg CHR '',''))
      else if keyword = ''address'' then
        Some (\<lambda>arg. MatchAddressCondition MatchAddressRemote arg False)
      else if keyword = ''localaddress'' then
        Some (\<lambda>arg. MatchAddressCondition MatchAddressLocal arg False)
      else if isFieldKeyword keyword then
        Some (\<lambda>arg. MatchFieldCondition (matchFieldFromKeyword keyword) arg False)
      else None)"

definition negCriterion :: "string \<Rightarrow> (string \<Rightarrow> Condition) option" where
  "negCriterion actual =
     (if isFieldKeyword actual then
        Some (\<lambda>arg. MatchFieldCondition (matchFieldFromKeyword actual) arg True)
      else if actual = ''address'' then
        Some (\<lambda>arg. MatchAddressCondition MatchAddressRemote arg True)
      else if actual = ''localaddress'' then
        Some (\<lambda>arg. MatchAddressCondition MatchAddressLocal arg True)
      else if actual = ''exec'' then Some (\<lambda>arg. negatedCondition (MatchExecCondition arg))
      else if actual = ''localnetwork'' then
        Some (\<lambda>arg. negatedCondition (MatchLocalNetworkCondition (split arg CHR '','')))
      else None)"

definition criterion :: "string \<Rightarrow> (string \<Rightarrow> Condition) option" where
  "criterion keyword =
     (case argCriterion keyword of
        Some f \<Rightarrow> Some f
      | None \<Rightarrow> if hasPrefix keyword ''!'' then negCriterion (drop 1 keyword) else None)"

fun criteriaLoop :: "string list \<Rightarrow> Condition list \<Rightarrow> go_error + Condition list" where
  "criteriaLoop [] conditions = Inr conditions"
| "criteriaLoop (tok # rest) conditions =
     (let keyword = toLower tok in
      case plainCriterion keyword of
        Some c \<Rightarrow> criteriaLoop rest (conditions @ [c])
      | None \<Rightarrow>
          (case criterion keyword of
             None \<Rightarrow> Inl (ParseError noSource (''unknown Match keyword: '' @ keyword))
           | Some f \<Rightarrow>
               (case rest of
                  [] \<Rightarrow> Inl (ParseError noSource (''Match '' @ keyword @ '' requires an argument''))
                | arg # rest' \<Rightarrow> criteriaLoop rest' (conditions @ [f arg]))))"

declare criteriaLoop.simps(2) [simp del]

definition ParseMatchCriteria :: "string \<Rightarrow> go_error + Condition list" where
  "ParseMatchCriteria args = criteriaLoop (tokenizeMatchArgs args) []"

section \<open>Lemmas\<close>

lemma hostLoop_iff:
  "hostLoop ps h m \<longleftrightarrow>
     (m \<or> (\<exists>p \<in> set ps. \<not> hpNegated p \<and> matchPattern (hpPattern p) h)) \<and>
     \<not> (\<exists>p \<in> set ps. hpNegated p \<and> matchPattern (hpPattern p) h)"
  by (induction ps h m rule: hostLoop.induct) (auto simp: MatchPattern_def)

lemma allMatch_iff: "allMatch cs ctx \<longleftrightarrow> list_all (\<lambda>c. condMatch c ctx) cs"
  by (induction cs) auto

lemma EvaluateConditions_iff: "EvaluateConditions cs ctx \<longleftrightarrow> list_all (\<lambda>c. condMatch c ctx) cs"
  by (simp add: EvaluateConditions_def allMatch_iff)

lemma EvaluateConditions_append:
  "EvaluateConditions (cs @ ds) ctx \<longleftrightarrow> EvaluateConditions cs ctx \<and> EvaluateConditions ds ctx"
  by (simp add: EvaluateConditions_iff)

lemma EvaluateConditions_Nil [simp]: "EvaluateConditions [] ctx"
  by (simp add: EvaluateConditions_def)

text \<open>The negated patterns of an address list that the address meets.\<close>

definition addressExcluded :: "string \<Rightarrow> string \<Rightarrow> IP option \<Rightarrow> bool" where
  "addressExcluded patterns ipStr ip \<longleftrightarrow>
     list_ex (\<lambda>p. addressPattern p ipStr ip) (negatedPats patterns)"

definition addressIncluded :: "string \<Rightarrow> string \<Rightarrow> IP option \<Rightarrow> bool" where
  "addressIncluded patterns ipStr ip \<longleftrightarrow>
     list_ex (\<lambda>p. addressPattern p ipStr ip) (positivePats patterns)"

lemma addressLoop_result:
  "addressLoop ps s ip m =
     (if \<exists>p \<in> set (map trimSpace ps). p \<noteq> [] \<and> hd p = CHR ''!'' \<and> addressPattern (tl p) s ip
      then None
      else Some (m \<or> (\<exists>p \<in> set (map trimSpace ps). p \<noteq> [] \<and> hd p \<noteq> CHR ''!'' \<and>
                        addressPattern p s ip)))"
  by (induction ps s ip m rule: addressLoop.induct) (auto simp: Let_def)

lemma matchAddressCond_iff:
  assumes "addressOf field ctx = (s, ip)"
  shows "matchAddressCond field patterns neg ctx \<longleftrightarrow>
     \<not> addressExcluded patterns s ip \<and> (addressIncluded patterns s ip \<noteq> neg)"
  using assms
  by (auto simp: matchAddressCond_def addressLoop_result addressExcluded_def addressIncluded_def
      negatedPats_def positivePats_def list_ex_iff)

subsection \<open>Tokens of the arguments\<close>

definition quoteTok :: "string \<Rightarrow> string" where
  "quoteTok t = CHR 0x22 # t @ [CHR 0x22]"

lemma tokenizeLoop_quoted:
  "CHR 0x22 \<notin> set t \<Longrightarrow>
   tokenizeLoop (t @ CHR 0x22 # s) cur True = tokenizeLoop s (rev t @ cur) False"
  by (induction t arbitrary: cur) auto

text \<open>A word as a user writes it: in quotes where it needs them.\<close>

definition plainChar :: "char \<Rightarrow> bool" where
  "plainChar c \<longleftrightarrow> \<not> isSpace c \<and> c \<noteq> CHR 0x22 \<and> c \<noteq> CHR ''#''"

definition wordText :: "string \<Rightarrow> string" where
  "wordText t = (if list_all plainChar t then t else quoteTok t)"

lemma tokenizeLoop_plain:
  "list_all plainChar t \<Longrightarrow> tokenizeLoop (t @ s) cur False = tokenizeLoop s (rev t @ cur) False"
  by (induction t arbitrary: cur) (auto simp: plainChar_def isSpace_def)

lemma tokenizeLoop_word:
  assumes "CHR 0x22 \<notin> set t"
  shows "tokenizeLoop (wordText t @ s) [] False = tokenizeLoop s (rev t) False"
  using tokenizeLoop_plain[of t s "[]"] tokenizeLoop_quoted[of t s "[]"] assms
  by (auto simp: wordText_def quoteTok_def)

lemma tokenize_join:
  "list_all (\<lambda>t. CHR 0x22 \<notin> set t \<and> t \<noteq> []) ts \<Longrightarrow>
   tokenizeMatchArgs (joinWith (map wordText ts) '' '') = ts"
  unfolding tokenizeMatchArgs_def
proof (induction ts)
  case (Cons t ts)
  then show ?case
    using tokenizeLoop_word[of t "[]"] by (cases ts) (auto simp: tokenizeLoop_word)
qed simp

subsection \<open>Printing criteria\<close>

fun fieldKeyword :: "MatchField \<Rightarrow> string" where
  "fieldKeyword MatchFieldHost = ''host''"
| "fieldKeyword MatchFieldOriginalHost = ''originalhost''"
| "fieldKeyword MatchFieldUser = ''user''"
| "fieldKeyword MatchFieldLocalUser = ''localuser''"
| "fieldKeyword MatchFieldTagged = ''tagged''"
| "fieldKeyword MatchFieldCommand = ''command''"
| "fieldKeyword MatchFieldVersion = ''version''"
| "fieldKeyword MatchFieldSessionType = ''sessiontype''"
| "fieldKeyword MatchFieldGroup = ''group''"
| "fieldKeyword MatchFieldLocalPort = ''localport''"
| "fieldKeyword MatchFieldRDomain = ''rdomain''"

fun addressKeyword :: "MatchAddressField \<Rightarrow> string" where
  "addressKeyword MatchAddressRemote = ''address''"
| "addressKeyword MatchAddressLocal = ''localaddress''"

definition bang :: "bool \<Rightarrow> string \<Rightarrow> string" where
  "bang neg kw = (if neg then CHR ''!'' # kw else kw)"

fun critWords :: "Condition \<Rightarrow> string list" where
  "critWords MatchAllCondition = [''all'']"
| "critWords MatchCanonicalCondition = [''canonical'']"
| "critWords MatchFinalCondition = [''final'']"
| "critWords MatchInvalidUserCondition = [''invalid-user'']"
| "critWords (MatchExecCondition cmd) = [''exec'', cmd]"
| "critWords (MatchLocalNetworkCondition ns) = [''localnetwork'', joinWith ns '','']"
| "critWords (MatchFieldCondition f p neg) = [bang neg (fieldKeyword f), p]"
| "critWords (MatchAddressCondition f p neg) = [bang neg (addressKeyword f), p]"
| "critWords (negatedCondition (MatchExecCondition cmd)) = [''!exec'', cmd]"
| "critWords (negatedCondition (MatchLocalNetworkCondition ns)) = [''!localnetwork'', joinWith ns '','']"
| "critWords c = []"

definition wfNetworks :: "string list \<Rightarrow> bool" where
  "wfNetworks ns \<longleftrightarrow> ns \<noteq> [] \<and> list_all (\<lambda>n. CHR '','' \<notin> set n) ns"

fun wfCriterion :: "Condition \<Rightarrow> bool" where
  "wfCriterion (MatchLocalNetworkCondition ns) = wfNetworks ns"
| "wfCriterion (negatedCondition (MatchLocalNetworkCondition ns)) = wfNetworks ns"
| "wfCriterion (negatedCondition (MatchExecCondition c)) = True"
| "wfCriterion (negatedCondition _) = False"
| "wfCriterion (HostCondition ps) = False"
| "wfCriterion c = True"

definition wfCriteria :: "Condition list \<Rightarrow> bool" where
  "wfCriteria cs \<longleftrightarrow> list_all wfCriterion cs \<and>
     list_all (\<lambda>t. CHR 0x22 \<notin> set t \<and> t \<noteq> []) (concat (map critWords cs))"

definition renderCriteria :: "Condition list \<Rightarrow> string" where
  "renderCriteria cs = joinWith (map wordText (concat (map critWords cs))) '' ''"

lemmas keyword_simps =
  plainCriterion_def criterion_def argCriterion_def negCriterion_def isFieldKeyword_def
  matchFieldFromKeyword_def fieldKeywords_def

lemma toLower_keywords [str_simps]:
  "toLower (bang neg (fieldKeyword f)) = bang neg (fieldKeyword f)"
  "toLower (bang neg (addressKeyword a)) = bang neg (addressKeyword a)"
  by (cases f; cases neg; simp add: bang_def toLower_def lowerChar_def)
     (cases a; cases neg; simp add: bang_def toLower_def lowerChar_def)

lemma criterion_field:
  "plainCriterion (bang neg (fieldKeyword f)) = None"
  "criterion (bang neg (fieldKeyword f)) = Some (\<lambda>arg. MatchFieldCondition f arg neg)"
  by (cases f; cases neg; simp add: bang_def keyword_simps)+

lemma criterion_address:
  "plainCriterion (bang neg (addressKeyword f)) = None"
  "criterion (bang neg (addressKeyword f)) = Some (\<lambda>arg. MatchAddressCondition f arg neg)"
  by (cases f; cases neg; simp add: bang_def keyword_simps)+

lemma split_networks: "wfNetworks ns \<Longrightarrow> split (joinWith ns '','') CHR '','' = ns"
  by (rule split_join) (auto simp: wfNetworks_def list_all_iff)

lemma criteriaLoop_plain:
  "plainCriterion (toLower kw) = Some c \<Longrightarrow> criteriaLoop (kw # ts) acc = criteriaLoop ts (acc @ [c])"
  by (simp add: criteriaLoop.simps(2))

lemma criteriaLoop_arg:
  "plainCriterion (toLower kw) = None \<Longrightarrow> criterion (toLower kw) = Some f \<Longrightarrow>
   criteriaLoop (kw # arg # ts) acc = criteriaLoop ts (acc @ [f arg])"
  by (simp add: criteriaLoop.simps(2))

lemma criteriaLoop_words:
  assumes "wfCriterion c"
  shows "criteriaLoop (critWords c @ ts) acc = criteriaLoop ts (acc @ [c])"
proof -
  have lits: "toLower ''all'' = ''all''" "toLower ''canonical'' = ''canonical''"
    "toLower ''final'' = ''final''" "toLower ''invalid-user'' = ''invalid-user''"
    "toLower ''exec'' = ''exec''" "toLower ''localnetwork'' = ''localnetwork''"
    "toLower ''!exec'' = ''!exec''" "toLower ''!localnetwork'' = ''!localnetwork''"
    by (simp_all add: toLower_def lowerChar_def)
  show ?thesis
    using assms
  proof (cases c)
    case (negatedCondition d)
    then show ?thesis using assms
      by (cases d) (auto simp: criteriaLoop_arg lits keyword_simps split_networks)
  next
    case (MatchFieldCondition f p neg)
    then show ?thesis
      by (simp add: criterion_field toLower_keywords criteriaLoop_arg)
  next
    case (MatchAddressCondition f p neg)
    then show ?thesis
      by (simp add: criterion_address toLower_keywords criteriaLoop_arg)
  qed (auto simp: criteriaLoop_plain criteriaLoop_arg lits keyword_simps(1) split_networks
      criterion_def argCriterion_def)
qed

lemma criteriaLoop_all:
  "list_all wfCriterion cs \<Longrightarrow> criteriaLoop (concat (map critWords cs)) acc = Inr (acc @ cs)"
proof (induction cs arbitrary: acc)
  case (Cons c cs)
  then show ?case using criteriaLoop_words[of c "concat (map critWords cs)" acc] by simp
qed simp

section \<open>Properties\<close>

text \<open>A Host block applies exactly when one of its plain patterns matches the
  host and none of its negated patterns does.\<close>

theorem HostCondition_Match:
  "condMatch (HostCondition ps) ctx \<longleftrightarrow>
     (\<exists>p \<in> set ps. \<not> hpNegated p \<and> glob (hpPattern p) (mcHost ctx)) \<and>
     \<not> (\<exists>p \<in> set ps. hpNegated p \<and> glob (hpPattern p) (mcHost ctx))"
  by (auto simp: hostLoop_iff mp.mtch_glob)

text \<open>C32: Match criteria are read back as they are written: printing a list of
  conditions that criteria can express, a word in quotes where it needs them, and
  parsing the text gives the same conditions in the same order, negations included.\<close>

theorem ParseMatchCriteria_roundtrip:
  assumes "wfCriteria cs"
  shows "ParseMatchCriteria (renderCriteria cs) = Inr cs"
  using assms tokenize_join[of "concat (map critWords cs)"] criteriaLoop_all[of cs "[]"]
  by (simp add: wfCriteria_def ParseMatchCriteria_def renderCriteria_def)

theorem ParseMatchCriteria_roundtrip_witness:
  "ParseMatchCriteria (renderCriteria
     [MatchFieldCondition MatchFieldUser ''root,!a b'' True, MatchFinalCondition,
      negatedCondition (MatchLocalNetworkCondition [''10.0.0.0/8'', ''::1/128''])])
   = Inr [MatchFieldCondition MatchFieldUser ''root,!a b'' True, MatchFinalCondition,
      negatedCondition (MatchLocalNetworkCondition [''10.0.0.0/8'', ''::1/128''])]"
  by (rule ParseMatchCriteria_roundtrip) (simp add: wfCriteria_def wfNetworks_def bang_def)

text \<open>Negating an address criterion is the complement of the plain criterion
  exactly when the address meets no negated pattern of the list; an address that
  meets one is refused by both forms.\<close>

theorem MatchAddress_negation:
  "(condMatch (MatchAddressCondition f ps True) ctx = (\<not> condMatch (MatchAddressCondition f ps False) ctx))
   = (\<not> addressExcluded ps (fst (addressOf f ctx)) (snd (addressOf f ctx)))"
  using matchAddressCond_iff[of f ctx "fst (addressOf f ctx)" "snd (addressOf f ctx)"]
  by auto

end
