(* ===== verification/ConfParser.thy ===== *)
theory ConfParser
  imports MatchCond "HOL-Library.List_Lexorder"
begin

text \<open>
  The configuration file parser (\<^verbatim>\<open>pkg/sshconfig/parser.go\<close>).  The recursion
  through Include is bounded by the depth check of the code itself: \<^verbatim>\<open>parseFile\<close>
  at depth \<open>d\<close> is \<^verbatim>\<open>parseFileN\<close> with \<open>maxDepth + 1 - d\<close> levels left, and no level
  left is the branch of the code that reports the excess.  The set of files being
  parsed, a field of the Go parser that calls mutate, is threaded through.
\<close>

section \<open>Lines\<close>

definition isBlank :: "char \<Rightarrow> bool" where
  "isBlank c \<longleftrightarrow> c = CHR '' '' \<or> c = CHR 0x09"

definition parseLine :: "string \<Rightarrow> go_error + string \<times> string" where
  "parseLine line =
     (let keyword = takeWhile (\<lambda>c. \<not> isBlank c \<and> c \<noteq> CHR ''='') line;
          rest1 = dropWhile (\<lambda>c. \<not> isBlank c \<and> c \<noteq> CHR ''='') line
      in if keyword = [] then Inl (Errorf ''empty keyword'' [])
         else
           (let rest2 = dropWhile isBlank rest1;
                value = (if hasPrefix rest2 ''='' then dropWhile isBlank (drop 1 rest2) else rest2)
            in if value = [] then Inr (keyword, [])
               else if length value \<ge> 2 \<and> hd value = CHR 0x22 \<and> last value = CHR 0x22
               then Inr (keyword, butlast (tl value))
               else Inr (keyword, value)))"

primrec stripLoop :: "string \<Rightarrow> bool \<Rightarrow> string" where
  "stripLoop [] inQuote = []"
| "stripLoop (c # cs) inQuote =
     (if c = CHR 0x22 then c # stripLoop cs (\<not> inQuote)
      else if c = CHR ''#'' \<and> \<not> inQuote then []
      else c # stripLoop cs inQuote)"

definition stripComment :: "string \<Rightarrow> string" where
  "stripComment line = stripLoop line False"

primrec splitUnquotedLoop :: "string \<Rightarrow> string \<Rightarrow> bool \<Rightarrow> string list" where
  "splitUnquotedLoop [] cur inQuote = (if cur \<noteq> [] then [rev cur] else [])"
| "splitUnquotedLoop (ch # cs) cur inQuote =
     (if ch = CHR 0x22 then splitUnquotedLoop cs cur (\<not> inQuote)
      else if (ch = CHR '' '' \<or> ch = CHR 0x09) \<and> \<not> inQuote then
        (if cur \<noteq> [] then rev cur # splitUnquotedLoop cs [] inQuote
         else splitUnquotedLoop cs cur inQuote)
      else splitUnquotedLoop cs (ch # cur) inQuote)"

definition splitUnquoted :: "string \<Rightarrow> string list" where
  "splitUnquoted s = splitUnquotedLoop s [] False"

text \<open>The lines of Go's \<^verbatim>\<open>bufio.Scanner\<close>: a carriage return before the newline is
  dropped, an empty last line is none, and a line of 65536 bytes or more stops the
  scan with an error.\<close>

definition maxTokenSize :: nat where "maxTokenSize = 65536"

definition rawLines :: "string \<Rightarrow> string list" where
  "rawLines s = (let ls = split s (CHR 0x0A) in if last ls = [] then butlast ls else ls)"

definition dropCR :: "string \<Rightarrow> string" where
  "dropCR l = (if l \<noteq> [] \<and> last l = CHR 0x0D then butlast l else l)"

definition scanLines :: "string \<Rightarrow> string list \<times> bool" where
  "scanLines s =
     (let fits = (\<lambda>l. length l < maxTokenSize)
      in (map dropCR (takeWhile fits (rawLines s)), \<not> list_all fits (rawLines s)))"

section \<open>The parser\<close>

record parser =
  pOpts :: ParseOptions
  pMaxDepth :: int
  pVisited :: "string set"

definition defaultMaxIncludeDepth :: int where
  "defaultMaxIncludeDepth = 16"

definition newParser :: "World \<Rightarrow> ParseOptions \<Rightarrow> parser" where
  "newParser w opts =
     (let maxDepth = (if poMaxIncludeDepth opts \<le> 0 then defaultMaxIncludeDepth
                      else poMaxIncludeDepth opts);
          opts' = (if poHomeDir opts = []
                   then (case wHomeDir w of Some home \<Rightarrow> opts\<lparr>poHomeDir := home\<rparr> | None \<Rightarrow> opts)
                   else opts)
      in \<lparr>pOpts = opts', pMaxDepth = maxDepth, pVisited = {}\<rparr>)"

type_synonym parse_result = "(go_error + Entry list) \<times> parser"
type_synonym file_parser = "string \<Rightarrow> parser \<Rightarrow> parse_result"

text \<open>\<^verbatim>\<open>handleInclude\<close>: the inner loop over the files a pattern names, the outer one
  over the patterns, for a given parser of included files.\<close>

primrec includeMatches ::
  "World \<Rightarrow> file_parser \<Rightarrow> string list \<Rightarrow> Entry list \<Rightarrow> parser \<Rightarrow> parse_result" where
  "includeMatches w pf [] allEntries p = (Inr allEntries, p)"
| "includeMatches w pf (m # ms) allEntries p =
     (case wStat w m of
        None \<Rightarrow> includeMatches w pf ms allEntries p
      | Some isDir \<Rightarrow>
          if isDir then includeMatches w pf ms allEntries p
          else (case pf m p of
                  (Inl e, p') \<Rightarrow> (Inl e, p')
                | (Inr included, p') \<Rightarrow> includeMatches w pf ms (allEntries @ included) p'))"

definition includePath :: "World \<Rightarrow> parser \<Rightarrow> string \<Rightarrow> string" where
  "includePath w p rawPath =
     (let path1 = ExpandTilde w rawPath (poHomeDir (pOpts p));
          path2 = (case poTokenContext (pOpts p) of
                     None \<Rightarrow> path1 | Some t \<Rightarrow> ExpandTokens w path1 (Some t));
          path3 = (case ExpandEnvVars w path2 of Inl e \<Rightarrow> path2 | Inr expanded \<Rightarrow> expanded)
      in if \<not> IsAbs path3 then pathJoin [poBaseDir (pOpts p), path3] else path3)"

primrec includePaths ::
  "World \<Rightarrow> file_parser \<Rightarrow> string list \<Rightarrow> SourceInfo \<Rightarrow> Entry list \<Rightarrow> parser \<Rightarrow> parse_result" where
  "includePaths w pf [] source allEntries p = (Inr allEntries, p)"
| "includePaths w pf (rawPath # more_paths) source allEntries p =
     (case wGlob w (includePath w p rawPath) of
        Inl err \<Rightarrow> (Inl (ParseError source (''Include glob error: '' @ errText err)), p)
      | Inr matches \<Rightarrow>
          (case includeMatches w pf (sort matches) allEntries p of
             (Inl e, p') \<Rightarrow> (Inl e, p')
           | (Inr es, p') \<Rightarrow> includePaths w pf more_paths source es p'))"

definition handleInclude ::
  "World \<Rightarrow> file_parser \<Rightarrow> string \<Rightarrow> SourceInfo \<Rightarrow> parser \<Rightarrow> parse_result" where
  "handleInclude w pf value source p = includePaths w pf (splitUnquoted value) source [] p"

text \<open>Included entries without conditions of their own take those of the block.\<close>

definition inheritConditions :: "Condition list \<Rightarrow> Entry list \<Rightarrow> Entry list" where
  "inheritConditions current included =
     map (\<lambda>e. if eConditions e = [] \<and> current \<noteq> [] then e\<lparr>eConditions := current\<rparr> else e) included"

definition withSource :: "SourceInfo \<Rightarrow> go_error \<Rightarrow> go_error" where
  "withSource source e =
     (case e of ParseError _ m \<Rightarrow> ParseError source m | _ \<Rightarrow> ParseError source (errText e))"

text \<open>The loop over the lines of a file.\<close>

primrec lineLoop ::
  "(string \<Rightarrow> SourceInfo \<Rightarrow> parser \<Rightarrow> parse_result) \<Rightarrow> string \<Rightarrow> string list \<Rightarrow> int \<Rightarrow>
   Condition list \<Rightarrow> Entry list \<Rightarrow> parser \<Rightarrow> parse_result" where
  "lineLoop inc name [] lineNum current entries p = (Inr entries, p)"
| "lineLoop inc name (raw # lines) lineNum current entries p =
     (let n = lineNum + 1;
          source = \<lparr>srcFile = name, srcLine = n\<rparr>;
          line = trimSpace (stripComment raw)
      in if line = [] then lineLoop inc name lines n current entries p
         else
           (case parseLine line of
              Inl e \<Rightarrow> (Inl (ParseError source (errText e)), p)
            | Inr (keyword, value) \<Rightarrow>
                (let lowerKey = toLower keyword in
                 if lowerKey = ''host'' then
                   lineLoop inc name lines n [HostCondition (ParseHostPatterns value)] entries p
                 else if lowerKey = ''match'' then
                   (case ParseMatchCriteria value of
                      Inl e \<Rightarrow> (Inl (withSource source e), p)
                    | Inr conditions \<Rightarrow> lineLoop inc name lines n conditions entries p)
                 else if lowerKey = ''include'' then
                   (case inc value source p of
                      (Inl e, p') \<Rightarrow> (Inl e, p')
                    | (Inr included, p') \<Rightarrow>
                        lineLoop inc name lines n current
                          (entries @ inheritConditions current included) p')
                 else
                   lineLoop inc name lines n current
                     (entries @ [\<lparr>eConditions = current,
                        eDirective = \<lparr>dKeyword = keyword, dValue = value, dSource = source\<rparr>\<rparr>]) p)))"

declare lineLoop.simps(2) [simp del]

definition parseReader ::
  "World \<Rightarrow> file_parser \<Rightarrow> string \<times> go_error option \<Rightarrow> string \<Rightarrow> parser \<Rightarrow> parse_result" where
  "parseReader w pf r name p =
     (let (content, readErr) = r;
          (lines, tooLong) = scanLines content
      in case lineLoop (handleInclude w pf) name lines 0 [] [] p of
           (Inl e, p') \<Rightarrow> (Inl e, p')
         | (Inr entries, p') \<Rightarrow>
             if tooLong then
               (Inl (Wrapf ''reading %s: %w'' [name] (ErrExt ''bufio.Scanner: token too long'')), p')
             else (case readErr of
                     Some e \<Rightarrow> (Inl (Wrapf ''reading %s: %w'' [name] e), p')
                   | None \<Rightarrow> (Inr entries, p')))"

definition absPathOf :: "World \<Rightarrow> string \<Rightarrow> string option" where
  "absPathOf w path =
     (if IsAbs path then Some (Clean path)
      else case wCwd w of None \<Rightarrow> None | Some cwd \<Rightarrow> Some (pathAbs cwd path))"

text \<open>The part of \<^verbatim>\<open>parseFile\<close> behind the depth check: the mark on the file is set
  before it is opened and removed, by the deferred call, on every way out.\<close>

definition parseOpened :: "World \<Rightarrow> file_parser \<Rightarrow> file_parser" where
  "parseOpened w pf absPath p =
     (if absPath \<in> pVisited p then (Inr [], p)
      else
        (let p1 = p\<lparr>pVisited := insert absPath (pVisited p)\<rparr>;
             (r, p2) = (case wOpen w absPath of
                          Inl e \<Rightarrow> (Inl e, p1)
                        | Inr f \<Rightarrow> parseReader w pf f absPath p1)
         in (r, p2\<lparr>pVisited := pVisited p2 - {absPath}\<rparr>)))"

primrec parseFileN :: "nat \<Rightarrow> World \<Rightarrow> file_parser" where
  "parseFileN 0 w path p =
     (Inl (ParseError noSource
        (''Include depth exceeds maximum ('' @ itoaInt (pMaxDepth p) @ '')'')), p)"
| "parseFileN (Suc n) w path p =
     (case absPathOf w path of
        None \<Rightarrow> (Inl (Wrapf ''resolving path %q: %w'' [path] (ErrExt ''getwd'')), p)
      | Some absPath \<Rightarrow> parseOpened w (parseFileN n w) absPath p)"

definition parseFile :: "World \<Rightarrow> string \<Rightarrow> int \<Rightarrow> parser \<Rightarrow> parse_result" where
  "parseFile w path depth p = parseFileN (nat (pMaxDepth p + 1 - depth)) w path p"

definition ParseFile :: "World \<Rightarrow> string \<Rightarrow> ParseOptions \<Rightarrow> go_error + Entry list" where
  "ParseFile w path opts = fst (parseFile w path 0 (newParser w opts))"

definition ParseString :: "World \<Rightarrow> string \<Rightarrow> string \<Rightarrow> ParseOptions \<Rightarrow> go_error + Entry list" where
  "ParseString w content sourceName opts =
     fst (parseReader w (\<lambda>m. parseFile w m 1) (content, None) sourceName (newParser w opts))"

section \<open>The parser state is restored\<close>

text \<open>A parser of files is clean when it leaves the parser state as it found it.\<close>

definition cleanParser :: "file_parser \<Rightarrow> bool" where
  "cleanParser pf \<longleftrightarrow> (\<forall>m p. snd (pf m p) = p)"

lemma cleanParserD: "cleanParser pf \<Longrightarrow> pf m p = (r, p') \<Longrightarrow> p' = p"
  unfolding cleanParser_def by (metis snd_conv)

lemma includeMatches_clean: "cleanParser pf \<Longrightarrow> snd (includeMatches w pf ms es p) = p"
  by (induction ms arbitrary: es)
    (auto split: option.split prod.split sum.split dest: cleanParserD)

lemma includePaths_clean: "cleanParser pf \<Longrightarrow> snd (includePaths w pf ps src es p) = p"
proof (induction ps arbitrary: es)
  case (Cons q ps)
  then show ?case
    using includeMatches_clean[of pf w _ _ p]
    by (auto split: prod.split sum.split) (metis snd_conv)+
qed simp

lemma handleInclude_clean: "cleanParser pf \<Longrightarrow> snd (handleInclude w pf v src p) = p"
  by (simp add: handleInclude_def includePaths_clean)

lemma lineLoop_clean:
  assumes "\<And>v src q. snd (inc v src q) = q"
  shows "snd (lineLoop inc name ls n cur es p) = p"
proof (induction ls arbitrary: n cur es)
  case (Cons l ls)
  have inc: "inc v src q = (r, q') \<Longrightarrow> q' = q" for v src q r q' using assms by (metis snd_conv)
  show ?case
    by (auto simp: lineLoop.simps(2) Let_def Cons.IH split: sum.split prod.split dest: inc)
qed simp

lemma parseReader_clean:
  assumes "cleanParser pf" shows "snd (parseReader w pf r name p) = p"
proof -
  have "snd (lineLoop (handleInclude w pf) name ls n cur es q) = q" for ls n cur es q
    by (rule lineLoop_clean) (rule handleInclude_clean[OF assms])
  then have "lineLoop (handleInclude w pf) name ls n cur es q = (x, q') \<Longrightarrow> q' = q" for ls n cur es q x q'
    by (metis snd_conv)
  then show ?thesis
    by (auto simp: parseReader_def split: prod.split sum.split option.split)
qed

lemma parseOpened_clean:
  assumes "cleanParser pf" shows "snd (parseOpened w pf a p) = p"
proof -
  have pr: "parseReader w pf f a q = (r, q') \<Longrightarrow> q' = q" for f q r q'
    using parseReader_clean[OF assms] by (metis snd_conv)
  show ?thesis
    by (auto simp: parseOpened_def Let_def split: prod.split sum.split dest!: pr)
qed

lemma parseFileN_clean: "cleanParser (parseFileN n w)"
proof (induction n)
  case (Suc n)
  then show ?case
    by (auto simp: cleanParser_def parseOpened_clean split: option.split)
qed (simp add: cleanParser_def)

end
