(* ===== verification/ConfRender.thy ===== *)
theory ConfRender
  imports ConfParser
begin

text \<open>
  Correctness of the configuration parser: what it answers for a file that is
  written out line by line, that it leaves its own state alone and that its bound
  on the include depth is exactly the one of the code.
\<close>

section \<open>Printed configurations\<close>

datatype cline =
    BlankLine
  | CommentLine string
  | DirLine string string
  | HostLine "HostPattern list"
  | MatchLine "Condition list"

definition patText :: "HostPattern \<Rightarrow> string" where
  "patText p = (if hpNegated p then CHR ''!'' # hpPattern p else hpPattern p)"

fun lineText :: "cline \<Rightarrow> string" where
  "lineText BlankLine = []"
| "lineText (CommentLine s) = CHR ''#'' # s"
| "lineText (DirLine k v) = k @ CHR '' '' # v"
| "lineText (HostLine ps) = ''Host '' @ joinWith (map patText ps) '' ''"
| "lineText (MatchLine cs) = ''Match'' @ (if cs = [] then [] else CHR '' '' # renderCriteria cs)"

definition fileText :: "cline list \<Rightarrow> string" where
  "fileText ls = concat (map (\<lambda>l. lineText l @ [CHR 0x0A]) ls)"

text \<open>The entries a file stands for: each directive under the last header.\<close>

fun entriesOf :: "string \<Rightarrow> int \<Rightarrow> Condition list \<Rightarrow> cline list \<Rightarrow> Entry list" where
  "entriesOf name n cur [] = []"
| "entriesOf name n cur (l # ls) =
     (case l of
        DirLine k v \<Rightarrow>
          \<lparr>eConditions = cur, eDirective = \<lparr>dKeyword = k, dValue = v,
             dSource = \<lparr>srcFile = name, srcLine = n + 1\<rparr>\<rparr>\<rparr> # entriesOf name (n + 1) cur ls
      | HostLine ps \<Rightarrow> entriesOf name (n + 1) [HostCondition ps] ls
      | MatchLine cs \<Rightarrow> entriesOf name (n + 1) cs ls
      | _ \<Rightarrow> entriesOf name (n + 1) cur ls)"

definition wfPat :: "HostPattern \<Rightarrow> bool" where
  "wfPat p \<longleftrightarrow> hpPattern p \<noteq> [] \<and> list_all plainChar (hpPattern p) \<and>
     (hpNegated p \<or> hd (hpPattern p) \<noteq> CHR ''!'')"

text \<open>A directive value on the right of one blank: not empty, no surrounding white
  space, no equals sign in front, no quotes and no comment sign.\<close>

definition wfValue :: "string \<Rightarrow> bool" where
  "wfValue v \<longleftrightarrow> v \<noteq> [] \<and> \<not> isSpace (hd v) \<and> \<not> isSpace (last v) \<and> hd v \<noteq> CHR ''='' \<and>
     CHR 0x22 \<notin> set v \<and> CHR ''#'' \<notin> set v"

definition wfKeyword :: "string \<Rightarrow> bool" where
  "wfKeyword k \<longleftrightarrow> k \<noteq> [] \<and> list_all plainChar k \<and> CHR ''='' \<notin> set k"

fun wfLine :: "cline \<Rightarrow> bool" where
  "wfLine BlankLine = True"
| "wfLine (CommentLine s) = (CHR 0x0D \<notin> set s)"
| "wfLine (DirLine k v) =
     (wfKeyword k \<and> toLower k \<notin> {''host'', ''match'', ''include''} \<and> wfValue v)"
| "wfLine (HostLine ps) =
     (ps \<noteq> [] \<and> list_all wfPat ps \<and> hd (patText (hd ps)) \<noteq> CHR ''='')"
| "wfLine (MatchLine cs) = wfCriteria cs"

definition wfFile :: "cline list \<Rightarrow> bool" where
  "wfFile ls \<longleftrightarrow> list_all (\<lambda>l. wfLine l \<and> CHR 0x0A \<notin> set (lineText l) \<and>
     length (lineText l) < maxTokenSize) ls"

section \<open>One line\<close>

lemma stripLoop_free:
  "CHR 0x22 \<notin> set s \<Longrightarrow> CHR ''#'' \<notin> set s \<Longrightarrow> stripLoop (s @ t) False = s @ stripLoop t False"
  by (induction s) auto

lemma stripLoop_quoted:
  "CHR 0x22 \<notin> set s \<Longrightarrow> stripLoop (s @ CHR 0x22 # t) True = s @ CHR 0x22 # stripLoop t False"
  by (induction s) auto

lemma plainChar_free:
  "list_all plainChar s \<Longrightarrow> CHR 0x22 \<notin> set s" "list_all plainChar s \<Longrightarrow> CHR ''#'' \<notin> set s"
  by (auto simp: list_all_iff plainChar_def)

lemma stripLoop_word:
  "CHR 0x22 \<notin> set w \<Longrightarrow> stripLoop (wordText w @ t) False = wordText w @ stripLoop t False"
  using stripLoop_quoted[of w t] stripLoop_free[of w t]
  by (auto simp: wordText_def quoteTok_def plainChar_free)

lemma stripLoop_words:
  "list_all (\<lambda>w. CHR 0x22 \<notin> set w) ws \<Longrightarrow>
   stripLoop (joinWith (map wordText ws) '' '') False = joinWith (map wordText ws) '' ''"
proof (induction ws)
  case (Cons w ws)
  then show ?case using stripLoop_word[of w "[]"] stripLoop_word[of w]
    by (cases ws) auto
qed simp

lemma parseLine_kv:
  assumes "wfKeyword k" and "v \<noteq> []" and "\<not> isBlank (hd v)" and "hd v \<noteq> CHR ''=''"
    and "\<not> (hd v = CHR 0x22 \<and> last v = CHR 0x22)"
  shows "parseLine (k @ CHR '' '' # v) = Inr (k, v)"
proof -
  have k: "\<forall>c \<in> set k. \<not> isBlank c \<and> c \<noteq> CHR ''=''"
    using assms(1) by (auto simp: wfKeyword_def list_all_iff plainChar_def isSpace_def isBlank_def)
  have t: "takeWhile (\<lambda>c. \<not> isBlank c \<and> c \<noteq> CHR ''='') (k @ CHR '' '' # v) = k"
    using k by (subst takeWhile_append2) (auto simp: isBlank_def)
  have d: "dropWhile (\<lambda>c. \<not> isBlank c \<and> c \<noteq> CHR ''='') (k @ CHR '' '' # v) = CHR '' '' # v"
    using k by (subst dropWhile_append2) (auto simp: isBlank_def)
  have b: "dropWhile isBlank (CHR '' '' # v) = v"
    using assms(2,3) by (cases v) (auto simp: isBlank_def)
  have "\<not> hasPrefix v ''=''" using assms(2,4) by (cases v) auto
  moreover have "k \<noteq> []" using assms(1) by (simp add: wfKeyword_def)
  ultimately show ?thesis using assms(2,5) unfolding parseLine_def Let_def t d b by auto
qed

text \<open>A line \<open>keyword value\<close> comes out of the preparation unchanged.\<close>

lemma line_prepared:
  assumes "wfKeyword k" and "v \<noteq> []" and "\<not> isSpace (last v)" and "stripLoop v False = v"
  shows "trimSpace (stripComment (k @ CHR '' '' # v)) = k @ CHR '' '' # v"
proof -
  have k: "list_all plainChar k" "k \<noteq> []" using assms(1) by (auto simp: wfKeyword_def)
  have "stripComment (k @ CHR '' '' # v) = k @ CHR '' '' # v"
    using stripLoop_free[of k] plainChar_free[OF k(1)] assms(4) by (simp add: stripComment_def)
  moreover have "\<not> isSpace (hd (k @ CHR '' '' # v))"
    using k by (cases k) (auto simp: plainChar_def)
  moreover have "\<not> isSpace (last (k @ CHR '' '' # v))" using assms(2,3) by simp
  ultimately show ?thesis using trimSpace_id[of "k @ CHR '' '' # v"] by simp
qed

lemma lineLoop_directive:
  assumes "wfKeyword k" "v \<noteq> []" "\<not> isBlank (hd v)" "hd v \<noteq> CHR ''=''"
    "\<not> (hd v = CHR 0x22 \<and> last v = CHR 0x22)" "\<not> isSpace (last v)" "stripLoop v False = v"
  shows "lineLoop inc name ((k @ CHR '' '' # v) # ls) n cur es p =
     (let source = \<lparr>srcFile = name, srcLine = n + 1\<rparr>; lowerKey = toLower k in
      if lowerKey = ''host'' then
        lineLoop inc name ls (n + 1) [HostCondition (ParseHostPatterns v)] es p
      else if lowerKey = ''match'' then
        (case ParseMatchCriteria v of
           Inl e \<Rightarrow> (Inl (withSource source e), p)
         | Inr conditions \<Rightarrow> lineLoop inc name ls (n + 1) conditions es p)
      else if lowerKey = ''include'' then
        (case inc v source p of
           (Inl e, p') \<Rightarrow> (Inl e, p')
         | (Inr included, p') \<Rightarrow>
             lineLoop inc name ls (n + 1) cur (es @ inheritConditions cur included) p')
      else lineLoop inc name ls (n + 1) cur
             (es @ [\<lparr>eConditions = cur, eDirective = \<lparr>dKeyword = k, dValue = v,
                      dSource = source\<rparr>\<rparr>]) p)"
proof -
  have "k @ CHR '' '' # v \<noteq> []" by simp
  then show ?thesis
    unfolding lineLoop.simps(2) Let_def line_prepared[OF assms(1,2,6,7)] parseLine_kv[OF assms(1-5)]
    by simp
qed

section \<open>Host lines and Match lines\<close>

lemma fieldsAcc_plain:
  "list_all plainChar t \<Longrightarrow> fieldsAcc isSpace cur (t @ s) = fieldsAcc isSpace (rev t @ cur) s"
  by (induction t arbitrary: cur) (auto simp: plainChar_def)

lemma Fields_join:
  assumes "list_all (\<lambda>t. t \<noteq> [] \<and> list_all plainChar t) ts"
  shows "Fields (joinWith ts '' '') = ts"
  using assms unfolding Fields_def
proof (induction ts)
  case (Cons t ts)
  then show ?case
    using fieldsAcc_plain[of t "[]" "[]"] fieldsAcc_plain[of t "[]"]
    by (cases ts) auto
qed simp

lemma plainChar_bang: "plainChar CHR ''!''"
  by (simp add: plainChar_def isSpace_def)

lemma hostPatternOf_text: "wfPat q \<Longrightarrow> hostPatternOf (patText q) = q"
proof -
  assume q: "wfPat q"
  obtain c cs where c: "hpPattern q = c # cs" using q by (cases "hpPattern q") (auto simp: wfPat_def)
  show ?thesis
  proof (cases "hpNegated q")
    case True
    then have "hostPatternOf (patText q) = \<lparr>hpPattern = hpPattern q, hpNegated = hpNegated q\<rparr>"
      by (simp add: hostPatternOf_def patText_def)
    then show ?thesis by simp
  next
    case False
    then have "hostPatternOf (patText q) = \<lparr>hpPattern = hpPattern q, hpNegated = hpNegated q\<rparr>"
      using q c by (simp add: hostPatternOf_def patText_def wfPat_def)
    then show ?thesis by simp
  qed
qed

lemma ParseHostPatterns_text:
  assumes "list_all wfPat ps" shows "ParseHostPatterns (joinWith (map patText ps) '' '') = ps"
proof -
  have "list_all (\<lambda>t. t \<noteq> [] \<and> list_all plainChar t) (map patText ps)"
    using assms by (induction ps) (auto simp: wfPat_def patText_def plainChar_bang)
  moreover have "map hostPatternOf (map patText ps) = ps"
    using assms by (induction ps) (auto simp: hostPatternOf_text)
  moreover have "filter (\<lambda>p. hpPattern p \<noteq> []) ps = ps"
    using assms by (induction ps) (auto simp: wfPat_def)
  ultimately show ?thesis by (simp add: ParseHostPatterns_def Fields_join)
qed

lemma joinWith_not_Nil: "ts \<noteq> [] \<Longrightarrow> hd ts \<noteq> [] \<Longrightarrow> joinWith ts sep \<noteq> []"
  by (cases ts) auto

lemma hd_joinWith: "ts \<noteq> [] \<Longrightarrow> hd ts \<noteq> [] \<Longrightarrow> hd (joinWith ts sep) = hd (hd ts)"
  by (cases ts) auto

lemma last_joinWith:
  "ts \<noteq> [] \<Longrightarrow> list_all (\<lambda>t. t \<noteq> []) ts \<Longrightarrow> last (joinWith ts sep) = last (last ts)"
proof (induction ts)
  case (Cons t ts)
  then show ?case
    using joinWith_not_Nil[of ts sep] by (cases ts) auto
qed simp

lemma wfPat_text: "wfPat q \<Longrightarrow> patText q \<noteq> [] \<and> list_all plainChar (patText q)"
  by (auto simp: wfPat_def patText_def plainChar_bang)

lemma wfKeyword_lits: "wfKeyword ''Host''" "wfKeyword ''Match''"
  by (simp_all add: wfKeyword_def plainChar_def isSpace_def)

lemma toLower_lits: "toLower ''Host'' = ''host''" "toLower ''Match'' = ''match''"
  by code_simp+

lemma isSpace_blank: "\<not> isSpace c \<Longrightarrow> \<not> isBlank c"
  by (auto simp: isBlank_def)

text \<open>What \<^verbatim>\<open>lineLoop_directive\<close> asks of the value of a line.\<close>

definition okText :: "string \<Rightarrow> bool" where
  "okText v \<longleftrightarrow> v \<noteq> [] \<and> \<not> isBlank (hd v) \<and> hd v \<noteq> CHR ''='' \<and>
     \<not> (hd v = CHR 0x22 \<and> last v = CHR 0x22) \<and> \<not> isSpace (last v) \<and> stripLoop v False = v"

lemma okText_value: "wfValue v \<Longrightarrow> okText v"
proof -
  assume v: "wfValue v"
  then have "hd v \<noteq> CHR 0x22" using hd_in_set[of v] unfolding wfValue_def by metis
  then show ?thesis
    using v stripLoop_free[of v "[]"] by (auto simp: wfValue_def okText_def isSpace_blank)
qed

lemma okText_host:
  assumes "ps \<noteq> []" "list_all wfPat ps" "hd (patText (hd ps)) \<noteq> CHR ''=''"
  shows "okText (joinWith (map patText ps) '' '')"
proof -
  have pl: "list_all (\<lambda>t. t \<noteq> [] \<and> list_all plainChar t) (map patText ps)"
    using assms(2) by (induction ps) (auto simp: wfPat_text)
  obtain q qs where ps: "ps = q # qs" using assms(1) by (cases ps) auto
  have hq: "patText q \<noteq> []" "list_all plainChar (patText q)" using wfPat_text assms(2) ps by auto
  then have hp: "plainChar (hd (patText q))" by (cases "patText q") auto
  have lp: "last ps \<in> set ps" using assms(1) by simp
  then have lq: "patText (last ps) \<noteq> []" "list_all plainChar (patText (last ps))"
    using wfPat_text assms(2) by (auto simp: list_all_iff)
  then have ll: "plainChar (last (patText (last ps)))"
    using last_in_set[of "patText (last ps)"] by (simp add: list_all_iff)
  have q22: "list_all (\<lambda>w. CHR 0x22 \<notin> set w) (map patText ps)"
    using pl by (auto simp: list_all_iff plainChar_def)
  have "map wordText (map patText ps) = map patText ps"
    using pl by (induction ps) (auto simp: wordText_def)
  then have st: "stripLoop (joinWith (map patText ps) '' '') False = joinWith (map patText ps) '' ''"
    using stripLoop_words[OF q22] by (simp only:)
  have hd: "hd (joinWith (map patText ps) '' '') = hd (patText q)"
    using hd_joinWith[of "map patText ps" "'' ''"] ps hq by simp
  have la: "last (joinWith (map patText ps) '' '') = last (patText (last ps))"
    using last_joinWith[of "map patText ps" "'' ''"] pl assms(1) by (auto simp: list_all_iff last_map)
  show ?thesis
    unfolding okText_def hd la st
    using hp ll assms(3) ps hq joinWith_not_Nil[of "map patText ps" "'' ''"]
    by (auto simp: plainChar_def isSpace_blank)
qed

lemma critWords_head:
  assumes "wfCriterion c"
  shows "\<exists>k ks. critWords c = k # ks \<and> list_all plainChar k \<and> k \<noteq> [] \<and> hd k \<noteq> CHR ''=''"
proof -
  have f: "list_all plainChar (bang n (fieldKeyword f)) \<and> bang n (fieldKeyword f) \<noteq> [] \<and>
      hd (bang n (fieldKeyword f)) \<noteq> CHR ''=''" for n f
    by (cases f; cases n; simp add: bang_def plainChar_def isSpace_def)
  have a: "list_all plainChar (bang n (addressKeyword f)) \<and> bang n (addressKeyword f) \<noteq> [] \<and>
      hd (bang n (addressKeyword f)) \<noteq> CHR ''=''" for n f
    by (cases f; cases n; simp add: bang_def plainChar_def isSpace_def)
  show ?thesis
  proof (cases c)
    case (negatedCondition d)
    then show ?thesis using assms
      by (cases d) (auto simp: plainChar_def isSpace_def)
  qed (use assms f a in \<open>auto simp: plainChar_def isSpace_def\<close>)
qed

lemma last_wordText: "w \<noteq> [] \<Longrightarrow> CHR 0x22 \<notin> set w \<Longrightarrow> \<not> isSpace (last (wordText w))"
proof -
  assume w: "w \<noteq> []"
  show ?thesis
  proof (cases "list_all plainChar w")
    case True
    then have "plainChar (last w)" using w last_in_set[of w] by (simp add: list_all_iff)
    then show ?thesis using True by (simp add: wordText_def plainChar_def)
  next
    case False
    then show ?thesis by (simp add: wordText_def quoteTok_def isSpace_def)
  qed
qed

lemma wordText_not_Nil: "w \<noteq> [] \<Longrightarrow> wordText w \<noteq> []"
  by (simp add: wordText_def quoteTok_def)

lemma okText_match:
  assumes "cs \<noteq> []" "wfCriteria cs"
  shows "okText (renderCriteria cs)"
proof -
  define ws where "ws = concat (map critWords cs)"
  have w: "list_all (\<lambda>t. CHR 0x22 \<notin> set t \<and> t \<noteq> []) ws" "list_all wfCriterion cs"
    using assms(2) by (simp_all add: wfCriteria_def ws_def)
  obtain c cs' where cs: "cs = c # cs'" using assms(1) by (cases cs) auto
  from w(2) cs have "wfCriterion c" by simp
  then obtain k ks where k: "critWords c = k # ks" "list_all plainChar k" "k \<noteq> []" "hd k \<noteq> CHR ''=''"
    using critWords_head by blast
  then obtain ws' where ws: "ws = k # ws'" by (simp add: ws_def cs)
  have kt: "wordText k = k" using k(2) by (simp add: wordText_def)
  have hk: "plainChar (hd k)" using k(2,3) by (cases k) auto
  have lw: "last ws \<in> set ws" using ws by simp
  have r: "renderCriteria cs = joinWith (map wordText ws) '' ''"
    by (simp add: renderCriteria_def ws_def)
  have hd: "hd (renderCriteria cs) = hd k"
    unfolding r using hd_joinWith[of "map wordText ws" "'' ''"] ws kt k(3) by simp
  have "list_all (\<lambda>t. t \<noteq> []) (map wordText ws)"
    using w(1) by (auto simp: list_all_iff wordText_not_Nil)
  then have la: "last (renderCriteria cs) = last (wordText (last ws))"
    unfolding r using last_joinWith[of "map wordText ws" "'' ''"] ws by (simp add: last_map)
  have ls: "\<not> isSpace (last (wordText (last ws)))"
    using last_wordText[of "last ws"] lw w(1) by (auto simp: list_all_iff)
  have st: "stripLoop (renderCriteria cs) False = renderCriteria cs"
    unfolding r by (rule stripLoop_words) (use w(1) in \<open>auto simp: list_all_iff\<close>)
  have "renderCriteria cs \<noteq> []"
    unfolding r using joinWith_not_Nil[of "map wordText ws" "'' ''"] ws kt k(3) by simp
  then show ?thesis
    unfolding okText_def hd la st using hk k(4) ls by (auto simp: plainChar_def isSpace_blank)
qed

section \<open>The whole file\<close>

lemma lineLoop_match:
  assumes "cs \<noteq> []" "wfCriteria cs"
  shows "lineLoop inc name ((''Match'' @ CHR '' '' # renderCriteria cs) # ls) n cur es p =
     lineLoop inc name ls (n + 1) cs es p"
proof -
  have "ParseMatchCriteria (renderCriteria cs) = Inr cs"
    using assms(2) tokenize_join[of "concat (map critWords cs)"] criteriaLoop_all[of cs "[]"]
    by (simp add: wfCriteria_def ParseMatchCriteria_def renderCriteria_def)
  then show ?thesis
    using okText_match[OF assms] wfKeyword_lits(2) toLower_lits(2)
      lineLoop_directive[of "''Match''" "renderCriteria cs" inc name ls n cur es p]
    by (simp add: okText_def Let_def)
qed

lemma lineLoop_line:
  assumes "wfLine l"
  shows "lineLoop inc name (map lineText (l # ls)) n cur es p =
     (case l of
        DirLine k v \<Rightarrow>
          lineLoop inc name (map lineText ls) (n + 1) cur
            (es @ [\<lparr>eConditions = cur, eDirective = \<lparr>dKeyword = k, dValue = v,
                dSource = \<lparr>srcFile = name, srcLine = n + 1\<rparr>\<rparr>\<rparr>]) p
      | HostLine ps \<Rightarrow> lineLoop inc name (map lineText ls) (n + 1) [HostCondition ps] es p
      | MatchLine cs \<Rightarrow> lineLoop inc name (map lineText ls) (n + 1) cs es p
      | _ \<Rightarrow> lineLoop inc name (map lineText ls) (n + 1) cur es p)"
proof (cases l)
  case BlankLine
  then show ?thesis by (simp add: lineLoop.simps(2) stripComment_def)
next
  case (CommentLine s)
  then show ?thesis by (simp add: lineLoop.simps(2) stripComment_def)
next
  case (DirLine k v)
  then have "wfKeyword k" "okText v" using assms okText_value by auto
  then show ?thesis
    using DirLine assms lineLoop_directive[of k v inc name "map lineText ls" n cur es p]
    by (simp add: okText_def Let_def)
next
  case (HostLine ps)
  define v where "v = joinWith (map patText ps) '' ''"
  have "okText v" using HostLine assms okText_host[of ps] by (simp add: v_def)
  moreover have "ParseHostPatterns v = ps"
    using HostLine assms ParseHostPatterns_text[of ps] by (simp add: v_def)
  ultimately show ?thesis
    using HostLine wfKeyword_lits(1) toLower_lits(1)
      lineLoop_directive[of "''Host''" v inc name "map lineText ls" n cur es p]
    by (simp add: okText_def Let_def v_def)
next
  case (MatchLine cs)
  show ?thesis
  proof (cases "cs = []")
    case True
    have "parseLine ''Match'' = Inr (''Match'', [])" "trimSpace (stripComment ''Match'') = ''Match''"
      "ParseMatchCriteria [] = Inr []"
      by code_simp+
    then show ?thesis using MatchLine True by (simp add: lineLoop.simps(2) toLower_lits)
  next
    case False
    then show ?thesis using MatchLine assms lineLoop_match[of cs] by simp
  qed
qed

lemma lineLoop_file:
  "list_all wfLine ls \<Longrightarrow>
   lineLoop inc name (map lineText ls) n cur es p = (Inr (es @ entriesOf name n cur ls), p)"
proof (induction ls arbitrary: n cur es)
  case (Cons l ls)
  then have w: "wfLine l" "list_all wfLine ls" by auto
  show ?case
    unfolding lineLoop_line[OF w(1)] using Cons.IH[OF w(2)] by (cases l) auto
qed simp

lemma rawLines_file:
  "list_all (\<lambda>l. CHR 0x0A \<notin> set (lineText l)) ls \<Longrightarrow> rawLines (fileText ls) = map lineText ls"
proof -
  assume a: "list_all (\<lambda>l. CHR 0x0A \<notin> set (lineText l)) ls"
  then have "split (fileText ls) (CHR 0x0A) = map lineText ls @ [[]]"
    unfolding fileText_def by (induction ls) (auto simp: split_append_sep)
  then show ?thesis by (simp add: rawLines_def)
qed

lemma lineText_noCR:
  assumes "wfLine l" shows "dropCR (lineText l) = lineText l"
proof (cases l)
  case (DirLine k v)
  then show ?thesis using assms by (auto simp: dropCR_def wfValue_def isSpace_def)
next
  case (HostLine ps)
  then have "\<not> isSpace (last (lineText l))"
    using assms okText_host[of ps] by (auto simp: okText_def)
  then show ?thesis by (auto simp: dropCR_def isSpace_def)
next
  case (MatchLine cs)
  then have "\<not> isSpace (last (lineText l))"
    using assms okText_match[of cs] by (cases "cs = []") (auto simp: okText_def isSpace_def)
  then show ?thesis by (auto simp: dropCR_def isSpace_def)
next
  case (CommentLine s)
  moreover have "s \<noteq> [] \<Longrightarrow> last s \<noteq> CHR 0x0D"
    using CommentLine assms last_in_set[of s] by fastforce
  ultimately show ?thesis by (cases "s = []") (simp_all add: dropCR_def)
qed (auto simp: dropCR_def)

lemma scanLines_file:
  assumes "wfFile ls" shows "scanLines (fileText ls) = (map lineText ls, False)"
proof -
  have raw: "rawLines (fileText ls) = map lineText ls"
    using assms by (intro rawLines_file) (auto simp: wfFile_def list_all_iff)
  have "list_all (\<lambda>l. length l < maxTokenSize) (map lineText ls)"
    using assms by (auto simp: wfFile_def list_all_iff)
  moreover from this have "takeWhile (\<lambda>l. length l < maxTokenSize) (map lineText ls) = map lineText ls"
    by (simp add: list_all_iff)
  moreover have "map dropCR (map lineText ls) = map lineText ls"
    using assms by (auto simp: wfFile_def list_all_iff lineText_noCR)
  ultimately show ?thesis by (simp only: scanLines_def raw Let_def) simp
qed

section \<open>The depth bound\<close>

text \<open>Which files an Include reaches is decided before they are parsed; only the
  parser of the included files itself sees the depth.  Two clean parsers that agree
  on a state are interchangeable there.\<close>

lemma includeMatches_cong:
  "cleanParser pf \<Longrightarrow> \<forall>m. pf' m p = pf m p \<Longrightarrow>
   includeMatches w pf' ms es p = includeMatches w pf ms es p"
proof (induction ms arbitrary: es)
  case (Cons m ms)
  then show ?case by (auto split: option.split prod.split sum.split dest: cleanParserD)
qed simp

lemma includePaths_cong:
  "cleanParser pf \<Longrightarrow> \<forall>m. pf' m p = pf m p \<Longrightarrow>
   includePaths w pf' ps src es p = includePaths w pf ps src es p"
proof (induction ps arbitrary: es)
  case (Cons q ps)
  have "includeMatches w pf ms es p = (r, p') \<Longrightarrow> p' = p" for ms r p'
    using includeMatches_clean[OF Cons.prems(1), of w ms es p] by simp
  then show ?case using Cons includeMatches_cong[where pf = pf and pf' = pf' and p = p, OF Cons.prems(1,2)]
    by (auto split: prod.split sum.split)
qed simp

lemma lineLoop_cong:
  assumes "\<And>v src q. snd (inc v src q) = q" and "\<And>v src. inc' v src p = inc v src p"
  shows "lineLoop inc' name ls n cur es p = lineLoop inc name ls n cur es p"
proof (induction ls arbitrary: n cur es)
  case (Cons l ls)
  have inc: "inc v src p = (r, q') \<Longrightarrow> q' = p" for v src r q' using assms(1) by (metis snd_conv)
  show ?case
    by (auto simp: lineLoop.simps(2) Let_def Cons.IH assms(2) split: sum.split prod.split dest!: inc)
qed simp

lemma parseReader_cong:
  assumes "cleanParser pf" and "\<forall>m. pf' m p = pf m p"
  shows "parseReader w pf' r name p = parseReader w pf r name p"
proof -
  have "handleInclude w pf' v src p = handleInclude w pf v src p" for v src
    unfolding handleInclude_def
    by (rule includePaths_cong[where pf = pf and pf' = pf' and p = p, OF assms])
  then have "lineLoop (handleInclude w pf') name ls n cur es p =
      lineLoop (handleInclude w pf) name ls n cur es p" for ls n cur es
    by (intro lineLoop_cong handleInclude_clean[OF assms(1)])
  then show ?thesis by (simp add: parseReader_def)
qed

lemma parseOpened_cong:
  assumes "cleanParser pf" and agree: "\<And>m q. pMaxDepth q = pMaxDepth p \<Longrightarrow> pf' m q = pf m q"
  shows "parseOpened w pf' a p = parseOpened w pf a p"
proof -
  have "parseReader w pf' f a (p\<lparr>pVisited := V\<rparr>) = parseReader w pf f a (p\<lparr>pVisited := V\<rparr>)" for f V
    by (rule parseReader_cong[OF assms(1)]) (use agree in simp)
  then show ?thesis by (cases "wOpen w a") (simp_all add: parseOpened_def Let_def)
qed

lemma parseFile_step:
  "depth \<le> pMaxDepth p \<Longrightarrow>
   parseFile w path depth p =
     (case absPathOf w path of
        None \<Rightarrow> (Inl (Wrapf ''resolving path %q: %w'' [path] (ErrExt ''getwd'')), p)
      | Some a \<Rightarrow> parseOpened w (\<lambda>m. parseFile w m (depth + 1)) a p)"
proof -
  assume d: "depth \<le> pMaxDepth p"
  define k where "k = nat (pMaxDepth p - depth)"
  have k: "nat (pMaxDepth p + 1 - depth) = Suc k" using d by (simp add: k_def)
  have "parseOpened w (\<lambda>m. parseFile w m (depth + 1)) a p = parseOpened w (parseFileN k w) a p" for a
    by (rule parseOpened_cong[OF parseFileN_clean]) (simp add: parseFile_def k_def)
  then show ?thesis by (cases "absPathOf w path") (simp_all add: parseFile_def[of _ _ depth] k)
qed

section \<open>Properties\<close>

lemma parseReader_fileText:
  assumes "wfFile ls"
  shows "parseReader w pf (fileText ls, None) name p = (Inr (entriesOf name 0 [] ls), p)"
proof -
  have "list_all wfLine ls" using assms by (auto simp: wfFile_def list_all_iff)
  then show ?thesis by (simp add: parseReader_def scanLines_file[OF assms] lineLoop_file)
qed

text \<open>C5: parsing a printed configuration returns its directives in order, each with
  the source line it stands on and the conditions of the last Host or Match header
  before it.\<close>

theorem ParseString_fileText:
  assumes "wfFile ls"
  shows "ParseString w (fileText ls) name opts = Inr (entriesOf name 0 [] ls)"
  by (simp add: ParseString_def parseReader_fileText[OF assms])

definition demoFile :: "cline list" where
  "demoFile = [CommentLine '' demo'', DirLine ''User'' ''bob'', BlankLine,
     HostLine [\<lparr>hpPattern = ''*.org'', hpNegated = False\<rparr>, \<lparr>hpPattern = ''x.org'', hpNegated = True\<rparr>],
     DirLine ''Port'' ''2222'', MatchLine [MatchFieldCondition MatchFieldUser ''a b'' True],
     DirLine ''LogLevel'' ''QUIET'']"

definition demoOpts :: ParseOptions where
  "demoOpts = \<lparr>poBaseDir = ''/etc/ssh'', poIsUser = False, poMaxIncludeDepth = 0, poHomeDir = ''/root'',
     poTokenContext = None\<rparr>"

lemma demoFile_wf: "wfFile demoFile"
  by (simp add: wfFile_def demoFile_def maxTokenSize_def wfKeyword_def wfValue_def wfPat_def
      patText_def plainChar_def isSpace_def toLower_def lowerChar_def char_of_def
      wfCriteria_def bang_def renderCriteria_def wordText_def quoteTok_def)

theorem ParseString_fileText_witness:
  "ParseString emptyWorld (fileText demoFile) ''f'' demoOpts = Inr (entriesOf ''f'' 0 [] demoFile) \<and>
   length (entriesOf ''f'' 0 [] demoFile) = 3"
proof
  from demoFile_wf show "ParseString emptyWorld (fileText demoFile) ''f'' demoOpts = Inr (entriesOf ''f'' 0 [] demoFile)"
    by (rule ParseString_fileText)
  show "length (entriesOf ''f'' 0 [] demoFile) = 3" by (simp add: demoFile_def)
qed

text \<open>C28: parsing a file leaves the parser as it was, with the same marks on the files
  being parsed, on every path through the code, errors included; and the recursion
  through Include is the one of the code: too deep an include is an error, any other
  parses its file with the depth one greater.\<close>

theorem parseFile_recursion:
  "snd (parseFile w path depth p) = p \<and>
   parseFile w path depth p =
     (if depth > pMaxDepth p then
        (Inl (ParseError noSource
           (''Include depth exceeds maximum ('' @ itoaInt (pMaxDepth p) @ '')'')), p)
      else case absPathOf w path of
        None \<Rightarrow> (Inl (Wrapf ''resolving path %q: %w'' [path] (ErrExt ''getwd'')), p)
      | Some a \<Rightarrow> parseOpened w (\<lambda>m. parseFile w m (depth + 1)) a p)"
proof
  show "snd (parseFile w path depth p) = p"
    using parseFileN_clean[of _ w] by (simp add: parseFile_def cleanParser_def)
  have "depth > pMaxDepth p \<Longrightarrow> nat (pMaxDepth p + 1 - depth) = 0" by simp
  then show "parseFile w path depth p =
     (if depth > pMaxDepth p then
        (Inl (ParseError noSource
           (''Include depth exceeds maximum ('' @ itoaInt (pMaxDepth p) @ '')'')), p)
      else case absPathOf w path of
        None \<Rightarrow> (Inl (Wrapf ''resolving path %q: %w'' [path] (ErrExt ''getwd'')), p)
      | Some a \<Rightarrow> parseOpened w (\<lambda>m. parseFile w m (depth + 1)) a p)"
    using parseFile_step[of depth p w path] by (auto simp: parseFile_def)
qed

section \<open>Include inside a block\<close>

lemma expandEnv_id: "CHR ''$'' \<notin> set s \<Longrightarrow> ExpandEnvVars w s = Inr s"
  using expandEnvLoop_prefix[of s w s "[]"] by (simp add: ExpandEnvVars_def)

lemma splitUnquotedLoop_plain:
  "list_all plainChar t \<Longrightarrow> splitUnquotedLoop (t @ s) cur False = splitUnquotedLoop s (rev t @ cur) False"
  by (induction t arbitrary: cur) (auto simp: plainChar_def isSpace_def)

lemma splitUnquoted_plain: "list_all plainChar t \<Longrightarrow> t \<noteq> [] \<Longrightarrow> splitUnquoted t = [t]"
  using splitUnquotedLoop_plain[of t "[]" "[]"] by (simp add: splitUnquoted_def)

text \<open>An absolute path to one regular file whose content is a printed configuration.\<close>

definition plainPath :: "string \<Rightarrow> bool" where
  "plainPath path \<longleftrightarrow> hasPrefix path ''/'' \<and> Clean path = path \<and> list_all plainChar path \<and>
     CHR ''$'' \<notin> set path"

definition fileAt :: "World \<Rightarrow> string \<Rightarrow> cline list \<Rightarrow> bool" where
  "fileAt w path ls \<longleftrightarrow> wGlob w path = Inr [path] \<and> wStat w path = Some False \<and>
     wOpen w path = Inr (fileText ls, None) \<and> wfFile ls"

lemma newParser_depth: "0 < pMaxDepth (newParser w opts)"
  by (auto simp: newParser_def Let_def defaultMaxIncludeDepth_def)

lemma newParser_simps:
  "pVisited (newParser w opts) = {}"
  "poTokenContext (pOpts (newParser w opts)) = poTokenContext opts"
  by (auto simp: newParser_def Let_def split: option.split)

lemma includePath_plain:
  assumes "plainPath path" and "poTokenContext (pOpts p) = None"
  shows "includePath w p path = path"
proof -
  have "\<not> hasPrefix path ''~''" using assms(1) by (cases path) (auto simp: plainPath_def)
  then show ?thesis
    using assms by (simp add: includePath_def ExpandTilde_def expandEnv_id plainPath_def IsAbs_def)
qed

lemma parseFile_printed:
  assumes "IsAbs path" "Clean path = path" "wOpen w path = Inr (fileText ls, None)" "wfFile ls"
    and "path \<notin> pVisited p" "depth \<le> pMaxDepth p"
  shows "parseFile w path depth p = (Inr (entriesOf path 0 [] ls), p)"
proof -
  have a: "absPathOf w path = Some path" using assms(1,2) by (simp add: absPathOf_def)
  have ls: "list_all wfLine ls" using assms(4) by (auto simp: wfFile_def list_all_iff)
  have sc: "scanLines (fileText ls) = (map lineText ls, False)"
    using assms(4) scanLines_file by simp
  have "parseReader w pf (fileText ls, None) path q = (Inr (entriesOf path 0 [] ls), q)" for pf q
    by (simp add: parseReader_def sc lineLoop_file[OF ls])
  then have "parseOpened w pf path p = (Inr (entriesOf path 0 [] ls), p)" for pf
    using assms(3,5) by (simp add: parseOpened_def)
  moreover obtain k where "nat (pMaxDepth p + 1 - depth) = Suc k"
    using assms(6) by (cases "nat (pMaxDepth p + 1 - depth)") auto
  ultimately show ?thesis unfolding parseFile_def by (simp add: a)
qed

lemma parseFile_fileAt:
  assumes "plainPath path" "fileAt w path ls" "path \<notin> pVisited p" "0 < pMaxDepth p"
  shows "parseFile w path 1 p = (Inr (entriesOf path 0 [] ls), p)"
  using assms by (intro parseFile_printed) (auto simp: plainPath_def fileAt_def IsAbs_def)

lemma ParseFile_printed:
  assumes "IsAbs path" "Clean path = path" "wOpen w path = Inr (fileText ls, None)" "wfFile ls"
  shows "ParseFile w path opts = Inr (entriesOf path 0 [] ls)"
proof -
  have "parseFile w path 0 (newParser w opts) = (Inr (entriesOf path 0 [] ls), newParser w opts)"
    using newParser_depth[of w opts] by (intro parseFile_printed assms) (auto simp: newParser_simps)
  then show ?thesis by (simp add: ParseFile_def)
qed

lemma handleInclude_fileAt:
  assumes "plainPath path" "fileAt w path ls" "path \<notin> pVisited p" "0 < pMaxDepth p"
    and "poTokenContext (pOpts p) = None"
  shows "handleInclude w (\<lambda>m. parseFile w m 1) path src p = (Inr (entriesOf path 0 [] ls), p)"
proof -
  have "splitUnquoted path = [path]"
    using assms(1) by (intro splitUnquoted_plain) (auto simp: plainPath_def)
  moreover have "sort [path] = [path]" by simp
  ultimately show ?thesis
    using assms includePath_plain[OF assms(1,5)] parseFile_fileAt[OF assms(1-4)]
    by (simp add: handleInclude_def fileAt_def)
qed

lemma okText_path: "plainPath path \<Longrightarrow> okText path"
proof -
  assume p: "plainPath path"
  then obtain cs where c: "path = CHR ''/'' # cs" by (cases path) (auto simp: plainPath_def)
  have pl: "list_all plainChar path" using p by (simp add: plainPath_def)
  then have "plainChar (last path)" using c last_in_set[of path] by (simp add: list_all_iff)
  moreover have "stripLoop path False = path"
    using stripLoop_free[of path "[]"] plainChar_free[OF pl] by simp
  ultimately show ?thesis
    using c by (simp add: okText_def plainChar_def isBlank_def)
qed

text \<open>An Include inside a Host block splices in the entries of the file; the block's
  patterns reach only those that stand outside every block of the included file.  An
  entry under a Host or Match header of the included file loses the condition of the
  enclosing block.\<close>

theorem ParseString_include_in_block:
  assumes "wfLine (HostLine ps)" and "CHR 0x0A \<notin> set (lineText (HostLine ps))"
    and "length (lineText (HostLine ps)) < maxTokenSize"
    and "plainPath path" and "length path < 60000" and "fileAt w path ls"
    and "poTokenContext opts = None"
  shows "ParseString w (lineText (HostLine ps) @ [CHR 0x0A] @ ''Include '' @ path @ [CHR 0x0A]) name opts
         = Inr (inheritConditions [HostCondition ps] (entriesOf path 0 [] ls))"
proof -
  define p where "p = newParser w opts"
  have nl: "CHR 0x0A \<notin> set (''Include '' @ path)"
    using assms(4) by (auto simp: plainPath_def list_all_iff plainChar_def isSpace_def)
  have raw: "rawLines (lineText (HostLine ps) @ [CHR 0x0A] @ ''Include '' @ path @ [CHR 0x0A]) =
      [lineText (HostLine ps), ''Include '' @ path]"
    using split_append_sep[OF assms(2), of "''Include '' @ path @ [CHR 0x0A]"]
      split_append_sep[OF nl, of "[]"]
    by (simp add: rawLines_def)
  have ok: "okText path" using okText_path[OF assms(4)] .
  then have cr: "dropCR (''Include '' @ path) = ''Include '' @ path"
    by (auto simp: dropCR_def okText_def isSpace_def)
  have cr2: "dropCR (lineText (HostLine ps)) = lineText (HostLine ps)"
    using lineText_noCR assms(1) by blast
  have sc: "scanLines (lineText (HostLine ps) @ [CHR 0x0A] @ ''Include '' @ path @ [CHR 0x0A]) =
      ([lineText (HostLine ps), ''Include '' @ path], False)"
    unfolding scanLines_def raw using assms(3,5) cr cr2 by (simp add: maxTokenSize_def)
  have kw: "wfKeyword ''Include''" "toLower ''Include'' = ''include''"
    by (simp_all add: wfKeyword_def plainChar_def isSpace_def) code_simp
  have inc: "handleInclude w (\<lambda>m. parseFile w m 1) path src p = (Inr (entriesOf path 0 [] ls), p)" for src
    using assms newParser_depth newParser_simps
    by (intro handleInclude_fileAt) (simp_all add: p_def)
  have "lineLoop (handleInclude w (\<lambda>m. parseFile w m 1)) name
      [lineText (HostLine ps), ''Include '' @ path] 0 [] [] p =
      (Inr (inheritConditions [HostCondition ps] (entriesOf path 0 [] ls)), p)"
    using lineLoop_line[OF assms(1), of "handleInclude w (\<lambda>m. parseFile w m 1)" name "[]" 0 "[]" "[]" p]
      lineLoop_line[OF assms(1), of "handleInclude w (\<lambda>m. parseFile w m 1)" name "[DirLine ''Include'' path]" 0 "[]" "[]" p]
      ok kw inc lineLoop_directive[of "''Include''" path "handleInclude w (\<lambda>m. parseFile w m 1)" name "[]" "0 + 1"
        "[HostCondition ps]" "[]" p]
    by (simp add: okText_def)
  then show ?thesis
    unfolding ParseString_def parseReader_def prod.case Let_def sc p_def by simp
qed

text \<open>The witness: the included file holds a block for every host, so its directive
  applies to a host the enclosing block excludes.\<close>

definition hostPat :: "string \<Rightarrow> HostPattern" where
  "hostPat s = \<lparr>hpPattern = s, hpNegated = False\<rparr>"

definition innerFile :: "cline list" where
  "innerFile = [HostLine [hostPat ''*''], DirLine ''User'' ''bob'']"

definition innerWorld :: World where
  "innerWorld = emptyWorld\<lparr>wGlob := (\<lambda>_. Inr [''/inc'']), wStat := (\<lambda>_. Some False),
     wOpen := (\<lambda>_. Inr (fileText innerFile, None))\<rparr>"

theorem ParseString_include_in_block_witness:
  "\<exists>e. ParseString innerWorld
        (lineText (HostLine [hostPat ''a'']) @ [CHR 0x0A] @ ''Include '' @ ''/inc'' @ [CHR 0x0A])
        ''f'' demoOpts = Inr [e] \<and>
      EvaluateConditions (eConditions e) (emptyMatchContext\<lparr>mcHost := ''b''\<rparr>) \<and>
      \<not> condMatch (HostCondition [hostPat ''a'']) (emptyMatchContext\<lparr>mcHost := ''b''\<rparr>)"
proof -
  have w: "wfFile innerFile"
    by (simp add: wfFile_def innerFile_def hostPat_def wfPat_def patText_def plainChar_def isSpace_def
        maxTokenSize_def wfKeyword_def wfValue_def toLower_def lowerChar_def char_of_def)
  have "ParseString innerWorld
        (lineText (HostLine [hostPat ''a'']) @ [CHR 0x0A] @ ''Include '' @ ''/inc'' @ [CHR 0x0A])
        ''f'' demoOpts = Inr (inheritConditions [HostCondition [hostPat ''a'']]
          (entriesOf ''/inc'' 0 [] innerFile))"
    by (rule ParseString_include_in_block)
      (simp_all add: w fileAt_def innerWorld_def plainPath_def plainChar_def isSpace_def demoOpts_def
        hostPat_def wfPat_def patText_def maxTokenSize_def Clean_def)
  moreover have "glob ''*'' ''b''" using mp.mtch_glob mp.mtch_star_all by blast
  moreover have "\<not> matchPattern ''a'' ''b''" by code_simp
  ultimately show ?thesis
    by (simp add: inheritConditions_def innerFile_def hostPat_def EvaluateConditions_iff
        MatchPattern_def emptyMatchContext_def mp.mtch_glob)
qed

lemma entriesOf_append:
  "\<exists>es n' cur'. entriesOf name n cur (ls @ ms) = es @ entriesOf name n' cur' ms"
proof (induction ls arbitrary: n cur)
  case Nil
  show ?case by (intro exI[of _ "[]"] exI[of _ n] exI[of _ cur]) simp
next
  case (Cons l ls)
  then show ?case
    by (cases l) (simp_all, metis append_Cons)
qed

text \<open>A Match line without criteria ends the block before it, and what follows is
  unconditional: whatever the file says before, the next directive carries no
  condition and applies in every context.\<close>

theorem ParseString_empty_match:
  assumes "wfFile (ls @ [MatchLine [], DirLine k v])"
  shows "\<exists>es e. ParseString w (fileText (ls @ [MatchLine [], DirLine k v])) name opts = Inr (es @ [e]) \<and>
           dKeyword (eDirective e) = k \<and> dValue (eDirective e) = v \<and>
           EvaluateConditions (eConditions e) ctx"
proof -
  have f: "list_all wfLine (ls @ [MatchLine [], DirLine k v])"
    using assms by (auto simp: wfFile_def list_all_iff)
  obtain es n' cur' where "entriesOf name 0 [] (ls @ [MatchLine [], DirLine k v]) =
      es @ entriesOf name n' cur' [MatchLine [], DirLine k v]"
    using entriesOf_append by blast
  then have "ParseString w (fileText (ls @ [MatchLine [], DirLine k v])) name opts =
      Inr (es @ entriesOf name n' cur' [MatchLine [], DirLine k v])"
    by (simp add: ParseString_def parseReader_def scanLines_file[OF assms] lineLoop_file[OF f]
        del: map_append)
  then show ?thesis by (intro exI) auto
qed

theorem ParseString_empty_match_witness:
  "\<exists>es e. ParseString emptyWorld (fileText ([HostLine [hostPat ''a'']] @ [MatchLine [], DirLine ''User'' ''bob'']))
       ''f'' demoOpts = Inr (es @ [e]) \<and> dKeyword (eDirective e) = ''User'' \<and>
       dValue (eDirective e) = ''bob'' \<and> EvaluateConditions (eConditions e) emptyMatchContext"
  by (rule ParseString_empty_match)
    (simp add: wfFile_def hostPat_def wfPat_def patText_def plainChar_def isSpace_def
        maxTokenSize_def wfKeyword_def wfValue_def toLower_def lowerChar_def char_of_def wfCriteria_def)

text \<open>Two quoted words on one line lose the quotes at both ends of the line and keep
  those in the middle, so the words of an Include such as \<^verbatim>\<open>"a" "b"\<close> are read as the
  single word \<^verbatim>\<open>a b\<close>.\<close>

theorem parseLine_two_quoted:
  assumes "wfKeyword k" and "list_all plainChar a" and "list_all plainChar b" and "a @ b \<noteq> []"
  shows "\<exists>v. parseLine (k @ CHR '' '' # quoteTok a @ CHR '' '' # quoteTok b) = Inr (k, v) \<and>
         splitUnquoted v = [a @ CHR '' '' # b]"
proof -
  define u where "u = quoteTok a @ CHR '' '' # quoteTok b"
  define v where "v = a @ CHR 0x22 # CHR '' '' # CHR 0x22 # b"
  have u: "u = CHR 0x22 # v @ [CHR 0x22]" by (simp add: u_def v_def quoteTok_def)
  have k: "\<forall>c \<in> set k. \<not> isBlank c \<and> c \<noteq> CHR ''=''" "k \<noteq> []"
    using assms(1) by (auto simp: wfKeyword_def list_all_iff plainChar_def isSpace_def isBlank_def)
  have t: "takeWhile (\<lambda>c. \<not> isBlank c \<and> c \<noteq> CHR ''='') (k @ CHR '' '' # u) = k"
    using k by (subst takeWhile_append2) (auto simp: isBlank_def)
  have d: "dropWhile (\<lambda>c. \<not> isBlank c \<and> c \<noteq> CHR ''='') (k @ CHR '' '' # u) = CHR '' '' # u"
    using k by (subst dropWhile_append2) (auto simp: isBlank_def)
  have b: "dropWhile isBlank (CHR '' '' # u) = u" by (simp add: u isBlank_def)
  have "parseLine (k @ CHR '' '' # u) = Inr (k, v)"
    unfolding parseLine_def Let_def t d b using k(2) by (simp add: u)
  moreover have q: "splitUnquotedLoop (t @ s) cur False = splitUnquotedLoop s (rev t @ cur) False"
    if "list_all plainChar t" for t s cur using splitUnquotedLoop_plain[OF that] .
  have "splitUnquoted v = [a @ CHR '' '' # b]"
    using q[OF assms(2), of "CHR 0x22 # CHR '' '' # CHR 0x22 # b" "[]"]
      q[OF assms(3), of "[]" "CHR '' '' # rev a"]
    by (simp add: splitUnquoted_def v_def)
  ultimately show ?thesis unfolding u_def by blast
qed

theorem parseLine_two_quoted_witness:
  "\<exists>v. parseLine (''Include'' @ CHR '' '' # quoteTok ''a'' @ CHR '' '' # quoteTok ''b'') = Inr (''Include'', v) \<and>
     splitUnquoted v = [''a'' @ CHR '' '' # ''b'']"
  by (rule parseLine_two_quoted) (simp_all add: wfKeyword_def plainChar_def isSpace_def)

end
