(* ===== verification/ConfType.thy ===== *)
theory ConfType
  imports ConfRender
begin

text \<open>
  What every entry has that comes out of the parser, in the style of a type system: a typing
  predicate for patterns, conditions, directives and entries, and the proof that each
  function of the parser keeps it, through any nesting of included files.
\<close>

section \<open>Typing\<close>

definition oneLine :: "string \<Rightarrow> bool" where
  "oneLine s \<longleftrightarrow> CHR 0x0A \<notin> set s"

definition wtPattern :: "HostPattern \<Rightarrow> bool" where
  "wtPattern p \<longleftrightarrow> hpPattern p \<noteq> [] \<and> \<not> (hpNegated p = False \<and> hasPrefix (hpPattern p) ''!'')"

text \<open>Only commands and networks are negated from outside, and only once.\<close>

fun wtCond :: "Condition \<Rightarrow> bool" where
  "wtCond (HostCondition ps) \<longleftrightarrow> list_all wtPattern ps"
| "wtCond (MatchLocalNetworkCondition ns) \<longleftrightarrow> ns \<noteq> [] \<and> list_all (\<lambda>n. CHR '','' \<notin> set n) ns"
| "wtCond (MatchExecCondition cmd) \<longleftrightarrow> cmd \<noteq> []"
| "wtCond (MatchFieldCondition field pats neg) \<longleftrightarrow> pats \<noteq> []"
| "wtCond (MatchAddressCondition field pats neg) \<longleftrightarrow> pats \<noteq> []"
| "wtCond (negatedCondition (MatchExecCondition cmd)) \<longleftrightarrow> cmd \<noteq> []"
| "wtCond (negatedCondition (MatchLocalNetworkCondition ns)) \<longleftrightarrow> ns \<noteq> [] \<and> list_all (\<lambda>n. CHR '','' \<notin> set n) ns"
| "wtCond (negatedCondition c) \<longleftrightarrow> False"
| "wtCond c \<longleftrightarrow> True"

fun isHostCond :: "Condition \<Rightarrow> bool" where
  "isHostCond (HostCondition ps) = True"
| "isHostCond c = False"

text \<open>The conditions of a block: those of one Host line, or those of one Match line.\<close>

definition wtBlock :: "Condition list \<Rightarrow> bool" where
  "wtBlock cs \<longleftrightarrow> list_all wtCond cs \<and> ((\<exists>ps. cs = [HostCondition ps]) \<or> \<not> list_ex isHostCond cs)"

definition wtDirective :: "Directive \<Rightarrow> bool" where
  "wtDirective d \<longleftrightarrow>
     dKeyword d \<noteq> [] \<and> (\<forall>c \<in> set (dKeyword d). \<not> isBlank c \<and> c \<noteq> CHR ''='') \<and> oneLine (dKeyword d) \<and>
     toLower (dKeyword d) \<notin> {''host'', ''match'', ''include''} \<and> oneLine (dValue d) \<and> 1 \<le> srcLine (dSource d)"

definition wtEntry :: "Entry \<Rightarrow> bool" where
  "wtEntry e \<longleftrightarrow> wtBlock (eConditions e) \<and> wtDirective (eDirective e)"

section \<open>Conditions\<close>

lemma wtBlock_Nil [simp]: "wtBlock []"
  by (simp add: wtBlock_def)

lemma split_parts_no_sep: "f \<in> set (split s c) \<Longrightarrow> c \<notin> set f"
proof (induction s arbitrary: f)
  case (Cons x s)
  show ?case
  proof (cases "x = c")
    case False
    obtain g gs where g: "split s c = g # gs" by (metis list.exhaust split_not_Nil)
    then show ?thesis using Cons False by (auto simp: g)
  qed (use Cons in auto)
qed simp

lemma wtBlock_host: "wtBlock [HostCondition (ParseHostPatterns v)]"
proof -
  have "wtPattern p" if "p \<in> set (ParseHostPatterns v)" for p
  proof -
    have p: "hpPattern p \<noteq> []" "p \<in> hostPatternOf ` set (Fields v)" using that by (auto simp: ParseHostPatterns_def)
    from p(2) obtain f where "p = hostPatternOf f" by blast
    then show ?thesis using p(1) by (auto simp: wtPattern_def hostPatternOf_def split: if_splits)
  qed
  then show ?thesis by (auto simp: wtBlock_def list_all_iff)
qed

lemma criterion_wt:
  assumes "criterion keyword = Some f" and "arg \<noteq> []"
  shows "wtCond (f arg) \<and> \<not> isHostCond (f arg)"
proof -
  have n: "split arg CHR '','' \<noteq> []" "list_all (\<lambda>n. CHR '','' \<notin> set n) (split arg CHR '','')"
    using split_parts_no_sep by (auto simp: list_all_iff)
  show ?thesis
    using assms(1) n assms(2)
    by (auto simp: criterion_def argCriterion_def negCriterion_def split: if_splits option.splits)
qed

lemma plainCriterion_wt: "plainCriterion keyword = Some c \<Longrightarrow> wtCond c \<and> \<not> isHostCond c"
  by (auto simp: plainCriterion_def split: if_splits)

lemma tokens_not_Nil: "t \<in> set (tokenizeLoop s cur q) \<Longrightarrow> t \<noteq> []"
  by (induction s arbitrary: cur q) (auto split: if_splits)

lemma criteriaLoop_wt:
  "criteriaLoop ts cs = Inr cs' \<Longrightarrow> \<forall>t \<in> set ts. t \<noteq> [] \<Longrightarrow>
   list_all wtCond cs \<Longrightarrow> \<not> list_ex isHostCond cs \<Longrightarrow> list_all wtCond cs' \<and> \<not> list_ex isHostCond cs'"
proof (induction ts cs rule: criteriaLoop.induct)
  case (2 tok rest conditions)
  show ?case
  proof (cases "plainCriterion (toLower tok)")
    case (Some c)
    then show ?thesis
      using "2.prems" "2.IH"(2)[OF refl Some] plainCriterion_wt[OF Some] by (simp add: criteriaLoop.simps(2))
  next
    case None
    then obtain f where f: "criterion (toLower tok) = Some f"
      using "2.prems"(1) by (cases "criterion (toLower tok)") (auto simp: criteriaLoop.simps(2))
    then obtain arg rest' where r: "rest = arg # rest'"
      using "2.prems"(1) None by (cases rest) (auto simp: criteriaLoop.simps(2))
    have "arg \<noteq> []" using "2.prems"(2) r by simp
    then show ?thesis
      using "2.prems" "2.IH"(1)[OF refl None f r] criterion_wt[OF f] None f r
      by (simp add: criteriaLoop.simps(2))
  qed
qed simp

lemma wtBlock_match: "ParseMatchCriteria v = Inr cs \<Longrightarrow> wtBlock cs"
  using criteriaLoop_wt[of "tokenizeMatchArgs v" "[]" cs]
  by (auto simp: ParseMatchCriteria_def wtBlock_def tokenizeMatchArgs_def dest: tokens_not_Nil)

section \<open>Lines\<close>

lemma stripLoop_set: "set (stripLoop s q) \<subseteq> set s"
  by (induction s arbitrary: q) auto

lemma oneLine_prepared: "oneLine raw \<Longrightarrow> oneLine (trimSpace (stripComment raw))"
  using set_trimSpace[of "stripComment raw"] stripLoop_set[of raw False]
  by (auto simp: oneLine_def stripComment_def)

lemma set_value:
  assumes "v = (if length s \<ge> 2 \<and> hd s = q \<and> last s = q then butlast (tl s) else s)"
  shows "set v \<subseteq> set s"
proof -
  have "set (butlast (tl s)) \<subseteq> set s" by (cases s) (auto dest: in_set_butlastD)
  then show ?thesis using assms by auto
qed

lemma parseLine_wt:
  assumes "parseLine line = Inr (keyword, val)" and "oneLine line"
  shows "keyword \<noteq> [] \<and> (\<forall>c \<in> set keyword. \<not> isBlank c \<and> c \<noteq> CHR ''='') \<and> oneLine keyword \<and> oneLine val"
proof -
  let ?P = "\<lambda>c. \<not> isBlank c \<and> c \<noteq> CHR ''=''"
  define rest2 where "rest2 = dropWhile isBlank (dropWhile ?P line)"
  define v where "v = (if hasPrefix rest2 ''='' then dropWhile isBlank (drop 1 rest2) else rest2)"
  have k: "keyword = takeWhile ?P line" "keyword \<noteq> []"
    using assms(1) by (auto simp: parseLine_def Let_def split: if_splits)
  have "set v \<subseteq> set line"
    by (auto simp: v_def rest2_def split: if_splits dest!: set_dropWhileD in_set_dropD)
  moreover have "set val \<subseteq> set v"
  proof -
    have "parseLine line =
        (if takeWhile ?P line = [] then Inl (Errorf ''empty keyword'' [])
         else if v = [] then Inr (takeWhile ?P line, [])
         else if length v \<ge> 2 \<and> hd v = CHR 0x22 \<and> last v = CHR 0x22 then Inr (takeWhile ?P line, butlast (tl v))
         else Inr (takeWhile ?P line, v))"
      unfolding parseLine_def Let_def v_def rest2_def by (rule refl)
    then have "val = [] \<or>
        val = (if length v \<ge> 2 \<and> hd v = CHR 0x22 \<and> last v = CHR 0x22 then butlast (tl v) else v)"
      using assms(1) by (auto split: if_splits)
    then show ?thesis using set_value[of val v "CHR 0x22"] by auto
  qed
  ultimately show ?thesis
    using k assms(2) by (auto simp: oneLine_def dest: set_takeWhileD)
qed

lemma scanLines_oneLine: "l \<in> set (fst (scanLines s)) \<Longrightarrow> oneLine l"
proof -
  assume "l \<in> set (fst (scanLines s))"
  then obtain r where r: "r \<in> set (rawLines s)" "l = dropCR r"
    by (auto simp: scanLines_def Let_def dest: set_takeWhileD)
  have "r \<in> set (split s CHR 0x0A)" using r(1) by (auto simp: rawLines_def Let_def split: if_splits dest: in_set_butlastD)
  then show ?thesis using split_parts_no_sep r(2) by (auto simp: oneLine_def dropCR_def split: if_splits dest: in_set_butlastD)
qed

section \<open>Files\<close>

definition wtResult :: "parse_result \<Rightarrow> bool" where
  "wtResult r \<longleftrightarrow> (\<forall>es. fst r = Inr es \<longrightarrow> list_all wtEntry es)"

lemma wtResult_simps [simp]:
  "wtResult (Inl e, p)" "wtResult (Inr es, p) \<longleftrightarrow> list_all wtEntry es"
  by (simp_all add: wtResult_def)

definition wtParser :: "file_parser \<Rightarrow> bool" where
  "wtParser pf \<longleftrightarrow> (\<forall>m p. wtResult (pf m p))"

lemma wtParserD: "wtParser pf \<Longrightarrow> pf m p = r \<Longrightarrow> wtResult r"
  by (auto simp: wtParser_def)

lemma includeMatches_wt: "wtParser pf \<Longrightarrow> list_all wtEntry es \<Longrightarrow> wtResult (includeMatches w pf ms es p)"
  by (induction ms arbitrary: es p) (auto split: option.split prod.split sum.split dest: wtParserD)

lemma includePaths_wt: "wtParser pf \<Longrightarrow> list_all wtEntry es \<Longrightarrow> wtResult (includePaths w pf ps src es p)"
proof (induction ps arbitrary: es p)
  case (Cons q ps)
  have "includeMatches w pf ms es p = (Inr es', p') \<Longrightarrow> list_all wtEntry es'" for ms es' p'
    using includeMatches_wt[OF Cons.prems, of w ms p] by simp
  then show ?case using Cons by (auto split: prod.split sum.split)
qed simp

lemma handleInclude_wt: "wtParser pf \<Longrightarrow> wtResult (handleInclude w pf v src p)"
  by (simp add: handleInclude_def includePaths_wt)

lemma inherit_wt: "wtBlock cur \<Longrightarrow> list_all wtEntry es \<Longrightarrow> list_all wtEntry (inheritConditions cur es)"
  by (auto simp: inheritConditions_def list_all_iff wtEntry_def)

lemma lineLoop_wt:
  assumes "\<And>v src q. wtResult (inc v src q)"
  shows "list_all oneLine ls \<Longrightarrow> 0 \<le> n \<Longrightarrow> wtBlock cur \<Longrightarrow> list_all wtEntry es \<Longrightarrow>
    wtResult (lineLoop inc name ls n cur es p)"
proof (induction ls arbitrary: n cur es p)
  case (Cons raw ls)
  let ?line = "trimSpace (stripComment raw)"
  let ?src = "\<lparr>srcFile = name, srcLine = n + 1\<rparr>"
  note IH = Cons.IH[of "n + 1"]
  show ?case
  proof (cases "?line = []")
    case True
    then show ?thesis using Cons.prems IH by (simp add: lineLoop.simps(2) Let_def)
  next
    case False
    show ?thesis
    proof (cases "parseLine ?line")
      case (Inl e)
      then show ?thesis using False by (simp add: lineLoop.simps(2) Let_def)
    next
      case (Inr kv)
      obtain keyword v where kv: "kv = (keyword, v)" by (cases kv)
      have wt: "keyword \<noteq> [] \<and> (\<forall>c \<in> set keyword. \<not> isBlank c \<and> c \<noteq> CHR ''='') \<and> oneLine keyword \<and> oneLine v"
        using parseLine_wt Inr kv oneLine_prepared Cons.prems(1) by simp
      have inc: "inc v ?src p = (Inr included, p') \<Longrightarrow> list_all wtEntry included" for included p'
        using assms[of v ?src p] by simp
      let ?k = "toLower keyword"
      let ?e = "\<lparr>eConditions = cur, eDirective = \<lparr>dKeyword = keyword, dValue = v, dSource = ?src\<rparr>\<rparr>"
      have go: "wtBlock cur' \<Longrightarrow> list_all wtEntry es' \<Longrightarrow> wtResult (lineLoop inc name ls (n + 1) cur' es' p')"
        for cur' es' p' using Cons.prems IH by simp
      have step: "lineLoop inc name (raw # ls) n cur es p =
          (if ?k = ''host'' then lineLoop inc name ls (n + 1) [HostCondition (ParseHostPatterns v)] es p
           else if ?k = ''match'' then
             (case ParseMatchCriteria v of Inl e \<Rightarrow> (Inl (withSource ?src e), p)
              | Inr cs \<Rightarrow> lineLoop inc name ls (n + 1) cs es p)
           else if ?k = ''include'' then
             (case inc v ?src p of (Inl e, p') \<Rightarrow> (Inl e, p')
              | (Inr included, p') \<Rightarrow> lineLoop inc name ls (n + 1) cur (es @ inheritConditions cur included) p')
           else lineLoop inc name ls (n + 1) cur (es @ [?e]) p)"
        using False Inr kv by (simp add: lineLoop.simps(2) Let_def)
      consider "?k = ''host''" | "?k = ''match''" | "?k = ''include''"
        | "?k \<notin> {''host'', ''match'', ''include''}" by blast
      then show ?thesis
      proof cases
        case 1
        then show ?thesis unfolding step using go[OF wtBlock_host Cons.prems(4)] by simp
      next
        case 2
        then show ?thesis unfolding step using go[OF wtBlock_match Cons.prems(4)] by (simp split: sum.split)
      next
        case 3
        then show ?thesis
          unfolding step using go[OF Cons.prems(3)] inherit_wt[OF Cons.prems(3)] inc Cons.prems(4)
          by (simp split: sum.split prod.split)
      next
        case 4
        then have "wtEntry ?e" using wt Cons.prems(2,3) by (simp add: wtEntry_def wtDirective_def)
        then show ?thesis unfolding step using 4 go[OF Cons.prems(3)] Cons.prems(4) by simp
      qed
    qed
  qed
qed simp

lemma parseReader_wt:
  assumes "wtParser pf" shows "wtResult (parseReader w pf r name p)"
proof -
  have "wtResult (lineLoop (handleInclude w pf) name (fst (scanLines c)) 0 [] [] p)" for c
    by (rule lineLoop_wt) (auto simp: handleInclude_wt[OF assms] list_all_iff scanLines_oneLine)
  then have "scanLines c = (ls, b) \<Longrightarrow> lineLoop (handleInclude w pf) name ls 0 [] [] p = (Inr es, p') \<Longrightarrow>
      list_all wtEntry es" for c ls b es p' by (metis wtResult_simps(2) fst_conv)
  then show ?thesis
    by (auto simp: parseReader_def split: prod.split sum.split option.split)
qed

lemma parseOpened_wt:
  assumes "wtParser pf" shows "wtResult (parseOpened w pf a p)"
proof -
  have "parseReader w pf f a q = (Inr es, q') \<Longrightarrow> list_all wtEntry es" for f q es q'
    using parseReader_wt[OF assms] by (metis wtResult_simps(2))
  then show ?thesis by (auto simp: parseOpened_def Let_def wtResult_def split: prod.split sum.split)
qed

lemma parseFileN_wt: "wtParser (parseFileN n w)"
proof (induction n)
  case (Suc n)
  then show ?case by (auto simp: wtParser_def parseOpened_wt split: option.split)
qed (simp add: wtParser_def)

section \<open>The order of entries\<close>

text \<open>Places in files are ordered by file and line.\<close>

instantiation SourceInfo_ext :: (linorder) linorder
begin

definition less_eq_SourceInfo_ext :: "'a SourceInfo_scheme \<Rightarrow> 'a SourceInfo_scheme \<Rightarrow> bool" where
  "less_eq_SourceInfo_ext s t \<longleftrightarrow>
     srcFile s < srcFile t \<or> srcFile s = srcFile t \<and>
       (srcLine s < srcLine t \<or> srcLine s = srcLine t \<and> SourceInfo.more s \<le> SourceInfo.more t)"

definition less_SourceInfo_ext :: "'a SourceInfo_scheme \<Rightarrow> 'a SourceInfo_scheme \<Rightarrow> bool" where
  "less_SourceInfo_ext s t \<longleftrightarrow> s \<le> t \<and> \<not> t \<le> s"

instance
  by standard (auto simp: less_eq_SourceInfo_ext_def less_SourceInfo_ext_def intro: SourceInfo.equality)

end

definition placeOf :: "Entry \<Rightarrow> SourceInfo" where
  "placeOf e = dSource (eDirective e)"

text \<open>The entries of a file come in the order of their lines, each of a line of its own.\<close>

lemma entriesOf_after: "e \<in> set (entriesOf f n cur ls) \<Longrightarrow> srcFile (placeOf e) = f \<and> n < srcLine (placeOf e)"
  by (induction f n cur ls rule: entriesOf.induct) (fastforce simp: placeOf_def split: cline.splits)+

lemma entriesOf_sorted: "sorted_wrt (<) (map placeOf (entriesOf f n cur ls))"
proof (induction ls arbitrary: n cur)
  case (Cons l ls)
  show ?case
  proof (cases l)
    case (DirLine k v)
    have "\<lparr>srcFile = f, srcLine = n + 1\<rparr> < placeOf e" if "e \<in> set (entriesOf f (n + 1) cur ls)" for e
      using entriesOf_after[OF that] by (auto simp: less_SourceInfo_ext_def less_eq_SourceInfo_ext_def)
    then show ?thesis using Cons DirLine by (auto simp: placeOf_def)
  qed (use Cons in auto)
qed simp

lemma ParseString_sorted:
  "wfFile ls \<Longrightarrow> ParseString w (fileText ls) name opts = Inr es \<Longrightarrow> sorted (map placeOf es)"
  using entriesOf_sorted[of name 0 "[]" ls] by (auto simp: ParseString_def parseReader_fileText intro: strict_sorted_imp_sorted)

section \<open>Property\<close>

text \<open>C6: every entry the parser returns, for a file or a text and through all included files, is
  well typed: its keyword is a word that is no block and no include, keyword and value are
  on one line, its line number counts from one, and its conditions are those of one Host
  line or of one Match line, with arguments where they need them and negated at most once.\<close>

theorem parser_output_typed:
  assumes "ParseFile w path opts = Inr es \<or> ParseString w content name opts = Inr es"
  shows "list_all wtEntry es"
proof -
  have "wtResult (parseFile w path 0 (newParser w opts))"
    using wtParserD[OF parseFileN_wt] by (simp add: parseFile_def)
  moreover have "wtParser (\<lambda>m. parseFile w m 1)"
    unfolding wtParser_def parseFile_def using wtParserD[OF parseFileN_wt] by blast
  then have "wtResult (parseReader w (\<lambda>m. parseFile w m 1) (content, None) name (newParser w opts))"
    by (rule parseReader_wt)
  ultimately show ?thesis
    using assms by (auto simp: ParseFile_def ParseString_def wtResult_def)
qed

theorem parser_output_typed_witness:
  "ParseString emptyWorld (fileText demoFile) ''f'' demoOpts = Inr (entriesOf ''f'' 0 [] demoFile) \<and>
   length (entriesOf ''f'' 0 [] demoFile) = 3 \<and> list_all wtEntry (entriesOf ''f'' 0 [] demoFile)"
proof (intro conjI)
  show p: "ParseString emptyWorld (fileText demoFile) ''f'' demoOpts = Inr (entriesOf ''f'' 0 [] demoFile)"
    by (simp add: ParseString_def parseReader_fileText[OF demoFile_wf])
  show "length (entriesOf ''f'' 0 [] demoFile) = 3" by (simp add: demoFile_def)
  show "list_all wtEntry (entriesOf ''f'' 0 [] demoFile)"
    by (rule parser_output_typed) (rule disjI2, rule p)
qed

end
