(* ===== verification/OptStore.thy ===== *)
theory OptStore
  imports ConfTypes
begin

text \<open>
  Option stores.  The client and the server keep their options in a struct whose
  scalar fields are pointers, set once: the first value wins.  The scalar part of
  such a struct is viewed as a list of optional values, and merging two structs
  is, on this view, the pointwise \<^verbatim>\<open>first non-nil\<close>.  The locale states the
  contract of a function that applies one directive: its effect on the scalars is
  that of merging with what it does to an empty struct.
\<close>

datatype optval = VStr string | VBool bool | VInt int

type_synonym view = "optval option list"

definition mergeView :: "view \<Rightarrow> view \<Rightarrow> view" where
  "mergeView a b = map2 orElse a b"

lemma orElse_map [simp]: "orElse (map_option f a) (map_option f b) = map_option f (orElse a b)"
  by (cases a) auto

lemma mergeView_Nil [simp]: "mergeView [] [] = []"
  by (simp add: mergeView_def)

lemma mergeView_Cons [simp]: "mergeView (a # as) (b # bs) = orElse a b # mergeView as bs"
  by (simp add: mergeView_def)

lemma length_mergeView [simp]: "length a = length b \<Longrightarrow> length (mergeView a b) = length b"
  by (simp add: mergeView_def)

lemma mergeView_assoc:
  "length a = length b \<Longrightarrow> length b = length c \<Longrightarrow>
   mergeView (mergeView a b) c = mergeView a (mergeView b c)"
  by (induction a b c rule: list_induct3) (auto simp: orElse_assoc)

lemma mergeView_idem [simp]: "mergeView a a = a"
  by (induction a) auto

lemma mergeView_None [simp]: "mergeView a (replicate (length a) None) = a"
  by (induction a) auto

lemma mergeView_None_left: "mergeView (replicate (length a) None) a = a"
  by (induction a) auto

lemma mergeView_keeps: "length a = length b \<Longrightarrow> list_all2 ext a (mergeView a b)"
  by (induction a b rule: list_induct2) auto

lemma mergeView_again: "length a = length b \<Longrightarrow> mergeView (mergeView a b) b = mergeView a b"
  by (simp add: mergeView_assoc)

lemma mergeView_absorb: "list_all2 ext a b \<Longrightarrow> mergeView a b = b"
proof (induction rule: list_all2_induct)
  case (Cons x xs y ys)
  then show ?case by (cases x) auto
qed simp

section \<open>The contract\<close>

locale option_store =
  fixes app :: "Directive \<Rightarrow> 'o \<Rightarrow> go_error + 'o"
    and view :: "'o \<Rightarrow> view"
    and ign :: "'o \<Rightarrow> string list"
    and blank :: "string list \<Rightarrow> 'o"
    and size :: nat
  assumes view_length: "length (view s) = size"
    and view_blank: "view (blank g) = replicate size None"
    and ign_blank: "ign (blank g) = g"
    and app_delta: "app d s = Inr s' \<Longrightarrow>
      \<exists>e. app d (blank (ign s)) = Inr e \<and> ign e = ign s' \<and> view s' = mergeView (view s) (view e)"
    and app_error: "app d s = Inl x \<Longrightarrow> app d (blank (ign s)) = Inl x"
begin

text \<open>Two stores that ignore the same keywords run in lockstep: they fail together, and
  where they succeed the same values are merged into both.\<close>

definition lockstep :: "'o \<Rightarrow> 'o \<Rightarrow> (go_error + 'o) \<Rightarrow> (go_error + 'o) \<Rightarrow> bool" where
  "lockstep s t r r' \<longleftrightarrow>
     (\<exists>x. r = Inl x \<and> r' = Inl x) \<or>
     (\<exists>s' t' D. r = Inr s' \<and> r' = Inr t' \<and> ign s' = ign t' \<and> length D = size \<and>
        view s' = mergeView (view s) D \<and> view t' = mergeView (view t) D)"

lemma step_lockstep:
  assumes "ign s = ign t"
  shows "lockstep s t (app d s) (app d t)"
proof (cases "app d s")
  case (Inl x)
  then have b: "app d (blank (ign t)) = Inl x" using app_error assms by metis
  have "app d t = Inl x"
  proof (cases "app d t")
    case (Inl y)
    then show ?thesis using app_error b by fastforce
  next
    case (Inr t')
    then show ?thesis using app_delta b by fastforce
  qed
  then show ?thesis using Inl by (simp add: lockstep_def)
next
  case (Inr s')
  then obtain e where e: "app d (blank (ign s)) = Inr e" "ign e = ign s'"
    "view s' = mergeView (view s) (view e)" using app_delta by blast
  have "\<exists>t'. app d t = Inr t'"
    using app_error[of d t] e(1) assms by (cases "app d t") auto
  then obtain t' where t': "app d t = Inr t'" by blast
  then obtain e' where e': "app d (blank (ign t)) = Inr e'" "ign e' = ign t'"
    "view t' = mergeView (view t) (view e')" using app_delta by blast
  then have "e' = e" using e(1) assms by simp
  then show ?thesis using Inr t' e e' view_length by (auto simp: lockstep_def)
qed

lemma run_lockstep: "ign s = ign t \<Longrightarrow> lockstep s t (foldE app ds s) (foldE app ds t)"
proof (induction ds arbitrary: s t)
  case Nil
  have "view s = mergeView (view s) (replicate size None)" for s
    using mergeView_None[of "view s"] view_length by simp
  then show ?case using Nil by (auto simp: lockstep_def intro!: exI[of _ "replicate size None"])
next
  case (Cons d ds)
  from step_lockstep[OF Cons.prems, of d] show ?case
    unfolding lockstep_def[of s t "app d s"]
  proof (elim disjE exE conjE)
    fix x assume "app d s = Inl x" "app d t = Inl x"
    then show ?thesis by (simp add: lockstep_def)
  next
    fix s1 t1 D
    assume 1: "app d s = Inr s1" "app d t = Inr t1" "ign s1 = ign t1" "length D = size"
      "view s1 = mergeView (view s) D" "view t1 = mergeView (view t) D"
    have m: "mergeView (mergeView (view u) D) E = mergeView (view u) (mergeView D E)"
      if "length E = size" for E u
      using that 1(4) view_length by (simp add: mergeView_assoc)
    from Cons.IH[OF 1(3)] show ?thesis
      unfolding lockstep_def[of s1 t1]
    proof (elim disjE exE conjE)
      fix x assume "foldE app ds s1 = Inl x" "foldE app ds t1 = Inl x"
      then show ?thesis using 1 by (simp add: lockstep_def)
    next
      fix s2 t2 E
      assume 2: "foldE app ds s1 = Inr s2" "foldE app ds t1 = Inr t2" "ign s2 = ign t2"
        "length E = size" "view s2 = mergeView (view s1) E" "view t2 = mergeView (view t1) E"
      show ?thesis
        unfolding lockstep_def using 1 2 m[OF 2(4)]
        by (intro disjI2 exI[of _ s2] exI[of _ t2] exI[of _ "mergeView D E"]) simp
    qed
  qed
qed

text \<open>Running directives on a store merges in what they make of an empty one.\<close>

lemma run_delta:
  assumes "foldE app ds s = Inr s'"
  shows "\<exists>e. foldE app ds (blank (ign s)) = Inr e \<and> ign e = ign s' \<and>
         view s' = mergeView (view s) (view e)"
proof -
  have "lockstep s (blank (ign s)) (foldE app ds s) (foldE app ds (blank (ign s)))"
    by (rule run_lockstep) (simp add: ign_blank)
  then obtain e D where e: "foldE app ds (blank (ign s)) = Inr e" "ign s' = ign e"
    "length D = size" "view s' = mergeView (view s) D" "view e = mergeView (view (blank (ign s))) D"
    using assms by (auto simp: lockstep_def)
  then have "view e = D" using mergeView_None_left[of D] by (simp add: view_blank)
  then show ?thesis using e by simp
qed

lemma run_error:
  assumes "foldE app ds s = Inl x" shows "foldE app ds (blank (ign s)) = Inl x"
  using run_lockstep[of s "blank (ign s)" ds] assms by (auto simp: lockstep_def ign_blank)

lemma run_keeps:
  assumes "foldE app ds s = Inr s'" shows "list_all2 ext (view s) (view s')"
proof -
  obtain e where "view s' = mergeView (view s) (view e)" using run_delta[OF assms] by blast
  then show ?thesis using mergeView_keeps[of "view s" "view e"] view_length by simp
qed

text \<open>A second run of the same directives sets nothing.\<close>

lemma run_again:
  assumes "foldE app ds s = Inr s1" and "ign s1 = ign s" and "foldE app ds s1 = Inr s2"
  shows "view s2 = view s1"
proof -
  obtain e where e: "foldE app ds (blank (ign s)) = Inr e" "view s1 = mergeView (view s) (view e)"
    using run_delta[OF assms(1)] by blast
  obtain e' where "foldE app ds (blank (ign s1)) = Inr e'" "view s2 = mergeView (view s1) (view e')"
    using run_delta[OF assms(3)] by blast
  then have "view s2 = mergeView (view s1) (view e)" using e assms(2) by simp
  then show ?thesis using e(2) mergeView_again[of "view s" "view e"] view_length by simp
qed

end

end
