(* ===== verification/Dialer.thy ===== *)
theory Dialer
  imports GoNet
begin

text \<open>
  The shared dialer (\<^verbatim>\<open>pkg/dialer\<close>).  The connection itself is made by Go's
  \<^verbatim>\<open>net.Dialer\<close>; what is modelled is everything the package decides before: the
  rewritten network name, the time limit, the local address and the traffic class.
  Interfaces and name lookups are arguments.  An interface value the caller
  supplies (a wrapper, a handler) is known by an opaque handle.
\<close>

type_synonym handle = nat

text \<open>The value of a 64-bit signed computation.\<close>

definition wrap64 :: "int \<Rightarrow> int" where
  "wrap64 i = sint (word_of_int i :: 64 word)"

lemma wrap64_id: "minInt \<le> i \<Longrightarrow> i \<le> maxInt \<Longrightarrow> wrap64 i = i"
proof -
  assume "minInt \<le> i" "i \<le> maxInt"
  then have "signed_take_bit 63 i = i"
    by (intro signed_take_bit_int_eq_self) (auto simp: minInt_def maxInt_def)
  then show ?thesis unfolding wrap64_def sint_sbintrunc' by simp
qed

record DialConfig =
  dcAddressFamily :: string
  dcBindAddress :: string
  dcBindInterface :: string
  dcConnectTimeout :: int
  dcIPQoS :: string
  dcProxyCommand :: string
  dcProxyJump :: string
  dcProxyUseFdpass :: bool
  dcWrapper :: "handle option"

definition emptyDialConfig :: DialConfig where
  "emptyDialConfig = \<lparr>dcAddressFamily = [], dcBindAddress = [], dcBindInterface = [],
     dcConnectTimeout = 0, dcIPQoS = [], dcProxyCommand = [], dcProxyJump = [],
     dcProxyUseFdpass = False, dcWrapper = None\<rparr>"

text \<open>A dialer is the base dialer of a configuration or a wrapper around it.\<close>

datatype Dialer = ConfiguredDialer DialConfig | WrappedDialer handle Dialer DialConfig

definition GetDialer :: "DialConfig \<Rightarrow> Dialer" where
  "GetDialer cfg =
     (let base = ConfiguredDialer cfg in
      case dcWrapper cfg of None \<Rightarrow> base | Some wr \<Rightarrow> WrappedDialer wr base cfg)"

definition Network :: "DialConfig \<Rightarrow> string \<Rightarrow> string" where
  "Network cfg network =
     (let fam = toLower (dcAddressFamily cfg) in
      if fam = ''inet'' then
        (if network = ''tcp'' then ''tcp4'' else if network = ''udp'' then ''udp4'' else network)
      else if fam = ''inet6'' then
        (if network = ''tcp'' then ''tcp6'' else if network = ''udp'' then ''udp6'' else network)
      else network)"

definition networkMatchesIP :: "string \<Rightarrow> IP option \<Rightarrow> bool" where
  "networkMatchesIP network ip =
     (case ip of
        None \<Rightarrow> False
      | Some a \<Rightarrow>
          if hasSuffix network ''4'' then To4 a \<noteq> None
          else if hasSuffix network ''6'' then To4 a = None
          else True)"

datatype NetAddr = UDPAddr IP string | TCPAddr IP string

definition tcpOrUDPAddr :: "string \<Rightarrow> IP \<Rightarrow> string \<Rightarrow> NetAddr" where
  "tcpOrUDPAddr network ip zone = (if hasPrefix network ''udp'' then UDPAddr ip zone else TCPAddr ip zone)"

definition parseIPAndZone :: "string \<Rightarrow> IP option \<times> string" where
  "parseIPAndZone host0 =
     (let host = trimSpace host0 in
      case lastIndexByte host CHR ''%'' of
        Some (Suc i) \<Rightarrow>
          (case ParseIP (take (Suc i) host) of
             Some ip \<Rightarrow> (Some ip, drop (Suc (Suc i)) host)
           | None \<Rightarrow> (ParseIP host, []))
      | _ \<Rightarrow> (ParseIP host, []))"

text \<open>The addresses of an interface, by their Go types.\<close>

datatype IfaceAddr = IfaceIPAddr "IP option" string | IfaceIPNet "IP option" | IfaceOther

definition IsLinkLocalUnicast :: "IP \<Rightarrow> bool" where
  "IsLinkLocalUnicast ip =
     (case To4 ip of
        Some q \<Rightarrow> q ! 0 = 169 \<and> q ! 1 = 254
      | None \<Rightarrow> length ip = 16 \<and> ip ! 0 = 254 \<and> unat (ip ! 1) div 64 = 2)"

fun interfaceIP :: "IfaceAddr \<Rightarrow> string \<Rightarrow> IP option \<times> string" where
  "interfaceIP (IfaceIPAddr ip zone) ifaceName = (ip, zone)"
| "interfaceIP (IfaceIPNet ip) ifaceName =
     (ip, case ip of
            Some a \<Rightarrow> if To4 a = None \<and> IsLinkLocalUnicast a then ifaceName else []
          | None \<Rightarrow> [])"
| "interfaceIP IfaceOther ifaceName = (None, [])"

record NetWorld =
  nwInterface :: "string \<Rightarrow> go_error + string \<times> (go_error + IfaceAddr list)"
  nwLookupIPAddr :: "string \<Rightarrow> go_error + (IP \<times> string) list"

fun firstMatching :: "string \<Rightarrow> (IP option \<times> string) list \<Rightarrow> (IP \<times> string) option" where
  "firstMatching network [] = None"
| "firstMatching network ((ip, zone) # rest) =
     (case ip of
        Some a \<Rightarrow> if networkMatchesIP network (Some a) then Some (a, zone) else firstMatching network rest
      | None \<Rightarrow> firstMatching network rest)"

definition resolveBindHost :: "NetWorld \<Rightarrow> string \<Rightarrow> string \<Rightarrow> go_error + IP \<times> string" where
  "resolveBindHost w host network =
     (case parseIPAndZone host of
        (Some ip, zone) \<Rightarrow>
          if \<not> networkMatchesIP network (Some ip)
          then Inl (Errorf ''bind address %q does not match %s'' [host, network])
          else Inr (ip, zone)
      | (None, _) \<Rightarrow>
          (case nwLookupIPAddr w host of
             Inl e \<Rightarrow> Inl (Wrapf ''resolve bind address %q: %w'' [host] e)
           | Inr addrs \<Rightarrow>
               (case firstMatching network (map (\<lambda>(a, z). (Some a, z)) addrs) of
                  Some r \<Rightarrow> Inr r
                | None \<Rightarrow> Inl (Errorf ''bind address %q has no address for %s'' [host, network]))))"

definition localAddr :: "NetWorld \<Rightarrow> DialConfig \<Rightarrow> string \<Rightarrow> go_error + NetAddr option" where
  "localAddr w cfg network =
     (if dcBindAddress cfg \<noteq> [] then
        bindE (resolveBindHost w (dcBindAddress cfg) network)
          (\<lambda>(ip, zone). Inr (Some (tcpOrUDPAddr network ip zone)))
      else if dcBindInterface cfg = [] then Inr None
      else
        (case nwInterface w (dcBindInterface cfg) of
           Inl e \<Rightarrow> Inl (Wrapf ''resolve bind interface %q: %w'' [dcBindInterface cfg] e)
         | Inr (name, Inl e) \<Rightarrow> Inl (Wrapf ''resolve bind interface %q: %w'' [dcBindInterface cfg] e)
         | Inr (name, Inr addrs) \<Rightarrow>
             (case firstMatching network (map (\<lambda>a. interfaceIP a name) addrs) of
                Some (ip, zone) \<Rightarrow> Inr (Some (tcpOrUDPAddr network ip zone))
              | None \<Rightarrow> Inl (Errorf ''bind interface %q has no address for %s''
                               [dcBindInterface cfg, network]))))"

section \<open>Traffic class\<close>

definition ipQoSNames :: "(string \<times> int) list" where
  "ipQoSNames =
     [(''af11'', 10 * 4), (''af12'', 12 * 4), (''af13'', 14 * 4),
      (''af21'', 18 * 4), (''af22'', 20 * 4), (''af23'', 22 * 4),
      (''af31'', 26 * 4), (''af32'', 28 * 4), (''af33'', 30 * 4),
      (''af41'', 34 * 4), (''af42'', 36 * 4), (''af43'', 38 * 4),
      (''cs0'', 0 * 4), (''cs1'', 8 * 4), (''cs2'', 16 * 4), (''cs3'', 24 * 4),
      (''cs4'', 32 * 4), (''cs5'', 40 * 4), (''cs6'', 48 * 4), (''cs7'', 56 * 4),
      (''ef'', 46 * 4), (''le'', 1 * 4)]"

text \<open>\<^term>\<open>Inr None\<close>: no traffic class is set.\<close>

definition parseIPQoS :: "string \<Rightarrow> go_error + int option" where
  "parseIPQoS value =
     (case Fields (toLower value) of
        [] \<Rightarrow> Inr None
      | token # _ \<Rightarrow>
          if token = [] \<or> token = ''none'' then Inr None
          else case atoi token of
            Some v \<Rightarrow> if v < 0 \<or> v > 255 then Inl (Errorf ''invalid IPQoS value %q'' [token])
                      else Inr (Some v)
          | None \<Rightarrow>
              (case map_of ipQoSNames token of
                 Some v \<Rightarrow> Inr (Some v)
               | None \<Rightarrow> Inl (Errorf ''invalid IPQoS value %q'' [token])))"

text \<open>What \<^verbatim>\<open>DialContext\<close> hands to the standard dialer.\<close>

record DialPlan =
  dpNetwork :: string
  dpAddr :: string
  dpTimeout :: "int option"
  dpLocalAddr :: "NetAddr option"
  dpTrafficClass :: "int option"

definition DialContext :: "NetWorld \<Rightarrow> DialConfig \<Rightarrow> string \<Rightarrow> string \<Rightarrow> go_error + DialPlan" where
  "DialContext w cfg network0 addr =
     (let network = Network cfg network0 in
      bindE (localAddr w cfg network) (\<lambda>la.
      bindE (parseIPQoS (dcIPQoS cfg)) (\<lambda>tc.
        Inr \<lparr>dpNetwork = network, dpAddr = addr,
             dpTimeout = (if dcConnectTimeout cfg > 0 then Some (dcConnectTimeout cfg) else None),
             dpLocalAddr = la, dpTrafficClass = tc\<rparr>)))"

text \<open>Setting the traffic class: the socket options tried, in order, and the error.
  The result of a socket call is an argument; its error is ignorable or not.\<close>

datatype SockOpt = IP_TOS | IPV6_TCLASS
datatype SockResult = SockOk | SockIgnorable | SockFail

definition applyTrafficClass :: "(SockOpt \<Rightarrow> SockResult) \<Rightarrow> string \<Rightarrow> SockOpt list \<times> bool" where
  "applyTrafficClass sock network =
     (if hasSuffix network ''4'' then ([IP_TOS], sock IP_TOS = SockOk)
      else if hasSuffix network ''6'' then ([IPV6_TCLASS], sock IPV6_TCLASS = SockOk)
      else case sock IP_TOS of
        SockOk \<Rightarrow> ([IP_TOS], True)
      | SockFail \<Rightarrow> ([IP_TOS], False)
      | SockIgnorable \<Rightarrow> ([IP_TOS, IPV6_TCLASS], sock IPV6_TCLASS = SockOk))"

section \<open>Lemmas\<close>

lemma firstMatching_matches:
  "firstMatching network l = Some (a, z) \<Longrightarrow> networkMatchesIP network (Some a) \<and> (Some a, z) \<in> set l"
  by (induction network l rule: firstMatching.induct) (auto split: option.splits if_splits)

lemma ipQoSNames_range: "map_of ipQoSNames t = Some v \<Longrightarrow> 0 \<le> v \<and> v \<le> 255"
proof -
  assume "map_of ipQoSNames t = Some v"
  then have "(t, v) \<in> set ipQoSNames" by (rule map_of_SomeD)
  moreover have "list_all (\<lambda>(t, v). 0 \<le> v \<and> v \<le> (255::int)) ipQoSNames" by (simp add: ipQoSNames_def)
  ultimately show ?thesis by (auto simp: list_all_iff)
qed

lemma parseIPQoS_range: "parseIPQoS s = Inr (Some v) \<Longrightarrow> 0 \<le> v \<and> v \<le> 255"
  by (auto simp: parseIPQoS_def split: list.splits if_splits option.splits dest: ipQoSNames_range)

lemma resolveBindHost_matches:
  "resolveBindHost w host network = Inr (ip, zone) \<Longrightarrow> networkMatchesIP network (Some ip)"
  by (auto simp: resolveBindHost_def split: prod.splits option.splits if_splits sum.splits
      dest!: firstMatching_matches)

fun addrIP :: "NetAddr \<Rightarrow> IP" where
  "addrIP (UDPAddr ip z) = ip"
| "addrIP (TCPAddr ip z) = ip"

lemma addrIP_tcpOrUDP [simp]: "addrIP (tcpOrUDPAddr n ip z) = ip"
  by (simp add: tcpOrUDPAddr_def)

lemma localAddr_matches:
  "localAddr w cfg network = Inr (Some a) \<Longrightarrow> networkMatchesIP network (Some (addrIP a))"
  by (auto simp: localAddr_def bindE_Inr_iff split: if_splits sum.splits prod.splits option.splits
      dest!: resolveBindHost_matches firstMatching_matches)

text \<open>The address family is respected to the end: when the configuration asks for one
  family, a connection is opened on the network of that family, from a local address
  of that family if any, and with a traffic class that fits in a byte.\<close>

theorem DialContext_family:
  assumes "DialContext w cfg ''tcp'' addr = Inr p"
  shows "dpNetwork p = Network cfg ''tcp'' \<and>
     (case dpLocalAddr p of None \<Rightarrow> True | Some a \<Rightarrow> networkMatchesIP (dpNetwork p) (Some (addrIP a))) \<and>
     (case dpTrafficClass p of None \<Rightarrow> True | Some v \<Rightarrow> 0 \<le> v \<and> v \<le> 255) \<and>
     (toLower (dcAddressFamily cfg) = ''inet'' \<longrightarrow> dpNetwork p = ''tcp4'') \<and>
     (toLower (dcAddressFamily cfg) = ''inet6'' \<longrightarrow> dpNetwork p = ''tcp6'')"
  using assms
  by (auto simp: DialContext_def Let_def bindE_Inr_iff Network_def
      dest: localAddr_matches parseIPQoS_range split: option.split)

definition deadNet :: NetWorld where
  "deadNet = \<lparr>nwInterface = (\<lambda>n. Inl (ErrExt n)), nwLookupIPAddr = (\<lambda>n. Inl (ErrExt n))\<rparr>"

theorem DialContext_family_witness:
  "\<exists>p. DialContext deadNet (emptyDialConfig\<lparr>dcAddressFamily := ''inet6'', dcIPQoS := ''ef none''\<rparr>) ''tcp'' ''h:22''
     = Inr p \<and> dpNetwork p = ''tcp6'' \<and> dpTrafficClass p = Some 184"
proof -
  define cfg where "cfg = emptyDialConfig\<lparr>dcAddressFamily := ''inet6'', dcIPQoS := ''ef none''\<rparr>"
  have f: "Network cfg ''tcp'' = ''tcp6''" "parseIPQoS (dcIPQoS cfg) = Inr (Some 184)"
    "localAddr deadNet cfg ''tcp6'' = Inr None" "toLower (dcAddressFamily cfg) = ''inet6''"
    unfolding cfg_def by code_simp+
  then obtain p where p: "DialContext deadNet cfg ''tcp'' ''h:22'' = Inr p" "dpTrafficClass p = Some 184"
    by (simp add: DialContext_def Let_def)
  with DialContext_family[OF p(1)] f(4) show ?thesis by (auto simp: cfg_def)
qed

end
