(* ===== verification/ClientOptions.thy ===== *)
theory ClientOptions
  imports OptStore Dialer
begin

text \<open>
  The options of the client (\<^verbatim>\<open>pkg/sshclient/config.go\<close>), their defaults
  (\<^verbatim>\<open>defaults.go\<close>), the merge of two option structs (\<^verbatim>\<open>mergeOptions\<close> of
  \<^verbatim>\<open>resolve.go\<close>) and the derived dialer configuration (\<^verbatim>\<open>dialer.go\<close>).  A pointer
  field is an option; the slices for which the code tells nil from empty are
  options of lists; the field names carry a \<^verbatim>\<open>c\<close> in front.
\<close>

section \<open>The options\<close>

record Forward =
  fwBindAddress :: string
  fwBindPort :: string
  fwHost :: string
  fwHostPort :: string

definition emptyForward :: Forward where
  "emptyForward = \<lparr>fwBindAddress = [], fwBindPort = [], fwHost = [], fwHostPort = []\<rparr>"

record ClientOptions =
  cAddressFamily :: "string option"
  cBatchMode :: "bool option"
  cBindAddress :: "string option"
  cBindInterface :: "string option"
  cConnectTimeout :: "int option"
  cConnectionAttempts :: "int option"
  cTCPKeepAlive :: "bool option"
  cServerAliveInterval :: "int option"
  cServerAliveCountMax :: "int option"
  cCompression :: "bool option"
  cHostname :: "string option"
  cPort :: "int option"
  cCanonicalDomains :: "string list option"
  cCanonicalizeFallbackLocal :: "bool option"
  cCanonicalizeHostname :: "string option"
  cCanonicalizeMaxDots :: "int option"
  cCanonicalizePermittedCNAMEs :: "string list option"
  cUser :: "string option"
  cIdentityFile :: "string list"
  cIdentitiesOnly :: "bool option"
  cIdentityAgent :: "string option"
  cCertificateFile :: "string list"
  cPasswordAuthentication :: "bool option"
  cKbdInteractiveAuthentication :: "bool option"
  cKbdInteractiveDevices :: "string option"
  cPubkeyAuthentication :: "string option"
  cPubkeyAcceptedAlgorithms :: "string option"
  cPreferredAuthentications :: "string option"
  cNumberOfPasswordPrompts :: "int option"
  cHostbasedAuthentication :: "bool option"
  cHostbasedAcceptedAlgorithms :: "string option"
  cEnableSSHKeysign :: "bool option"
  cGSSAPIAuthentication :: "bool option"
  cGSSAPIDelegateCredentials :: "bool option"
  cAddKeysToAgent :: "string option"
  cCiphers :: "string option"
  cKexAlgorithms :: "string option"
  cMACs :: "string option"
  cCASignatureAlgorithms :: "string option"
  cHostKeyAlgorithms :: "string option"
  cRekeyLimit :: "string option"
  cRequiredRSASize :: "int option"
  cFingerprintHash :: "string option"
  cWarnWeakCrypto :: "string option"
  cCheckHostIP :: "bool option"
  cGlobalKnownHostsFile :: "string option"
  cUserKnownHostsFile :: "string option"
  cHashKnownHosts :: "bool option"
  cStrictHostKeyChecking :: "string option"
  cHostKeyAlias :: "string option"
  cKnownHostsCommand :: "string option"
  cRevokedHostKeys :: "string option"
  cUpdateHostKeys :: "string option"
  cVerifyHostKeyDNS :: "string option"
  cNoHostAuthenticationForLocalhost :: "bool option"
  cProxyCommand :: "string option"
  cProxyJump :: "string option"
  cProxyUseFdpass :: "bool option"
  cLocalForward :: "Forward list"
  cRemoteForward :: "Forward list"
  cDynamicForward :: "string list"
  cClearAllForwardings :: "bool option"
  cExitOnForwardFailure :: "bool option"
  cGatewayPorts :: "bool option"
  cPermitRemoteOpen :: "string list option"
  cStreamLocalBindMask :: "string option"
  cStreamLocalBindUnlink :: "bool option"
  cForwardAgent :: "string option"
  cForwardX11 :: "bool option"
  cForwardX11Timeout :: "int option"
  cForwardX11Trusted :: "bool option"
  cXAuthLocation :: "string option"
  cTunnel :: "string option"
  cTunnelDevice :: "string option"
  cRequestTTY :: "string option"
  cSessionType :: "string option"
  cRemoteCommand :: "string option"
  cSendEnv :: "string list"
  cSetEnv :: "string list"
  cEscapeChar :: "string option"
  cIPQoS :: "string option"
  cLogLevel :: "string option"
  cLogVerbose :: "string list"
  cTag :: "string option"
  cChannelTimeout :: "string list"
  cControlMaster :: "string option"
  cControlPath :: "string option"
  cControlPersist :: "string option"
  cPermitLocalCommand :: "bool option"
  cLocalCommand :: "string option"
  cVisualHostKey :: "bool option"
  cForkAfterAuthentication :: "bool option"
  cStdinNull :: "bool option"
  cEnableEscapeCommandline :: "bool option"
  cObscureKeystrokeTiming :: "string option"
  cVersionAddendum :: "string option"
  cPKCS11Provider :: "string option"
  cSecurityKeyProvider :: "string option"
  cIgnoreUnknown :: "string option"
  cRefuseConnection :: "string option"
  cSyslogFacility :: "string option"
  cIgnoredKeywords :: "string list"
  cDialerConfig :: DialConfig

definition emptyOptions :: ClientOptions where
  "emptyOptions = \<lparr>cAddressFamily = None,
     cBatchMode = None,
     cBindAddress = None,
     cBindInterface = None,
     cConnectTimeout = None,
     cConnectionAttempts = None,
     cTCPKeepAlive = None,
     cServerAliveInterval = None,
     cServerAliveCountMax = None,
     cCompression = None,
     cHostname = None,
     cPort = None,
     cCanonicalDomains = None,
     cCanonicalizeFallbackLocal = None,
     cCanonicalizeHostname = None,
     cCanonicalizeMaxDots = None,
     cCanonicalizePermittedCNAMEs = None,
     cUser = None,
     cIdentityFile = [],
     cIdentitiesOnly = None,
     cIdentityAgent = None,
     cCertificateFile = [],
     cPasswordAuthentication = None,
     cKbdInteractiveAuthentication = None,
     cKbdInteractiveDevices = None,
     cPubkeyAuthentication = None,
     cPubkeyAcceptedAlgorithms = None,
     cPreferredAuthentications = None,
     cNumberOfPasswordPrompts = None,
     cHostbasedAuthentication = None,
     cHostbasedAcceptedAlgorithms = None,
     cEnableSSHKeysign = None,
     cGSSAPIAuthentication = None,
     cGSSAPIDelegateCredentials = None,
     cAddKeysToAgent = None,
     cCiphers = None,
     cKexAlgorithms = None,
     cMACs = None,
     cCASignatureAlgorithms = None,
     cHostKeyAlgorithms = None,
     cRekeyLimit = None,
     cRequiredRSASize = None,
     cFingerprintHash = None,
     cWarnWeakCrypto = None,
     cCheckHostIP = None,
     cGlobalKnownHostsFile = None,
     cUserKnownHostsFile = None,
     cHashKnownHosts = None,
     cStrictHostKeyChecking = None,
     cHostKeyAlias = None,
     cKnownHostsCommand = None,
     cRevokedHostKeys = None,
     cUpdateHostKeys = None,
     cVerifyHostKeyDNS = None,
     cNoHostAuthenticationForLocalhost = None,
     cProxyCommand = None,
     cProxyJump = None,
     cProxyUseFdpass = None,
     cLocalForward = [],
     cRemoteForward = [],
     cDynamicForward = [],
     cClearAllForwardings = None,
     cExitOnForwardFailure = None,
     cGatewayPorts = None,
     cPermitRemoteOpen = None,
     cStreamLocalBindMask = None,
     cStreamLocalBindUnlink = None,
     cForwardAgent = None,
     cForwardX11 = None,
     cForwardX11Timeout = None,
     cForwardX11Trusted = None,
     cXAuthLocation = None,
     cTunnel = None,
     cTunnelDevice = None,
     cRequestTTY = None,
     cSessionType = None,
     cRemoteCommand = None,
     cSendEnv = [],
     cSetEnv = [],
     cEscapeChar = None,
     cIPQoS = None,
     cLogLevel = None,
     cLogVerbose = [],
     cTag = None,
     cChannelTimeout = [],
     cControlMaster = None,
     cControlPath = None,
     cControlPersist = None,
     cPermitLocalCommand = None,
     cLocalCommand = None,
     cVisualHostKey = None,
     cForkAfterAuthentication = None,
     cStdinNull = None,
     cEnableEscapeCommandline = None,
     cObscureKeystrokeTiming = None,
     cVersionAddendum = None,
     cPKCS11Provider = None,
     cSecurityKeyProvider = None,
     cIgnoreUnknown = None,
     cRefuseConnection = None,
     cSyslogFacility = None,
     cIgnoredKeywords = [],
     cDialerConfig = emptyDialConfig\<rparr>"

text \<open>The scalar fields, in the order of the struct.\<close>

definition scalars :: "ClientOptions \<Rightarrow> optval option list" where
  "scalars o1 =
     [map_option VStr (cAddressFamily o1),
      map_option VBool (cBatchMode o1),
      map_option VStr (cBindAddress o1),
      map_option VStr (cBindInterface o1),
      map_option VInt (cConnectTimeout o1),
      map_option VInt (cConnectionAttempts o1),
      map_option VBool (cTCPKeepAlive o1),
      map_option VInt (cServerAliveInterval o1),
      map_option VInt (cServerAliveCountMax o1),
      map_option VBool (cCompression o1),
      map_option VStr (cHostname o1),
      map_option VInt (cPort o1),
      map_option VBool (cCanonicalizeFallbackLocal o1),
      map_option VStr (cCanonicalizeHostname o1),
      map_option VInt (cCanonicalizeMaxDots o1),
      map_option VStr (cUser o1),
      map_option VBool (cIdentitiesOnly o1),
      map_option VStr (cIdentityAgent o1),
      map_option VBool (cPasswordAuthentication o1),
      map_option VBool (cKbdInteractiveAuthentication o1),
      map_option VStr (cKbdInteractiveDevices o1),
      map_option VStr (cPubkeyAuthentication o1),
      map_option VStr (cPubkeyAcceptedAlgorithms o1),
      map_option VStr (cPreferredAuthentications o1),
      map_option VInt (cNumberOfPasswordPrompts o1),
      map_option VBool (cHostbasedAuthentication o1),
      map_option VStr (cHostbasedAcceptedAlgorithms o1),
      map_option VBool (cEnableSSHKeysign o1),
      map_option VBool (cGSSAPIAuthentication o1),
      map_option VBool (cGSSAPIDelegateCredentials o1),
      map_option VStr (cAddKeysToAgent o1),
      map_option VStr (cCiphers o1),
      map_option VStr (cKexAlgorithms o1),
      map_option VStr (cMACs o1),
      map_option VStr (cCASignatureAlgorithms o1),
      map_option VStr (cHostKeyAlgorithms o1),
      map_option VStr (cRekeyLimit o1),
      map_option VInt (cRequiredRSASize o1),
      map_option VStr (cFingerprintHash o1),
      map_option VStr (cWarnWeakCrypto o1),
      map_option VBool (cCheckHostIP o1),
      map_option VStr (cGlobalKnownHostsFile o1),
      map_option VStr (cUserKnownHostsFile o1),
      map_option VBool (cHashKnownHosts o1),
      map_option VStr (cStrictHostKeyChecking o1),
      map_option VStr (cHostKeyAlias o1),
      map_option VStr (cKnownHostsCommand o1),
      map_option VStr (cRevokedHostKeys o1),
      map_option VStr (cUpdateHostKeys o1),
      map_option VStr (cVerifyHostKeyDNS o1),
      map_option VBool (cNoHostAuthenticationForLocalhost o1),
      map_option VStr (cProxyCommand o1),
      map_option VStr (cProxyJump o1),
      map_option VBool (cProxyUseFdpass o1),
      map_option VBool (cClearAllForwardings o1),
      map_option VBool (cExitOnForwardFailure o1),
      map_option VBool (cGatewayPorts o1),
      map_option VStr (cStreamLocalBindMask o1),
      map_option VBool (cStreamLocalBindUnlink o1),
      map_option VStr (cForwardAgent o1),
      map_option VBool (cForwardX11 o1),
      map_option VInt (cForwardX11Timeout o1),
      map_option VBool (cForwardX11Trusted o1),
      map_option VStr (cXAuthLocation o1),
      map_option VStr (cTunnel o1),
      map_option VStr (cTunnelDevice o1),
      map_option VStr (cRequestTTY o1),
      map_option VStr (cSessionType o1),
      map_option VStr (cRemoteCommand o1),
      map_option VStr (cEscapeChar o1),
      map_option VStr (cIPQoS o1),
      map_option VStr (cLogLevel o1),
      map_option VStr (cTag o1),
      map_option VStr (cControlMaster o1),
      map_option VStr (cControlPath o1),
      map_option VStr (cControlPersist o1),
      map_option VBool (cPermitLocalCommand o1),
      map_option VStr (cLocalCommand o1),
      map_option VBool (cVisualHostKey o1),
      map_option VBool (cForkAfterAuthentication o1),
      map_option VBool (cStdinNull o1),
      map_option VBool (cEnableEscapeCommandline o1),
      map_option VStr (cObscureKeystrokeTiming o1),
      map_option VStr (cVersionAddendum o1),
      map_option VStr (cPKCS11Provider o1),
      map_option VStr (cSecurityKeyProvider o1),
      map_option VStr (cIgnoreUnknown o1),
      map_option VStr (cRefuseConnection o1),
      map_option VStr (cSyslogFacility o1)]"

definition blankOptions :: "string list \<Rightarrow> ClientOptions" where
  "blankOptions ignored = emptyOptions\<lparr>cIgnoredKeywords := ignored\<rparr>"

section \<open>Merging\<close>

definition mergeConnection :: "ClientOptions \<Rightarrow> ClientOptions \<Rightarrow> ClientOptions" where
  "mergeConnection dst src = dst\<lparr>cAddressFamily := orElse (cAddressFamily dst) (cAddressFamily src),
     cBatchMode := orElse (cBatchMode dst) (cBatchMode src),
     cBindAddress := orElse (cBindAddress dst) (cBindAddress src),
     cBindInterface := orElse (cBindInterface dst) (cBindInterface src),
     cConnectTimeout := orElse (cConnectTimeout dst) (cConnectTimeout src),
     cConnectionAttempts := orElse (cConnectionAttempts dst) (cConnectionAttempts src),
     cTCPKeepAlive := orElse (cTCPKeepAlive dst) (cTCPKeepAlive src),
     cServerAliveInterval := orElse (cServerAliveInterval dst) (cServerAliveInterval src),
     cServerAliveCountMax := orElse (cServerAliveCountMax dst) (cServerAliveCountMax src),
     cCompression := orElse (cCompression dst) (cCompression src),
     cHostname := orElse (cHostname dst) (cHostname src),
     cPort := orElse (cPort dst) (cPort src),
     cCanonicalizeFallbackLocal := orElse (cCanonicalizeFallbackLocal dst) (cCanonicalizeFallbackLocal src),
     cCanonicalizeHostname := orElse (cCanonicalizeHostname dst) (cCanonicalizeHostname src),
     cCanonicalizeMaxDots := orElse (cCanonicalizeMaxDots dst) (cCanonicalizeMaxDots src),
     cUser := orElse (cUser dst) (cUser src),
     cIdentitiesOnly := orElse (cIdentitiesOnly dst) (cIdentitiesOnly src),
     cIdentityAgent := orElse (cIdentityAgent dst) (cIdentityAgent src),
     cPasswordAuthentication := orElse (cPasswordAuthentication dst) (cPasswordAuthentication src),
     cKbdInteractiveAuthentication := orElse (cKbdInteractiveAuthentication dst) (cKbdInteractiveAuthentication src),
     cKbdInteractiveDevices := orElse (cKbdInteractiveDevices dst) (cKbdInteractiveDevices src),
     cPubkeyAuthentication := orElse (cPubkeyAuthentication dst) (cPubkeyAuthentication src),
     cPubkeyAcceptedAlgorithms := orElse (cPubkeyAcceptedAlgorithms dst) (cPubkeyAcceptedAlgorithms src),
     cPreferredAuthentications := orElse (cPreferredAuthentications dst) (cPreferredAuthentications src),
     cNumberOfPasswordPrompts := orElse (cNumberOfPasswordPrompts dst) (cNumberOfPasswordPrompts src),
     cHostbasedAuthentication := orElse (cHostbasedAuthentication dst) (cHostbasedAuthentication src),
     cHostbasedAcceptedAlgorithms := orElse (cHostbasedAcceptedAlgorithms dst) (cHostbasedAcceptedAlgorithms src),
     cEnableSSHKeysign := orElse (cEnableSSHKeysign dst) (cEnableSSHKeysign src),
     cGSSAPIAuthentication := orElse (cGSSAPIAuthentication dst) (cGSSAPIAuthentication src),
     cGSSAPIDelegateCredentials := orElse (cGSSAPIDelegateCredentials dst) (cGSSAPIDelegateCredentials src),
     cAddKeysToAgent := orElse (cAddKeysToAgent dst) (cAddKeysToAgent src),
     cCiphers := orElse (cCiphers dst) (cCiphers src),
     cKexAlgorithms := orElse (cKexAlgorithms dst) (cKexAlgorithms src),
     cMACs := orElse (cMACs dst) (cMACs src),
     cCASignatureAlgorithms := orElse (cCASignatureAlgorithms dst) (cCASignatureAlgorithms src),
     cHostKeyAlgorithms := orElse (cHostKeyAlgorithms dst) (cHostKeyAlgorithms src),
     cRekeyLimit := orElse (cRekeyLimit dst) (cRekeyLimit src),
     cRequiredRSASize := orElse (cRequiredRSASize dst) (cRequiredRSASize src),
     cFingerprintHash := orElse (cFingerprintHash dst) (cFingerprintHash src),
     cWarnWeakCrypto := orElse (cWarnWeakCrypto dst) (cWarnWeakCrypto src),
     cCheckHostIP := orElse (cCheckHostIP dst) (cCheckHostIP src),
     cGlobalKnownHostsFile := orElse (cGlobalKnownHostsFile dst) (cGlobalKnownHostsFile src),
     cUserKnownHostsFile := orElse (cUserKnownHostsFile dst) (cUserKnownHostsFile src),
     cHashKnownHosts := orElse (cHashKnownHosts dst) (cHashKnownHosts src),
     cStrictHostKeyChecking := orElse (cStrictHostKeyChecking dst) (cStrictHostKeyChecking src),
     cHostKeyAlias := orElse (cHostKeyAlias dst) (cHostKeyAlias src),
     cKnownHostsCommand := orElse (cKnownHostsCommand dst) (cKnownHostsCommand src),
     cRevokedHostKeys := orElse (cRevokedHostKeys dst) (cRevokedHostKeys src),
     cUpdateHostKeys := orElse (cUpdateHostKeys dst) (cUpdateHostKeys src)\<rparr>"

definition mergeSession :: "ClientOptions \<Rightarrow> ClientOptions \<Rightarrow> ClientOptions" where
  "mergeSession dst src = dst\<lparr>cVerifyHostKeyDNS := orElse (cVerifyHostKeyDNS dst) (cVerifyHostKeyDNS src),
     cNoHostAuthenticationForLocalhost := orElse (cNoHostAuthenticationForLocalhost dst) (cNoHostAuthenticationForLocalhost src),
     cProxyCommand := orElse (cProxyCommand dst) (cProxyCommand src),
     cProxyJump := orElse (cProxyJump dst) (cProxyJump src),
     cProxyUseFdpass := orElse (cProxyUseFdpass dst) (cProxyUseFdpass src),
     cClearAllForwardings := orElse (cClearAllForwardings dst) (cClearAllForwardings src),
     cExitOnForwardFailure := orElse (cExitOnForwardFailure dst) (cExitOnForwardFailure src),
     cGatewayPorts := orElse (cGatewayPorts dst) (cGatewayPorts src),
     cStreamLocalBindMask := orElse (cStreamLocalBindMask dst) (cStreamLocalBindMask src),
     cStreamLocalBindUnlink := orElse (cStreamLocalBindUnlink dst) (cStreamLocalBindUnlink src),
     cForwardAgent := orElse (cForwardAgent dst) (cForwardAgent src),
     cForwardX11 := orElse (cForwardX11 dst) (cForwardX11 src),
     cForwardX11Timeout := orElse (cForwardX11Timeout dst) (cForwardX11Timeout src),
     cForwardX11Trusted := orElse (cForwardX11Trusted dst) (cForwardX11Trusted src),
     cXAuthLocation := orElse (cXAuthLocation dst) (cXAuthLocation src),
     cTunnel := orElse (cTunnel dst) (cTunnel src),
     cTunnelDevice := orElse (cTunnelDevice dst) (cTunnelDevice src),
     cRequestTTY := orElse (cRequestTTY dst) (cRequestTTY src),
     cSessionType := orElse (cSessionType dst) (cSessionType src),
     cRemoteCommand := orElse (cRemoteCommand dst) (cRemoteCommand src),
     cEscapeChar := orElse (cEscapeChar dst) (cEscapeChar src),
     cIPQoS := orElse (cIPQoS dst) (cIPQoS src),
     cLogLevel := orElse (cLogLevel dst) (cLogLevel src),
     cTag := orElse (cTag dst) (cTag src),
     cControlMaster := orElse (cControlMaster dst) (cControlMaster src),
     cControlPath := orElse (cControlPath dst) (cControlPath src),
     cControlPersist := orElse (cControlPersist dst) (cControlPersist src),
     cPermitLocalCommand := orElse (cPermitLocalCommand dst) (cPermitLocalCommand src),
     cLocalCommand := orElse (cLocalCommand dst) (cLocalCommand src),
     cVisualHostKey := orElse (cVisualHostKey dst) (cVisualHostKey src),
     cForkAfterAuthentication := orElse (cForkAfterAuthentication dst) (cForkAfterAuthentication src),
     cStdinNull := orElse (cStdinNull dst) (cStdinNull src),
     cEnableEscapeCommandline := orElse (cEnableEscapeCommandline dst) (cEnableEscapeCommandline src),
     cObscureKeystrokeTiming := orElse (cObscureKeystrokeTiming dst) (cObscureKeystrokeTiming src),
     cVersionAddendum := orElse (cVersionAddendum dst) (cVersionAddendum src),
     cPKCS11Provider := orElse (cPKCS11Provider dst) (cPKCS11Provider src),
     cSecurityKeyProvider := orElse (cSecurityKeyProvider dst) (cSecurityKeyProvider src),
     cIgnoreUnknown := orElse (cIgnoreUnknown dst) (cIgnoreUnknown src),
     cRefuseConnection := orElse (cRefuseConnection dst) (cRefuseConnection src),
     cSyslogFacility := orElse (cSyslogFacility dst) (cSyslogFacility src)\<rparr>"

definition mergeLists :: "ClientOptions \<Rightarrow> ClientOptions \<Rightarrow> ClientOptions" where
  "mergeLists dst src = dst\<lparr>cIdentityFile := cIdentityFile dst @ cIdentityFile src,
     cCertificateFile := cCertificateFile dst @ cCertificateFile src,
     cLocalForward := cLocalForward dst @ cLocalForward src,
     cRemoteForward := cRemoteForward dst @ cRemoteForward src,
     cDynamicForward := cDynamicForward dst @ cDynamicForward src,
     cSendEnv := cSendEnv dst @ cSendEnv src,
     cSetEnv := cSetEnv dst @ cSetEnv src,
     cLogVerbose := cLogVerbose dst @ cLogVerbose src,
     cChannelTimeout := cChannelTimeout dst @ cChannelTimeout src,
     cCanonicalDomains := orElse (cCanonicalDomains dst) (cCanonicalDomains src),
     cCanonicalizePermittedCNAMEs := orElse (cCanonicalizePermittedCNAMEs dst) (cCanonicalizePermittedCNAMEs src),
     cPermitRemoteOpen := orElse (cPermitRemoteOpen dst) (cPermitRemoteOpen src)\<rparr>"

definition mergeOptions :: "ClientOptions \<Rightarrow> ClientOptions \<Rightarrow> ClientOptions" where
  "mergeOptions dst src = mergeLists (mergeSession (mergeConnection dst src) src) src"

lemmas mergeOptions_defs = mergeOptions_def mergeConnection_def mergeSession_def mergeLists_def


section \<open>Defaults\<close>

definition defaultCiphers :: string where
  "defaultCiphers = joinWith
     [''chacha20-poly1305@openssh.com'',
      ''aes128-gcm@openssh.com'',
      ''aes256-gcm@openssh.com'',
      ''aes128-ctr'',
      ''aes192-ctr'',
      ''aes256-ctr''] '',''"

definition defaultKexAlgorithms :: string where
  "defaultKexAlgorithms = joinWith
     [''mlkem768x25519-sha256'',
      ''sntrup761x25519-sha512'',
      ''sntrup761x25519-sha512@openssh.com'',
      ''curve25519-sha256'',
      ''curve25519-sha256@libssh.org'',
      ''ecdh-sha2-nistp256'',
      ''ecdh-sha2-nistp384'',
      ''ecdh-sha2-nistp521'',
      ''diffie-hellman-group-exchange-sha256'',
      ''diffie-hellman-group16-sha512'',
      ''diffie-hellman-group18-sha512'',
      ''diffie-hellman-group14-sha256''] '',''"

definition defaultMACs :: string where
  "defaultMACs = joinWith
     [''umac-64-etm@openssh.com'',
      ''umac-128-etm@openssh.com'',
      ''hmac-sha2-256-etm@openssh.com'',
      ''hmac-sha2-512-etm@openssh.com'',
      ''hmac-sha1-etm@openssh.com'',
      ''umac-64@openssh.com'',
      ''umac-128@openssh.com'',
      ''hmac-sha2-256'',
      ''hmac-sha2-512'',
      ''hmac-sha1''] '',''"

definition defaultCASignatureAlgorithms :: string where
  "defaultCASignatureAlgorithms = joinWith
     [''ssh-ed25519'',
      ''ecdsa-sha2-nistp256'',
      ''ecdsa-sha2-nistp384'',
      ''ecdsa-sha2-nistp521'',
      ''sk-ssh-ed25519@openssh.com'',
      ''sk-ecdsa-sha2-nistp256@openssh.com'',
      ''rsa-sha2-512'',
      ''rsa-sha2-256''] '',''"

definition defaultHostKeyAlgorithms :: string where
  "defaultHostKeyAlgorithms = joinWith
     [''ssh-ed25519-cert-v01@openssh.com'',
      ''ecdsa-sha2-nistp256-cert-v01@openssh.com'',
      ''ecdsa-sha2-nistp384-cert-v01@openssh.com'',
      ''ecdsa-sha2-nistp521-cert-v01@openssh.com'',
      ''sk-ssh-ed25519-cert-v01@openssh.com'',
      ''sk-ecdsa-sha2-nistp256-cert-v01@openssh.com'',
      ''rsa-sha2-512-cert-v01@openssh.com'',
      ''rsa-sha2-256-cert-v01@openssh.com'',
      ''ssh-ed25519'',
      ''ecdsa-sha2-nistp256'',
      ''ecdsa-sha2-nistp384'',
      ''ecdsa-sha2-nistp521'',
      ''sk-ecdsa-sha2-nistp256@openssh.com'',
      ''sk-ssh-ed25519@openssh.com'',
      ''rsa-sha2-512'',
      ''rsa-sha2-256''] '',''"

definition defaultPubkeyAcceptedAlgorithms :: string where
  "defaultPubkeyAcceptedAlgorithms = joinWith
     [''ssh-ed25519-cert-v01@openssh.com'',
      ''ecdsa-sha2-nistp256-cert-v01@openssh.com'',
      ''ecdsa-sha2-nistp384-cert-v01@openssh.com'',
      ''ecdsa-sha2-nistp521-cert-v01@openssh.com'',
      ''sk-ssh-ed25519-cert-v01@openssh.com'',
      ''sk-ecdsa-sha2-nistp256-cert-v01@openssh.com'',
      ''rsa-sha2-512-cert-v01@openssh.com'',
      ''rsa-sha2-256-cert-v01@openssh.com'',
      ''ssh-ed25519'',
      ''ecdsa-sha2-nistp256'',
      ''ecdsa-sha2-nistp384'',
      ''ecdsa-sha2-nistp521'',
      ''sk-ssh-ed25519@openssh.com'',
      ''sk-ecdsa-sha2-nistp256@openssh.com'',
      ''rsa-sha2-512'',
      ''rsa-sha2-256''] '',''"

definition defaultHostbasedAcceptedAlgorithms :: string where
  "defaultHostbasedAcceptedAlgorithms = defaultPubkeyAcceptedAlgorithms"

definition defaultIdentityFiles :: "string list" where
  "defaultIdentityFiles = [''~/.ssh/id_rsa'', ''~/.ssh/id_ecdsa'', ''~/.ssh/id_ecdsa_sk'',
     ''~/.ssh/id_ed25519'', ''~/.ssh/id_ed25519_sk'']"

definition applyDefaults :: "ClientOptions \<Rightarrow> ClientOptions" where
  "applyDefaults o1 = o1\<lparr>cAddressFamily := orElse (cAddressFamily o1) (Some ''any''),
     cBatchMode := orElse (cBatchMode o1) (Some False),
     cConnectTimeout := orElse (cConnectTimeout o1) (Some 0),
     cConnectionAttempts := orElse (cConnectionAttempts o1) (Some 1),
     cTCPKeepAlive := orElse (cTCPKeepAlive o1) (Some True),
     cServerAliveInterval := orElse (cServerAliveInterval o1) (Some 0),
     cServerAliveCountMax := orElse (cServerAliveCountMax o1) (Some 3),
     cCompression := orElse (cCompression o1) (Some False),
     cPort := orElse (cPort o1) (Some 22),
     cCanonicalizeFallbackLocal := orElse (cCanonicalizeFallbackLocal o1) (Some True),
     cCanonicalizeHostname := orElse (cCanonicalizeHostname o1) (Some ''no''),
     cCanonicalizeMaxDots := orElse (cCanonicalizeMaxDots o1) (Some 1),
     cIdentitiesOnly := orElse (cIdentitiesOnly o1) (Some False),
     cPasswordAuthentication := orElse (cPasswordAuthentication o1) (Some True),
     cKbdInteractiveAuthentication := orElse (cKbdInteractiveAuthentication o1) (Some True),
     cPubkeyAuthentication := orElse (cPubkeyAuthentication o1) (Some ''yes''),
     cPreferredAuthentications := orElse (cPreferredAuthentications o1) (Some ''gssapi-with-mic,hostbased,publickey,keyboard-interactive,password''),
     cNumberOfPasswordPrompts := orElse (cNumberOfPasswordPrompts o1) (Some 3),
     cHostbasedAuthentication := orElse (cHostbasedAuthentication o1) (Some False),
     cEnableSSHKeysign := orElse (cEnableSSHKeysign o1) (Some False),
     cGSSAPIAuthentication := orElse (cGSSAPIAuthentication o1) (Some False),
     cGSSAPIDelegateCredentials := orElse (cGSSAPIDelegateCredentials o1) (Some False),
     cAddKeysToAgent := orElse (cAddKeysToAgent o1) (Some ''no''),
     cIdentityFile := (if cIdentityFile o1 = [] then defaultIdentityFiles else cIdentityFile o1),
     cCiphers := orElse (cCiphers o1) (Some defaultCiphers),
     cKexAlgorithms := orElse (cKexAlgorithms o1) (Some defaultKexAlgorithms),
     cMACs := orElse (cMACs o1) (Some defaultMACs),
     cCASignatureAlgorithms := orElse (cCASignatureAlgorithms o1) (Some defaultCASignatureAlgorithms),
     cHostKeyAlgorithms := orElse (cHostKeyAlgorithms o1) (Some defaultHostKeyAlgorithms),
     cPubkeyAcceptedAlgorithms := orElse (cPubkeyAcceptedAlgorithms o1) (Some defaultPubkeyAcceptedAlgorithms),
     cHostbasedAcceptedAlgorithms := orElse (cHostbasedAcceptedAlgorithms o1) (Some defaultHostbasedAcceptedAlgorithms),
     cRekeyLimit := orElse (cRekeyLimit o1) (Some ''default none''),
     cRequiredRSASize := orElse (cRequiredRSASize o1) (Some 1024),
     cFingerprintHash := orElse (cFingerprintHash o1) (Some ''sha256''),
     cWarnWeakCrypto := orElse (cWarnWeakCrypto o1) (Some ''yes''),
     cCheckHostIP := orElse (cCheckHostIP o1) (Some False),
     cGlobalKnownHostsFile := orElse (cGlobalKnownHostsFile o1) (Some ''/etc/ssh/ssh_known_hosts /etc/ssh/ssh_known_hosts2''),
     cUserKnownHostsFile := orElse (cUserKnownHostsFile o1) (Some ''~/.ssh/known_hosts ~/.ssh/known_hosts2''),
     cHashKnownHosts := orElse (cHashKnownHosts o1) (Some False),
     cStrictHostKeyChecking := orElse (cStrictHostKeyChecking o1) (Some ''ask''),
     cUpdateHostKeys := orElse (cUpdateHostKeys o1) (Some ''no''),
     cVerifyHostKeyDNS := orElse (cVerifyHostKeyDNS o1) (Some ''no''),
     cNoHostAuthenticationForLocalhost := orElse (cNoHostAuthenticationForLocalhost o1) (Some False),
     cProxyUseFdpass := orElse (cProxyUseFdpass o1) (Some False),
     cClearAllForwardings := orElse (cClearAllForwardings o1) (Some False),
     cExitOnForwardFailure := orElse (cExitOnForwardFailure o1) (Some False),
     cGatewayPorts := orElse (cGatewayPorts o1) (Some False),
     cStreamLocalBindUnlink := orElse (cStreamLocalBindUnlink o1) (Some False),
     cStreamLocalBindMask := orElse (cStreamLocalBindMask o1) (Some ''0177''),
     cForwardAgent := orElse (cForwardAgent o1) (Some ''no''),
     cForwardX11 := orElse (cForwardX11 o1) (Some False),
     cForwardX11Trusted := orElse (cForwardX11Trusted o1) (Some False),
     cXAuthLocation := orElse (cXAuthLocation o1) (Some ''/usr/bin/xauth''),
     cTunnel := orElse (cTunnel o1) (Some ''no''),
     cTunnelDevice := orElse (cTunnelDevice o1) (Some ''any:any''),
     cRequestTTY := orElse (cRequestTTY o1) (Some ''auto''),
     cSessionType := orElse (cSessionType o1) (Some ''default''),
     cEscapeChar := orElse (cEscapeChar o1) (Some ''~''),
     cIPQoS := orElse (cIPQoS o1) (Some ''ef none''),
     cLogLevel := orElse (cLogLevel o1) (Some ''INFO''),
     cSyslogFacility := orElse (cSyslogFacility o1) (Some ''USER''),
     cControlMaster := orElse (cControlMaster o1) (Some ''no''),
     cControlPersist := orElse (cControlPersist o1) (Some ''no''),
     cPermitLocalCommand := orElse (cPermitLocalCommand o1) (Some False),
     cVisualHostKey := orElse (cVisualHostKey o1) (Some False),
     cForkAfterAuthentication := orElse (cForkAfterAuthentication o1) (Some False),
     cStdinNull := orElse (cStdinNull o1) (Some False),
     cEnableEscapeCommandline := orElse (cEnableEscapeCommandline o1) (Some False),
     cObscureKeystrokeTiming := orElse (cObscureKeystrokeTiming o1) (Some ''yes''),
     cVersionAddendum := orElse (cVersionAddendum o1) (Some ''none''),
     cPKCS11Provider := orElse (cPKCS11Provider o1) (Some ''none'')\<rparr>"

section \<open>The dialer configuration\<close>

definition strOr :: "string option \<Rightarrow> string" where
  "strOr p = (case p of None \<Rightarrow> [] | Some v \<Rightarrow> v)"

definition nanosPerSecond :: int where "nanosPerSecond = 1000000000"

definition buildDialerConfig :: "ClientOptions \<Rightarrow> DialConfig" where
  "buildDialerConfig o1 =
     \<lparr>dcAddressFamily = strOr (cAddressFamily o1),
      dcBindAddress = strOr (cBindAddress o1),
      dcBindInterface = strOr (cBindInterface o1),
      dcConnectTimeout =
        (case cConnectTimeout o1 of
           Some t \<Rightarrow> if t > 0 then wrap64 (t * nanosPerSecond) else 0
         | None \<Rightarrow> 0),
      dcIPQoS = strOr (cIPQoS o1),
      dcProxyCommand = strOr (cProxyCommand o1),
      dcProxyJump = strOr (cProxyJump o1),
      dcProxyUseFdpass = (case cProxyUseFdpass o1 of Some b \<Rightarrow> b | None \<Rightarrow> False),
      dcWrapper = None\<rparr>"

definition RefreshDialerConfig :: "ClientOptions \<Rightarrow> ClientOptions" where
  "RefreshDialerConfig o1 =
     (let wrapper = dcWrapper (cDialerConfig o1)
      in o1\<lparr>cDialerConfig := (buildDialerConfig o1)\<lparr>dcWrapper := wrapper\<rparr>\<rparr>)"

definition clientGetDialer :: "ClientOptions \<Rightarrow> Dialer" where
  "clientGetDialer o1 = GetDialer (cDialerConfig o1)"

text \<open>The address \<^verbatim>\<open>Dial\<close> connects to.\<close>

definition clientDialAddr :: "ClientOptions \<Rightarrow> string" where
  "clientDialAddr o1 =
     (let host = (case cHostname o1 of Some h \<Rightarrow> h | None \<Rightarrow> ''localhost'');
          port = (case cPort o1 of Some p \<Rightarrow> p | None \<Rightarrow> 22)
      in JoinHostPort host (itoaInt port))"

definition clientDial :: "NetWorld \<Rightarrow> ClientOptions \<Rightarrow> go_error + DialPlan" where
  "clientDial w o1 = DialContext w (cDialerConfig o1) ''tcp'' (clientDialAddr o1)"

section \<open>Lemmas\<close>

lemma length_scalars: "length (scalars o1) = 89"
  by (simp add: scalars_def)

lemma scalars_blank: "scalars (blankOptions g) = replicate 89 None"
  by (simp add: scalars_def blankOptions_def emptyOptions_def numeral_eq_Suc)

lemma scalars_mergeOptions:
  "scalars (mergeOptions d s) = mergeView (scalars d) (scalars s)"
  by (simp add: scalars_def mergeOptions_defs)

text \<open>What the defaults give to an empty struct.\<close>

definition defaultScalars :: view where
  "defaultScalars = scalars (applyDefaults emptyOptions)"

lemma scalars_applyDefaults:
  "scalars (applyDefaults o1) = mergeView (scalars o1) defaultScalars"
  by (simp add: defaultScalars_def scalars_def applyDefaults_def emptyOptions_def
      orElse_map[of VStr _ "Some _", simplified] orElse_map[of VBool _ "Some _", simplified]
      orElse_map[of VInt _ "Some _", simplified])

end
