(* ===== verification/ClientKeyword.thy ===== *)
theory ClientKeyword
  imports ClientOptions MatchCond
begin

text \<open>
  Applying directives to the client options (\<^verbatim>\<open>pkg/sshclient/apply.go\<close>,
  \<^verbatim>\<open>keyword.go\<close>, \<^verbatim>\<open>override.go\<close>).  A handler that takes the address of a field
  is a function of the field's update.  The locale of option stores is interpreted
  on \<^verbatim>\<open>ApplyDirective\<close>.
\<close>

section \<open>Setters\<close>

definition setStr :: "string \<Rightarrow> string option \<Rightarrow> string option" where
  "setStr value p = (case p of None \<Rightarrow> Some value | Some x \<Rightarrow> Some x)"

definition parseBool :: "string \<Rightarrow> bool option" where
  "parseBool value =
     (let v = toLower value in
      if v = ''yes'' \<or> v = ''true'' then Some True
      else if v = ''no'' \<or> v = ''false'' then Some False
      else None)"

definition setBool :: "string \<Rightarrow> bool option \<Rightarrow> bool option" where
  "setBool value p = (case p of Some x \<Rightarrow> Some x | None \<Rightarrow> parseBool value)"

definition setInt :: "string \<Rightarrow> int option \<Rightarrow> int option" where
  "setInt value p = (case p of Some x \<Rightarrow> Some x | None \<Rightarrow> atoi value)"

lemma set_orElse:
  "setStr v p = orElse p (Some v)" "setBool v q = orElse q (parseBool v)" "setInt v r = orElse r (atoi v)"
  by (simp_all add: setStr_def setBool_def setInt_def split: option.split)

section \<open>Forwardings and environment names\<close>

definition setBindSpec :: "string \<Rightarrow> Forward \<Rightarrow> Forward" where
  "setBindSpec bindSpec fwd =
     (if containsByte bindSpec CHR ''/'' then fwd\<lparr>fwBindPort := bindSpec\<rparr>
      else let (host, port, ok) = SplitHostPort bindSpec
           in if ok then fwd\<lparr>fwBindAddress := host, fwBindPort := port\<rparr>
              else fwd\<lparr>fwBindPort := bindSpec\<rparr>)"

definition setDestSpec :: "string \<Rightarrow> Forward \<Rightarrow> Forward" where
  "setDestSpec destSpec fwd =
     (if containsByte destSpec CHR ''/'' then fwd\<lparr>fwHostPort := destSpec\<rparr>
      else let (host, port, ok) = SplitHostPort destSpec
           in if ok then fwd\<lparr>fwHost := host, fwHostPort := port\<rparr>
              else fwd\<lparr>fwHostPort := destSpec\<rparr>)"

definition parseForward :: "string \<Rightarrow> go_error + Forward" where
  "parseForward value =
     (case Fields value of
        [] \<Rightarrow> Inl (Errorf ''empty forwarding specification'' [])
      | bindSpec # parts \<Rightarrow>
          (let fwd = setBindSpec bindSpec emptyForward
           in Inr (case parts of [] \<Rightarrow> fwd | destSpec # _ \<Rightarrow> setDestSpec destSpec fwd)))"

primrec sendEnvLoop :: "string list \<Rightarrow> string list \<Rightarrow> string list" where
  "sendEnvLoop [] existing = existing"
| "sendEnvLoop (f # fs) existing =
     (if hasPrefix f ''-''
      then sendEnvLoop fs (filter (\<lambda>e. \<not> MatchPattern (drop 1 f) e) existing)
      else sendEnvLoop fs (existing @ [f]))"

definition appendSendEnv :: "string list \<Rightarrow> string \<Rightarrow> string list" where
  "appendSendEnv existing value = sendEnvLoop (Fields value) existing"

section \<open>Handlers\<close>

type_synonym directiveHandler =
  "string \<Rightarrow> SourceInfo \<Rightarrow> ClientOptions \<Rightarrow> go_error + ClientOptions"

definition strField ::
  "((string option \<Rightarrow> string option) \<Rightarrow> ClientOptions \<Rightarrow> ClientOptions) \<Rightarrow> directiveHandler" where
  "strField upd value source opts = Inr (upd (setStr value) opts)"

definition boolField ::
  "((bool option \<Rightarrow> bool option) \<Rightarrow> ClientOptions \<Rightarrow> ClientOptions) \<Rightarrow> directiveHandler" where
  "boolField upd value source opts = Inr (upd (setBool value) opts)"

definition intField ::
  "((int option \<Rightarrow> int option) \<Rightarrow> ClientOptions \<Rightarrow> ClientOptions) \<Rightarrow> directiveHandler" where
  "intField upd value source opts = Inr (upd (setInt value) opts)"

definition appendField ::
  "((string list \<Rightarrow> string list) \<Rightarrow> ClientOptions \<Rightarrow> ClientOptions) \<Rightarrow> directiveHandler" where
  "appendField upd value source opts = Inr (upd (\<lambda>l. l @ [value]) opts)"

definition firstFields ::
  "((string list option \<Rightarrow> string list option) \<Rightarrow> ClientOptions \<Rightarrow> ClientOptions) \<Rightarrow> directiveHandler" where
  "firstFields upd value source opts =
     Inr (upd (\<lambda>p. case p of None \<Rightarrow> Some (Fields value) | Some l \<Rightarrow> Some l) opts)"

definition skipDirective :: directiveHandler where
  "skipDirective value source opts = Inr opts"

definition identityFileHandler :: directiveHandler where
  "identityFileHandler value source opts =
     (if toLower value = ''none'' then Inr (opts\<lparr>cIdentityFile := []\<rparr>)
      else Inr (opts\<lparr>cIdentityFile := cIdentityFile opts @ [value]\<rparr>))"

definition localForwardHandler :: directiveHandler where
  "localForwardHandler value source opts =
     (case parseForward value of
        Inl err \<Rightarrow> Inl (ParseError source (''LocalForward: '' @ errText err))
      | Inr fwd \<Rightarrow> Inr (opts\<lparr>cLocalForward := cLocalForward opts @ [fwd]\<rparr>))"

definition remoteForwardHandler :: directiveHandler where
  "remoteForwardHandler value source opts =
     (case parseForward value of
        Inl err \<Rightarrow> Inl (ParseError source (''RemoteForward: '' @ errText err))
      | Inr fwd \<Rightarrow> Inr (opts\<lparr>cRemoteForward := cRemoteForward opts @ [fwd]\<rparr>))"

definition sendEnvHandler :: directiveHandler where
  "sendEnvHandler value source opts =
     Inr (opts\<lparr>cSendEnv := appendSendEnv (cSendEnv opts) value\<rparr>)"

definition channelTimeoutHandler :: directiveHandler where
  "channelTimeoutHandler value source opts =
     Inr (opts\<lparr>cChannelTimeout := cChannelTimeout opts @ Fields value\<rparr>)"

text \<open>The set of ignored keywords is a list, the latest in front.\<close>

definition ignorePatterns :: "string \<Rightarrow> string list" where
  "ignorePatterns value =
     filter (\<lambda>p. p \<noteq> []) (map (\<lambda>p. trimSpace (toLower p)) (split value CHR '',''))"

definition ignoreUnknownHandler :: directiveHandler where
  "ignoreUnknownHandler value source opts =
     Inr (opts\<lparr>cIgnoreUnknown := setStr value (cIgnoreUnknown opts),
               cIgnoredKeywords := rev (ignorePatterns value) @ cIgnoredKeywords opts\<rparr>)"

definition directiveTable :: "(string \<times> directiveHandler) list" where
  "directiveTable =
     [(''addressfamily'', strField cAddressFamily_update),
      (''batchmode'', boolField cBatchMode_update),
      (''bindaddress'', strField cBindAddress_update),
      (''bindinterface'', strField cBindInterface_update),
      (''connecttimeout'', intField cConnectTimeout_update),
      (''connectionattempts'', intField cConnectionAttempts_update),
      (''tcpkeepalive'', boolField cTCPKeepAlive_update),
      (''serveraliveinterval'', intField cServerAliveInterval_update),
      (''serveralivecountmax'', intField cServerAliveCountMax_update),
      (''compression'', boolField cCompression_update),
      (''hostname'', strField cHostname_update),
      (''port'', intField cPort_update),
      (''canonicaldomains'', firstFields cCanonicalDomains_update),
      (''canonicalizefallbacklocal'', boolField cCanonicalizeFallbackLocal_update),
      (''canonicalizehostname'', strField cCanonicalizeHostname_update),
      (''canonicalizemaxdots'', intField cCanonicalizeMaxDots_update),
      (''canonicalizepermittedcnames'', firstFields cCanonicalizePermittedCNAMEs_update),
      (''user'', strField cUser_update),
      (''identityfile'', identityFileHandler),
      (''identitiesonly'', boolField cIdentitiesOnly_update),
      (''identityagent'', strField cIdentityAgent_update),
      (''certificatefile'', appendField cCertificateFile_update),
      (''passwordauthentication'', boolField cPasswordAuthentication_update),
      (''kbdinteractiveauthentication'', boolField cKbdInteractiveAuthentication_update),
      (''challengeresponseauthentication'', boolField cKbdInteractiveAuthentication_update),
      (''kbdinteractivedevices'', strField cKbdInteractiveDevices_update),
      (''pubkeyauthentication'', strField cPubkeyAuthentication_update),
      (''pubkeyacceptedalgorithms'', strField cPubkeyAcceptedAlgorithms_update),
      (''pubkeyacceptedkeytypes'', strField cPubkeyAcceptedAlgorithms_update),
      (''preferredauthentications'', strField cPreferredAuthentications_update),
      (''numberofpasswordprompts'', intField cNumberOfPasswordPrompts_update),
      (''hostbasedauthentication'', boolField cHostbasedAuthentication_update),
      (''hostbasedacceptedalgorithms'', strField cHostbasedAcceptedAlgorithms_update),
      (''hostbasedkeytypes'', strField cHostbasedAcceptedAlgorithms_update),
      (''enablesshkeysign'', boolField cEnableSSHKeysign_update),
      (''gssapiauthentication'', boolField cGSSAPIAuthentication_update),
      (''gssapidelegatecredentials'', boolField cGSSAPIDelegateCredentials_update),
      (''addkeystoagent'', strField cAddKeysToAgent_update),
      (''ciphers'', strField cCiphers_update),
      (''kexalgorithms'', strField cKexAlgorithms_update),
      (''macs'', strField cMACs_update),
      (''casignaturealgorithms'', strField cCASignatureAlgorithms_update),
      (''hostkeyalgorithms'', strField cHostKeyAlgorithms_update),
      (''rekeylimit'', strField cRekeyLimit_update),
      (''requiredrsasize'', intField cRequiredRSASize_update),
      (''fingerprinthash'', strField cFingerprintHash_update),
      (''warnweakcrypto'', strField cWarnWeakCrypto_update),
      (''checkhostip'', boolField cCheckHostIP_update),
      (''globalknownhostsfile'', strField cGlobalKnownHostsFile_update),
      (''userknownhostsfile'', strField cUserKnownHostsFile_update),
      (''hashknownhosts'', boolField cHashKnownHosts_update),
      (''stricthostkeychecking'', strField cStrictHostKeyChecking_update),
      (''hostkeyalias'', strField cHostKeyAlias_update),
      (''knownhostscommand'', strField cKnownHostsCommand_update),
      (''revokedhostkeys'', strField cRevokedHostKeys_update),
      (''updatehostkeys'', strField cUpdateHostKeys_update),
      (''verifyhostkeydns'', strField cVerifyHostKeyDNS_update),
      (''nohostauthenticationforlocalhost'', boolField cNoHostAuthenticationForLocalhost_update),
      (''proxycommand'', strField cProxyCommand_update),
      (''proxyjump'', strField cProxyJump_update),
      (''proxyusefdpass'', boolField cProxyUseFdpass_update),
      (''localforward'', localForwardHandler),
      (''remoteforward'', remoteForwardHandler),
      (''dynamicforward'', appendField cDynamicForward_update),
      (''clearallforwardings'', boolField cClearAllForwardings_update),
      (''exitonforwardfailure'', boolField cExitOnForwardFailure_update),
      (''gatewayports'', boolField cGatewayPorts_update),
      (''permitremoteopen'', firstFields cPermitRemoteOpen_update),
      (''streamlocalbindmask'', strField cStreamLocalBindMask_update),
      (''streamlocalbindunlink'', boolField cStreamLocalBindUnlink_update),
      (''forwardagent'', strField cForwardAgent_update),
      (''forwardx11'', boolField cForwardX11_update),
      (''forwardx11timeout'', intField cForwardX11Timeout_update),
      (''forwardx11trusted'', boolField cForwardX11Trusted_update),
      (''xauthlocation'', strField cXAuthLocation_update),
      (''tunnel'', strField cTunnel_update),
      (''tunneldevice'', strField cTunnelDevice_update),
      (''requesttty'', strField cRequestTTY_update),
      (''sessiontype'', strField cSessionType_update),
      (''remotecommand'', strField cRemoteCommand_update),
      (''sendenv'', sendEnvHandler),
      (''setenv'', appendField cSetEnv_update),
      (''escapechar'', strField cEscapeChar_update),
      (''ipqos'', strField cIPQoS_update),
      (''loglevel'', strField cLogLevel_update),
      (''logverbose'', appendField cLogVerbose_update),
      (''tag'', strField cTag_update),
      (''channeltimeout'', channelTimeoutHandler),
      (''controlmaster'', strField cControlMaster_update),
      (''controlpath'', strField cControlPath_update),
      (''controlpersist'', strField cControlPersist_update),
      (''permitlocalcommand'', boolField cPermitLocalCommand_update),
      (''localcommand'', strField cLocalCommand_update),
      (''visualhostkey'', boolField cVisualHostKey_update),
      (''forkafterauthentication'', boolField cForkAfterAuthentication_update),
      (''stdinnull'', boolField cStdinNull_update),
      (''enableescapecommandline'', boolField cEnableEscapeCommandline_update),
      (''obscurekeystroketiming'', strField cObscureKeystrokeTiming_update),
      (''versionaddendum'', strField cVersionAddendum_update),
      (''pkcs11provider'', strField cPKCS11Provider_update),
      (''securitykeyprovider'', strField cSecurityKeyProvider_update),
      (''ignoreunknown'', ignoreUnknownHandler),
      (''refuseconnection'', strField cRefuseConnection_update),
      (''syslogfacility'', strField cSyslogFacility_update),
      (''host'', skipDirective),
      (''match'', skipDirective),
      (''include'', skipDirective)]"

section \<open>Directives\<close>

definition ApplyDirective :: "Directive \<Rightarrow> ClientOptions \<Rightarrow> go_error + ClientOptions" where
  "ApplyDirective dir opts =
     (let keyword = toLower (dKeyword dir) in
      if keyword \<in> set (cIgnoredKeywords opts) then Inr opts
      else case map_of directiveTable keyword of
        Some handler \<Rightarrow> handler (dValue dir) (dSource dir) opts
      | None \<Rightarrow>
          if list_ex (\<lambda>pattern. MatchPattern pattern keyword) (cIgnoredKeywords opts) then Inr opts
          else Inl (ParseError (dSource dir) (''unknown option: '' @ dKeyword dir)))"

text \<open>\<^verbatim>\<open>ParseOverrides\<close>; the index of the Go loop counts from 0.\<close>

primrec overridesLoop :: "nat \<Rightarrow> string list \<Rightarrow> go_error + Entry list" where
  "overridesLoop i [] = Inr []"
| "overridesLoop i (opt # opts) =
     (case ParseOverride opt of
        Inl err \<Rightarrow> Inl (Wrapf ''-o option %d: %w'' [itoaInt (int (i + 1))] err)
      | Inr (keyword, value) \<Rightarrow>
          bindE (overridesLoop (i + 1) opts) (\<lambda>entries.
            Inr (\<lparr>eConditions = [],
                  eDirective = \<lparr>dKeyword = keyword, dValue = value,
                    dSource = \<lparr>srcFile = ''command-line'', srcLine = int (i + 1)\<rparr>\<rparr>\<rparr> # entries)))"

definition ParseOverrides :: "string list \<Rightarrow> go_error + Entry list" where
  "ParseOverrides opts = overridesLoop 0 opts"

section \<open>The effect of a handler on the scalars\<close>

text \<open>A handler is uniform when it fails or not whatever the options are, treats the
  ignored keywords alike and merges into the scalars what it makes of an empty
  struct.\<close>

definition uniform :: "directiveHandler \<Rightarrow> bool" where
  "uniform h \<longleftrightarrow> (\<forall>v src opts.
     case h v src opts of
       Inl x \<Rightarrow> h v src (blankOptions (cIgnoredKeywords opts)) = Inl x
     | Inr o' \<Rightarrow> \<exists>e. h v src (blankOptions (cIgnoredKeywords opts)) = Inr e \<and>
         cIgnoredKeywords e = cIgnoredKeywords o' \<and>
         scalars o' = mergeView (scalars opts) (scalars e))"

lemmas handler_defs =
  strField_def boolField_def intField_def appendField_def firstFields_def skipDirective_def
  identityFileHandler_def localForwardHandler_def remoteForwardHandler_def sendEnvHandler_def
  channelTimeoutHandler_def ignoreUnknownHandler_def

lemma uniform_special:
  "uniform skipDirective" "uniform identityFileHandler" "uniform localForwardHandler"
  "uniform remoteForwardHandler" "uniform sendEnvHandler" "uniform channelTimeoutHandler"
  "uniform ignoreUnknownHandler"
  by (simp_all add: uniform_def handler_defs scalars_def blankOptions_def emptyOptions_def
      set_orElse orElse_map[of VStr _ "Some _", simplified] split: sum.split)

lemma uniform_fields1:
  "uniform (strField cAddressFamily_update)"
  "uniform (boolField cBatchMode_update)"
  "uniform (strField cBindAddress_update)"
  "uniform (strField cBindInterface_update)"
  "uniform (intField cConnectTimeout_update)"
  "uniform (intField cConnectionAttempts_update)"
  "uniform (boolField cTCPKeepAlive_update)"
  "uniform (intField cServerAliveInterval_update)"
  "uniform (intField cServerAliveCountMax_update)"
  "uniform (boolField cCompression_update)"
  "uniform (strField cHostname_update)"
  "uniform (intField cPort_update)"
  "uniform (firstFields cCanonicalDomains_update)"
  "uniform (boolField cCanonicalizeFallbackLocal_update)"
  "uniform (strField cCanonicalizeHostname_update)"
  "uniform (intField cCanonicalizeMaxDots_update)"
  by (simp_all add: uniform_def handler_defs scalars_def blankOptions_def emptyOptions_def set_orElse)

lemma uniform_fields2:
  "uniform (firstFields cCanonicalizePermittedCNAMEs_update)"
  "uniform (strField cUser_update)"
  "uniform (boolField cIdentitiesOnly_update)"
  "uniform (strField cIdentityAgent_update)"
  "uniform (appendField cCertificateFile_update)"
  "uniform (boolField cPasswordAuthentication_update)"
  "uniform (boolField cKbdInteractiveAuthentication_update)"
  "uniform (strField cKbdInteractiveDevices_update)"
  "uniform (strField cPubkeyAuthentication_update)"
  "uniform (strField cPubkeyAcceptedAlgorithms_update)"
  "uniform (strField cPreferredAuthentications_update)"
  "uniform (intField cNumberOfPasswordPrompts_update)"
  "uniform (boolField cHostbasedAuthentication_update)"
  "uniform (strField cHostbasedAcceptedAlgorithms_update)"
  "uniform (boolField cEnableSSHKeysign_update)"
  "uniform (boolField cGSSAPIAuthentication_update)"
  by (simp_all add: uniform_def handler_defs scalars_def blankOptions_def emptyOptions_def set_orElse)

lemma uniform_fields3:
  "uniform (boolField cGSSAPIDelegateCredentials_update)"
  "uniform (strField cAddKeysToAgent_update)"
  "uniform (strField cCiphers_update)"
  "uniform (strField cKexAlgorithms_update)"
  "uniform (strField cMACs_update)"
  "uniform (strField cCASignatureAlgorithms_update)"
  "uniform (strField cHostKeyAlgorithms_update)"
  "uniform (strField cRekeyLimit_update)"
  "uniform (intField cRequiredRSASize_update)"
  "uniform (strField cFingerprintHash_update)"
  "uniform (strField cWarnWeakCrypto_update)"
  "uniform (boolField cCheckHostIP_update)"
  "uniform (strField cGlobalKnownHostsFile_update)"
  "uniform (strField cUserKnownHostsFile_update)"
  "uniform (boolField cHashKnownHosts_update)"
  "uniform (strField cStrictHostKeyChecking_update)"
  by (simp_all add: uniform_def handler_defs scalars_def blankOptions_def emptyOptions_def set_orElse)

lemma uniform_fields4:
  "uniform (strField cHostKeyAlias_update)"
  "uniform (strField cKnownHostsCommand_update)"
  "uniform (strField cRevokedHostKeys_update)"
  "uniform (strField cUpdateHostKeys_update)"
  "uniform (strField cVerifyHostKeyDNS_update)"
  "uniform (boolField cNoHostAuthenticationForLocalhost_update)"
  "uniform (strField cProxyCommand_update)"
  "uniform (strField cProxyJump_update)"
  "uniform (boolField cProxyUseFdpass_update)"
  "uniform (appendField cDynamicForward_update)"
  "uniform (boolField cClearAllForwardings_update)"
  "uniform (boolField cExitOnForwardFailure_update)"
  "uniform (boolField cGatewayPorts_update)"
  "uniform (firstFields cPermitRemoteOpen_update)"
  "uniform (strField cStreamLocalBindMask_update)"
  "uniform (boolField cStreamLocalBindUnlink_update)"
  by (simp_all add: uniform_def handler_defs scalars_def blankOptions_def emptyOptions_def set_orElse)

lemma uniform_fields5:
  "uniform (strField cForwardAgent_update)"
  "uniform (boolField cForwardX11_update)"
  "uniform (intField cForwardX11Timeout_update)"
  "uniform (boolField cForwardX11Trusted_update)"
  "uniform (strField cXAuthLocation_update)"
  "uniform (strField cTunnel_update)"
  "uniform (strField cTunnelDevice_update)"
  "uniform (strField cRequestTTY_update)"
  "uniform (strField cSessionType_update)"
  "uniform (strField cRemoteCommand_update)"
  "uniform (appendField cSetEnv_update)"
  "uniform (strField cEscapeChar_update)"
  "uniform (strField cIPQoS_update)"
  "uniform (strField cLogLevel_update)"
  "uniform (appendField cLogVerbose_update)"
  "uniform (strField cTag_update)"
  by (simp_all add: uniform_def handler_defs scalars_def blankOptions_def emptyOptions_def set_orElse)

lemma uniform_fields6:
  "uniform (strField cControlMaster_update)"
  "uniform (strField cControlPath_update)"
  "uniform (strField cControlPersist_update)"
  "uniform (boolField cPermitLocalCommand_update)"
  "uniform (strField cLocalCommand_update)"
  "uniform (boolField cVisualHostKey_update)"
  "uniform (boolField cForkAfterAuthentication_update)"
  "uniform (boolField cStdinNull_update)"
  "uniform (boolField cEnableEscapeCommandline_update)"
  "uniform (strField cObscureKeystrokeTiming_update)"
  "uniform (strField cVersionAddendum_update)"
  "uniform (strField cPKCS11Provider_update)"
  "uniform (strField cSecurityKeyProvider_update)"
  "uniform (strField cRefuseConnection_update)"
  "uniform (strField cSyslogFacility_update)"
  by (simp_all add: uniform_def handler_defs scalars_def blankOptions_def emptyOptions_def set_orElse)

lemmas uniform_fields =
  uniform_fields1 uniform_fields2 uniform_fields3 uniform_fields4 uniform_fields5 uniform_fields6

lemma uniform_table: "list_all (\<lambda>(k, h). uniform h) directiveTable"
  by (simp add: directiveTable_def uniform_special uniform_fields)

lemma uniform_lookup: "map_of directiveTable k = Some h \<Longrightarrow> uniform h"
  using uniform_table by (auto simp: list_all_iff dest!: map_of_SomeD)

lemma uniformD_Inr:
  "uniform h \<Longrightarrow> h v src opts = Inr o' \<Longrightarrow>
   \<exists>e. h v src (blankOptions (cIgnoredKeywords opts)) = Inr e \<and>
      cIgnoredKeywords e = cIgnoredKeywords o' \<and> scalars o' = mergeView (scalars opts) (scalars e)"
  unfolding uniform_def by (drule spec[of _ v], drule spec[of _ src], drule spec[of _ opts]) simp

lemma uniformD_Inl:
  "uniform h \<Longrightarrow> h v src opts = Inl x \<Longrightarrow>
   h v src (blankOptions (cIgnoredKeywords opts)) = Inl x"
  unfolding uniform_def by (drule spec[of _ v], drule spec[of _ src], drule spec[of _ opts]) simp

lemma ApplyDirective_delta:
  assumes "ApplyDirective d opts = Inr o'"
  shows "\<exists>e. ApplyDirective d (blankOptions (cIgnoredKeywords opts)) = Inr e \<and>
     cIgnoredKeywords e = cIgnoredKeywords o' \<and> scalars o' = mergeView (scalars opts) (scalars e)"
proof -
  let ?b = "blankOptions (cIgnoredKeywords opts)"
  have ign: "cIgnoredKeywords ?b = cIgnoredKeywords opts" by (simp add: blankOptions_def)
  have keep: "scalars opts = mergeView (scalars opts) (scalars ?b)"
    using mergeView_None[of "scalars opts"] by (simp add: length_scalars scalars_blank)
  show ?thesis
  proof (cases "toLower (dKeyword d) \<in> set (cIgnoredKeywords opts)")
    case True
    then show ?thesis using assms keep ign by (simp add: ApplyDirective_def)
  next
    case False
    show ?thesis
    proof (cases "map_of directiveTable (toLower (dKeyword d))")
      case None
      then show ?thesis using assms keep ign False
        by (auto simp: ApplyDirective_def split: if_splits)
    next
      case (Some h)
      then have "h (dValue d) (dSource d) opts = Inr o'"
        using assms False by (simp add: ApplyDirective_def)
      from uniformD_Inr[OF uniform_lookup[OF Some] this] show ?thesis
        using Some False ign by (auto simp: ApplyDirective_def)
    qed
  qed
qed

lemma ApplyDirective_error:
  assumes "ApplyDirective d opts = Inl x"
  shows "ApplyDirective d (blankOptions (cIgnoredKeywords opts)) = Inl x"
proof -
  let ?b = "blankOptions (cIgnoredKeywords opts)"
  have ign: "cIgnoredKeywords ?b = cIgnoredKeywords opts" by (simp add: blankOptions_def)
  have n: "toLower (dKeyword d) \<notin> set (cIgnoredKeywords opts)"
    using assms by (auto simp: ApplyDirective_def)
  show ?thesis
  proof (cases "map_of directiveTable (toLower (dKeyword d))")
    case None
    then show ?thesis using assms ign n by (auto simp: ApplyDirective_def split: if_splits)
  next
    case (Some h)
    then have "h (dValue d) (dSource d) opts = Inl x"
      using assms n by (simp add: ApplyDirective_def)
    from uniformD_Inl[OF uniform_lookup[OF Some] this] show ?thesis
      using Some n ign by (auto simp: ApplyDirective_def)
  qed
qed

lemma ignored_blank: "cIgnoredKeywords (blankOptions g) = g"
  by (simp add: blankOptions_def)

interpretation cl: option_store ApplyDirective scalars cIgnoredKeywords blankOptions 89
  by unfold_locales
    (rule length_scalars scalars_blank ignored_blank | erule ApplyDirective_delta ApplyDirective_error)+

definition ApplyAll :: "Directive list \<Rightarrow> ClientOptions \<Rightarrow> go_error + ClientOptions" where
  "ApplyAll ds opts = foldE ApplyDirective ds opts"

section \<open>Properties\<close>

text \<open>C10: the first value wins.  Applying directives keeps every scalar option that is
  set, and fills the others as the same directives would fill an empty struct with the
  same ignored keywords; so a source that is read earlier has priority over every later
  one, option by option.\<close>

theorem ApplyAll_first_value_wins:
  assumes "ApplyAll ds opts = Inr o'"
  shows "list_all2 ext (scalars opts) (scalars o') \<and>
    (\<exists>e. ApplyAll ds (blankOptions (cIgnoredKeywords opts)) = Inr e \<and>
         scalars o' = mergeView (scalars opts) (scalars e))"
  using cl.run_delta[of ds opts o'] cl.run_keeps[of ds opts o'] assms
  by (auto simp: ApplyAll_def)

definition dirOf :: "string \<Rightarrow> string \<Rightarrow> Directive" where
  "dirOf k v = \<lparr>dKeyword = k, dValue = v, dSource = noSource\<rparr>"

theorem ApplyAll_first_value_wins_witness:
  "\<exists>e. ApplyAll [dirOf ''Port'' ''22'', dirOf ''port'' ''23''] (blankOptions []) = Inr e \<and>
     scalars e = mergeView (scalars (emptyOptions\<lparr>cPort := Some 22\<rparr>)) (scalars e)"
proof -
  define o1 where "o1 = emptyOptions\<lparr>cPort := Some 22\<rparr>"
  have "ApplyAll [dirOf ''Port'' ''22'', dirOf ''port'' ''23''] o1 = Inr o1"
    unfolding o1_def ApplyAll_def dirOf_def by code_simp
  from ApplyAll_first_value_wins[OF this] obtain e where
    e: "ApplyAll [dirOf ''Port'' ''22'', dirOf ''port'' ''23''] (blankOptions []) = Inr e"
    by (auto simp: o1_def emptyOptions_def)
  have "ApplyAll [dirOf ''Port'' ''22'', dirOf ''port'' ''23''] (blankOptions []) = Inr o1"
    unfolding o1_def ApplyAll_def dirOf_def by code_simp
  with e show ?thesis by (auto simp: o1_def)
qed

definition knownKeyword :: "string \<Rightarrow> bool" where
  "knownKeyword k \<longleftrightarrow> toLower k \<in> set (map fst directiveTable)"

text \<open>An unknown keyword is an error at its source line unless
  IgnoreUnknown names it or a pattern of its matches it, and then it changes nothing.\<close>

theorem ApplyDirective_unknown:
  assumes "\<not> knownKeyword (dKeyword d)"
  shows "ApplyDirective d opts =
    (if list_ex (\<lambda>p. p = toLower (dKeyword d) \<or> glob p (toLower (dKeyword d))) (cIgnoredKeywords opts)
     then Inr opts
     else Inl (ParseError (dSource d) (''unknown option: '' @ dKeyword d)))"
proof -
  have "map_of directiveTable (toLower (dKeyword d)) = None"
    using assms by (simp add: knownKeyword_def map_of_eq_None_iff)
  then show ?thesis
    by (auto simp: ApplyDirective_def Let_def list_ex_iff MatchPattern_def mp.mtch_glob)
qed

theorem ApplyDirective_unknown_witness:
  "ApplyDirective (dirOf ''UseKeychain'' ''yes'') (blankOptions []) =
     Inl (ParseError noSource ''unknown option: UseKeychain'') \<and>
   ApplyDirective (dirOf ''UseKeychain'' ''yes'') (blankOptions [''usekey*'']) = Inr (blankOptions [''usekey*''])"
proof -
  have "\<not> knownKeyword ''UseKeychain''"
    unfolding knownKeyword_def by code_simp
  then have k: "\<not> knownKeyword (dKeyword (dirOf ''UseKeychain'' ''yes''))" by (simp add: dirOf_def)
  have "toLower ''UseKeychain'' = ''usekeychain''" by code_simp
  moreover have "matchPattern ''usekey*'' ''usekeychain''" by code_simp
  ultimately show ?thesis
    using ApplyDirective_unknown[OF k, of "blankOptions []"]
      ApplyDirective_unknown[OF k, of "blankOptions [''usekey*'']"]
    by (simp add: dirOf_def blankOptions_def emptyOptions_def mp.mtch_glob)
qed

end
