(* ===== verification/ClientResolve.thy ===== *)
theory ClientResolve
  imports ClientKeyword ConfRender
begin

text \<open>
  Resolution of the client configuration (\<^verbatim>\<open>pkg/sshclient/resolve.go\<close>; the merge of
  two structs is in the theory of the options).  The operating system is the record
  \<^verbatim>\<open>World\<close>; the handlers a caller may supply are functions of the record
  \<^verbatim>\<open>Lookup\<close>.  A handler of host names reads the options it is given and does not
  write them.
\<close>

record Lookup =
  lkHost :: string
  lkUser :: string
  lkPort :: int
  lkOriginalHost :: string
  lkLocalUser :: string
  lkCommand :: string
  lkTag :: string
  lkSessionType :: string
  lkVersion :: string
  lkCommandLineDirectives :: "Directive list"
  lkCommandLineOptions :: "string list"
  lkUserConfigFile :: string
  lkSystemConfigFile :: string
  lkExecFunc :: "(string \<Rightarrow> bool) option"
  lkHostCanonicalizer :: "(string \<Rightarrow> ClientOptions \<Rightarrow> go_error + string) option"
  lkCommandExecutor :: "(string \<Rightarrow> go_error option) option"

definition emptyLookup :: Lookup where
  "emptyLookup = \<lparr>lkHost = [], lkUser = [], lkPort = 0, lkOriginalHost = [], lkLocalUser = [],
     lkCommand = [], lkTag = [], lkSessionType = [], lkVersion = [], lkCommandLineDirectives = [],
     lkCommandLineOptions = [], lkUserConfigFile = [], lkSystemConfigFile = [],
     lkExecFunc = None, lkHostCanonicalizer = None, lkCommandExecutor = None\<rparr>"

definition Version :: string where "Version = ''sshconf_1.0''"

section \<open>Sources of entries\<close>

definition configEntries ::
  "World \<Rightarrow> string \<Rightarrow> bool \<Rightarrow> string \<Rightarrow> string \<Rightarrow> go_error + Entry list" where
  "configEntries w path isUser homeDir what =
     (if wStat w path = None then Inr []
      else case ParseFile w path
             \<lparr>poBaseDir = pathDir path, poIsUser = isUser, poMaxIncludeDepth = 0,
              poHomeDir = homeDir, poTokenContext = None\<rparr> of
             Inl err \<Rightarrow> Inl (Wrapf (''parsing '' @ what @ '' config %s: %w'') [path] err)
           | Inr entries \<Rightarrow> Inr entries)"

definition homeDirOf :: "World \<Rightarrow> string" where
  "homeDirOf w = (case wHomeDir w of Some h \<Rightarrow> h | None \<Rightarrow> [])"

definition localUserOf :: "World \<Rightarrow> Lookup \<Rightarrow> string" where
  "localUserOf w l =
     (if lkLocalUser l = [] then (case wCurrentUser w of Some u \<Rightarrow> u | None \<Rightarrow> [])
      else lkLocalUser l)"

definition originalHostOf :: "Lookup \<Rightarrow> string" where
  "originalHostOf l = (if lkOriginalHost l = [] then lkHost l else lkOriginalHost l)"

definition unconditional :: "Directive \<Rightarrow> Entry" where
  "unconditional d = \<lparr>eConditions = [], eDirective = d\<rparr>"

definition allEntriesOf :: "World \<Rightarrow> Lookup \<Rightarrow> go_error + Entry list" where
  "allEntriesOf w l =
     (let homeDir = homeDirOf w;
          cliEntries = map unconditional (lkCommandLineDirectives l);
          userConfigFile = (if lkUserConfigFile l = [] then pathJoin [homeDir, ''.ssh'', ''config'']
                            else lkUserConfigFile l);
          systemConfigFile = (if lkSystemConfigFile l = [] then ''/etc/ssh/ssh_config''
                              else lkSystemConfigFile l)
      in case ParseOverrides (lkCommandLineOptions l) of
           Inl err \<Rightarrow> Inl (Wrapf ''parsing overrides: %w'' [] err)
         | Inr overrides \<Rightarrow>
             bindE (configEntries w userConfigFile True homeDir ''user'') (\<lambda>userEntries.
             bindE (configEntries w systemConfigFile False homeDir ''system'') (\<lambda>systemEntries.
               Inr (cliEntries @ overrides @ userEntries @ systemEntries))))"

section \<open>Passes over the entries\<close>

definition execFunc :: "Lookup \<Rightarrow> (string \<Rightarrow> bool) option" where
  "execFunc l =
     (case lkExecFunc l of
        Some f \<Rightarrow> Some f
      | None \<Rightarrow> map_option (\<lambda>ex cmd. ex cmd = None) (lkCommandExecutor l))"

definition getLocalAddresses :: "World \<Rightarrow> IP list" where
  "getLocalAddresses w =
     (case wInterfaceAddrs w of
        Inl err \<Rightarrow> []
      | Inr addrs \<Rightarrow> concat (map (\<lambda>a. case a of IPNet ip \<Rightarrow> [ip] | OtherAddr \<Rightarrow> []) addrs))"

definition initialContext :: "World \<Rightarrow> Lookup \<Rightarrow> MatchContext" where
  "initialContext w l =
     (let port = (if lkPort l = 0 then 22 else lkPort l) in
      emptyMatchContext
        \<lparr>mcUser := lkUser l, mcHost := lkHost l, mcOriginalHost := originalHostOf l,
         mcLocalUser := localUserOf w l, mcPort := itoaInt port, mcCommand := lkCommand l,
         mcTag := lkTag l, mcVersion := (if lkVersion l = [] then Version else lkVersion l),
         mcSessionType := lkSessionType l, mcExecFunc := execFunc l,
         mcLocalAddresses := getLocalAddresses w\<rparr>)"

text \<open>The first pass updates the context with what has been resolved so far.\<close>

definition updateContext :: "ClientOptions \<Rightarrow> MatchContext \<Rightarrow> MatchContext" where
  "updateContext opts ctx =
     (let ctx1 = (case cUser opts of
                    Some u \<Rightarrow> if mcUser ctx = [] then ctx\<lparr>mcUser := u\<rparr> else ctx
                  | None \<Rightarrow> ctx)
      in case cTag opts of Some t \<Rightarrow> ctx1\<lparr>mcTag := t\<rparr> | None \<Rightarrow> ctx1)"

primrec firstPass ::
  "Entry list \<Rightarrow> MatchContext \<Rightarrow> ClientOptions \<Rightarrow> go_error + MatchContext \<times> ClientOptions" where
  "firstPass [] ctx opts = Inr (ctx, opts)"
| "firstPass (e # es) ctx opts =
     (if \<not> EvaluateConditions (eConditions e) ctx then firstPass es ctx opts
      else bindE (ApplyDirective (eDirective e) opts) (\<lambda>opts'.
             firstPass es (updateContext opts' ctx) opts'))"

text \<open>A later pass starts from an empty struct and leaves the context alone.\<close>

primrec reapply :: "Entry list \<Rightarrow> MatchContext \<Rightarrow> ClientOptions \<Rightarrow> go_error + ClientOptions" where
  "reapply [] ctx opts = Inr opts"
| "reapply (e # es) ctx opts =
     (if \<not> EvaluateConditions (eConditions e) ctx then reapply es ctx opts
      else bindE (ApplyDirective (eDirective e) opts) (reapply es ctx))"

primrec canonTry :: "World \<Rightarrow> string \<Rightarrow> string list \<Rightarrow> string" where
  "canonTry w host [] = []"
| "canonTry w host (domain # domains) =
     (let candidate = host @ ''.'' @ domain
      in if wLookupHost w candidate then candidate else canonTry w host domains)"

definition canonicalizeHost :: "World \<Rightarrow> string \<Rightarrow> string list \<Rightarrow> int option \<Rightarrow> string" where
  "canonicalizeHost w host domains maxDots =
     (if domains = [] then []
      else
        (let dots = countByte host CHR ''.'';
             mx = (case maxDots of Some m \<Rightarrow> m | None \<Rightarrow> 1)
         in if int dots > mx then [] else canonTry w host domains))"

definition fillIdentity :: "World \<Rightarrow> Lookup \<Rightarrow> ClientOptions \<Rightarrow> ClientOptions" where
  "fillIdentity w l opts =
     (let o1 = (if cHostname opts = None then opts\<lparr>cHostname := Some (lkHost l)\<rparr> else opts)
      in if cUser o1 = None
         then o1\<lparr>cUser := Some (if lkUser l \<noteq> [] then lkUser l else localUserOf w l)\<rparr>
         else o1)"

definition canonHostOf :: "World \<Rightarrow> Lookup \<Rightarrow> ClientOptions \<Rightarrow> string" where
  "canonHostOf w l opts =
     (let host = (case cHostname opts of Some h \<Rightarrow> h | None \<Rightarrow> []) in
      case lkHostCanonicalizer l of
        Some f \<Rightarrow> (case f host opts of Inr h \<Rightarrow> h | Inl _ \<Rightarrow> [])
      | None \<Rightarrow> canonicalizeHost w host
                  (case cCanonicalDomains opts of Some d \<Rightarrow> d | None \<Rightarrow> []) (cCanonicalizeMaxDots opts))"

definition wantsCanonical :: "ClientOptions \<Rightarrow> bool" where
  "wantsCanonical opts \<longleftrightarrow>
     cCanonicalizeHostname opts = Some ''yes'' \<or> cCanonicalizeHostname opts = Some ''always''"

definition canonicalPass ::
  "World \<Rightarrow> Lookup \<Rightarrow> Entry list \<Rightarrow> MatchContext \<Rightarrow> ClientOptions \<Rightarrow>
   go_error + MatchContext \<times> ClientOptions" where
  "canonicalPass w l entries ctx opts =
     (if wantsCanonical opts then
        (let canonHost = canonHostOf w l opts in
         if canonHost \<noteq> [] then
           (let opts1 = opts\<lparr>cHostname := Some canonHost\<rparr>;
                ctx1 = ctx\<lparr>mcHost := canonHost, mcIsCanonical := True\<rparr>
            in bindE (reapply entries ctx1 emptyOptions) (\<lambda>canonOpts.
                 Inr (ctx1, mergeOptions opts1 canonOpts)))
         else Inr (ctx, opts))
      else Inr (ctx, opts))"

definition finalPass ::
  "Entry list \<Rightarrow> MatchContext \<Rightarrow> ClientOptions \<Rightarrow> go_error + ClientOptions" where
  "finalPass entries ctx opts =
     (let ctx1 = ctx\<lparr>mcIsFinal := True\<rparr>
      in bindE (reapply entries ctx1 emptyOptions) (\<lambda>finalOpts. Inr (mergeOptions opts finalOpts)))"

definition portAndDefaults :: "Lookup \<Rightarrow> ClientOptions \<Rightarrow> ClientOptions" where
  "portAndDefaults l opts =
     (let o1 = (if lkPort l \<noteq> 0 then opts\<lparr>cPort := Some (lkPort l)\<rparr> else opts);
          o2 = applyDefaults o1
      in if cClearAllForwardings o2 = Some True
         then o2\<lparr>cLocalForward := [], cRemoteForward := [], cDynamicForward := []\<rparr>
         else o2)"

text \<open>Everything up to the expansion of tokens, for given entries.\<close>

definition resolveOptions :: "World \<Rightarrow> Lookup \<Rightarrow> Entry list \<Rightarrow> go_error + ClientOptions" where
  "resolveOptions w l entries =
     bindE (firstPass entries (initialContext w l) emptyOptions) (\<lambda>(ctx, opts).
     bindE (canonicalPass w l entries ctx (fillIdentity w l opts)) (\<lambda>(ctx', opts').
     bindE (finalPass entries ctx' opts') (\<lambda>opts''.
       Inr (portAndDefaults l opts''))))"

section \<open>Expansion\<close>

definition tokenContextOf :: "World \<Rightarrow> Lookup \<Rightarrow> ClientOptions \<Rightarrow> TokenContext" where
  "tokenContextOf w l opts =
     emptyTokenContext
       \<lparr>tcRemoteHost := strOr (cHostname opts),
        tcRemotePort := (case cPort opts of Some p \<Rightarrow> itoaInt p | None \<Rightarrow> []),
        tcRemoteUser := strOr (cUser opts),
        tcLocalUser := localUserOf w l,
        tcHomeDir := homeDirOf w,
        tcOriginalHost := originalHostOf l,
        tcLocalHost := strOr (wHostname w),
        tcLocalHostFQDN := strOr (wHostname w),
        tcLocalUserID := (if wUid w \<ge> 0 then itoaInt (wUid w) else []),
        tcProxyJump := strOr (cProxyJump opts),
        tcHostKeyAlias := (case cHostKeyAlias opts of Some a \<Rightarrow> a | None \<Rightarrow> originalHostOf l)\<rparr>"

definition expandStr :: "World \<Rightarrow> TokenContext \<Rightarrow> string \<Rightarrow> string \<Rightarrow> string" where
  "expandStr w ctx homeDir s = ExpandTilde w (ExpandTokens w s (Some ctx)) homeDir"

definition expandStrPtr :: "World \<Rightarrow> TokenContext \<Rightarrow> string \<Rightarrow> string option \<Rightarrow> string option" where
  "expandStrPtr w ctx homeDir p =
     (case p of
        None \<Rightarrow> None
      | Some s \<Rightarrow> if s \<noteq> [] \<and> s \<noteq> ''none'' then Some (expandStr w ctx homeDir s) else Some s)"

definition expandPathList :: "World \<Rightarrow> string \<Rightarrow> string \<Rightarrow> string" where
  "expandPathList w paths homeDir =
     joinWith (map (\<lambda>f. ExpandTilde w f homeDir) (SplitFields paths)) '' ''"

definition expandProxy :: "World \<Rightarrow> TokenContext \<Rightarrow> string option \<Rightarrow> string option" where
  "expandProxy w ctx p =
     (case p of
        None \<Rightarrow> None
      | Some s \<Rightarrow> if s \<noteq> ''none'' then Some (ExpandTokens w s (Some ctx)) else Some s)"

definition expandPathTokens :: "World \<Rightarrow> ClientOptions \<Rightarrow> TokenContext \<Rightarrow> string \<Rightarrow> ClientOptions" where
  "expandPathTokens w opts ctx homeDir =
     opts\<lparr>cControlPath := expandStrPtr w ctx homeDir (cControlPath opts),
          cIdentityAgent := expandStrPtr w ctx homeDir (cIdentityAgent opts),
          cKnownHostsCommand := expandStrPtr w ctx homeDir (cKnownHostsCommand opts),
          cLocalCommand := expandStrPtr w ctx homeDir (cLocalCommand opts),
          cRemoteCommand := expandStrPtr w ctx homeDir (cRemoteCommand opts),
          cRevokedHostKeys := expandStrPtr w ctx homeDir (cRevokedHostKeys opts),
          cIdentityFile := map (expandStr w ctx homeDir) (cIdentityFile opts),
          cCertificateFile := map (expandStr w ctx homeDir) (cCertificateFile opts),
          cUserKnownHostsFile :=
            map_option (\<lambda>p. expandPathList w (ExpandTokens w p (Some ctx)) homeDir) (cUserKnownHostsFile opts),
          cGlobalKnownHostsFile :=
            map_option (\<lambda>p. expandPathList w (ExpandTokens w p (Some ctx)) homeDir) (cGlobalKnownHostsFile opts),
          cProxyCommand := expandProxy w ctx (cProxyCommand opts),
          cProxyJump := expandProxy w ctx (cProxyJump opts),
          cHostname := map_option (\<lambda>h. ExpandTokens w h (Some ctx)) (cHostname opts)\<rparr>"

definition Resolve :: "World \<Rightarrow> Lookup \<Rightarrow> go_error + ClientOptions" where
  "Resolve w l =
     bindE (allEntriesOf w l) (\<lambda>entries.
     bindE (resolveOptions w l entries) (\<lambda>opts.
       case cRefuseConnection opts of
         Some m \<Rightarrow> Inl (Errorf ''connection refused: %s'' [m])
       | None \<Rightarrow>
           Inr (RefreshDialerConfig
                  (expandPathTokens w opts (tokenContextOf w l opts) (homeDirOf w)))))"

section \<open>Lemmas\<close>

lemma ext_list_trans: "list_all2 ext a b \<Longrightarrow> list_all2 ext b c \<Longrightarrow> list_all2 ext a c"
proof (induction a b arbitrary: c rule: list_all2_induct)
  case (Cons x xs y ys)
  from Cons.prems obtain z zs where c: "c = z # zs" "ext y z" "list_all2 ext ys zs"
    unfolding list_all2_Cons1 by blast
  have "ext x z" using Cons.hyps(1) c(2) by (rule ext_trans)
  moreover have "list_all2 ext xs zs" using c(3) by (rule Cons.IH)
  ultimately show ?case unfolding c(1) by (rule list_all2_Cons[THEN iffD2, OF conjI])
qed simp

lemma ext_list_refl: "list_all2 ext a a"
  by (simp add: list_all2_refl)

lemma ApplyDirective_keeps:
  "ApplyDirective d o1 = Inr o2 \<Longrightarrow> list_all2 ext (scalars o1) (scalars o2)"
  using cl.run_keeps[of "[d]" o1 o2] by simp

lemma firstPass_keeps:
  "firstPass es ctx o1 = Inr (ctx', o2) \<Longrightarrow> list_all2 ext (scalars o1) (scalars o2)"
proof (induction es arbitrary: ctx o1)
  case (Cons e es)
  show ?case
  proof (cases "EvaluateConditions (eConditions e) ctx")
    case True
    then obtain o3 where 3: "ApplyDirective (eDirective e) o1 = Inr o3"
      "firstPass es (updateContext o3 ctx) o3 = Inr (ctx', o2)"
      using Cons.prems by (auto simp: bindE_Inr_iff)
    then show ?thesis using Cons.IH ApplyDirective_keeps ext_list_trans by blast
  next
    case False
    then show ?thesis using Cons by simp
  qed
qed (simp add: ext_list_refl)

lemma firstPass_unconditional:
  "ApplyAll ds o1 = Inr e \<Longrightarrow>
   \<exists>ctx'. firstPass (map unconditional ds @ es) ctx o1 = firstPass es ctx' e"
proof (induction ds arbitrary: ctx o1)
  case Nil
  then show ?case by (auto simp: ApplyAll_def)
next
  case (Cons d ds)
  then obtain o2 where "ApplyDirective d o1 = Inr o2" "ApplyAll ds o2 = Inr e"
    by (auto simp: ApplyAll_def bindE_Inr_iff)
  then show ?case using Cons.IH[of o2] by (simp add: unconditional_def)
qed

lemma reapply_unconditional: "reapply (map unconditional ds) ctx o1 = ApplyAll ds o1"
proof (induction ds arbitrary: o1)
  case (Cons d ds)
  then show ?case by (cases "ApplyDirective d o1") (auto simp: ApplyAll_def unconditional_def)
qed (simp add: ApplyAll_def)

lemma mergeOptions_keeps: "list_all2 ext (scalars a) (scalars (mergeOptions a b))"
  by (simp add: scalars_mergeOptions mergeView_keeps length_scalars)

lemma applyDefaults_keeps: "list_all2 ext (scalars a) (scalars (applyDefaults a))"
proof -
  have "length defaultScalars = 89" unfolding defaultScalars_def by (rule length_scalars)
  then show ?thesis by (simp add: scalars_applyDefaults mergeView_keeps length_scalars)
qed

text \<open>The scalars without the host name, which canonicalization replaces.\<close>

definition scalarsButHost :: "ClientOptions \<Rightarrow> view" where
  "scalarsButHost o1 = (scalars o1)[10 := None]"

lemma scalarsButHost_ext:
  "list_all2 ext (scalars a) (scalars b) \<Longrightarrow> list_all2 ext (scalarsButHost a) (scalarsButHost b)"
  unfolding scalarsButHost_def by (intro list_all2_update_cong) auto

lemma scalarsButHost_Hostname [simp]: "scalarsButHost (a\<lparr>cHostname := h\<rparr>) = scalarsButHost a"
  by (simp add: scalarsButHost_def scalars_def)

lemma fillIdentity_keeps: "list_all2 ext (scalars a) (scalars (fillIdentity w l a))"
proof -
  have "scalars (fillIdentity w l a) = mergeView (scalars a)
      (scalars (emptyOptions\<lparr>cHostname := Some (lkHost l),
         cUser := Some (if lkUser l \<noteq> [] then lkUser l else localUserOf w l)\<rparr>))"
    by (cases "cHostname a"; cases "cUser a") (simp_all add: fillIdentity_def scalars_def emptyOptions_def)
  then show ?thesis by (simp add: mergeView_keeps length_scalars)
qed

lemma canonicalPass_keeps:
  assumes "canonicalPass w l es ctx a = Inr (ctx', b)"
  shows "list_all2 ext (scalarsButHost a) (scalarsButHost b)"
proof -
  have "b = a \<or> (\<exists>h c. b = mergeOptions (a\<lparr>cHostname := Some h\<rparr>) c)"
    using assms by (auto simp: canonicalPass_def Let_def bindE_Inr_iff split: if_splits)
  then show ?thesis
    using scalarsButHost_ext[OF mergeOptions_keeps, of "a\<lparr>cHostname := _\<rparr>"]
    by (auto simp: ext_list_refl)
qed

lemma finalPass_keeps:
  "finalPass es ctx a = Inr b \<Longrightarrow> list_all2 ext (scalars a) (scalars b)"
  by (auto simp: finalPass_def Let_def bindE_Inr_iff mergeOptions_keeps)

lemma portAndDefaults_keeps:
  assumes "lkPort l = 0" shows "list_all2 ext (scalars a) (scalars (portAndDefaults l a))"
proof -
  have "scalars (portAndDefaults l a) = scalars (applyDefaults a)"
    using assms by (simp add: portAndDefaults_def Let_def) (simp add: scalars_def)
  then show ?thesis by (simp add: applyDefaults_keeps)
qed

lemma resolveOptions_Inr:
  "resolveOptions w l es = Inr r \<longleftrightarrow>
   (\<exists>ctx o1 ctx' o2 o3. firstPass es (initialContext w l) emptyOptions = Inr (ctx, o1) \<and>
      canonicalPass w l es ctx (fillIdentity w l o1) = Inr (ctx', o2) \<and>
      finalPass es ctx' o2 = Inr o3 \<and> r = portAndDefaults l o3)"
  by (auto simp: resolveOptions_def bindE_Inr_iff split_beta)

lemma resolved_present:
  assumes "resolveOptions w l es = Inr r"
  shows "cHostname r \<noteq> None" "cPort r \<noteq> None" "cUser r \<noteq> None"
proof -
  from assms obtain ctx o1 ctx' o2 o3 where r:
    "canonicalPass w l es ctx (fillIdentity w l o1) = Inr (ctx', o2)"
    "finalPass es ctx' o2 = Inr o3" "r = portAndDefaults l o3"
    unfolding resolveOptions_Inr by blast
  have f: "cHostname (fillIdentity w l o1) \<noteq> None" "cUser (fillIdentity w l o1) \<noteq> None"
    by (auto simp: fillIdentity_def Let_def)
  have "cHostname o2 \<noteq> None" "cUser o2 \<noteq> None"
    using r(1) f by (auto simp: canonicalPass_def Let_def bindE_Inr_iff mergeOptions_defs split: if_splits)
  then have "cHostname o3 \<noteq> None" "cUser o3 \<noteq> None"
    using r(2) by (auto simp: finalPass_def Let_def bindE_Inr_iff mergeOptions_defs)
  then show "cHostname r \<noteq> None" "cPort r \<noteq> None" "cUser r \<noteq> None"
    unfolding r(3) portAndDefaults_def Let_def by (auto simp: applyDefaults_def)
qed

section \<open>Properties\<close>

text \<open>C18: resolution ends with a host name, a port and a user, which the code then
  dereferences without a check; it never succeeds when the configuration refuses the
  connection, and no forwarding is left when ClearAllForwardings is set.\<close>

theorem Resolve_complete:
  assumes "Resolve w l = Inr r"
  shows "cHostname r \<noteq> None \<and> cPort r \<noteq> None \<and> cUser r \<noteq> None \<and> cRefuseConnection r = None \<and>
     (cClearAllForwardings r = Some True \<longrightarrow>
        cLocalForward r = [] \<and> cRemoteForward r = [] \<and> cDynamicForward r = [])"
proof -
  obtain es o1 where 1: "resolveOptions w l es = Inr o1" "cRefuseConnection o1 = None"
    and r: "r = RefreshDialerConfig (expandPathTokens w o1 (tokenContextOf w l o1) (homeDirOf w))"
    using assms by (auto simp: Resolve_def bindE_Inr_iff split: option.splits)
  obtain o3 where "o1 = portAndDefaults l o3" using 1(1) unfolding resolveOptions_Inr by blast
  then have "cClearAllForwardings o1 = Some True \<Longrightarrow>
      cLocalForward o1 = [] \<and> cRemoteForward o1 = [] \<and> cDynamicForward o1 = []"
    by (auto simp: portAndDefaults_def Let_def)
  then show ?thesis
    using resolved_present[OF 1(1)] 1(2)
    by (simp add: r RefreshDialerConfig_def Let_def expandPathTokens_def)
qed

lemma resolved_keeps:
  assumes "ApplyAll ds emptyOptions = Inr e" and "lkPort l = 0"
    and "resolveOptions w l (map unconditional ds @ es) = Inr r"
  shows "list_all2 ext (scalarsButHost e) (scalarsButHost r)"
proof -
  from assms(3) obtain ctx o1 ctx' o2 o3 where r:
    "firstPass (map unconditional ds @ es) (initialContext w l) emptyOptions = Inr (ctx, o1)"
    "canonicalPass w l (map unconditional ds @ es) ctx (fillIdentity w l o1) = Inr (ctx', o2)"
    "finalPass (map unconditional ds @ es) ctx' o2 = Inr o3" "r = portAndDefaults l o3"
    unfolding resolveOptions_Inr by blast
  obtain c where "firstPass es c e = Inr (ctx, o1)"
    using firstPass_unconditional[OF assms(1)] r(1) by metis
  then have "list_all2 ext (scalarsButHost e) (scalarsButHost o1)"
    by (intro scalarsButHost_ext) (rule firstPass_keeps)
  moreover have "list_all2 ext (scalarsButHost o1) (scalarsButHost (fillIdentity w l o1))"
    by (intro scalarsButHost_ext fillIdentity_keeps)
  moreover have "list_all2 ext (scalarsButHost (fillIdentity w l o1)) (scalarsButHost o2)"
    by (rule canonicalPass_keeps[OF r(2)])
  moreover have "list_all2 ext (scalarsButHost o2) (scalarsButHost o3)"
    by (intro scalarsButHost_ext finalPass_keeps[OF r(3)])
  moreover have "list_all2 ext (scalarsButHost o3) (scalarsButHost r)"
    unfolding r(4) by (intro scalarsButHost_ext portAndDefaults_keeps assms(2))
  ultimately show ?thesis by (blast intro: ext_list_trans)
qed


lemma resolve_unconditional:
  assumes "ApplyAll ds emptyOptions = Inr e" and "\<not> wantsCanonical e"
  shows "resolveOptions w l (map unconditional ds) =
     Inr (portAndDefaults l (mergeOptions (fillIdentity w l e) e))"
proof -
  obtain ctx' where f: "firstPass (map unconditional ds @ []) (initialContext w l) emptyOptions = Inr (ctx', e)"
    using firstPass_unconditional[OF assms(1), of "[]"] by fastforce
  have "\<not> wantsCanonical (fillIdentity w l e)"
    using assms(2) by (simp add: wantsCanonical_def fillIdentity_def Let_def)
  then show ?thesis
    using f assms(1)
    by (simp add: resolveOptions_def canonicalPass_def finalPass_def Let_def reapply_unconditional)
qed

lemma merged_lists:
  "cLocalForward (mergeOptions a b) = cLocalForward a @ cLocalForward b"
  "cRemoteForward (mergeOptions a b) = cRemoteForward a @ cRemoteForward b"
  "cDynamicForward (mergeOptions a b) = cDynamicForward a @ cDynamicForward b"
  "cCertificateFile (mergeOptions a b) = cCertificateFile a @ cCertificateFile b"
  "cIdentityFile (mergeOptions a b) = cIdentityFile a @ cIdentityFile b"
  "cClearAllForwardings (mergeOptions a b) = orElse (cClearAllForwardings a) (cClearAllForwardings b)"
  by (simp_all add: mergeOptions_defs)

lemma defaulted_lists:
  "cLocalForward (applyDefaults a) = cLocalForward a"
  "cRemoteForward (applyDefaults a) = cRemoteForward a"
  "cDynamicForward (applyDefaults a) = cDynamicForward a"
  "cCertificateFile (applyDefaults a) = cCertificateFile a"
  "cIdentityFile (applyDefaults a) =
     (if cIdentityFile a = [] then defaultIdentityFiles else cIdentityFile a)"
  "cClearAllForwardings (applyDefaults a) = orElse (cClearAllForwardings a) (Some False)"
  by (simp_all add: applyDefaults_def)

lemma identity_lists:
  "cLocalForward (fillIdentity w l e) = cLocalForward e"
  "cRemoteForward (fillIdentity w l e) = cRemoteForward e"
  "cDynamicForward (fillIdentity w l e) = cDynamicForward e"
  "cCertificateFile (fillIdentity w l e) = cCertificateFile e"
  "cIdentityFile (fillIdentity w l e) = cIdentityFile e"
  "cClearAllForwardings (fillIdentity w l e) = cClearAllForwardings e"
  by (simp_all add: fillIdentity_def Let_def)

lemma ported_lists:
  "cClearAllForwardings a \<noteq> Some True \<Longrightarrow> cLocalForward (portAndDefaults l a) = cLocalForward a"
  "cClearAllForwardings a \<noteq> Some True \<Longrightarrow> cRemoteForward (portAndDefaults l a) = cRemoteForward a"
  "cClearAllForwardings a \<noteq> Some True \<Longrightarrow> cDynamicForward (portAndDefaults l a) = cDynamicForward a"
  "cCertificateFile (portAndDefaults l a) = cCertificateFile a"
  "cIdentityFile (portAndDefaults l a) =
     (if cIdentityFile a = [] then defaultIdentityFiles else cIdentityFile a)"
  by (cases "cClearAllForwardings a"; simp add: portAndDefaults_def Let_def defaulted_lists)+

lemmas resolved_lists = merged_lists identity_lists ported_lists

text \<open>Every accumulated option of an unconditional configuration comes out twice: the
  final pass collects it again and the merge appends.\<close>

theorem resolveOptions_doubles:
  assumes "ApplyAll ds emptyOptions = Inr e" and "\<not> wantsCanonical e"
    and "cClearAllForwardings e \<noteq> Some True"
  shows "\<exists>r. resolveOptions w l (map unconditional ds) = Inr r \<and>
     cLocalForward r = cLocalForward e @ cLocalForward e \<and>
     cRemoteForward r = cRemoteForward e @ cRemoteForward e \<and>
     cDynamicForward r = cDynamicForward e @ cDynamicForward e \<and>
     cCertificateFile r = cCertificateFile e @ cCertificateFile e \<and>
     (cIdentityFile e \<noteq> [] \<longrightarrow> cIdentityFile r = cIdentityFile e @ cIdentityFile e)"
proof -
  have "cClearAllForwardings (mergeOptions (fillIdentity w l e) e) \<noteq> Some True"
    using assms(3) by (simp add: merged_lists identity_lists)
  then show ?thesis
    by (simp add: resolve_unconditional[OF assms(1,2)] resolved_lists)
qed

text \<open>\<^verbatim>\<open>IdentityFile none\<close> does not switch identity files off: the list it empties
  is filled with the default files when the defaults are applied.\<close>

theorem resolveOptions_identity_none:
  assumes "ApplyAll (ds @ [dirOf ''IdentityFile'' ''none'']) emptyOptions = Inr e"
    and "\<not> wantsCanonical e" and "''identityfile'' \<notin> set (cIgnoredKeywords e)"
  shows "\<exists>r. resolveOptions w l (map unconditional (ds @ [dirOf ''IdentityFile'' ''none''])) = Inr r \<and>
     cIdentityFile r = defaultIdentityFiles"
proof -
  obtain o1 where o1: "ApplyDirective (dirOf ''IdentityFile'' ''none'') o1 = Inr e"
    using assms(1) by (auto simp: ApplyAll_def foldE_append bindE_Inr_iff)
  have lk: "toLower (dKeyword (dirOf ''IdentityFile'' ''none'')) = ''identityfile''"
    "map_of directiveTable ''identityfile'' = Some identityFileHandler" "toLower ''none'' = ''none''"
    unfolding dirOf_def by code_simp (simp add: directiveTable_def, code_simp)
  have "''identityfile'' \<notin> set (cIgnoredKeywords o1)"
    using o1 assms(3) lk(1) by (auto simp: ApplyDirective_def)
  then have "cIdentityFile e = []"
    using o1 lk by (auto simp: ApplyDirective_def identityFileHandler_def dirOf_def)
  then show ?thesis
    unfolding resolve_unconditional[OF assms(1,2)] by (simp add: resolved_lists)
qed

text \<open>The witnesses share a lookup that asks for a port and a dynamic forwarding.\<close>

definition demoDirs :: "Directive list" where
  "demoDirs = [dirOf ''Port'' ''2222'', dirOf ''DynamicForward'' ''1080'']"

definition demoOut :: ClientOptions where
  "demoOut = emptyOptions\<lparr>cPort := Some 2222, cDynamicForward := [''1080'']\<rparr>"

lemma demo_applied: "ApplyAll demoDirs emptyOptions = Inr demoOut"
  unfolding demoDirs_def demoOut_def ApplyAll_def dirOf_def by code_simp

lemma demo_plain: "\<not> wantsCanonical demoOut" "cClearAllForwardings demoOut \<noteq> Some True"
  by (simp_all add: demoOut_def emptyOptions_def wantsCanonical_def)

theorem resolveOptions_doubles_witness:
  "\<exists>r. resolveOptions emptyWorld emptyLookup (map unconditional demoDirs) = Inr r \<and>
     cDynamicForward r = [''1080'', ''1080'']"
  using resolveOptions_doubles[OF demo_applied demo_plain, of emptyWorld emptyLookup]
  by (auto simp: demoOut_def)


theorem resolveOptions_identity_none_witness:
  "\<exists>r. resolveOptions emptyWorld emptyLookup (map unconditional ([] @ [dirOf ''IdentityFile'' ''none''])) = Inr r \<and>
     cIdentityFile r = defaultIdentityFiles"
proof (rule resolveOptions_identity_none)
  show "ApplyAll ([] @ [dirOf ''IdentityFile'' ''none'']) emptyOptions = Inr emptyOptions"
    unfolding ApplyAll_def dirOf_def by code_simp
qed (simp_all add: wantsCanonical_def emptyOptions_def)

theorem Resolve_complete_witness:
  "\<exists>r. Resolve emptyWorld (emptyLookup\<lparr>lkHost := ''h'', lkCommandLineDirectives := demoDirs\<rparr>) = Inr r \<and>
     cHostname r \<noteq> None \<and> cPort r \<noteq> None \<and> cUser r \<noteq> None"
proof -
  define l where "l = emptyLookup\<lparr>lkHost := ''h'', lkCommandLineDirectives := demoDirs\<rparr>"
  have es: "allEntriesOf emptyWorld l = Inr (map unconditional demoDirs)"
    by (simp add: allEntriesOf_def l_def emptyLookup_def configEntries_def emptyWorld_def
        ParseOverrides_def Let_def)
  define m where "m = portAndDefaults l (mergeOptions (fillIdentity emptyWorld l demoOut) demoOut)"
  have "resolveOptions emptyWorld l (map unconditional demoDirs) = Inr m"
    unfolding m_def by (rule resolve_unconditional[OF demo_applied demo_plain(1)])
  moreover have "cRefuseConnection m = None"
    by (simp add: m_def portAndDefaults_def Let_def applyDefaults_def mergeOptions_defs
        fillIdentity_def demoOut_def emptyOptions_def)
  ultimately obtain r where "Resolve emptyWorld l = Inr r"
    using es by (simp add: Resolve_def)
  with Resolve_complete[OF this] show ?thesis by (auto simp: l_def)
qed

text \<open>Without any configuration everything resolves, with the defaults.\<close>

lemma demo_resolved:
  assumes "lkCommandLineDirectives l = []" and "lkCommandLineOptions l = []" and "lkPort l = 0"
  shows "\<exists>o1. Resolve emptyWorld l = Inr o1 \<and> cRevokedHostKeys o1 = None \<and>
    dcBindAddress (cDialerConfig o1) = [] \<and> dcBindInterface (cDialerConfig o1) = [] \<and>
    dcIPQoS (cDialerConfig o1) = ''ef none''"
proof -
  have es: "allEntriesOf emptyWorld l = Inr (map unconditional [])"
    using assms by (simp add: allEntriesOf_def configEntries_def emptyWorld_def ParseOverrides_def Let_def)
  define m where "m = portAndDefaults l (mergeOptions (fillIdentity emptyWorld l emptyOptions) emptyOptions)"
  have m: "cRefuseConnection m = None" "cRevokedHostKeys m = None" "cBindAddress m = None"
    "cBindInterface m = None" "cIPQoS m = Some ''ef none''"
    by (simp_all add: m_def portAndDefaults_def Let_def applyDefaults_def mergeOptions_defs
        fillIdentity_def emptyOptions_def)
  have "resolveOptions emptyWorld l (map unconditional []) = Inr m"
    unfolding m_def by (rule resolve_unconditional) (simp_all add: ApplyAll_def wantsCanonical_def emptyOptions_def)
  then have "Resolve emptyWorld l = Inr (RefreshDialerConfig (expandPathTokens emptyWorld m
      (tokenContextOf emptyWorld l m) (homeDirOf emptyWorld)))"
    using es m(1) by (simp add: Resolve_def)
  then show ?thesis
    by (simp add: RefreshDialerConfig_def buildDialerConfig_def expandPathTokens_def expandStrPtr_def
        strOr_def m Let_def)
qed

end
