(* ===== verification/CliFlags.thy ===== *)
theory CliFlags
  imports ConfTypes Helpers
begin

text \<open>
  Command lines.  The client and the server read clusters of one-letter flags
  (\<^verbatim>\<open>-4vp 22\<close>); their loop is \<^verbatim>\<open>flagLoop\<close>, over the letters that take no argument
  and those that take one.  The tools read whole words; their loop is
  \<^verbatim>\<open>wordLoop\<close>.  The locale \<^verbatim>\<open>cluster_cli\<close> states how a command line parser uses
  the first loop, and what follows for every parser that does.
\<close>

definition squote :: "string \<Rightarrow> string" where
  "squote s = CHR 0x27 # s @ [CHR 0x27]"

section \<open>Clusters of flags\<close>

text \<open>\<^verbatim>\<open>getArg\<close> takes the rest of the cluster if there is one, else the next argument.\<close>

primrec flagLoop ::
  "(char \<Rightarrow> ('a \<Rightarrow> 'a) option) \<Rightarrow> (char \<Rightarrow> (string \<Rightarrow> 'a \<Rightarrow> go_error + 'a) option) \<Rightarrow>
   string \<Rightarrow> string list \<Rightarrow> 'a \<Rightarrow> go_error + string list \<times> 'a" where
  "flagLoop noArg withArg [] args a = Inr (args, a)"
| "flagLoop noArg withArg (ch # cs) args a =
     (case noArg ch of
        Some f \<Rightarrow> flagLoop noArg withArg cs args (f a)
      | None \<Rightarrow>
          (case withArg ch of
             None \<Rightarrow> Inl (Errorf (''unknown option -- '' @ squote ''%c'') [[ch]])
           | Some g \<Rightarrow>
               if cs \<noteq> [] then bindE (g cs a) (\<lambda>a'. Inr (args, a'))
               else (case args of
                       [] \<Rightarrow> Inl (Errorf ''option -%c requires an argument'' [[ch]])
                     | v # rest \<Rightarrow> bindE (g v a) (\<lambda>a'. Inr (rest, a')))))"

lemma flagLoop_length:
  "flagLoop noArg withArg cs args a = Inr (rest, a') \<Longrightarrow> length rest \<le> length args"
  by (induction cs arbitrary: a)
    (auto split: option.splits if_splits list.splits simp: bindE_Inr_iff)

lemma flagLoop_append:
  assumes "list_all (\<lambda>c. noArg c \<noteq> None) cs"
  shows "flagLoop noArg withArg (cs @ ds) args a =
     bindE (flagLoop noArg withArg cs args a) (\<lambda>(args', a'). flagLoop noArg withArg ds args' a')"
  using assms by (induction cs arbitrary: a) auto

lemma flagLoop_noArg_args:
  "list_all (\<lambda>c. noArg c \<noteq> None) cs \<Longrightarrow> \<exists>a'. flagLoop noArg withArg cs args a = Inr (args, a')"
  by (induction cs arbitrary: a) auto

text \<open>An argument is an option when it starts with a dash and is neither a single nor a
  double dash.\<close>

definition isFlagArg :: "string \<Rightarrow> bool" where
  "isFlagArg arg \<longleftrightarrow> hasPrefix arg ''-'' \<and> arg \<noteq> ''-'' \<and> arg \<noteq> ''--''"

text \<open>A command line as a list of options, each written in one of three ways.\<close>

datatype cliopt = Flag char | Arg char string | Attached char string

primrec optWords :: "cliopt \<Rightarrow> string list" where
  "optWords (Flag c) = [[CHR ''-'', c]]"
| "optWords (Arg c v) = [[CHR ''-'', c], v]"
| "optWords (Attached c v) = [CHR ''-'' # c # v]"

fun wfOpt :: "(char \<Rightarrow> ('a \<Rightarrow> 'a) option) \<Rightarrow> (char \<Rightarrow> (string \<Rightarrow> 'a \<Rightarrow> go_error + 'a) option) \<Rightarrow> cliopt \<Rightarrow> bool" where
  "wfOpt noArg withArg (Flag c) = (noArg c \<noteq> None)"
| "wfOpt noArg withArg (Arg c v) = (noArg c = None \<and> withArg c \<noteq> None)"
| "wfOpt noArg withArg (Attached c v) = (noArg c = None \<and> withArg c \<noteq> None \<and> v \<noteq> [])"

fun optEffect :: "(char \<Rightarrow> ('a \<Rightarrow> 'a) option) \<Rightarrow> (char \<Rightarrow> (string \<Rightarrow> 'a \<Rightarrow> go_error + 'a) option) \<Rightarrow>
    cliopt \<Rightarrow> 'a \<Rightarrow> go_error + 'a" where
  "optEffect noArg withArg (Flag c) a = Inr (the (noArg c) a)"
| "optEffect noArg withArg (Arg c v) a = the (withArg c) v a"
| "optEffect noArg withArg (Attached c v) a = the (withArg c) v a"

locale cluster_cli =
  fixes noArg :: "char \<Rightarrow> ('a \<Rightarrow> 'a) option"
    and withArg :: "char \<Rightarrow> (string \<Rightarrow> 'a \<Rightarrow> go_error + 'a) option"
    and parse :: "string list \<Rightarrow> 'a \<Rightarrow> go_error + 'a"
  assumes parse_flags: "isFlagArg arg \<Longrightarrow>
      parse (arg # rest) a =
        bindE (flagLoop noArg withArg (tl arg) rest a) (\<lambda>(rest', a'). parse rest' a')"
    and dash_unknown: "noArg CHR ''-'' = None" "withArg CHR ''-'' = None"
begin

lemma parse_cluster:
  "c \<noteq> CHR ''-'' \<Longrightarrow>
   parse ((CHR ''-'' # c # cs) # rest) a =
     bindE (flagLoop noArg withArg (c # cs) rest a) (\<lambda>(rest', a'). parse rest' a')"
  using parse_flags[of "CHR ''-'' # c # cs" rest a] by (simp add: isFlagArg_def)

text \<open>A cluster may be taken apart behind its flags without argument.\<close>

lemma parse_split:
  assumes "list_all (\<lambda>c. noArg c \<noteq> None) (c # cs)" and "d \<noteq> CHR ''-''"
  shows "parse ((CHR ''-'' # c # cs @ d # ds) # rest) a =
         parse ((CHR ''-'' # c # cs) # (CHR ''-'' # d # ds) # rest) a"
proof -
  have c: "c \<noteq> CHR ''-''" using assms(1) dash_unknown by auto
  obtain a' where f: "flagLoop noArg withArg (c # cs) args a = Inr (args, a')" for args
  proof -
    have "flagLoop noArg withArg xs args b = Inr (args, foldl (\<lambda>s x. the (noArg x) s) b xs)"
      if "list_all (\<lambda>c. noArg c \<noteq> None) xs" for xs args b
      using that by (induction xs arbitrary: b) auto
    from this[OF assms(1)] show ?thesis using that by blast
  qed
  have "parse ((CHR ''-'' # c # cs @ d # ds) # rest) a =
      bindE (flagLoop noArg withArg ((c # cs) @ d # ds) rest a) (\<lambda>(rest', a'). parse rest' a')"
    using parse_cluster[OF c] by simp
  also have "\<dots> = bindE (flagLoop noArg withArg (d # ds) rest a') (\<lambda>(rest', a'). parse rest' a')"
    by (subst flagLoop_append[OF assms(1)]) (simp only: f bindE_simps prod.case)
  also have "\<dots> = parse ((CHR ''-'' # d # ds) # rest) a'"
    using parse_cluster[OF assms(2), of ds rest a'] by simp
  also have "\<dots> = parse ((CHR ''-'' # c # cs) # (CHR ''-'' # d # ds) # rest) a"
    unfolding parse_cluster[OF c] f by simp
  finally show ?thesis .
qed

text \<open>An argument may be attached to its flag or follow it.\<close>

lemma parse_attached:
  assumes "noArg d = None" and "withArg d = Some g" and "v \<noteq> []"
  shows "parse ((CHR ''-'' # d # v) # rest) a = parse ([CHR ''-'', d] # v # rest) a"
proof -
  have d: "d \<noteq> CHR ''-''" using assms(2) dash_unknown by auto
  show ?thesis
    unfolding parse_cluster[OF d] using assms by (cases "g v a") auto
qed

lemma parse_single:
  "noArg c = Some f \<Longrightarrow> parse ([CHR ''-'', c] # rest) a = parse rest (f a)"
  using parse_cluster[of c "[]" rest a] dash_unknown by (cases "c = CHR ''-''") auto

lemma parse_argument:
  "noArg d = None \<Longrightarrow> withArg d = Some g \<Longrightarrow>
   parse ([CHR ''-'', d] # v # rest) a = bindE (g v a) (parse rest)"
  using parse_cluster[of d "[]" "v # rest" a] dash_unknown
  by (cases "d = CHR ''-''"; cases "g v a") auto

lemma parse_option:
  assumes "wfOpt noArg withArg op"
  shows "parse (optWords op @ rest) a = bindE (optEffect noArg withArg op a) (parse rest)"
proof (cases op)
  case (Flag c)
  then obtain f where "noArg c = Some f" using assms by auto
  then show ?thesis using Flag parse_single[of c f rest a] by simp
next
  case (Arg c v)
  then obtain g where "noArg c = None" "withArg c = Some g" using assms by auto
  then show ?thesis using Arg parse_argument[of c g v rest a] by simp
next
  case (Attached c v)
  then obtain g where "noArg c = None" "withArg c = Some g" "v \<noteq> []" using assms by auto
  then show ?thesis
    using Attached parse_argument[of c g v rest a] parse_attached[of c g v rest a] by simp
qed

text \<open>A command line of options is read one option after the other.\<close>

lemma parse_options:
  "list_all (wfOpt noArg withArg) ops \<Longrightarrow>
   parse (concat (map optWords ops) @ rest) a = bindE (foldE (optEffect noArg withArg) ops a) (parse rest)"
proof (induction ops arbitrary: a)
  case (Cons op ops)
  then have "parse (concat (map optWords ops) @ rest) =
      (\<lambda>a. bindE (foldE (optEffect noArg withArg) ops a) (parse rest))"
    by (intro ext) simp
  with Cons.prems show ?case by (simp add: parse_option bindE_assoc)
qed simp

end

section \<open>Whole words\<close>

text \<open>Words without argument, words that take the next word (nothing happens when there is
  none), and what any other word does: whether the loop goes on, and with which state.\<close>

fun wordLoop ::
  "(string \<Rightarrow> ('a \<Rightarrow> 'a) option) \<Rightarrow> (string \<Rightarrow> (string \<Rightarrow> 'a \<Rightarrow> 'a) option) \<Rightarrow>
   (string \<Rightarrow> string list \<Rightarrow> 'a \<Rightarrow> bool \<times> 'a) \<Rightarrow> string list \<Rightarrow> 'a \<Rightarrow> 'a" where
  "wordLoop word0 word1 other [] a = a"
| "wordLoop word0 word1 other (w # ws) a =
     (case word0 w of
        Some f \<Rightarrow> wordLoop word0 word1 other ws (f a)
      | None \<Rightarrow>
          (case word1 w of
             Some g \<Rightarrow>
               (case ws of [] \<Rightarrow> a | v # vs \<Rightarrow> wordLoop word0 word1 other vs (g v a))
           | None \<Rightarrow>
               (let (continue, a') = other w ws a
                in if continue then wordLoop word0 word1 other ws a' else a')))"

text \<open>A command line of whole words: words alone, and words with their argument.\<close>

datatype wordopt = Word string | WordArg string string

primrec wordsOf :: "wordopt \<Rightarrow> string list" where
  "wordsOf (Word w) = [w]"
| "wordsOf (WordArg w v) = [w, v]"

primrec wfWord :: "(string \<Rightarrow> ('a \<Rightarrow> 'a) option) \<Rightarrow> (string \<Rightarrow> (string \<Rightarrow> 'a \<Rightarrow> 'a) option) \<Rightarrow> wordopt \<Rightarrow> bool" where
  "wfWord word0 word1 (Word w) \<longleftrightarrow> word0 w \<noteq> None"
| "wfWord word0 word1 (WordArg w v) \<longleftrightarrow> word0 w = None \<and> word1 w \<noteq> None"

primrec wordEffect :: "(string \<Rightarrow> ('a \<Rightarrow> 'a) option) \<Rightarrow> (string \<Rightarrow> (string \<Rightarrow> 'a \<Rightarrow> 'a) option) \<Rightarrow> wordopt \<Rightarrow> 'a \<Rightarrow> 'a" where
  "wordEffect word0 word1 (Word w) a = the (word0 w) a"
| "wordEffect word0 word1 (WordArg w v) a = the (word1 w) v a"

text \<open>The argument loop of a tool, by its laws.\<close>

locale word_cli =
  fixes word0 :: "string \<Rightarrow> ('a \<Rightarrow> 'a) option"
    and word1 :: "string \<Rightarrow> (string \<Rightarrow> 'a \<Rightarrow> 'a) option"
    and loop :: "string list \<Rightarrow> 'a \<Rightarrow> 'a"
  assumes loop_Nil: "loop [] a = a"
    and loop_word0: "word0 w = Some f \<Longrightarrow> loop (w # ws) a = loop ws (f a)"
    and loop_word1: "word0 w = None \<Longrightarrow> word1 w = Some g \<Longrightarrow> loop (w # v # ws) a = loop ws (g v a)"
    and loop_missing: "word0 w = None \<Longrightarrow> word1 w = Some g \<Longrightarrow> loop [w] a = a"
begin

lemma loop_option: "wfWord word0 word1 opt \<Longrightarrow> loop (wordsOf opt @ ws) a = loop ws (wordEffect word0 word1 opt a)"
  by (cases opt) (auto simp: loop_word0 loop_word1)

text \<open>Options take effect one after the other.\<close>

lemma loop_options:
  "list_all (wfWord word0 word1) opts \<Longrightarrow>
   loop (concat (map wordsOf opts) @ ws) a = loop ws (fold (wordEffect word0 word1) opts a)"
  by (induction opts arbitrary: a) (simp_all add: loop_option)

text \<open>A last word whose argument is missing has no effect, and no error either.\<close>

lemma loop_options_missing:
  assumes "list_all (wfWord word0 word1) opts" and "word0 w = None" and "word1 w \<noteq> None"
  shows "loop (concat (map wordsOf opts) @ [w]) a = loop (concat (map wordsOf opts)) a"
proof -
  obtain g where "word1 w = Some g" using assms(3) by blast
  then show ?thesis
    using loop_options[OF assms(1), of "[w]" a] loop_options[OF assms(1), of "[]" a]
      loop_missing[OF assms(2)] loop_Nil by simp
qed

end

text \<open>\<^term>\<open>wordLoop\<close> has these laws whatever its words are.\<close>

lemma wordLoop_laws: "word_cli word0 word1 (wordLoop word0 word1 other)"
  by unfold_locales simp_all

end
