(* ===== verification/ClientArgs.thy ===== *)
theory ClientArgs
  imports CliFlags ClientKeyword
begin

text \<open>
  The command line of the client (\<^verbatim>\<open>pkg/sshclient/args.go\<close>).  The struct
  \<^verbatim>\<open>CLIArgs\<close> is the record of the same name, the letters of its switch are the two
  tables.
\<close>

datatype ParseMode = ModeOptionsOnly | ModeOptionsHost | ModeOptionsHostCommand

record CLIArgs =
  caPort :: string
  caUser :: string
  caConfigFile :: string
  caOptions :: "string list"
  caPrintConfig :: bool
  caQueryType :: string
  caTag :: string
  caPKCS11 :: string
  caStdioFwd :: string
  caTTYCount :: int
  caNoTTY :: bool
  caNoCommand :: bool
  caSubsystem :: bool
  caVerbosity :: int
  caQuiet :: bool
  caLogFile :: string
  caVersion :: bool
  caSyslog :: bool
  caCtlCmd :: string
  caDestination :: string
  caCommand :: "string list"
  caRest :: "string list"
  caDirectives :: "Directive list"

definition emptyCLIArgs :: CLIArgs where
  "emptyCLIArgs = \<lparr>caPort = [], caUser = [], caConfigFile = [], caOptions = [],
     caPrintConfig = False, caQueryType = [], caTag = [], caPKCS11 = [], caStdioFwd = [],
     caTTYCount = 0, caNoTTY = False, caNoCommand = False, caSubsystem = False,
     caVerbosity = 0, caQuiet = False, caLogFile = [], caVersion = False, caSyslog = False,
     caCtlCmd = [], caDestination = [], caCommand = [], caRest = [], caDirectives = []\<rparr>"

section \<open>What the arguments say\<close>

definition LookupUser :: "CLIArgs \<Rightarrow> string" where
  "LookupUser a =
     (let destUser = fst (ParseDestination (caDestination a))
      in if destUser \<noteq> [] then destUser else caUser a)"

definition LookupPort :: "CLIArgs \<Rightarrow> go_error + int" where
  "LookupPort a =
     (if caPort a = [] then Inr 0
      else case atoi (caPort a) of
        None \<Rightarrow> Inl (Errorf (''bad port '' @ squote ''%s'') [caPort a])
      | Some port \<Rightarrow> Inr port)"

definition RemoteCommand :: "CLIArgs \<Rightarrow> string" where
  "RemoteCommand a = joinWith (caCommand a) '' ''"

definition SessionType :: "CLIArgs \<Rightarrow> string" where
  "SessionType a =
     (if caNoCommand a then ''none''
      else if caSubsystem a then ''subsystem''
      else if RemoteCommand a \<noteq> [] then ''exec''
      else [])"

definition Directives :: "CLIArgs \<Rightarrow> go_error + Directive list" where
  "Directives a =
     bindE (overridesLoop 0 (caOptions a)) (\<lambda>entries.
       Inr (caDirectives a @ map eDirective entries))"

definition cliDirective :: "string \<Rightarrow> string \<Rightarrow> Directive" where
  "cliDirective keyword value =
     \<lparr>dKeyword = keyword, dValue = value, dSource = \<lparr>srcFile = ''command-line'', srcLine = 0\<rparr>\<rparr>"

section \<open>Forwarding specifications\<close>

text \<open>\<^verbatim>\<open>strings.Index(spec, "]:")\<close>\<close>

fun indexBracketColon :: "string \<Rightarrow> nat option" where
  "indexBracketColon [] = None"
| "indexBracketColon (c # cs) =
     (if c = CHR '']'' \<and> hasPrefix cs '':'' then Some 0 else map_option Suc (indexBracketColon cs))"

text \<open>\<^verbatim>\<open>strings.SplitN(rest, ":", 3)\<close>\<close>

definition splitN3 :: "string \<Rightarrow> char \<Rightarrow> string list" where
  "splitN3 s c =
     (case splitN2 s c of
        [f, rest] \<Rightarrow> f # splitN2 rest c
      | fs \<Rightarrow> fs)"

definition convertBySplit :: "string \<Rightarrow> string" where
  "convertBySplit spec =
     (case split spec CHR '':'' of
        [p, h, hp] \<Rightarrow> p @ '' '' @ h @ '':'' @ hp
      | [b, p, h, hp] \<Rightarrow> b @ '':'' @ p @ '' '' @ h @ '':'' @ hp
      | _ \<Rightarrow> spec)"

definition convertForwardSpec :: "string \<Rightarrow> string" where
  "convertForwardSpec spec =
     (if containsByte spec CHR '' '' then spec
      else if containsByte spec CHR ''/'' then spec
      else if hasPrefix spec ''['' then
        (case indexBracketColon spec of
           Some e \<Rightarrow>
             (case splitN3 (drop (e + 2) spec) CHR '':'' of
                [p, h, hp] \<Rightarrow> take (e + 1) spec @ '':'' @ p @ '' '' @ h @ '':'' @ hp
              | _ \<Rightarrow> spec)
         | None \<Rightarrow> convertBySplit spec)
      else convertBySplit spec)"

section \<open>Flags\<close>

definition addDir :: "string \<Rightarrow> string \<Rightarrow> CLIArgs \<Rightarrow> CLIArgs" where
  "addDir keyword value a = a\<lparr>caDirectives := caDirectives a @ [cliDirective keyword value]\<rparr>"

definition clientFlags :: "(char \<times> (CLIArgs \<Rightarrow> CLIArgs)) list" where
  "clientFlags =
     [(CHR ''4'', addDir ''AddressFamily'' ''inet''),
      (CHR ''6'', addDir ''AddressFamily'' ''inet6''),
      (CHR ''A'', addDir ''ForwardAgent'' ''yes''),
      (CHR ''a'', addDir ''ForwardAgent'' ''no''),
      (CHR ''C'', addDir ''Compression'' ''yes''),
      (CHR ''g'', addDir ''GatewayPorts'' ''yes''),
      (CHR ''K'', \<lambda>a. addDir ''GSSAPIDelegateCredentials'' ''yes'' (addDir ''GSSAPIAuthentication'' ''yes'' a)),
      (CHR ''k'', addDir ''GSSAPIDelegateCredentials'' ''no''),
      (CHR ''M'', addDir ''ControlMaster'' ''yes''),
      (CHR ''N'', \<lambda>a. addDir ''SessionType'' ''none'' (a\<lparr>caNoCommand := True\<rparr>)),
      (CHR ''X'', addDir ''ForwardX11'' ''yes''),
      (CHR ''x'', addDir ''ForwardX11'' ''no''),
      (CHR ''Y'', \<lambda>a. addDir ''ForwardX11Trusted'' ''yes'' (addDir ''ForwardX11'' ''yes'' a)),
      (CHR ''f'', \<lambda>a. addDir ''ForkAfterAuthentication'' ''yes'' (addDir ''StdinNull'' ''yes'' a)),
      (CHR ''n'', addDir ''StdinNull'' ''yes''),
      (CHR ''s'', \<lambda>a. addDir ''SessionType'' ''subsystem'' (a\<lparr>caSubsystem := True\<rparr>)),
      (CHR ''T'', \<lambda>a. a\<lparr>caNoTTY := True\<rparr>),
      (CHR ''G'', \<lambda>a. a\<lparr>caPrintConfig := True\<rparr>),
      (CHR ''V'', \<lambda>a. a\<lparr>caVersion := True\<rparr>),
      (CHR ''y'', \<lambda>a. a\<lparr>caSyslog := True\<rparr>),
      (CHR ''q'', \<lambda>a. a\<lparr>caQuiet := True\<rparr>),
      (CHR ''v'', \<lambda>a. a\<lparr>caVerbosity := caVerbosity a + 1\<rparr>),
      (CHR ''t'', \<lambda>a. a\<lparr>caTTYCount := caTTYCount a + 1\<rparr>)]"

definition okArg :: "(string \<Rightarrow> CLIArgs \<Rightarrow> CLIArgs) \<Rightarrow> string \<Rightarrow> CLIArgs \<Rightarrow> go_error + CLIArgs" where
  "okArg f v a = Inr (f v a)"

definition clientArgFlags :: "(char \<times> (string \<Rightarrow> CLIArgs \<Rightarrow> CLIArgs)) list" where
  "clientArgFlags =
     [(CHR ''B'', addDir ''BindInterface''),
      (CHR ''b'', addDir ''BindAddress''),
      (CHR ''c'', addDir ''Ciphers''),
      (CHR ''D'', addDir ''DynamicForward''),
      (CHR ''e'', addDir ''EscapeChar''),
      (CHR ''I'', \<lambda>v a. addDir ''PKCS11Provider'' v (a\<lparr>caPKCS11 := v\<rparr>)),
      (CHR ''i'', addDir ''IdentityFile''),
      (CHR ''J'', addDir ''ProxyJump''),
      (CHR ''L'', \<lambda>v. addDir ''LocalForward'' (convertForwardSpec v)),
      (CHR ''l'', \<lambda>v a. a\<lparr>caUser := v\<rparr>),
      (CHR ''m'', addDir ''MACs''),
      (CHR ''O'', \<lambda>v a. a\<lparr>caCtlCmd := v\<rparr>),
      (CHR ''o'', \<lambda>v a. a\<lparr>caOptions := caOptions a @ [v]\<rparr>),
      (CHR ''P'', \<lambda>v a. a\<lparr>caTag := v\<rparr>),
      (CHR ''p'', \<lambda>v a. addDir ''Port'' v (a\<lparr>caPort := v\<rparr>)),
      (CHR ''Q'', \<lambda>v a. a\<lparr>caQueryType := v\<rparr>),
      (CHR ''R'', \<lambda>v. addDir ''RemoteForward'' (convertForwardSpec v)),
      (CHR ''S'', addDir ''ControlPath''),
      (CHR ''W'', \<lambda>v a. a\<lparr>caStdioFwd := v\<rparr>),
      (CHR ''w'', \<lambda>v a. addDir ''TunnelDevice'' v (addDir ''Tunnel'' ''yes'' a)),
      (CHR ''E'', \<lambda>v a. a\<lparr>caLogFile := v\<rparr>),
      (CHR ''F'', \<lambda>v a. a\<lparr>caConfigFile := v\<rparr>)]"

definition clientNoArg :: "char \<Rightarrow> (CLIArgs \<Rightarrow> CLIArgs) option" where
  "clientNoArg ch = map_of clientFlags ch"

definition clientWithArg :: "char \<Rightarrow> (string \<Rightarrow> CLIArgs \<Rightarrow> go_error + CLIArgs) option" where
  "clientWithArg ch = map_option okArg (map_of clientArgFlags ch)"

definition consumePositional :: "string list \<Rightarrow> ParseMode \<Rightarrow> CLIArgs \<Rightarrow> CLIArgs" where
  "consumePositional args mode a =
     (case args of
        [] \<Rightarrow> a
      | x # xs \<Rightarrow>
          (case mode of
             ModeOptionsOnly \<Rightarrow> a\<lparr>caRest := caRest a @ args\<rparr>
           | ModeOptionsHost \<Rightarrow>
               if caDestination a = [] then a\<lparr>caDestination := x, caRest := caRest a @ xs\<rparr>
               else a\<lparr>caRest := caRest a @ args\<rparr>
           | ModeOptionsHostCommand \<Rightarrow>
               if caDestination a = [] then a\<lparr>caDestination := x, caCommand := caCommand a @ xs\<rparr>
               else a\<lparr>caCommand := caCommand a @ args\<rparr>))"

function clientParse :: "ParseMode \<Rightarrow> string list \<Rightarrow> CLIArgs \<Rightarrow> go_error + CLIArgs" where
  "clientParse mode [] a = Inr a"
| "clientParse mode (arg # rest) a =
     (if arg = ''--'' then Inr (consumePositional rest mode a)
      else if \<not> hasPrefix arg ''-'' \<or> arg = ''-'' then Inr (consumePositional (arg # rest) mode a)
      else bindE (flagLoop clientNoArg clientWithArg (drop 1 arg) rest a) (\<lambda>r.
             clientParse mode (fst r) (snd r)))"
  by pat_completeness auto
termination
  by (relation "measure (\<lambda>(m, args, a). length args)")
    (auto dest: flagLoop_length simp: less_Suc_eq_le)

declare clientParse.simps(2) [simp del]

interpretation cc: cluster_cli clientNoArg clientWithArg "clientParse mode" for mode
proof
  fix arg rest a
  assume "isFlagArg arg"
  then show "clientParse mode (arg # rest) a =
      bindE (flagLoop clientNoArg clientWithArg (tl arg) rest a) (\<lambda>(rest', a'). clientParse mode rest' a')"
    by (auto simp: clientParse.simps(2) isFlagArg_def drop_Suc case_prod_beta')
qed (simp_all add: clientNoArg_def clientWithArg_def clientFlags_def clientArgFlags_def)

section \<open>Lemmas on forwardings\<close>

definition fwWord :: "string \<Rightarrow> bool" where
  "fwWord s \<longleftrightarrow> s \<noteq> [] \<and> list_all (\<lambda>c. \<not> isSpace c \<and> c \<noteq> CHR '':'' \<and> c \<noteq> CHR ''/'' \<and> c \<noteq> CHR ''['') s"

lemma fwWordD:
  assumes "fwWord s"
  shows "s \<noteq> []" "CHR '':'' \<notin> set s" "CHR ''/'' \<notin> set s" "CHR '' '' \<notin> set s"
    "\<not> hasPrefix s ''[''" "\<not> hasPrefix (s @ t) ''[''"
proof -
  have m: "s \<noteq> []" "\<And>c. c \<in> set s \<Longrightarrow> \<not> isSpace c \<and> c \<noteq> CHR '':'' \<and> c \<noteq> CHR ''/'' \<and> c \<noteq> CHR ''[''"
    using assms by (auto simp: fwWord_def list_all_iff)
  obtain c cs where s: "s = c # cs" using m(1) by (cases s) auto
  have "c \<noteq> CHR ''[''" using m(2)[of c] s by simp
  then show "\<not> hasPrefix s ''[''" "\<not> hasPrefix (s @ t) ''[''" by (simp_all add: s)
  show "s \<noteq> []" by (rule m(1))
  show "CHR '':'' \<notin> set s" "CHR ''/'' \<notin> set s" using m(2) by blast+
  show "CHR '' '' \<notin> set s" using m(2) isSpace_space(1) by blast
qed

lemma fieldsAcc_word:
  "list_all (\<lambda>c. \<not> isSpace c) t \<Longrightarrow> fieldsAcc isSpace cur (t @ s) = fieldsAcc isSpace (rev t @ cur) s"
  by (induction t arbitrary: cur) auto

lemma Fields_one: "list_all (\<lambda>c. \<not> isSpace c) t \<Longrightarrow> t \<noteq> [] \<Longrightarrow> Fields t = [t]"
  using fieldsAcc_word[of t "[]" "[]"] by (simp add: Fields_def)

lemma Fields_two:
  assumes "list_all (\<lambda>c. \<not> isSpace c) t" "t \<noteq> []" "list_all (\<lambda>c. \<not> isSpace c) u" "u \<noteq> []"
  shows "Fields (t @ CHR '' '' # u) = [t, u]"
  using assms fieldsAcc_word[of t "[]" "CHR '' '' # u"] fieldsAcc_word[of u "[]" "[]"]
  by (simp add: Fields_def)

lemma fwWord_noSpace: "fwWord s \<Longrightarrow> list_all (\<lambda>c. \<not> isSpace c) s"
  by (auto simp: fwWord_def list_all_iff)

lemma colon_noSpace: "\<not> isSpace CHR '':''"
  by (simp add: isSpace_def)

lemma SplitHostPort_pair:
  assumes "fwWord h" "fwWord p" shows "SplitHostPort (h @ CHR '':'' # p) = (h, p, True)"
  using fwWordD[OF assms(1)] fwWordD[OF assms(2)] by (simp add: SplitHostPort_def)

lemma SplitHostPort_single:
  assumes "fwWord p" shows "SplitHostPort p = ([], [], False)"
proof -
  have c: "countByte p CHR '':'' = 0" "lastIndexByte p CHR '':'' = None"
    using fwWordD[OF assms] by simp_all
  show ?thesis unfolding SplitHostPort_def c using fwWordD(5)[OF assms] by simp
qed

lemma parseForward_text:
  assumes "fwWord b" "fwWord p" "fwWord h" "fwWord q"
  shows "parseForward (b @ CHR '':'' # p @ CHR '' '' # h @ CHR '':'' # q) =
           Inr \<lparr>fwBindAddress = b, fwBindPort = p, fwHost = h, fwHostPort = q\<rparr>"
    and "parseForward (p @ CHR '' '' # h @ CHR '':'' # q) =
           Inr \<lparr>fwBindAddress = [], fwBindPort = p, fwHost = h, fwHostPort = q\<rparr>"
proof -
  have ns: "list_all (\<lambda>c. \<not> isSpace c) (x @ CHR '':'' # y)" if "fwWord x" "fwWord y" for x y
    using that fwWord_noSpace colon_noSpace by simp
  have f2: "Fields ((b @ CHR '':'' # p) @ CHR '' '' # h @ CHR '':'' # q) = [b @ CHR '':'' # p, h @ CHR '':'' # q]"
    using assms ns by (intro Fields_two) simp_all
  have f1: "Fields (p @ CHR '' '' # h @ CHR '':'' # q) = [p, h @ CHR '':'' # q]"
    using assms ns fwWord_noSpace fwWordD(1) by (intro Fields_two) simp_all
  have d: "setDestSpec (h @ CHR '':'' # q) f = f\<lparr>fwHost := h, fwHostPort := q\<rparr>" for f
    using SplitHostPort_pair[OF assms(3,4)] fwWordD[OF assms(3)] fwWordD[OF assms(4)]
    by (simp add: setDestSpec_def)
  have b2: "setBindSpec (b @ CHR '':'' # p) f = f\<lparr>fwBindAddress := b, fwBindPort := p\<rparr>" for f
    using SplitHostPort_pair[OF assms(1,2)] fwWordD[OF assms(1)] fwWordD[OF assms(2)]
    by (simp add: setBindSpec_def)
  have b1: "setBindSpec p f = f\<lparr>fwBindPort := p\<rparr>" for f
    using SplitHostPort_single[OF assms(2)] fwWordD[OF assms(2)] by (simp add: setBindSpec_def)
  show "parseForward (b @ CHR '':'' # p @ CHR '' '' # h @ CHR '':'' # q) =
           Inr \<lparr>fwBindAddress = b, fwBindPort = p, fwHost = h, fwHostPort = q\<rparr>"
    using f2 by (simp add: parseForward_def b2 d emptyForward_def)
  show "parseForward (p @ CHR '' '' # h @ CHR '':'' # q) =
           Inr \<lparr>fwBindAddress = [], fwBindPort = p, fwHost = h, fwHostPort = q\<rparr>"
    using f1 by (simp add: parseForward_def b1 d emptyForward_def)
qed

section \<open>Properties\<close>

text \<open>C24: flags may be written together or apart: a cluster of flags without argument in
  front of another flag is the same as the two words, and an argument attached to its
  flag the same as the argument in the next word.\<close>

theorem clientParse_clusters:
  assumes "list_all (\<lambda>c. clientNoArg c \<noteq> None) (c # cs)" and "d \<noteq> CHR ''-''"
    and "clientNoArg k = None" and "clientWithArg k \<noteq> None" and "v \<noteq> []"
  shows "clientParse mode ((CHR ''-'' # c # cs @ d # ds) # rest) a =
           clientParse mode ((CHR ''-'' # c # cs) # (CHR ''-'' # d # ds) # rest) a \<and>
         clientParse mode ((CHR ''-'' # k # v) # rest) a =
           clientParse mode ([CHR ''-'', k] # v # rest) a"
  using cc.parse_split[OF assms(1,2), of mode ds rest a] cc.parse_attached[OF assms(3) _ assms(5)]
    assms(4) by blast

theorem clientParse_clusters_witness:
  "clientParse ModeOptionsHost [''-4vp22'', ''h''] emptyCLIArgs =
   clientParse ModeOptionsHost [''-4v'', ''-p'', ''22'', ''h''] emptyCLIArgs"
  using clientParse_clusters[of "CHR ''4''" "''v''" "CHR ''p''" "CHR ''p''" "''22''"
      ModeOptionsHost "''22''" "[''h'']" emptyCLIArgs]
    clientParse_clusters[of "CHR ''4''" "''v''" "CHR ''p''" "CHR ''p''" "''22''"
      ModeOptionsHost "[]" "[''22'', ''h'']" emptyCLIArgs]
    cc.parse_attached[of "CHR ''p''" _ "''22''" ModeOptionsHost "[''h'']"]
    cc.parse_cluster[of "CHR ''4''" ModeOptionsHost "''v''"]
  by (simp add: clientNoArg_def clientWithArg_def clientFlags_def clientArgFlags_def)

text \<open>A forwarding given on the command line as \<^verbatim>\<open>bind:port:host:hostport\<close> or
  \<^verbatim>\<open>port:host:hostport\<close> reaches the options with its four parts in their places.\<close>

theorem forward_roundtrip:
  assumes "fwWord b" "fwWord p" "fwWord h" "fwWord q"
  shows "parseForward (convertForwardSpec (b @ '':'' @ p @ '':'' @ h @ '':'' @ q)) =
           Inr \<lparr>fwBindAddress = b, fwBindPort = p, fwHost = h, fwHostPort = q\<rparr> \<and>
         parseForward (convertForwardSpec (p @ '':'' @ h @ '':'' @ q)) =
           Inr \<lparr>fwBindAddress = [], fwBindPort = p, fwHost = h, fwHostPort = q\<rparr>"
proof -
  note w = fwWordD[OF assms(1)] fwWordD[OF assms(2)] fwWordD[OF assms(3)] fwWordD[OF assms(4)]
  have s4: "split (b @ CHR '':'' # p @ CHR '':'' # h @ CHR '':'' # q) CHR '':'' = [b, p, h, q]"
    using w by (simp add: split_append_sep)
  have s3: "split (p @ CHR '':'' # h @ CHR '':'' # q) CHR '':'' = [p, h, q]"
    using w by (simp add: split_append_sep)
  show ?thesis
    using w parseForward_text[OF assms]
    by (simp add: convertForwardSpec_def convertBySplit_def s4 s3)
qed

theorem forward_roundtrip_witness:
  "parseForward (convertForwardSpec ''lo:80:db:5432'') =
     Inr \<lparr>fwBindAddress = ''lo'', fwBindPort = ''80'', fwHost = ''db'', fwHostPort = ''5432''\<rparr>"
  using forward_roundtrip[of "''lo''" "''80''" "''db''" "''5432''"]
  by (simp add: fwWord_def isSpace_def)

text \<open>A command line forwarding with a socket path in any of its places is not taken
  apart: the whole specification ends up as the listening side and no destination is
  set.\<close>

theorem forward_socket:
  assumes "CHR ''/'' \<in> set spec" and "list_all (\<lambda>c. \<not> isSpace c) spec"
  shows "parseForward (convertForwardSpec spec) = Inr (emptyForward\<lparr>fwBindPort := spec\<rparr>)"
proof -
  have "CHR '' '' \<notin> set spec" using assms(2) by (auto simp: list_all_iff)
  moreover have "spec \<noteq> []" using assms(1) by auto
  ultimately show ?thesis
    using assms Fields_one[of spec]
    by (simp add: convertForwardSpec_def parseForward_def setBindSpec_def)
qed

theorem forward_socket_witness:
  "parseForward (convertForwardSpec ''/l.sock:db:5432'') =
     Inr (emptyForward\<lparr>fwBindPort := ''/l.sock:db:5432''\<rparr>)"
  using forward_socket[of "''/l.sock:db:5432''"] by (simp add: isSpace_def)

end
