(* ===== verification/ServerOptions.thy ===== *)
theory ServerOptions
  imports OptStore Dialer
begin

text \<open>
  The options of the server (\<^verbatim>\<open>pkg/sshserver/config.go\<close>), their defaults
  (\<^verbatim>\<open>defaults.go\<close>), the registry of subsystems and the derived dialer
  configuration (\<^verbatim>\<open>dialer.go\<close>).  A pointer field is an option; the field names
  carry an \<^verbatim>\<open>s\<close> in front.  The handler of an internal subsystem is an opaque
  handle.
\<close>

section \<open>The options\<close>

record Subsystem =
  subName :: string
  subCommand :: string
  subInternal :: bool
  subHandler :: "handle option"

record ServerOptions =
  sAddressFamily :: "string option"
  sListenAddress :: "string list"
  sPorts :: "int list"
  sBindInterface :: "string option"
  sRDomain :: "string option"
  sLoginGraceTime :: "int option"
  sHostKey :: "string list"
  sHostKeyAgent :: "string option"
  sHostCertificate :: "string list"
  sTrustedUserCAKeys :: "string option"
  sRevokedKeys :: "string option"
  sCiphers :: "string option"
  sKexAlgorithms :: "string option"
  sMACs :: "string option"
  sHostKeyAlgorithms :: "string option"
  sCASignatureAlgorithms :: "string option"
  sPubkeyAcceptedAlgorithms :: "string option"
  sHostbasedAcceptedAlgorithms :: "string option"
  sRekeyLimit :: "string option"
  sRequiredRSASize :: "int option"
  sFingerprintHash :: "string option"
  sAuthenticationMethods :: "string option"
  sPermitRootLogin :: "string option"
  sPasswordAuthentication :: "bool option"
  sPermitEmptyPasswords :: "bool option"
  sKbdInteractiveAuthentication :: "bool option"
  sPubkeyAuthentication :: "bool option"
  sPubkeyAuthOptions :: "string option"
  sHostbasedAuthentication :: "bool option"
  sHostbasedUsesNameFromPacketOnly :: "bool option"
  sIgnoreRhosts :: "string option"
  sIgnoreUserKnownHosts :: "bool option"
  sGSSAPIAuthentication :: "bool option"
  sGSSAPICleanupCredentials :: "bool option"
  sGSSAPIStrictAcceptorCheck :: "bool option"
  sKerberosAuthentication :: "bool option"
  sKerberosGetAFSToken :: "bool option"
  sKerberosOrLocalPasswd :: "bool option"
  sKerberosTicketCleanup :: "bool option"
  sUsePAM :: "bool option"
  sPAMServiceName :: "string option"
  sMaxAuthTries :: "int option"
  sLoginMaxRetries :: "int option"
  sStrictModes :: "bool option"
  sExposeAuthInfo :: "bool option"
  sPermitUserEnvironment :: "string option"
  sPermitUserRC :: "bool option"
  sAllowUsers :: "string list"
  sDenyUsers :: "string list"
  sAllowGroups :: "string list"
  sDenyGroups :: "string list"
  sRefuseConnection :: "string option"
  sAuthorizedKeysFile :: "string list"
  sAuthorizedKeysCommand :: "string option"
  sAuthorizedKeysCommandUser :: "string option"
  sAuthorizedPrincipalsFile :: "string option"
  sAuthorizedPrincipalsCommand :: "string option"
  sAuthorizedPrincipalsCommandUser :: "string option"
  sAllowAgentForwarding :: "bool option"
  sAllowTcpForwarding :: "string option"
  sAllowStreamLocalForwarding :: "string option"
  sDisableForwarding :: "bool option"
  sGatewayPorts :: "string option"
  sPermitOpen :: "string list"
  sPermitListen :: "string list"
  sPermitTTY :: "bool option"
  sPermitTunnel :: "string option"
  sX11Forwarding :: "bool option"
  sX11DisplayOffset :: "int option"
  sX11UseLocalhost :: "bool option"
  sXAuthLocation :: "string option"
  sStreamLocalBindMask :: "string option"
  sStreamLocalBindUnlink :: "bool option"
  sChrootDirectory :: "string option"
  sForceCommand :: "string option"
  sBanner :: "string option"
  sPrintLastLog :: "bool option"
  sPrintMotd :: "bool option"
  sAcceptEnv :: "string list"
  sSetEnv :: "string list"
  sTCPKeepAlive :: "bool option"
  sClientAliveInterval :: "int option"
  sClientAliveCountMax :: "int option"
  sUnusedConnectionTimeout :: "string option"
  sMaxSessions :: "int option"
  sMaxStartups :: "string option"
  sPerSourceMaxStartups :: "string option"
  sPerSourceNetBlockSize :: "string option"
  sPerSourcePenalties :: "string option"
  sPerSourcePenaltyExemptList :: "string option"
  sIPQoS :: "string option"
  sChannelTimeout :: "string list"
  sLogLevel :: "string option"
  sLogVerbose :: "string list"
  sSyslogFacility :: "string option"
  sCompression :: "string option"
  sVersionAddendum :: "string option"
  sModuliFile :: "string option"
  sUseDNS :: "bool option"
  sSubsystems :: "string \<rightharpoonup> Subsystem"
  sPidFile :: "string option"
  sSecurityKeyProvider :: "string option"
  sSshdAuthPath :: "string option"
  sSshdSessionPath :: "string option"
  sIgnoreUnknown :: "string option"
  sIgnoredKeywords :: "string list"
  sDialerConfig :: DialConfig

definition sshdEmptyOptions :: ServerOptions where
  "sshdEmptyOptions = \<lparr>sAddressFamily = None,
     sListenAddress = [],
     sPorts = [],
     sBindInterface = None,
     sRDomain = None,
     sLoginGraceTime = None,
     sHostKey = [],
     sHostKeyAgent = None,
     sHostCertificate = [],
     sTrustedUserCAKeys = None,
     sRevokedKeys = None,
     sCiphers = None,
     sKexAlgorithms = None,
     sMACs = None,
     sHostKeyAlgorithms = None,
     sCASignatureAlgorithms = None,
     sPubkeyAcceptedAlgorithms = None,
     sHostbasedAcceptedAlgorithms = None,
     sRekeyLimit = None,
     sRequiredRSASize = None,
     sFingerprintHash = None,
     sAuthenticationMethods = None,
     sPermitRootLogin = None,
     sPasswordAuthentication = None,
     sPermitEmptyPasswords = None,
     sKbdInteractiveAuthentication = None,
     sPubkeyAuthentication = None,
     sPubkeyAuthOptions = None,
     sHostbasedAuthentication = None,
     sHostbasedUsesNameFromPacketOnly = None,
     sIgnoreRhosts = None,
     sIgnoreUserKnownHosts = None,
     sGSSAPIAuthentication = None,
     sGSSAPICleanupCredentials = None,
     sGSSAPIStrictAcceptorCheck = None,
     sKerberosAuthentication = None,
     sKerberosGetAFSToken = None,
     sKerberosOrLocalPasswd = None,
     sKerberosTicketCleanup = None,
     sUsePAM = None,
     sPAMServiceName = None,
     sMaxAuthTries = None,
     sLoginMaxRetries = None,
     sStrictModes = None,
     sExposeAuthInfo = None,
     sPermitUserEnvironment = None,
     sPermitUserRC = None,
     sAllowUsers = [],
     sDenyUsers = [],
     sAllowGroups = [],
     sDenyGroups = [],
     sRefuseConnection = None,
     sAuthorizedKeysFile = [],
     sAuthorizedKeysCommand = None,
     sAuthorizedKeysCommandUser = None,
     sAuthorizedPrincipalsFile = None,
     sAuthorizedPrincipalsCommand = None,
     sAuthorizedPrincipalsCommandUser = None,
     sAllowAgentForwarding = None,
     sAllowTcpForwarding = None,
     sAllowStreamLocalForwarding = None,
     sDisableForwarding = None,
     sGatewayPorts = None,
     sPermitOpen = [],
     sPermitListen = [],
     sPermitTTY = None,
     sPermitTunnel = None,
     sX11Forwarding = None,
     sX11DisplayOffset = None,
     sX11UseLocalhost = None,
     sXAuthLocation = None,
     sStreamLocalBindMask = None,
     sStreamLocalBindUnlink = None,
     sChrootDirectory = None,
     sForceCommand = None,
     sBanner = None,
     sPrintLastLog = None,
     sPrintMotd = None,
     sAcceptEnv = [],
     sSetEnv = [],
     sTCPKeepAlive = None,
     sClientAliveInterval = None,
     sClientAliveCountMax = None,
     sUnusedConnectionTimeout = None,
     sMaxSessions = None,
     sMaxStartups = None,
     sPerSourceMaxStartups = None,
     sPerSourceNetBlockSize = None,
     sPerSourcePenalties = None,
     sPerSourcePenaltyExemptList = None,
     sIPQoS = None,
     sChannelTimeout = [],
     sLogLevel = None,
     sLogVerbose = [],
     sSyslogFacility = None,
     sCompression = None,
     sVersionAddendum = None,
     sModuliFile = None,
     sUseDNS = None,
     sSubsystems = Map.empty,
     sPidFile = None,
     sSecurityKeyProvider = None,
     sSshdAuthPath = None,
     sSshdSessionPath = None,
     sIgnoreUnknown = None,
     sIgnoredKeywords = [],
     sDialerConfig = emptyDialConfig\<rparr>"

text \<open>The scalar fields, in the order of the struct.\<close>

definition sshdScalars :: "ServerOptions \<Rightarrow> view" where
  "sshdScalars o1 =
     [map_option VStr (sAddressFamily o1),
      map_option VStr (sBindInterface o1),
      map_option VStr (sRDomain o1),
      map_option VInt (sLoginGraceTime o1),
      map_option VStr (sHostKeyAgent o1),
      map_option VStr (sTrustedUserCAKeys o1),
      map_option VStr (sRevokedKeys o1),
      map_option VStr (sCiphers o1),
      map_option VStr (sKexAlgorithms o1),
      map_option VStr (sMACs o1),
      map_option VStr (sHostKeyAlgorithms o1),
      map_option VStr (sCASignatureAlgorithms o1),
      map_option VStr (sPubkeyAcceptedAlgorithms o1),
      map_option VStr (sHostbasedAcceptedAlgorithms o1),
      map_option VStr (sRekeyLimit o1),
      map_option VInt (sRequiredRSASize o1),
      map_option VStr (sFingerprintHash o1),
      map_option VStr (sAuthenticationMethods o1),
      map_option VStr (sPermitRootLogin o1),
      map_option VBool (sPasswordAuthentication o1),
      map_option VBool (sPermitEmptyPasswords o1),
      map_option VBool (sKbdInteractiveAuthentication o1),
      map_option VBool (sPubkeyAuthentication o1),
      map_option VStr (sPubkeyAuthOptions o1),
      map_option VBool (sHostbasedAuthentication o1),
      map_option VBool (sHostbasedUsesNameFromPacketOnly o1),
      map_option VStr (sIgnoreRhosts o1),
      map_option VBool (sIgnoreUserKnownHosts o1),
      map_option VBool (sGSSAPIAuthentication o1),
      map_option VBool (sGSSAPICleanupCredentials o1),
      map_option VBool (sGSSAPIStrictAcceptorCheck o1),
      map_option VBool (sKerberosAuthentication o1),
      map_option VBool (sKerberosGetAFSToken o1),
      map_option VBool (sKerberosOrLocalPasswd o1),
      map_option VBool (sKerberosTicketCleanup o1),
      map_option VBool (sUsePAM o1),
      map_option VStr (sPAMServiceName o1),
      map_option VInt (sMaxAuthTries o1),
      map_option VInt (sLoginMaxRetries o1),
      map_option VBool (sStrictModes o1),
      map_option VBool (sExposeAuthInfo o1),
      map_option VStr (sPermitUserEnvironment o1),
      map_option VBool (sPermitUserRC o1),
      map_option VStr (sRefuseConnection o1),
      map_option VStr (sAuthorizedKeysCommand o1),
      map_option VStr (sAuthorizedKeysCommandUser o1),
      map_option VStr (sAuthorizedPrincipalsFile o1),
      map_option VStr (sAuthorizedPrincipalsCommand o1),
      map_option VStr (sAuthorizedPrincipalsCommandUser o1),
      map_option VBool (sAllowAgentForwarding o1),
      map_option VStr (sAllowTcpForwarding o1),
      map_option VStr (sAllowStreamLocalForwarding o1),
      map_option VBool (sDisableForwarding o1),
      map_option VStr (sGatewayPorts o1),
      map_option VBool (sPermitTTY o1),
      map_option VStr (sPermitTunnel o1),
      map_option VBool (sX11Forwarding o1),
      map_option VInt (sX11DisplayOffset o1),
      map_option VBool (sX11UseLocalhost o1),
      map_option VStr (sXAuthLocation o1),
      map_option VStr (sStreamLocalBindMask o1),
      map_option VBool (sStreamLocalBindUnlink o1),
      map_option VStr (sChrootDirectory o1),
      map_option VStr (sForceCommand o1),
      map_option VStr (sBanner o1),
      map_option VBool (sPrintLastLog o1),
      map_option VBool (sPrintMotd o1),
      map_option VBool (sTCPKeepAlive o1),
      map_option VInt (sClientAliveInterval o1),
      map_option VInt (sClientAliveCountMax o1),
      map_option VStr (sUnusedConnectionTimeout o1),
      map_option VInt (sMaxSessions o1),
      map_option VStr (sMaxStartups o1),
      map_option VStr (sPerSourceMaxStartups o1),
      map_option VStr (sPerSourceNetBlockSize o1),
      map_option VStr (sPerSourcePenalties o1),
      map_option VStr (sPerSourcePenaltyExemptList o1),
      map_option VStr (sIPQoS o1),
      map_option VStr (sLogLevel o1),
      map_option VStr (sSyslogFacility o1),
      map_option VStr (sCompression o1),
      map_option VStr (sVersionAddendum o1),
      map_option VStr (sModuliFile o1),
      map_option VBool (sUseDNS o1),
      map_option VStr (sPidFile o1),
      map_option VStr (sSecurityKeyProvider o1),
      map_option VStr (sSshdAuthPath o1),
      map_option VStr (sSshdSessionPath o1),
      map_option VStr (sIgnoreUnknown o1)]"

definition sshdBlankOptions :: "string list \<Rightarrow> ServerOptions" where
  "sshdBlankOptions ignored = sshdEmptyOptions\<lparr>sIgnoredKeywords := ignored\<rparr>"

section \<open>Subsystems\<close>

definition RegisterInternalSubsystem :: "string \<Rightarrow> handle option \<Rightarrow> ServerOptions \<Rightarrow> ServerOptions" where
  "RegisterInternalSubsystem name handler o1 =
     o1\<lparr>sSubsystems := (sSubsystems o1)(name \<mapsto>
          \<lparr>subName = name, subCommand = [], subInternal = True, subHandler = handler\<rparr>)\<rparr>"

definition LookupSubsystem :: "string \<Rightarrow> ServerOptions \<Rightarrow> Subsystem option" where
  "LookupSubsystem name o1 = sSubsystems o1 name"

section \<open>Defaults\<close>

definition sshdDefaultCiphers :: string where
  "sshdDefaultCiphers = joinWith
     [''chacha20-poly1305@openssh.com'',
      ''aes128-gcm@openssh.com'',
      ''aes256-gcm@openssh.com'',
      ''aes128-ctr'',
      ''aes192-ctr'',
      ''aes256-ctr''] '',''"

definition sshdDefaultKexAlgorithms :: string where
  "sshdDefaultKexAlgorithms = joinWith
     [''mlkem768x25519-sha256'',
      ''sntrup761x25519-sha512'',
      ''sntrup761x25519-sha512@openssh.com'',
      ''curve25519-sha256'',
      ''curve25519-sha256@libssh.org'',
      ''ecdh-sha2-nistp256'',
      ''ecdh-sha2-nistp384'',
      ''ecdh-sha2-nistp521'',
      ''diffie-hellman-group-exchange-sha256'',
      ''diffie-hellman-group16-sha512'',
      ''diffie-hellman-group18-sha512'',
      ''diffie-hellman-group14-sha256''] '',''"

definition sshdDefaultMACs :: string where
  "sshdDefaultMACs = joinWith
     [''umac-64-etm@openssh.com'',
      ''umac-128-etm@openssh.com'',
      ''hmac-sha2-256-etm@openssh.com'',
      ''hmac-sha2-512-etm@openssh.com'',
      ''hmac-sha1-etm@openssh.com'',
      ''umac-64@openssh.com'',
      ''umac-128@openssh.com'',
      ''hmac-sha2-256'',
      ''hmac-sha2-512'',
      ''hmac-sha1''] '',''"

definition sshdDefaultHostKeyAlgorithms :: string where
  "sshdDefaultHostKeyAlgorithms = joinWith
     [''ssh-ed25519-cert-v01@openssh.com'',
      ''ecdsa-sha2-nistp256-cert-v01@openssh.com'',
      ''ecdsa-sha2-nistp384-cert-v01@openssh.com'',
      ''ecdsa-sha2-nistp521-cert-v01@openssh.com'',
      ''sk-ssh-ed25519-cert-v01@openssh.com'',
      ''sk-ecdsa-sha2-nistp256-cert-v01@openssh.com'',
      ''rsa-sha2-512-cert-v01@openssh.com'',
      ''rsa-sha2-256-cert-v01@openssh.com'',
      ''ssh-ed25519'',
      ''ecdsa-sha2-nistp256'',
      ''ecdsa-sha2-nistp384'',
      ''ecdsa-sha2-nistp521'',
      ''sk-ecdsa-sha2-nistp256@openssh.com'',
      ''sk-ssh-ed25519@openssh.com'',
      ''rsa-sha2-512'',
      ''rsa-sha2-256''] '',''"

definition sshdDefaultCASignatureAlgorithms :: string where
  "sshdDefaultCASignatureAlgorithms = joinWith
     [''ssh-ed25519'',
      ''ecdsa-sha2-nistp256'',
      ''ecdsa-sha2-nistp384'',
      ''ecdsa-sha2-nistp521'',
      ''sk-ssh-ed25519@openssh.com'',
      ''sk-ecdsa-sha2-nistp256@openssh.com'',
      ''rsa-sha2-512'',
      ''rsa-sha2-256''] '',''"

definition sshdDefaultPubkeyAcceptedAlgorithms :: string where
  "sshdDefaultPubkeyAcceptedAlgorithms = joinWith
     [''ssh-ed25519-cert-v01@openssh.com'',
      ''ecdsa-sha2-nistp256-cert-v01@openssh.com'',
      ''ecdsa-sha2-nistp384-cert-v01@openssh.com'',
      ''ecdsa-sha2-nistp521-cert-v01@openssh.com'',
      ''sk-ssh-ed25519-cert-v01@openssh.com'',
      ''sk-ecdsa-sha2-nistp256-cert-v01@openssh.com'',
      ''rsa-sha2-512-cert-v01@openssh.com'',
      ''rsa-sha2-256-cert-v01@openssh.com'',
      ''ssh-ed25519'',
      ''ecdsa-sha2-nistp256'',
      ''ecdsa-sha2-nistp384'',
      ''ecdsa-sha2-nistp521'',
      ''sk-ssh-ed25519@openssh.com'',
      ''sk-ecdsa-sha2-nistp256@openssh.com'',
      ''rsa-sha2-512'',
      ''rsa-sha2-256''] '',''"

definition sshdDefaultHostbasedAcceptedAlgorithms :: string where
  "sshdDefaultHostbasedAcceptedAlgorithms = sshdDefaultPubkeyAcceptedAlgorithms"

definition defaultHostKeys :: "string list" where
  "defaultHostKeys = [''/etc/ssh/ssh_host_ed25519_key'', ''/etc/ssh/ssh_host_ecdsa_key'',
     ''/etc/ssh/ssh_host_rsa_key'']"

definition defaultAuthorizedKeysFiles :: "string list" where
  "defaultAuthorizedKeysFiles = [''.ssh/authorized_keys'', ''.ssh/authorized_keys2'']"

definition sshdApplyDefaults :: "ServerOptions \<Rightarrow> ServerOptions" where
  "sshdApplyDefaults o1 = o1\<lparr>sAddressFamily := orElse (sAddressFamily o1) (Some ''any''),
     sLoginGraceTime := orElse (sLoginGraceTime o1) (Some 120),
     sPorts := (if sPorts o1 = [] then [22] else sPorts o1),
     sHostKey := (if sHostKey o1 = [] then defaultHostKeys else sHostKey o1),
     sCiphers := orElse (sCiphers o1) (Some sshdDefaultCiphers),
     sKexAlgorithms := orElse (sKexAlgorithms o1) (Some sshdDefaultKexAlgorithms),
     sMACs := orElse (sMACs o1) (Some sshdDefaultMACs),
     sHostKeyAlgorithms := orElse (sHostKeyAlgorithms o1) (Some sshdDefaultHostKeyAlgorithms),
     sCASignatureAlgorithms := orElse (sCASignatureAlgorithms o1) (Some sshdDefaultCASignatureAlgorithms),
     sPubkeyAcceptedAlgorithms := orElse (sPubkeyAcceptedAlgorithms o1) (Some sshdDefaultPubkeyAcceptedAlgorithms),
     sHostbasedAcceptedAlgorithms := orElse (sHostbasedAcceptedAlgorithms o1) (Some sshdDefaultHostbasedAcceptedAlgorithms),
     sRekeyLimit := orElse (sRekeyLimit o1) (Some ''default none''),
     sRequiredRSASize := orElse (sRequiredRSASize o1) (Some 1024),
     sFingerprintHash := orElse (sFingerprintHash o1) (Some ''sha256''),
     sPermitRootLogin := orElse (sPermitRootLogin o1) (Some ''prohibit-password''),
     sPasswordAuthentication := orElse (sPasswordAuthentication o1) (Some True),
     sPermitEmptyPasswords := orElse (sPermitEmptyPasswords o1) (Some False),
     sKbdInteractiveAuthentication := orElse (sKbdInteractiveAuthentication o1) (Some True),
     sPubkeyAuthentication := orElse (sPubkeyAuthentication o1) (Some True),
     sPubkeyAuthOptions := orElse (sPubkeyAuthOptions o1) (Some ''none''),
     sHostbasedAuthentication := orElse (sHostbasedAuthentication o1) (Some False),
     sHostbasedUsesNameFromPacketOnly := orElse (sHostbasedUsesNameFromPacketOnly o1) (Some False),
     sIgnoreRhosts := orElse (sIgnoreRhosts o1) (Some ''yes''),
     sIgnoreUserKnownHosts := orElse (sIgnoreUserKnownHosts o1) (Some False),
     sGSSAPIAuthentication := orElse (sGSSAPIAuthentication o1) (Some False),
     sGSSAPICleanupCredentials := orElse (sGSSAPICleanupCredentials o1) (Some True),
     sGSSAPIStrictAcceptorCheck := orElse (sGSSAPIStrictAcceptorCheck o1) (Some True),
     sKerberosAuthentication := orElse (sKerberosAuthentication o1) (Some False),
     sKerberosGetAFSToken := orElse (sKerberosGetAFSToken o1) (Some False),
     sKerberosOrLocalPasswd := orElse (sKerberosOrLocalPasswd o1) (Some True),
     sKerberosTicketCleanup := orElse (sKerberosTicketCleanup o1) (Some True),
     sUsePAM := orElse (sUsePAM o1) (Some False),
     sPAMServiceName := orElse (sPAMServiceName o1) (Some ''sshd''),
     sMaxAuthTries := orElse (sMaxAuthTries o1) (Some 6),
     sStrictModes := orElse (sStrictModes o1) (Some True),
     sExposeAuthInfo := orElse (sExposeAuthInfo o1) (Some False),
     sPermitUserEnvironment := orElse (sPermitUserEnvironment o1) (Some ''no''),
     sPermitUserRC := orElse (sPermitUserRC o1) (Some True),
     sAuthorizedKeysFile := (if sAuthorizedKeysFile o1 = [] then defaultAuthorizedKeysFiles else sAuthorizedKeysFile o1),
     sAllowAgentForwarding := orElse (sAllowAgentForwarding o1) (Some True),
     sAllowTcpForwarding := orElse (sAllowTcpForwarding o1) (Some ''yes''),
     sAllowStreamLocalForwarding := orElse (sAllowStreamLocalForwarding o1) (Some ''yes''),
     sDisableForwarding := orElse (sDisableForwarding o1) (Some False),
     sGatewayPorts := orElse (sGatewayPorts o1) (Some ''no''),
     sPermitTTY := orElse (sPermitTTY o1) (Some True),
     sPermitTunnel := orElse (sPermitTunnel o1) (Some ''no''),
     sX11Forwarding := orElse (sX11Forwarding o1) (Some False),
     sX11DisplayOffset := orElse (sX11DisplayOffset o1) (Some 10),
     sX11UseLocalhost := orElse (sX11UseLocalhost o1) (Some True),
     sXAuthLocation := orElse (sXAuthLocation o1) (Some ''/usr/bin/xauth''),
     sStreamLocalBindMask := orElse (sStreamLocalBindMask o1) (Some ''0177''),
     sStreamLocalBindUnlink := orElse (sStreamLocalBindUnlink o1) (Some False),
     sChrootDirectory := orElse (sChrootDirectory o1) (Some ''none''),
     sForceCommand := orElse (sForceCommand o1) (Some ''none''),
     sBanner := orElse (sBanner o1) (Some ''none''),
     sPrintLastLog := orElse (sPrintLastLog o1) (Some True),
     sPrintMotd := orElse (sPrintMotd o1) (Some True),
     sTCPKeepAlive := orElse (sTCPKeepAlive o1) (Some True),
     sClientAliveInterval := orElse (sClientAliveInterval o1) (Some 0),
     sClientAliveCountMax := orElse (sClientAliveCountMax o1) (Some 3),
     sUnusedConnectionTimeout := orElse (sUnusedConnectionTimeout o1) (Some ''none''),
     sMaxSessions := orElse (sMaxSessions o1) (Some 10),
     sMaxStartups := orElse (sMaxStartups o1) (Some ''10:30:100''),
     sPerSourceMaxStartups := orElse (sPerSourceMaxStartups o1) (Some ''none''),
     sPerSourceNetBlockSize := orElse (sPerSourceNetBlockSize o1) (Some ''32:128''),
     sIPQoS := orElse (sIPQoS o1) (Some ''af21 cs1''),
     sLogLevel := orElse (sLogLevel o1) (Some ''INFO''),
     sSyslogFacility := orElse (sSyslogFacility o1) (Some ''AUTH''),
     sCompression := orElse (sCompression o1) (Some ''yes''),
     sVersionAddendum := orElse (sVersionAddendum o1) (Some ''none''),
     sModuliFile := orElse (sModuliFile o1) (Some ''/etc/ssh/moduli''),
     sUseDNS := orElse (sUseDNS o1) (Some False),
     sPidFile := orElse (sPidFile o1) (Some ''/run/sshd.pid''),
     sSshdAuthPath := orElse (sSshdAuthPath o1) (Some ''/usr/lib/ssh/sshd-auth''),
     sSshdSessionPath := orElse (sSshdSessionPath o1) (Some ''/usr/lib/ssh/sshd-session'')\<rparr>"

section \<open>The dialer configuration\<close>

definition sshdStrOr :: "string option \<Rightarrow> string" where
  "sshdStrOr p = (case p of None \<Rightarrow> [] | Some v \<Rightarrow> v)"

definition sshdBuildDialerConfig :: "ServerOptions \<Rightarrow> DialConfig" where
  "sshdBuildDialerConfig o1 =
     emptyDialConfig\<lparr>dcAddressFamily := sshdStrOr (sAddressFamily o1),
       dcBindInterface := sshdStrOr (sBindInterface o1),
       dcIPQoS := sshdStrOr (sIPQoS o1)\<rparr>"

definition sshdRefreshDialerConfig :: "ServerOptions \<Rightarrow> ServerOptions" where
  "sshdRefreshDialerConfig o1 =
     (let wrapper = dcWrapper (sDialerConfig o1)
      in o1\<lparr>sDialerConfig := (sshdBuildDialerConfig o1)\<lparr>dcWrapper := wrapper\<rparr>\<rparr>)"

definition sshdGetDialer :: "ServerOptions \<Rightarrow> Dialer" where
  "sshdGetDialer o1 = GetDialer (sDialerConfig o1)"

section \<open>Lemmas\<close>

lemma length_sshdScalars: "length (sshdScalars o1) = 89"
  by (simp add: sshdScalars_def)

lemma sshdScalars_blank: "sshdScalars (sshdBlankOptions g) = replicate 89 None"
  by (simp add: sshdScalars_def sshdBlankOptions_def sshdEmptyOptions_def numeral_eq_Suc)

definition sshdDefaultScalars :: view where
  "sshdDefaultScalars = sshdScalars (sshdApplyDefaults sshdEmptyOptions)"

lemma sshdScalars_applyDefaults:
  "sshdScalars (sshdApplyDefaults o1) = mergeView (sshdScalars o1) sshdDefaultScalars"
  by (simp add: sshdDefaultScalars_def sshdScalars_def sshdApplyDefaults_def sshdEmptyOptions_def
      orElse_map[of VStr _ "Some _", simplified] orElse_map[of VBool _ "Some _", simplified]
      orElse_map[of VInt _ "Some _", simplified])

end
