(* ===== verification/ServerKeyword.thy ===== *)
theory ServerKeyword
  imports ServerOptions MatchCond
begin

text \<open>
  Applying directives to the server options (\<^verbatim>\<open>pkg/sshserver/apply.go\<close>,
  \<^verbatim>\<open>keyword.go\<close>).  A handler that takes the address of a field is a function of
  the field's update.  The locale of option stores is interpreted on the server's
  \<^verbatim>\<open>ApplyDirective\<close>.
\<close>

section \<open>Setters\<close>

definition sshdSetStr :: "string \<Rightarrow> string option \<Rightarrow> string option" where
  "sshdSetStr value p = (case p of None \<Rightarrow> Some value | Some x \<Rightarrow> Some x)"

definition sshdParseBool :: "string \<Rightarrow> bool option" where
  "sshdParseBool value =
     (let v = toLower value in
      if v = ''yes'' \<or> v = ''true'' then Some True
      else if v = ''no'' \<or> v = ''false'' then Some False
      else None)"

definition sshdSetBool :: "string \<Rightarrow> bool option \<Rightarrow> bool option" where
  "sshdSetBool value p = (case p of Some x \<Rightarrow> Some x | None \<Rightarrow> sshdParseBool value)"

definition sshdSetInt :: "string \<Rightarrow> int option \<Rightarrow> int option" where
  "sshdSetInt value p = (case p of Some x \<Rightarrow> Some x | None \<Rightarrow> atoi value)"

definition sshdSetTime :: "string \<Rightarrow> int option \<Rightarrow> int option" where
  "sshdSetTime value p = (case p of Some x \<Rightarrow> Some x | None \<Rightarrow> Some (ParseTimeSeconds value))"

lemma sshd_set_orElse:
  "sshdSetStr v p = orElse p (Some v)"
  "sshdSetBool v q = orElse q (sshdParseBool v)"
  "sshdSetInt v r = orElse r (atoi v)"
  "sshdSetTime v r = orElse r (Some (ParseTimeSeconds v))"
  by (simp_all add: sshdSetStr_def sshdSetBool_def sshdSetInt_def sshdSetTime_def split: option.split)

section \<open>Handlers\<close>

type_synonym sshdHandler = "string \<Rightarrow> SourceInfo \<Rightarrow> ServerOptions \<Rightarrow> go_error + ServerOptions"

definition sshdStrField ::
  "((string option \<Rightarrow> string option) \<Rightarrow> ServerOptions \<Rightarrow> ServerOptions) \<Rightarrow> sshdHandler" where
  "sshdStrField upd value source opts = Inr (upd (sshdSetStr value) opts)"

definition sshdBoolField ::
  "((bool option \<Rightarrow> bool option) \<Rightarrow> ServerOptions \<Rightarrow> ServerOptions) \<Rightarrow> sshdHandler" where
  "sshdBoolField upd value source opts = Inr (upd (sshdSetBool value) opts)"

definition sshdIntField ::
  "((int option \<Rightarrow> int option) \<Rightarrow> ServerOptions \<Rightarrow> ServerOptions) \<Rightarrow> sshdHandler" where
  "sshdIntField upd value source opts = Inr (upd (sshdSetInt value) opts)"

definition timeField ::
  "((int option \<Rightarrow> int option) \<Rightarrow> ServerOptions \<Rightarrow> ServerOptions) \<Rightarrow> sshdHandler" where
  "timeField upd value source opts = Inr (upd (sshdSetTime value) opts)"

definition sshdAppendField ::
  "((string list \<Rightarrow> string list) \<Rightarrow> ServerOptions \<Rightarrow> ServerOptions) \<Rightarrow> sshdHandler" where
  "sshdAppendField upd value source opts = Inr (upd (\<lambda>l. l @ [value]) opts)"

definition wordAppendField ::
  "((string list \<Rightarrow> string list) \<Rightarrow> ServerOptions \<Rightarrow> ServerOptions) \<Rightarrow> sshdHandler" where
  "wordAppendField upd value source opts = Inr (upd (\<lambda>l. l @ Fields value) opts)"

definition sshdChannelTimeoutHandler :: sshdHandler where
  "sshdChannelTimeoutHandler value source opts =
     Inr (opts\<lparr>sChannelTimeout := sChannelTimeout opts @ Fields value\<rparr>)"

definition sshdSkipDirective :: sshdHandler where
  "sshdSkipDirective value source opts = Inr opts"

text \<open>The set of ignored keywords is a list, the latest in front.\<close>

definition sshdIgnoreUnknownHandler :: sshdHandler where
  "sshdIgnoreUnknownHandler value source opts =
     Inr (opts\<lparr>sIgnoreUnknown := sshdSetStr value (sIgnoreUnknown opts),
               sIgnoredKeywords :=
                 rev (filter (\<lambda>p. p \<noteq> []) (map (\<lambda>p. trimSpace (toLower p)) (split value CHR '','')))
                 @ sIgnoredKeywords opts\<rparr>)"

definition appendSubsystem :: sshdHandler where
  "appendSubsystem value source opts =
     (let fields = Fields value in
      if length fields < 2
      then Inl (ParseError source ''Subsystem requires a name and a command'')
      else
        (let name = fields ! 0;
             cmd = trimSpace (drop (length name) value)
         in case sSubsystems opts name of
              Some existing \<Rightarrow> Inr opts
            | None \<Rightarrow>
                Inr (opts\<lparr>sSubsystems := (sSubsystems opts)(name \<mapsto>
                       \<lparr>subName = name, subCommand = cmd, subInternal = False, subHandler = None\<rparr>)\<rparr>)))"

text \<open>The error of \<^verbatim>\<open>strconv.Atoi\<close>: the digits are missing, or there are too many.\<close>

definition atoiErr :: "string \<Rightarrow> go_error" where
  "atoiErr s =
     (let t = (if hasPrefix s ''-'' \<or> hasPrefix s ''+'' then drop 1 s else s)
      in if unsignedDigits t = None
         then Errorf ''strconv.Atoi: parsing %q: invalid syntax'' [s]
         else Errorf ''strconv.Atoi: parsing %q: value out of range'' [s])"

definition parsePortDirective :: sshdHandler where
  "parsePortDirective value source opts =
     (case atoi (trimSpace value) of
        None \<Rightarrow> Inl (ParseError source (''invalid Port: '' @ errText (atoiErr (trimSpace value))))
      | Some n \<Rightarrow>
          if n \<in> set (sPorts opts) then Inr opts
          else Inr (opts\<lparr>sPorts := sPorts opts @ [n]\<rparr>))"

definition sshdDirectiveTable :: "(string \<times> sshdHandler) list" where
  "sshdDirectiveTable =
     [(''addressfamily'', sshdStrField sAddressFamily_update),
      (''listenaddress'', sshdAppendField sListenAddress_update),
      (''port'', parsePortDirective),
      (''rdomain'', sshdStrField sRDomain_update),
      (''logingracetime'', timeField sLoginGraceTime_update),
      (''hostkey'', sshdAppendField sHostKey_update),
      (''hostkeyagent'', sshdStrField sHostKeyAgent_update),
      (''hostcertificate'', sshdAppendField sHostCertificate_update),
      (''trustedusercakeys'', sshdStrField sTrustedUserCAKeys_update),
      (''revokedkeys'', sshdStrField sRevokedKeys_update),
      (''ciphers'', sshdStrField sCiphers_update),
      (''kexalgorithms'', sshdStrField sKexAlgorithms_update),
      (''macs'', sshdStrField sMACs_update),
      (''hostkeyalgorithms'', sshdStrField sHostKeyAlgorithms_update),
      (''casignaturealgorithms'', sshdStrField sCASignatureAlgorithms_update),
      (''pubkeyacceptedalgorithms'', sshdStrField sPubkeyAcceptedAlgorithms_update),
      (''pubkeyacceptedkeytypes'', sshdStrField sPubkeyAcceptedAlgorithms_update),
      (''hostbasedacceptedalgorithms'', sshdStrField sHostbasedAcceptedAlgorithms_update),
      (''hostbasedacceptedkeytypes'', sshdStrField sHostbasedAcceptedAlgorithms_update),
      (''rekeylimit'', sshdStrField sRekeyLimit_update),
      (''requiredrsasize'', sshdIntField sRequiredRSASize_update),
      (''fingerprinthash'', sshdStrField sFingerprintHash_update),
      (''authenticationmethods'', sshdStrField sAuthenticationMethods_update),
      (''permitrootlogin'', sshdStrField sPermitRootLogin_update),
      (''passwordauthentication'', sshdBoolField sPasswordAuthentication_update),
      (''permitemptypasswords'', sshdBoolField sPermitEmptyPasswords_update),
      (''kbdinteractiveauthentication'', sshdBoolField sKbdInteractiveAuthentication_update),
      (''challengeresponseauthentication'', sshdBoolField sKbdInteractiveAuthentication_update),
      (''pubkeyauthentication'', sshdBoolField sPubkeyAuthentication_update),
      (''pubkeyauthoptions'', sshdStrField sPubkeyAuthOptions_update),
      (''hostbasedauthentication'', sshdBoolField sHostbasedAuthentication_update),
      (''hostbasedusesnamefrompacketonly'', sshdBoolField sHostbasedUsesNameFromPacketOnly_update),
      (''ignorerhosts'', sshdStrField sIgnoreRhosts_update),
      (''ignoreuserknownhosts'', sshdBoolField sIgnoreUserKnownHosts_update),
      (''gssapiauthentication'', sshdBoolField sGSSAPIAuthentication_update),
      (''gssapicleanupcredentials'', sshdBoolField sGSSAPICleanupCredentials_update),
      (''gssapistrictacceptorcheck'', sshdBoolField sGSSAPIStrictAcceptorCheck_update),
      (''kerberosauthentication'', sshdBoolField sKerberosAuthentication_update),
      (''kerberosgetafstoken'', sshdBoolField sKerberosGetAFSToken_update),
      (''kerberosorlocalpasswd'', sshdBoolField sKerberosOrLocalPasswd_update),
      (''kerberosticketcleanup'', sshdBoolField sKerberosTicketCleanup_update),
      (''usepam'', sshdBoolField sUsePAM_update),
      (''pamservicename'', sshdStrField sPAMServiceName_update),
      (''maxauthtries'', sshdIntField sMaxAuthTries_update),
      (''strictmodes'', sshdBoolField sStrictModes_update),
      (''exposeauthinfo'', sshdBoolField sExposeAuthInfo_update),
      (''permituserenvironment'', sshdStrField sPermitUserEnvironment_update),
      (''permituserrc'', sshdBoolField sPermitUserRC_update),
      (''allowusers'', wordAppendField sAllowUsers_update),
      (''denyusers'', wordAppendField sDenyUsers_update),
      (''allowgroups'', wordAppendField sAllowGroups_update),
      (''denygroups'', wordAppendField sDenyGroups_update),
      (''refuseconnection'', sshdStrField sRefuseConnection_update),
      (''authorizedkeysfile'', wordAppendField sAuthorizedKeysFile_update),
      (''authorizedkeyscommand'', sshdStrField sAuthorizedKeysCommand_update),
      (''authorizedkeyscommanduser'', sshdStrField sAuthorizedKeysCommandUser_update),
      (''authorizedprincipalsfile'', sshdStrField sAuthorizedPrincipalsFile_update),
      (''authorizedprincipalscommand'', sshdStrField sAuthorizedPrincipalsCommand_update),
      (''authorizedprincipalscommanduser'', sshdStrField sAuthorizedPrincipalsCommandUser_update),
      (''allowagentforwarding'', sshdBoolField sAllowAgentForwarding_update),
      (''allowtcpforwarding'', sshdStrField sAllowTcpForwarding_update),
      (''allowstreamlocalforwarding'', sshdStrField sAllowStreamLocalForwarding_update),
      (''disableforwarding'', sshdBoolField sDisableForwarding_update),
      (''gatewayports'', sshdStrField sGatewayPorts_update),
      (''permitopen'', wordAppendField sPermitOpen_update),
      (''permitlisten'', wordAppendField sPermitListen_update),
      (''permittty'', sshdBoolField sPermitTTY_update),
      (''permittunnel'', sshdStrField sPermitTunnel_update),
      (''x11forwarding'', sshdBoolField sX11Forwarding_update),
      (''x11displayoffset'', sshdIntField sX11DisplayOffset_update),
      (''x11uselocalhost'', sshdBoolField sX11UseLocalhost_update),
      (''xauthlocation'', sshdStrField sXAuthLocation_update),
      (''streamlocalbindmask'', sshdStrField sStreamLocalBindMask_update),
      (''streamlocalbindunlink'', sshdBoolField sStreamLocalBindUnlink_update),
      (''chrootdirectory'', sshdStrField sChrootDirectory_update),
      (''forcecommand'', sshdStrField sForceCommand_update),
      (''banner'', sshdStrField sBanner_update),
      (''printlastlog'', sshdBoolField sPrintLastLog_update),
      (''printmotd'', sshdBoolField sPrintMotd_update),
      (''acceptenv'', wordAppendField sAcceptEnv_update),
      (''setenv'', sshdAppendField sSetEnv_update),
      (''tcpkeepalive'', sshdBoolField sTCPKeepAlive_update),
      (''clientaliveinterval'', timeField sClientAliveInterval_update),
      (''clientalivecountmax'', sshdIntField sClientAliveCountMax_update),
      (''unusedconnectiontimeout'', sshdStrField sUnusedConnectionTimeout_update),
      (''maxsessions'', sshdIntField sMaxSessions_update),
      (''maxstartups'', sshdStrField sMaxStartups_update),
      (''persourcemaxstartups'', sshdStrField sPerSourceMaxStartups_update),
      (''persourcenetblocksize'', sshdStrField sPerSourceNetBlockSize_update),
      (''persourcepenalties'', sshdStrField sPerSourcePenalties_update),
      (''persourcepenaltyexemptlist'', sshdStrField sPerSourcePenaltyExemptList_update),
      (''ipqos'', sshdStrField sIPQoS_update),
      (''channeltimeout'', sshdChannelTimeoutHandler),
      (''loglevel'', sshdStrField sLogLevel_update),
      (''logverbose'', sshdAppendField sLogVerbose_update),
      (''syslogfacility'', sshdStrField sSyslogFacility_update),
      (''compression'', sshdStrField sCompression_update),
      (''versionaddendum'', sshdStrField sVersionAddendum_update),
      (''modulifile'', sshdStrField sModuliFile_update),
      (''usedns'', sshdBoolField sUseDNS_update),
      (''subsystem'', appendSubsystem),
      (''pidfile'', sshdStrField sPidFile_update),
      (''securitykeyprovider'', sshdStrField sSecurityKeyProvider_update),
      (''sshdauthpath'', sshdStrField sSshdAuthPath_update),
      (''sshdsessionpath'', sshdStrField sSshdSessionPath_update),
      (''ignoreunknown'', sshdIgnoreUnknownHandler),
      (''host'', sshdSkipDirective),
      (''match'', sshdSkipDirective),
      (''include'', sshdSkipDirective)]"

section \<open>Directives\<close>

definition sshdApplyDirective :: "Directive \<Rightarrow> ServerOptions \<Rightarrow> go_error + ServerOptions" where
  "sshdApplyDirective dir opts =
     (let keyword = toLower (dKeyword dir) in
      if keyword \<in> set (sIgnoredKeywords opts) then Inr opts
      else case map_of sshdDirectiveTable keyword of
        Some handler \<Rightarrow> handler (dValue dir) (dSource dir) opts
      | None \<Rightarrow>
          if list_ex (\<lambda>pattern. MatchPattern pattern keyword) (sIgnoredKeywords opts) then Inr opts
          else Inl (ParseError (dSource dir) (''unknown option: '' @ dKeyword dir)))"

section \<open>The effect of a handler on the scalars\<close>

definition sshdUniform :: "sshdHandler \<Rightarrow> bool" where
  "sshdUniform h \<longleftrightarrow> (\<forall>v src opts.
     case h v src opts of
       Inl x \<Rightarrow> h v src (sshdBlankOptions (sIgnoredKeywords opts)) = Inl x
     | Inr o' \<Rightarrow> \<exists>e. h v src (sshdBlankOptions (sIgnoredKeywords opts)) = Inr e \<and>
         sIgnoredKeywords e = sIgnoredKeywords o' \<and>
         sshdScalars o' = mergeView (sshdScalars opts) (sshdScalars e))"

lemmas sshd_handler_defs =
  sshdStrField_def sshdBoolField_def sshdIntField_def timeField_def sshdAppendField_def
  wordAppendField_def sshdSkipDirective_def sshdChannelTimeoutHandler_def
  sshdIgnoreUnknownHandler_def appendSubsystem_def parsePortDirective_def

lemma sshd_uniform_special:
  "sshdUniform sshdSkipDirective" "sshdUniform sshdChannelTimeoutHandler"
  "sshdUniform sshdIgnoreUnknownHandler" "sshdUniform appendSubsystem"
  "sshdUniform parsePortDirective"
  by (simp_all add: sshdUniform_def sshd_handler_defs sshdScalars_def sshdBlankOptions_def
      sshdEmptyOptions_def sshd_set_orElse Let_def orElse_map[of VStr _ "Some _", simplified]
      split: sum.split option.split)

lemma sshd_uniform_fields1:
  "sshdUniform (sshdStrField sAddressFamily_update)"
  "sshdUniform (sshdAppendField sListenAddress_update)"
  "sshdUniform (sshdStrField sRDomain_update)"
  "sshdUniform (timeField sLoginGraceTime_update)"
  "sshdUniform (sshdAppendField sHostKey_update)"
  "sshdUniform (sshdStrField sHostKeyAgent_update)"
  "sshdUniform (sshdAppendField sHostCertificate_update)"
  "sshdUniform (sshdStrField sTrustedUserCAKeys_update)"
  "sshdUniform (sshdStrField sRevokedKeys_update)"
  "sshdUniform (sshdStrField sCiphers_update)"
  "sshdUniform (sshdStrField sKexAlgorithms_update)"
  "sshdUniform (sshdStrField sMACs_update)"
  "sshdUniform (sshdStrField sHostKeyAlgorithms_update)"
  "sshdUniform (sshdStrField sCASignatureAlgorithms_update)"
  "sshdUniform (sshdStrField sPubkeyAcceptedAlgorithms_update)"
  "sshdUniform (sshdStrField sHostbasedAcceptedAlgorithms_update)"
  by (simp_all add: sshdUniform_def sshd_handler_defs sshdScalars_def sshdBlankOptions_def
      sshdEmptyOptions_def sshd_set_orElse)

lemma sshd_uniform_fields2:
  "sshdUniform (sshdStrField sRekeyLimit_update)"
  "sshdUniform (sshdIntField sRequiredRSASize_update)"
  "sshdUniform (sshdStrField sFingerprintHash_update)"
  "sshdUniform (sshdStrField sAuthenticationMethods_update)"
  "sshdUniform (sshdStrField sPermitRootLogin_update)"
  "sshdUniform (sshdBoolField sPasswordAuthentication_update)"
  "sshdUniform (sshdBoolField sPermitEmptyPasswords_update)"
  "sshdUniform (sshdBoolField sKbdInteractiveAuthentication_update)"
  "sshdUniform (sshdBoolField sPubkeyAuthentication_update)"
  "sshdUniform (sshdStrField sPubkeyAuthOptions_update)"
  "sshdUniform (sshdBoolField sHostbasedAuthentication_update)"
  "sshdUniform (sshdBoolField sHostbasedUsesNameFromPacketOnly_update)"
  "sshdUniform (sshdStrField sIgnoreRhosts_update)"
  "sshdUniform (sshdBoolField sIgnoreUserKnownHosts_update)"
  "sshdUniform (sshdBoolField sGSSAPIAuthentication_update)"
  "sshdUniform (sshdBoolField sGSSAPICleanupCredentials_update)"
  by (simp_all add: sshdUniform_def sshd_handler_defs sshdScalars_def sshdBlankOptions_def
      sshdEmptyOptions_def sshd_set_orElse)

lemma sshd_uniform_fields3:
  "sshdUniform (sshdBoolField sGSSAPIStrictAcceptorCheck_update)"
  "sshdUniform (sshdBoolField sKerberosAuthentication_update)"
  "sshdUniform (sshdBoolField sKerberosGetAFSToken_update)"
  "sshdUniform (sshdBoolField sKerberosOrLocalPasswd_update)"
  "sshdUniform (sshdBoolField sKerberosTicketCleanup_update)"
  "sshdUniform (sshdBoolField sUsePAM_update)"
  "sshdUniform (sshdStrField sPAMServiceName_update)"
  "sshdUniform (sshdIntField sMaxAuthTries_update)"
  "sshdUniform (sshdBoolField sStrictModes_update)"
  "sshdUniform (sshdBoolField sExposeAuthInfo_update)"
  "sshdUniform (sshdStrField sPermitUserEnvironment_update)"
  "sshdUniform (sshdBoolField sPermitUserRC_update)"
  "sshdUniform (wordAppendField sAllowUsers_update)"
  "sshdUniform (wordAppendField sDenyUsers_update)"
  "sshdUniform (wordAppendField sAllowGroups_update)"
  "sshdUniform (wordAppendField sDenyGroups_update)"
  by (simp_all add: sshdUniform_def sshd_handler_defs sshdScalars_def sshdBlankOptions_def
      sshdEmptyOptions_def sshd_set_orElse)

lemma sshd_uniform_fields4:
  "sshdUniform (sshdStrField sRefuseConnection_update)"
  "sshdUniform (wordAppendField sAuthorizedKeysFile_update)"
  "sshdUniform (sshdStrField sAuthorizedKeysCommand_update)"
  "sshdUniform (sshdStrField sAuthorizedKeysCommandUser_update)"
  "sshdUniform (sshdStrField sAuthorizedPrincipalsFile_update)"
  "sshdUniform (sshdStrField sAuthorizedPrincipalsCommand_update)"
  "sshdUniform (sshdStrField sAuthorizedPrincipalsCommandUser_update)"
  "sshdUniform (sshdBoolField sAllowAgentForwarding_update)"
  "sshdUniform (sshdStrField sAllowTcpForwarding_update)"
  "sshdUniform (sshdStrField sAllowStreamLocalForwarding_update)"
  "sshdUniform (sshdBoolField sDisableForwarding_update)"
  "sshdUniform (sshdStrField sGatewayPorts_update)"
  "sshdUniform (wordAppendField sPermitOpen_update)"
  "sshdUniform (wordAppendField sPermitListen_update)"
  "sshdUniform (sshdBoolField sPermitTTY_update)"
  "sshdUniform (sshdStrField sPermitTunnel_update)"
  by (simp_all add: sshdUniform_def sshd_handler_defs sshdScalars_def sshdBlankOptions_def
      sshdEmptyOptions_def sshd_set_orElse)

lemma sshd_uniform_fields5:
  "sshdUniform (sshdBoolField sX11Forwarding_update)"
  "sshdUniform (sshdIntField sX11DisplayOffset_update)"
  "sshdUniform (sshdBoolField sX11UseLocalhost_update)"
  "sshdUniform (sshdStrField sXAuthLocation_update)"
  "sshdUniform (sshdStrField sStreamLocalBindMask_update)"
  "sshdUniform (sshdBoolField sStreamLocalBindUnlink_update)"
  "sshdUniform (sshdStrField sChrootDirectory_update)"
  "sshdUniform (sshdStrField sForceCommand_update)"
  "sshdUniform (sshdStrField sBanner_update)"
  "sshdUniform (sshdBoolField sPrintLastLog_update)"
  "sshdUniform (sshdBoolField sPrintMotd_update)"
  "sshdUniform (wordAppendField sAcceptEnv_update)"
  "sshdUniform (sshdAppendField sSetEnv_update)"
  "sshdUniform (sshdBoolField sTCPKeepAlive_update)"
  "sshdUniform (timeField sClientAliveInterval_update)"
  "sshdUniform (sshdIntField sClientAliveCountMax_update)"
  by (simp_all add: sshdUniform_def sshd_handler_defs sshdScalars_def sshdBlankOptions_def
      sshdEmptyOptions_def sshd_set_orElse)

lemma sshd_uniform_fields6:
  "sshdUniform (sshdStrField sUnusedConnectionTimeout_update)"
  "sshdUniform (sshdIntField sMaxSessions_update)"
  "sshdUniform (sshdStrField sMaxStartups_update)"
  "sshdUniform (sshdStrField sPerSourceMaxStartups_update)"
  "sshdUniform (sshdStrField sPerSourceNetBlockSize_update)"
  "sshdUniform (sshdStrField sPerSourcePenalties_update)"
  "sshdUniform (sshdStrField sPerSourcePenaltyExemptList_update)"
  "sshdUniform (sshdStrField sIPQoS_update)"
  "sshdUniform (sshdStrField sLogLevel_update)"
  "sshdUniform (sshdAppendField sLogVerbose_update)"
  "sshdUniform (sshdStrField sSyslogFacility_update)"
  "sshdUniform (sshdStrField sCompression_update)"
  "sshdUniform (sshdStrField sVersionAddendum_update)"
  "sshdUniform (sshdStrField sModuliFile_update)"
  "sshdUniform (sshdBoolField sUseDNS_update)"
  "sshdUniform (sshdStrField sPidFile_update)"
  by (simp_all add: sshdUniform_def sshd_handler_defs sshdScalars_def sshdBlankOptions_def
      sshdEmptyOptions_def sshd_set_orElse)

lemma sshd_uniform_fields7:
  "sshdUniform (sshdStrField sSecurityKeyProvider_update)"
  "sshdUniform (sshdStrField sSshdAuthPath_update)"
  "sshdUniform (sshdStrField sSshdSessionPath_update)"
  by (simp_all add: sshdUniform_def sshd_handler_defs sshdScalars_def sshdBlankOptions_def
      sshdEmptyOptions_def sshd_set_orElse)

lemmas sshd_uniform_fields =
  sshd_uniform_fields1 sshd_uniform_fields2 sshd_uniform_fields3 sshd_uniform_fields4 sshd_uniform_fields5 sshd_uniform_fields6 sshd_uniform_fields7

lemma sshd_uniform_table: "list_all (\<lambda>(k, h). sshdUniform h) sshdDirectiveTable"
  by (simp add: sshdDirectiveTable_def sshd_uniform_special sshd_uniform_fields)

lemma sshd_uniform_lookup: "map_of sshdDirectiveTable k = Some h \<Longrightarrow> sshdUniform h"
  using sshd_uniform_table by (auto simp: list_all_iff dest!: map_of_SomeD)

lemma sshdUniformD_Inr:
  "sshdUniform h \<Longrightarrow> h v src opts = Inr o' \<Longrightarrow>
   \<exists>e. h v src (sshdBlankOptions (sIgnoredKeywords opts)) = Inr e \<and>
      sIgnoredKeywords e = sIgnoredKeywords o' \<and>
      sshdScalars o' = mergeView (sshdScalars opts) (sshdScalars e)"
  unfolding sshdUniform_def by (drule spec[of _ v], drule spec[of _ src], drule spec[of _ opts]) simp

lemma sshdUniformD_Inl:
  "sshdUniform h \<Longrightarrow> h v src opts = Inl x \<Longrightarrow>
   h v src (sshdBlankOptions (sIgnoredKeywords opts)) = Inl x"
  unfolding sshdUniform_def by (drule spec[of _ v], drule spec[of _ src], drule spec[of _ opts]) simp

lemma sshd_ignored_blank [simp]: "sIgnoredKeywords (sshdBlankOptions g) = g"
  by (simp add: sshdBlankOptions_def)

lemma sshdApplyDirective_delta:
  assumes "sshdApplyDirective d opts = Inr o'"
  shows "\<exists>e. sshdApplyDirective d (sshdBlankOptions (sIgnoredKeywords opts)) = Inr e \<and>
     sIgnoredKeywords e = sIgnoredKeywords o' \<and>
     sshdScalars o' = mergeView (sshdScalars opts) (sshdScalars e)"
proof -
  let ?b = "sshdBlankOptions (sIgnoredKeywords opts)"
  have keep: "sshdScalars opts = mergeView (sshdScalars opts) (sshdScalars ?b)"
    using mergeView_None[of "sshdScalars opts"] by (simp add: length_sshdScalars sshdScalars_blank)
  show ?thesis
  proof (cases "toLower (dKeyword d) \<in> set (sIgnoredKeywords opts)")
    case True
    then show ?thesis using assms keep by (simp add: sshdApplyDirective_def)
  next
    case False
    show ?thesis
    proof (cases "map_of sshdDirectiveTable (toLower (dKeyword d))")
      case None
      then show ?thesis using assms keep False
        by (auto simp: sshdApplyDirective_def split: if_splits)
    next
      case (Some h)
      then have "h (dValue d) (dSource d) opts = Inr o'"
        using assms False by (simp add: sshdApplyDirective_def)
      from sshdUniformD_Inr[OF sshd_uniform_lookup[OF Some] this] show ?thesis
        using Some False by (auto simp: sshdApplyDirective_def)
    qed
  qed
qed

lemma sshdApplyDirective_error:
  assumes "sshdApplyDirective d opts = Inl x"
  shows "sshdApplyDirective d (sshdBlankOptions (sIgnoredKeywords opts)) = Inl x"
proof -
  have n: "toLower (dKeyword d) \<notin> set (sIgnoredKeywords opts)"
    using assms by (auto simp: sshdApplyDirective_def)
  show ?thesis
  proof (cases "map_of sshdDirectiveTable (toLower (dKeyword d))")
    case None
    then show ?thesis using assms n by (auto simp: sshdApplyDirective_def split: if_splits)
  next
    case (Some h)
    then have "h (dValue d) (dSource d) opts = Inl x"
      using assms n by (simp add: sshdApplyDirective_def)
    from sshdUniformD_Inl[OF sshd_uniform_lookup[OF Some] this] show ?thesis
      using Some n by (auto simp: sshdApplyDirective_def)
  qed
qed

interpretation sv: option_store sshdApplyDirective sshdScalars sIgnoredKeywords sshdBlankOptions 89
  by unfold_locales
    (rule length_sshdScalars sshdScalars_blank sshd_ignored_blank
      | erule sshdApplyDirective_delta sshdApplyDirective_error)+

end
