(* ===== verification/ServerResolve.thy ===== *)
theory ServerResolve
  imports ServerKeyword ConfRender
begin

text \<open>
  Resolution of the server configuration (\<^verbatim>\<open>pkg/sshserver/resolve.go\<close>): one pass
  over the command line, the overrides and the file, in a fixed match context.
\<close>

record SLookup =
  slConfigFile :: string
  slCommandLineDirectives :: "Directive list"
  slCommandLineOptions :: "string list"
  slUser :: string
  slGroups :: "string list"
  slHost :: string
  slRemoteAddr :: string
  slLocalAddr :: string
  slLocalPort :: int
  slRDomain :: string
  slInvalidUser :: bool
  slVersion :: string
  slExecFunc :: "(string \<Rightarrow> bool) option"

definition emptySLookup :: SLookup where
  "emptySLookup = \<lparr>slConfigFile = [], slCommandLineDirectives = [], slCommandLineOptions = [],
     slUser = [], slGroups = [], slHost = [], slRemoteAddr = [], slLocalAddr = [], slLocalPort = 0,
     slRDomain = [], slInvalidUser = False, slVersion = [], slExecFunc = None\<rparr>"

section \<open>The match context\<close>

definition splitAddr :: "string \<Rightarrow> string \<times> string" where
  "splitAddr s =
     (if s = [] then ([], [])
      else case netSplitHostPort s of Some (h, p) \<Rightarrow> (h, p) | None \<Rightarrow> (s, []))"

definition portOrDefault :: "string \<Rightarrow> int \<Rightarrow> int" where
  "portOrDefault s d =
     (if s = [] then d else case atoi s of Some n \<Rightarrow> n | None \<Rightarrow> d)"

definition buildMatchContext :: "World \<Rightarrow> SLookup \<Rightarrow> MatchContext" where
  "buildMatchContext w l =
     (let version = (if slVersion l = [] then ''sshconf'' else slVersion l);
          localUser = (case wCurrentUser w of Some u \<Rightarrow> u | None \<Rightarrow> []);
          (remoteIPStr, remotePort) = splitAddr (slRemoteAddr l);
          (localIPStr, lp) = splitAddr (slLocalAddr l);
          localPortStr = (if slLocalPort l = 0 \<and> lp \<noteq> [] then lp else itoaInt (slLocalPort l))
      in emptyMatchContext
           \<lparr>mcUser := slUser l, mcGroups := slGroups l, mcHost := slHost l,
            mcOriginalHost := slHost l, mcLocalUser := localUser,
            mcPort := itoaInt (portOrDefault remotePort 22), mcVersion := version,
            mcRemoteAddr := remoteIPStr, mcRemoteAddrIP := ParseIP remoteIPStr,
            mcLocalAddr := localIPStr, mcLocalAddrIP := ParseIP localIPStr,
            mcLocalPort := localPortStr, mcRDomain := slRDomain l,
            mcInvalidUser := slInvalidUser l, mcExecFunc := slExecFunc l\<rparr>)"

section \<open>The entries\<close>

primrec sshdOverridesLoop :: "nat \<Rightarrow> string list \<Rightarrow> go_error + Entry list" where
  "sshdOverridesLoop i [] = Inr []"
| "sshdOverridesLoop i (opt # opts) =
     (case ParseOverride opt of
        Inl err \<Rightarrow> Inl (Wrapf ''-o option %d: %w'' [itoaInt (int (i + 1))] err)
      | Inr (keyword, value) \<Rightarrow>
          bindE (sshdOverridesLoop (i + 1) opts) (\<lambda>entries.
            Inr (\<lparr>eConditions = [],
                  eDirective = \<lparr>dKeyword = keyword, dValue = value,
                    dSource = \<lparr>srcFile = ''command-line'', srcLine = int (i + 1)\<rparr>\<rparr>\<rparr> # entries)))"

definition sshdCliEntries :: "SLookup \<Rightarrow> go_error + Entry list" where
  "sshdCliEntries l =
     bindE (sshdOverridesLoop 0 (slCommandLineOptions l)) (\<lambda>overrides.
       Inr (map (\<lambda>d. \<lparr>eConditions = [], eDirective = d\<rparr>) (slCommandLineDirectives l) @ overrides))"

definition sshdFileEntries :: "World \<Rightarrow> SLookup \<Rightarrow> go_error + Entry list" where
  "sshdFileEntries w l =
     (let configFile = (if slConfigFile l = [] then ''/etc/ssh/sshd_config'' else slConfigFile l) in
      if wStat w configFile = None then Inr []
      else case ParseFile w configFile
             \<lparr>poBaseDir = pathDir configFile, poIsUser = False, poMaxIncludeDepth = 0,
              poHomeDir = [], poTokenContext = None\<rparr> of
             Inl err \<Rightarrow> Inl (Wrapf ''parsing config %s: %w'' [configFile] err)
           | Inr entries \<Rightarrow> Inr entries)"

section \<open>Resolution\<close>

primrec applyEntries :: "Entry list \<Rightarrow> MatchContext \<Rightarrow> ServerOptions \<Rightarrow> go_error + ServerOptions" where
  "applyEntries [] ctx opts = Inr opts"
| "applyEntries (e # es) ctx opts =
     (if \<not> EvaluateConditions (eConditions e) ctx then applyEntries es ctx opts
      else bindE (sshdApplyDirective (eDirective e) opts) (applyEntries es ctx))"

definition sshdExpandPathTokens :: "World \<Rightarrow> ServerOptions \<Rightarrow> ServerOptions" where
  "sshdExpandPathTokens w opts =
     (let homeDir = (case wHomeDir w of Some h \<Rightarrow> h | None \<Rightarrow> []);
          expand = (\<lambda>s. ExpandTilde w s homeDir)
      in opts\<lparr>sHostKey := map expand (sHostKey opts),
              sHostCertificate := map expand (sHostCertificate opts),
              sHostKeyAgent := map_option expand (sHostKeyAgent opts),
              sPidFile := map_option expand (sPidFile opts),
              sBanner := map_option expand (sBanner opts),
              sTrustedUserCAKeys := map_option expand (sTrustedUserCAKeys opts),
              sRevokedKeys := map_option expand (sRevokedKeys opts),
              sModuliFile := map_option expand (sModuliFile opts)\<rparr>)"

definition sshdResolve :: "World \<Rightarrow> SLookup \<Rightarrow> go_error + ServerOptions" where
  "sshdResolve w l =
     bindE (sshdCliEntries l) (\<lambda>cliEntries.
     bindE (sshdFileEntries w l) (\<lambda>fileEntries.
     bindE (applyEntries (cliEntries @ fileEntries) (buildMatchContext w l) sshdEmptyOptions) (\<lambda>opts.
       Inr (sshdRefreshDialerConfig (sshdExpandPathTokens w (sshdApplyDefaults opts))))))"

section \<open>Lemmas\<close>

definition matching :: "MatchContext \<Rightarrow> Entry list \<Rightarrow> Directive list" where
  "matching ctx es = map eDirective (filter (\<lambda>e. EvaluateConditions (eConditions e) ctx) es)"

lemma matching_append [simp]: "matching ctx (xs @ ys) = matching ctx xs @ matching ctx ys"
  by (simp add: matching_def)

lemma applyEntries_matching: "applyEntries es ctx opts = foldE sshdApplyDirective (matching ctx es) opts"
proof (induction es arbitrary: opts)
  case (Cons e es)
  then show ?case
    by (cases "sshdApplyDirective (eDirective e) opts") (simp_all add: matching_def)
qed (simp add: matching_def)

lemma sshdRefresh_scalars [simp]: "sshdScalars (sshdRefreshDialerConfig opts) = sshdScalars opts"
  by (simp add: sshdScalars_def sshdRefreshDialerConfig_def Let_def)

text \<open>The scalars that resolution does not rewrite at the end: all but six paths.\<close>

definition scalarsButPaths :: "ServerOptions \<Rightarrow> view" where
  "scalarsButPaths o1 =
     (sshdScalars o1)[4 := None, 5 := None, 6 := None, 64 := None, 82 := None, 84 := None]"

lemma scalarsButPaths_expand [simp]:
  "scalarsButPaths (sshdExpandPathTokens w o1) = scalarsButPaths o1"
  by (simp add: scalarsButPaths_def sshdScalars_def sshdExpandPathTokens_def Let_def)

lemma scalarsButPaths_ext:
  "list_all2 ext (sshdScalars a) (sshdScalars b) \<Longrightarrow> list_all2 ext (scalarsButPaths a) (scalarsButPaths b)"
  unfolding scalarsButPaths_def by (intro list_all2_update_cong) auto

lemma sshdApplyDefaults_keeps: "list_all2 ext (sshdScalars a) (sshdScalars (sshdApplyDefaults a))"
proof -
  have "length sshdDefaultScalars = 89" unfolding sshdDefaultScalars_def by (rule length_sshdScalars)
  then show ?thesis by (simp add: sshdScalars_applyDefaults mergeView_keeps length_sshdScalars)
qed

lemma sshdApply_keeps:
  "foldE sshdApplyDirective ds a = Inr b \<Longrightarrow> list_all2 ext (sshdScalars a) (sshdScalars b)"
  by (rule sv.run_keeps)

lemma list_ext_trans: "list_all2 ext a b \<Longrightarrow> list_all2 ext b c \<Longrightarrow> list_all2 ext a c"
  by (rule list_all2_trans[OF ext_trans])

lemma sshdResolve_Inr:
  "sshdResolve w l = Inr r \<longleftrightarrow>
    (\<exists>c f o1. sshdCliEntries l = Inr c \<and> sshdFileEntries w l = Inr f \<and>
       foldE sshdApplyDirective (matching (buildMatchContext w l) (c @ f)) sshdEmptyOptions = Inr o1 \<and>
       r = sshdRefreshDialerConfig (sshdExpandPathTokens w (sshdApplyDefaults o1)))"
  unfolding sshdResolve_def applyEntries_matching by (auto simp: bindE_Inr_iff)

lemma sshdResolved_scalars:
  "scalarsButPaths (sshdRefreshDialerConfig (sshdExpandPathTokens w o1)) = scalarsButPaths o1"
  by (metis scalarsButPaths_def scalarsButPaths_expand sshdRefresh_scalars)

section \<open>Properties\<close>

text \<open>C25: the server reads its entries once, in order: whatever the matching directives of
  a prefix of the entries set, be they from the command line, the global section or a
  Match block, no later entry changes; and the defaults only fill what is unset.  The six
  path options, which are expanded at the end, are left out.\<close>

theorem sshdResolve_first_value:
  assumes "sshdCliEntries l = Inr c" and "sshdFileEntries w l = Inr f"
    and "c @ f = pre @ post" and "sshdResolve w l = Inr r"
  shows "\<exists>e. foldE sshdApplyDirective (matching (buildMatchContext w l) pre) sshdEmptyOptions = Inr e \<and>
     list_all2 ext (scalarsButPaths e) (scalarsButPaths r)"
proof -
  let ?m = "matching (buildMatchContext w l)"
  obtain o1 where o1: "foldE sshdApplyDirective (?m (pre @ post)) sshdEmptyOptions = Inr o1"
    and r: "r = sshdRefreshDialerConfig (sshdExpandPathTokens w (sshdApplyDefaults o1))"
    using assms by (auto simp: sshdResolve_Inr simp del: matching_append)
  obtain e where e: "foldE sshdApplyDirective (?m pre) sshdEmptyOptions = Inr e"
    "foldE sshdApplyDirective (?m post) e = Inr o1"
    using o1 by (auto simp: foldE_append bindE_Inr_iff)
  have "list_all2 ext (scalarsButPaths e) (scalarsButPaths r)"
    unfolding r sshdResolved_scalars
    using sshdApply_keeps[OF e(2)] sshdApplyDefaults_keeps
    by (blast intro: scalarsButPaths_ext list_ext_trans)
  then show ?thesis using e(1) by blast
qed

text \<open>The witness: a file whose Match block takes the password from one user who has it in
  the global section, for that user.\<close>

definition demoSshdFile :: "cline list" where
  "demoSshdFile = [DirLine ''PasswordAuthentication'' ''yes'',
     MatchLine [MatchFieldCondition MatchFieldUser ''alice'' False],
     DirLine ''PasswordAuthentication'' ''no'']"

definition demoServerWorld :: World where
  "demoServerWorld = emptyWorld\<lparr>wStat := (\<lambda>p. Some False), wOpen := (\<lambda>p. Inr (fileText demoSshdFile, None))\<rparr>"

definition demoAlice :: SLookup where
  "demoAlice = emptySLookup\<lparr>slUser := ''alice''\<rparr>"

definition passwordEntry :: "Condition list \<Rightarrow> string \<Rightarrow> int \<Rightarrow> Entry" where
  "passwordEntry cs v n = \<lparr>eConditions = cs, eDirective = \<lparr>dKeyword = ''PasswordAuthentication'',
     dValue = v, dSource = \<lparr>srcFile = ''/etc/ssh/sshd_config'', srcLine = n\<rparr>\<rparr>\<rparr>"

lemma demo_server_path: "IsAbs ''/etc/ssh/sshd_config''" "Clean ''/etc/ssh/sshd_config'' = ''/etc/ssh/sshd_config''"
  by code_simp+

lemma demo_server_file:
  "sshdFileEntries demoServerWorld demoAlice =
     Inr [passwordEntry [] ''yes'' 1,
          passwordEntry [MatchFieldCondition MatchFieldUser ''alice'' False] ''no'' 3]"
proof -
  have "list_all (\<lambda>l. wfLine l \<and> CHR 0x0A \<notin> set (lineText l)) demoSshdFile"
    by code_simp
  moreover have "list_all (\<lambda>l. length (lineText l) < maxTokenSize) demoSshdFile"
    by (simp add: demoSshdFile_def maxTokenSize_def renderCriteria_def bang_def wordText_def
        quoteTok_def plainChar_def isSpace_def)
  ultimately have "wfFile demoSshdFile" by (auto simp: wfFile_def list_all_iff)
  then have "ParseFile demoServerWorld ''/etc/ssh/sshd_config'' opts =
      Inr (entriesOf ''/etc/ssh/sshd_config'' 0 [] demoSshdFile)" for opts
    using demo_server_path by (intro ParseFile_printed) (simp_all add: demoServerWorld_def)
  then show ?thesis
    by (simp add: sshdFileEntries_def demoAlice_def emptySLookup_def demoServerWorld_def
        demoSshdFile_def passwordEntry_def Let_def)
qed

lemma demo_server_cli: "sshdCliEntries demoAlice = Inr []"
  by (simp add: sshdCliEntries_def demoAlice_def emptySLookup_def)

lemma password_applied:
  assumes "sIgnoredKeywords o1 = []"
  shows "sshdApplyDirective (eDirective (passwordEntry cs v n)) o1 =
     Inr (o1\<lparr>sPasswordAuthentication := sshdSetBool v (sPasswordAuthentication o1)\<rparr>)"
proof -
  have "toLower ''PasswordAuthentication'' = ''passwordauthentication''" by code_simp
  moreover have "map_of sshdDirectiveTable ''passwordauthentication'' =
      Some (sshdBoolField sPasswordAuthentication_update)"
    by (simp add: sshdDirectiveTable_def)
  moreover have "o1\<lparr>sPasswordAuthentication := f (sPasswordAuthentication o1)\<rparr> =
      sPasswordAuthentication_update f o1" for f by (cases o1) simp
  ultimately show ?thesis using assms
    by (simp add: sshdApplyDirective_def passwordEntry_def sshdBoolField_def)
qed

lemma demo_set: "sshdSetBool ''yes'' None = Some True" "sshdSetBool v (Some b) = Some b"
  by (simp add: sshdSetBool_def, code_simp) (simp add: sshdSetBool_def)

theorem sshdResolve_first_value_witness:
  "EvaluateConditions [MatchFieldCondition MatchFieldUser ''alice'' False]
     (buildMatchContext demoServerWorld demoAlice) \<and>
   (\<exists>r. sshdResolve demoServerWorld demoAlice = Inr r \<and> sPasswordAuthentication r = Some True)"
proof -
  let ?g = "passwordEntry [] ''yes'' 1"
  let ?b = "passwordEntry [MatchFieldCondition MatchFieldUser ''alice'' False] ''no'' 3"
  let ?m = "matching (buildMatchContext demoServerWorld demoAlice)"
  define e where "e = sshdEmptyOptions\<lparr>sPasswordAuthentication := Some True\<rparr>"
  have i: "sIgnoredKeywords sshdEmptyOptions = []" "sIgnoredKeywords e = []"
    "sPasswordAuthentication e = Some True" "sPasswordAuthentication sshdEmptyOptions = None"
    by (simp_all add: sshdEmptyOptions_def e_def)
  have "MatchPatternList ''alice'' ''alice''" by code_simp
  then have t: "EvaluateConditions [MatchFieldCondition MatchFieldUser ''alice'' False]
      (buildMatchContext demoServerWorld demoAlice)"
    by (simp add: EvaluateConditions_iff buildMatchContext_def demoAlice_def emptySLookup_def
        splitAddr_def emptyMatchContext_def matchFieldCond_def)
  have m: "?m [?g] = [eDirective ?g]" "\<exists>ds. ?m [?g, ?b] = eDirective ?g # ds \<and> set ds \<subseteq> {eDirective ?b}"
    by (simp_all add: matching_def passwordEntry_def EvaluateConditions_iff)
  have e: "sshdApplyDirective (eDirective ?g) sshdEmptyOptions = Inr e"
    "sshdApplyDirective (eDirective ?b) e = Inr e"
    by (simp_all add: password_applied i demo_set) (simp_all add: e_def)
  have "foldE sshdApplyDirective ds e = Inr e" if "set ds \<subseteq> {eDirective ?b}" for ds
    using that e(2) by (induction ds) auto
  then have "foldE sshdApplyDirective (?m [?g, ?b]) sshdEmptyOptions = Inr e"
    using m(2) e(1) by auto
  then obtain r where r: "sshdResolve demoServerWorld demoAlice = Inr r"
    unfolding sshdResolve_Inr demo_server_file demo_server_cli by (auto simp: matching_def)
  have "list_all2 ext (scalarsButPaths e) (scalarsButPaths r)"
    using sshdResolve_first_value[OF demo_server_cli demo_server_file, of "[?g]" "[?b]" r] r m(1) e(1)
    by auto
  then have "ext (scalarsButPaths e ! 19) (scalarsButPaths r ! 19)"
    by (rule list_all2_nthD) (simp add: scalarsButPaths_def length_sshdScalars)
  then have "sPasswordAuthentication r = Some True"
    using i(3) by (auto simp: scalarsButPaths_def sshdScalars_def)
  then show ?thesis using r t by blast
qed

end
