(* ===== verification/ServerArgs.thy ===== *)
theory ServerArgs
  imports CliFlags ServerKeyword
begin

text \<open>
  The command line of the server (\<^verbatim>\<open>pkg/sshserver/args.go\<close>).  Its loop differs from
  the client's in what ends it: a double dash stops the parse where it stands, a
  positional argument is an error.
\<close>

record SCLIArgs =
  saIPv4Only :: bool
  saIPv6Only :: bool
  saConnectionSpec :: "string list"
  saHostCertFiles :: "string list"
  saForeground :: bool
  saDebugLevel :: int
  saLogFile :: string
  saLogStderr :: bool
  saConfigFile :: string
  saLoginGraceTime :: string
  saHostKeyFiles :: "string list"
  saInetd :: bool
  saOptions :: "string list"
  saPorts :: "int list"
  saQuiet :: bool
  saTestMode :: bool
  saPrintConfig :: bool
  saValidate :: bool
  saUtmpHostLen :: "int option"
  saVersion :: bool
  saDirectives :: "Directive list"

definition emptySCLIArgs :: SCLIArgs where
  "emptySCLIArgs = \<lparr>saIPv4Only = False, saIPv6Only = False, saConnectionSpec = [],
     saHostCertFiles = [], saForeground = False, saDebugLevel = 0, saLogFile = [],
     saLogStderr = False, saConfigFile = [], saLoginGraceTime = [], saHostKeyFiles = [],
     saInetd = False, saOptions = [], saPorts = [], saQuiet = False, saTestMode = False,
     saPrintConfig = False, saValidate = False, saUtmpHostLen = None, saVersion = False,
     saDirectives = []\<rparr>"

section \<open>Directives\<close>

definition sshdCliDirective :: "string \<Rightarrow> string \<Rightarrow> Directive" where
  "sshdCliDirective keyword value =
     \<lparr>dKeyword = keyword, dValue = value, dSource = \<lparr>srcFile = ''command-line'', srcLine = 0\<rparr>\<rparr>"

primrec optionDirectives :: "nat \<Rightarrow> string list \<Rightarrow> go_error + Directive list" where
  "optionDirectives i [] = Inr []"
| "optionDirectives i (opt # opts) =
     (case ParseOverride opt of
        Inl err \<Rightarrow> Inl (Wrapf ''-o option %d: %w'' [itoaInt (int (i + 1))] err)
      | Inr (keyword, value) \<Rightarrow>
          bindE (optionDirectives (i + 1) opts) (\<lambda>dirs.
            Inr (\<lparr>dKeyword = keyword, dValue = value,
                  dSource = \<lparr>srcFile = ''command-line'', srcLine = int (i + 1)\<rparr>\<rparr> # dirs)))"

definition sshdDirectives :: "SCLIArgs \<Rightarrow> go_error + Directive list" where
  "sshdDirectives a =
     bindE (optionDirectives 0 (saOptions a)) (\<lambda>dirs. Inr (saDirectives a @ dirs))"

section \<open>Flags\<close>

definition sshdAddDir :: "string \<Rightarrow> string \<Rightarrow> SCLIArgs \<Rightarrow> SCLIArgs" where
  "sshdAddDir keyword value a =
     a\<lparr>saDirectives := saDirectives a @ [sshdCliDirective keyword value]\<rparr>"

definition sshdFlags :: "(char \<times> (SCLIArgs \<Rightarrow> SCLIArgs)) list" where
  "sshdFlags =
     [(CHR ''4'', \<lambda>a. sshdAddDir ''AddressFamily'' ''inet'' (a\<lparr>saIPv4Only := True\<rparr>)),
      (CHR ''6'', \<lambda>a. sshdAddDir ''AddressFamily'' ''inet6'' (a\<lparr>saIPv6Only := True\<rparr>)),
      (CHR ''D'', \<lambda>a. a\<lparr>saForeground := True\<rparr>),
      (CHR ''d'', \<lambda>a. a\<lparr>saDebugLevel := saDebugLevel a + 1, saForeground := True\<rparr>),
      (CHR ''e'', \<lambda>a. a\<lparr>saLogStderr := True\<rparr>),
      (CHR ''G'', \<lambda>a. a\<lparr>saPrintConfig := True\<rparr>),
      (CHR ''i'', \<lambda>a. a\<lparr>saInetd := True\<rparr>),
      (CHR ''q'', \<lambda>a. sshdAddDir ''LogLevel'' ''QUIET'' (a\<lparr>saQuiet := True\<rparr>)),
      (CHR ''T'', \<lambda>a. a\<lparr>saTestMode := True\<rparr>),
      (CHR ''t'', \<lambda>a. a\<lparr>saValidate := True\<rparr>),
      (CHR ''V'', \<lambda>a. a\<lparr>saVersion := True\<rparr>)]"

definition sshdPortArg :: "string \<Rightarrow> SCLIArgs \<Rightarrow> go_error + SCLIArgs" where
  "sshdPortArg v a =
     (case atoi v of
        None \<Rightarrow> Inl (Errorf ''invalid port: %s'' [v])
      | Some n \<Rightarrow> Inr (sshdAddDir ''Port'' v (a\<lparr>saPorts := saPorts a @ [n]\<rparr>)))"

definition sshdUtmpArg :: "string \<Rightarrow> SCLIArgs \<Rightarrow> go_error + SCLIArgs" where
  "sshdUtmpArg v a =
     (case atoi v of
        None \<Rightarrow> Inl (Errorf ''invalid -u value: %s'' [v])
      | Some n \<Rightarrow> Inr (a\<lparr>saUtmpHostLen := Some n\<rparr>))"

definition sshdArgFlags :: "(char \<times> (string \<Rightarrow> SCLIArgs \<Rightarrow> go_error + SCLIArgs)) list" where
  "sshdArgFlags =
     [(CHR ''C'', \<lambda>v a. Inr (a\<lparr>saConnectionSpec := saConnectionSpec a @ [v]\<rparr>)),
      (CHR ''c'', \<lambda>v a. Inr (sshdAddDir ''HostCertificate'' v (a\<lparr>saHostCertFiles := saHostCertFiles a @ [v]\<rparr>))),
      (CHR ''E'', \<lambda>v a. Inr (a\<lparr>saLogFile := v\<rparr>)),
      (CHR ''f'', \<lambda>v a. Inr (a\<lparr>saConfigFile := v\<rparr>)),
      (CHR ''g'', \<lambda>v a. Inr (sshdAddDir ''LoginGraceTime'' v (a\<lparr>saLoginGraceTime := v\<rparr>))),
      (CHR ''h'', \<lambda>v a. Inr (sshdAddDir ''HostKey'' v (a\<lparr>saHostKeyFiles := saHostKeyFiles a @ [v]\<rparr>))),
      (CHR ''o'', \<lambda>v a. Inr (a\<lparr>saOptions := saOptions a @ [v]\<rparr>)),
      (CHR ''p'', sshdPortArg),
      (CHR ''u'', sshdUtmpArg)]"

definition sshdNoArg :: "char \<Rightarrow> (SCLIArgs \<Rightarrow> SCLIArgs) option" where
  "sshdNoArg ch = map_of sshdFlags ch"

definition sshdWithArg :: "char \<Rightarrow> (string \<Rightarrow> SCLIArgs \<Rightarrow> go_error + SCLIArgs) option" where
  "sshdWithArg ch = map_of sshdArgFlags ch"

function sshdParse :: "string list \<Rightarrow> SCLIArgs \<Rightarrow> go_error + SCLIArgs" where
  "sshdParse [] a = Inr a"
| "sshdParse (arg # rest) a =
     (if arg = ''--'' then Inr a
      else if \<not> hasPrefix arg ''-'' \<or> arg = ''-''
      then Inl (Errorf ''unexpected positional argument: %s'' [arg])
      else bindE (flagLoop sshdNoArg sshdWithArg (drop 1 arg) rest a) (\<lambda>r. sshdParse (fst r) (snd r)))"
  by pat_completeness auto
termination
  by (relation "measure (\<lambda>(args, a). length args)")
    (auto dest: flagLoop_length simp: less_Suc_eq_le)

declare sshdParse.simps(2) [simp del]

interpretation sc: cluster_cli sshdNoArg sshdWithArg sshdParse
proof
  fix arg rest a
  assume "isFlagArg arg"
  then show "sshdParse (arg # rest) a =
      bindE (flagLoop sshdNoArg sshdWithArg (tl arg) rest a) (\<lambda>(rest', a'). sshdParse rest' a')"
    by (auto simp: sshdParse.simps(2) isFlagArg_def drop_Suc case_prod_beta')
qed (simp_all add: sshdNoArg_def sshdWithArg_def sshdFlags_def sshdArgFlags_def)

section \<open>Connection specifications\<close>

text \<open>\<^verbatim>\<open>ParseConnectionSpec\<close>; the map that is returned is a function.\<close>

definition specPair :: "string \<Rightarrow> (string \<rightharpoonup> string) \<Rightarrow> (string \<rightharpoonup> string)" where
  "specPair kv0 out =
     (let kv = trimSpace kv0 in
      if kv = [] then out
      else case indexByte kv CHR ''='' of
        Some (Suc i) \<Rightarrow> out(toLower (take (Suc i) kv) \<mapsto> drop (Suc (Suc i)) kv)
      | _ \<Rightarrow> out(toLower kv \<mapsto> ''true''))"

definition ParseConnectionSpec :: "string list \<Rightarrow> (string \<rightharpoonup> string)" where
  "ParseConnectionSpec specs =
     fold (\<lambda>spec out. fold specPair (split spec CHR '','') out) specs Map.empty"

section \<open>The fields and the directives agree\<close>

definition dirValues :: "string \<Rightarrow> SCLIArgs \<Rightarrow> string list" where
  "dirValues k a = map dValue (filter (\<lambda>d. dKeyword d = k) (saDirectives a))"

definition sshdArgsAgree :: "SCLIArgs \<Rightarrow> bool" where
  "sshdArgsAgree a \<longleftrightarrow>
     map atoi (dirValues ''Port'' a) = map Some (saPorts a) \<and>
     dirValues ''HostKey'' a = saHostKeyFiles a \<and>
     dirValues ''HostCertificate'' a = saHostCertFiles a \<and>
     (saIPv4Only a \<longleftrightarrow> ''inet'' \<in> set (dirValues ''AddressFamily'' a)) \<and>
     (saIPv6Only a \<longleftrightarrow> ''inet6'' \<in> set (dirValues ''AddressFamily'' a)) \<and>
     (saQuiet a \<longleftrightarrow> dirValues ''LogLevel'' a \<noteq> []) \<and>
     list_all (\<lambda>d. dSource d = \<lparr>srcFile = ''command-line'', srcLine = 0\<rparr>) (saDirectives a)"

lemma flagLoop_invariant:
  assumes "\<And>c f a. noArg c = Some f \<Longrightarrow> I a \<Longrightarrow> I (f a)"
    and "\<And>c g v a b. withArg c = Some g \<Longrightarrow> I a \<Longrightarrow> g v a = Inr b \<Longrightarrow> I b"
  shows "flagLoop noArg withArg cs args a = Inr (rest, b) \<Longrightarrow> I a \<Longrightarrow> I b"
proof (induction cs arbitrary: a)
  case (Cons c cs)
  then show ?case
    using assms by (fastforce split: option.splits if_splits list.splits simp: bindE_Inr_iff)
qed simp

lemma dirValues_simps [simp]:
  "dirValues k (sshdAddDir k' v a) = dirValues k a @ (if k = k' then [v] else [])"
  "saDirectives (sshdAddDir k' v a) = saDirectives a @ [sshdCliDirective k' v]"
  "saPorts (sshdAddDir k v a) = saPorts a" "saHostKeyFiles (sshdAddDir k v a) = saHostKeyFiles a"
  "saHostCertFiles (sshdAddDir k v a) = saHostCertFiles a" "saQuiet (sshdAddDir k v a) = saQuiet a"
  "saIPv4Only (sshdAddDir k v a) = saIPv4Only a" "saIPv6Only (sshdAddDir k v a) = saIPv6Only a"
  by (auto simp: dirValues_def sshdAddDir_def sshdCliDirective_def)

lemma dirValues_update [simp]:
  "dirValues k (saIPv4Only_update u1 a) = dirValues k a" "dirValues k (saIPv6Only_update u2 a) = dirValues k a"
  "dirValues k (saForeground_update u3 a) = dirValues k a" "dirValues k (saDebugLevel_update u4 a) = dirValues k a"
  "dirValues k (saLogStderr_update u5 a) = dirValues k a" "dirValues k (saPrintConfig_update u6 a) = dirValues k a"
  "dirValues k (saInetd_update u7 a) = dirValues k a" "dirValues k (saQuiet_update u8 a) = dirValues k a"
  "dirValues k (saTestMode_update u9 a) = dirValues k a" "dirValues k (saValidate_update u10 a) = dirValues k a"
  "dirValues k (saVersion_update u11 a) = dirValues k a" "dirValues k (saConnectionSpec_update u12 a) = dirValues k a"
  "dirValues k (saHostCertFiles_update u13 a) = dirValues k a" "dirValues k (saLogFile_update u14 a) = dirValues k a"
  "dirValues k (saConfigFile_update u15 a) = dirValues k a" "dirValues k (saLoginGraceTime_update u16 a) = dirValues k a"
  "dirValues k (saHostKeyFiles_update u17 a) = dirValues k a" "dirValues k (saOptions_update u18 a) = dirValues k a"
  "dirValues k (saPorts_update u19 a) = dirValues k a" "dirValues k (saUtmpHostLen_update u20 a) = dirValues k a"
  by (simp_all add: dirValues_def)

lemma sshdFlags_agree: "list_all (\<lambda>(c, f). \<forall>a. sshdArgsAgree a \<longrightarrow> sshdArgsAgree (f a)) sshdFlags"
  by (simp add: sshdFlags_def sshdArgsAgree_def sshdCliDirective_def)

lemma sshdArgFlags_agree:
  "list_all (\<lambda>(c, g). \<forall>v a b. sshdArgsAgree a \<longrightarrow> g v a = Inr b \<longrightarrow> sshdArgsAgree b) sshdArgFlags"
  by (simp add: sshdArgFlags_def sshdArgsAgree_def sshdCliDirective_def
      sshdPortArg_def sshdUtmpArg_def split: option.splits)

lemma sshdNoArg_agree: "sshdNoArg c = Some f \<Longrightarrow> sshdArgsAgree a \<Longrightarrow> sshdArgsAgree (f a)"
  using sshdFlags_agree by (auto simp: sshdNoArg_def list_all_iff dest!: map_of_SomeD)

lemma sshdWithArg_agree:
  "sshdWithArg c = Some g \<Longrightarrow> sshdArgsAgree a \<Longrightarrow> g v a = Inr b \<Longrightarrow> sshdArgsAgree b"
  using sshdArgFlags_agree by (fastforce simp: sshdWithArg_def list_all_iff dest!: map_of_SomeD)

section \<open>Properties\<close>

text \<open>The fields a server command line fills and the directives it yields agree: the
  ports are the numbers of the Port directives in order, the key and certificate files
  are those of their directives, and the two address family flags and the quiet flag
  are set exactly when their directive is there.\<close>

theorem sshdParse_agree:
  assumes "sshdParse args a = Inr b" and "sshdArgsAgree a"
  shows "sshdArgsAgree b"
  using assms
proof (induction args a rule: sshdParse.induct)
  case (2 arg rest a)
  show ?case
  proof (cases "arg = ''--''")
    case False
    then have p: "hasPrefix arg ''-''" "arg \<noteq> ''-''"
      using "2.prems"(1) by (auto simp: sshdParse.simps(2) split: if_splits)
    then obtain r where r: "flagLoop sshdNoArg sshdWithArg (drop 1 arg) rest a = Inr r"
      "sshdParse (fst r) (snd r) = Inr b"
      using "2.prems"(1) False by (auto simp: sshdParse.simps(2) bindE_Inr_iff)
    have "sshdArgsAgree (snd r)"
      using flagLoop_invariant[of sshdNoArg sshdArgsAgree sshdWithArg] r(1) "2.prems"(2)
        sshdNoArg_agree sshdWithArg_agree by (metis prod.collapse)
    then show ?thesis using "2.IH" False p r by blast
  qed (use "2.prems" in \<open>simp add: sshdParse.simps(2)\<close>)
qed simp

lemma sshdArgsAgree_empty: "sshdArgsAgree emptySCLIArgs"
  by (simp add: sshdArgsAgree_def dirValues_def emptySCLIArgs_def)

theorem sshdParse_agree_witness:
  "\<exists>b. sshdParse [''-4qp'', ''2222''] emptySCLIArgs = Inr b \<and> sshdArgsAgree b"
proof -
  have "atoi ''2222'' = Some 2222" by code_simp
  then have "\<exists>b. sshdParse [''-4qp'', ''2222''] emptySCLIArgs = Inr b"
    by (simp add: sshdParse.simps(2) sshdNoArg_def sshdFlags_def sshdWithArg_def sshdArgFlags_def
        sshdPortArg_def)
  then show ?thesis using sshdParse_agree[OF _ sshdArgsAgree_empty] by blast
qed

text \<open>A server command line that is a list of known options, each with its argument in
  the same or in the next word, followed by anything, is read option by option.\<close>

theorem sshdParse_options:
  assumes "list_all (wfOpt sshdNoArg sshdWithArg) ops"
  shows "sshdParse (concat (map optWords ops) @ rest) a =
    bindE (foldE (optEffect sshdNoArg sshdWithArg) ops a) (sshdParse rest)"
  using assms by (rule sc.parse_options)

theorem sshdParse_options_witness:
  "sshdParse [''-d'', ''-p2222'', ''-f'', ''/c'', ''x''] emptySCLIArgs =
     Inl (Errorf ''unexpected positional argument: %s'' [''x'']) \<and>
   (\<exists>b. sshdParse [''-d'', ''-p2222'', ''-f'', ''/c''] emptySCLIArgs = Inr b \<and>
      saPorts b = [2222] \<and> saConfigFile b = ''/c'' \<and> saForeground b)"
proof -
  let ?ops = "[Flag CHR ''d'', Attached CHR ''p'' ''2222'', Arg CHR ''f'' ''/c'']"
  have n: "atoi ''2222'' = Some 2222" by code_simp
  have wf: "list_all (wfOpt sshdNoArg sshdWithArg) ?ops"
    by (simp add: sshdNoArg_def sshdFlags_def sshdWithArg_def sshdArgFlags_def)
  obtain b where b: "foldE (optEffect sshdNoArg sshdWithArg) ?ops emptySCLIArgs = Inr b"
    "saPorts b = [2222]" "saConfigFile b = ''/c''" "saForeground b"
    by (simp add: sshdNoArg_def sshdFlags_def sshdWithArg_def sshdArgFlags_def sshdPortArg_def n
        sshdAddDir_def emptySCLIArgs_def)
  show ?thesis
    using sshdParse_options[OF wf, of "[''x'']" emptySCLIArgs]
      sshdParse_options[OF wf, of "[]" emptySCLIArgs] b
    by (simp add: sshdParse.simps(2))
qed

end
