(* ===== verification/Algorithms.thy ===== *)
theory Algorithms
  imports ListOp ClientOptions ServerOptions
begin

text \<open>
  Algorithm lists (\<^verbatim>\<open>pkg/sshclient/crypto.go\<close> and its copy
  \<^verbatim>\<open>pkg/sshserver/crypto.go\<close>): the operators are applied to the default list and
  the outcome is cut down to what the SSH library offers.  The tables of the library,
  \<^verbatim>\<open>ssh.SupportedAlgorithms\<close> and \<^verbatim>\<open>ssh.InsecureAlgorithms\<close>, are an argument.
\<close>

record Algorithms =
  alCiphers :: "string list"
  alKeyExchanges :: "string list"
  alMACs :: "string list"
  alHostKeys :: "string list"
  alPublicKeyAuths :: "string list"

record AlgLib =
  libSupported :: Algorithms
  libInsecure :: Algorithms

text \<open>A library for the witnesses that offers nothing.\<close>

definition demoAlgs :: AlgLib where
  "demoAlgs = \<lparr>libSupported = \<lparr>alCiphers = [], alKeyExchanges = [], alMACs = [], alHostKeys = [],
       alPublicKeyAuths = []\<rparr>, libInsecure = \<lparr>alCiphers = [], alKeyExchanges = [], alMACs = [],
       alHostKeys = [], alPublicKeyAuths = []\<rparr>\<rparr>"

section \<open>The client\<close>

definition AllSupportedCiphers :: "AlgLib \<Rightarrow> string list" where
  "AllSupportedCiphers lib = alCiphers (libSupported lib) @ alCiphers (libInsecure lib)"

definition AllSupportedKexAlgorithms :: "AlgLib \<Rightarrow> string list" where
  "AllSupportedKexAlgorithms lib = alKeyExchanges (libSupported lib) @ alKeyExchanges (libInsecure lib)"

definition AllSupportedMACs :: "AlgLib \<Rightarrow> string list" where
  "AllSupportedMACs lib = alMACs (libSupported lib) @ alMACs (libInsecure lib)"

definition AllSupportedHostKeyAlgorithms :: "AlgLib \<Rightarrow> string list" where
  "AllSupportedHostKeyAlgorithms lib = alHostKeys (libSupported lib) @ alHostKeys (libInsecure lib)"

definition AllSupportedPublicKeyAlgorithms :: "AlgLib \<Rightarrow> string list" where
  "AllSupportedPublicKeyAlgorithms lib = alPublicKeyAuths (libSupported lib) @ alPublicKeyAuths (libInsecure lib)"

primrec contains :: "string list \<Rightarrow> string \<Rightarrow> bool" where
  "contains [] value = False"
| "contains (s # xs) value = (if s = value then True else contains xs value)"

primrec expandWild :: "string \<Rightarrow> string list \<Rightarrow> string list \<Rightarrow> string list" where
  "expandWild c [] result = result"
| "expandWild c (s # supported) result =
     (if MatchPattern c s \<and> \<not> contains result s then expandWild c supported (result @ [s])
      else expandWild c supported result)"

primrec filterLoop :: "string list \<Rightarrow> string list \<Rightarrow> string list \<Rightarrow> string list" where
  "filterLoop [] supported result = result"
| "filterLoop (c # candidates) supported result =
     (if c \<in> set supported then filterLoop candidates supported (result @ [c])
      else if list_ex (\<lambda>x. x = CHR ''*'' \<or> x = CHR ''?'') c
      then filterLoop candidates supported (expandWild c supported result)
      else filterLoop candidates supported result)"

definition filterSupported :: "string list \<Rightarrow> string list \<Rightarrow> string list" where
  "filterSupported candidates supported = filterLoop candidates supported []"

definition resolveAlgorithmList :: "string \<Rightarrow> string \<Rightarrow> string list \<Rightarrow> string list" where
  "resolveAlgorithmList raw opensshDefaults supported =
     (let defaults = SplitAlgList opensshDefaults;
          resolved = ApplyListOp raw defaults
      in filterSupported resolved supported)"

definition ResolveCiphers :: "AlgLib \<Rightarrow> string \<Rightarrow> string list" where
  "ResolveCiphers lib raw = resolveAlgorithmList raw defaultCiphers (AllSupportedCiphers lib)"

definition ResolveKexAlgorithms :: "AlgLib \<Rightarrow> string \<Rightarrow> string list" where
  "ResolveKexAlgorithms lib raw = resolveAlgorithmList raw defaultKexAlgorithms (AllSupportedKexAlgorithms lib)"

definition ResolveMACs :: "AlgLib \<Rightarrow> string \<Rightarrow> string list" where
  "ResolveMACs lib raw = resolveAlgorithmList raw defaultMACs (AllSupportedMACs lib)"

definition ResolveHostKeyAlgorithms :: "AlgLib \<Rightarrow> string \<Rightarrow> string list" where
  "ResolveHostKeyAlgorithms lib raw = resolveAlgorithmList raw defaultHostKeyAlgorithms (AllSupportedHostKeyAlgorithms lib)"

definition ResolvePubkeyAcceptedAlgorithms :: "AlgLib \<Rightarrow> string \<Rightarrow> string list" where
  "ResolvePubkeyAcceptedAlgorithms lib raw = resolveAlgorithmList raw defaultPubkeyAcceptedAlgorithms (AllSupportedPublicKeyAlgorithms lib)"

definition ResolveHostbasedAcceptedAlgorithms :: "AlgLib \<Rightarrow> string \<Rightarrow> string list" where
  "ResolveHostbasedAcceptedAlgorithms lib raw = resolveAlgorithmList raw defaultHostbasedAcceptedAlgorithms (AllSupportedPublicKeyAlgorithms lib)"

definition ResolveCASignatureAlgorithms :: "AlgLib \<Rightarrow> string \<Rightarrow> string list" where
  "ResolveCASignatureAlgorithms lib raw = resolveAlgorithmList raw defaultCASignatureAlgorithms (AllSupportedPublicKeyAlgorithms lib)"

section \<open>The server\<close>

definition sshdAllSupportedCiphers :: "AlgLib \<Rightarrow> string list" where
  "sshdAllSupportedCiphers lib = alCiphers (libSupported lib) @ alCiphers (libInsecure lib)"

definition sshdAllSupportedKexAlgorithms :: "AlgLib \<Rightarrow> string list" where
  "sshdAllSupportedKexAlgorithms lib = alKeyExchanges (libSupported lib) @ alKeyExchanges (libInsecure lib)"

definition sshdAllSupportedMACs :: "AlgLib \<Rightarrow> string list" where
  "sshdAllSupportedMACs lib = alMACs (libSupported lib) @ alMACs (libInsecure lib)"

definition sshdAllSupportedHostKeyAlgorithms :: "AlgLib \<Rightarrow> string list" where
  "sshdAllSupportedHostKeyAlgorithms lib = alHostKeys (libSupported lib) @ alHostKeys (libInsecure lib)"

definition sshdAllSupportedPublicKeyAlgorithms :: "AlgLib \<Rightarrow> string list" where
  "sshdAllSupportedPublicKeyAlgorithms lib = alPublicKeyAuths (libSupported lib) @ alPublicKeyAuths (libInsecure lib)"

primrec sshdContains :: "string list \<Rightarrow> string \<Rightarrow> bool" where
  "sshdContains [] value = False"
| "sshdContains (s # xs) value = (if s = value then True else sshdContains xs value)"

primrec sshdExpandWild :: "string \<Rightarrow> string list \<Rightarrow> string list \<Rightarrow> string list" where
  "sshdExpandWild c [] result = result"
| "sshdExpandWild c (s # supported) result =
     (if MatchPattern c s \<and> \<not> sshdContains result s then sshdExpandWild c supported (result @ [s])
      else sshdExpandWild c supported result)"

primrec sshdFilterLoop :: "string list \<Rightarrow> string list \<Rightarrow> string list \<Rightarrow> string list" where
  "sshdFilterLoop [] supported result = result"
| "sshdFilterLoop (c # candidates) supported result =
     (if c \<in> set supported then sshdFilterLoop candidates supported (result @ [c])
      else if list_ex (\<lambda>x. x = CHR ''*'' \<or> x = CHR ''?'') c
      then sshdFilterLoop candidates supported (sshdExpandWild c supported result)
      else sshdFilterLoop candidates supported result)"

definition sshdFilterSupported :: "string list \<Rightarrow> string list \<Rightarrow> string list" where
  "sshdFilterSupported candidates supported = sshdFilterLoop candidates supported []"

definition sshdResolveAlgorithmList :: "string \<Rightarrow> string \<Rightarrow> string list \<Rightarrow> string list" where
  "sshdResolveAlgorithmList raw opensshDefaults supported =
     (let defaults = SplitAlgList opensshDefaults;
          resolved = ApplyListOp raw defaults
      in sshdFilterSupported resolved supported)"

definition sshdResolveCiphers :: "AlgLib \<Rightarrow> string \<Rightarrow> string list" where
  "sshdResolveCiphers lib raw = sshdResolveAlgorithmList raw sshdDefaultCiphers (sshdAllSupportedCiphers lib)"

definition sshdResolveKexAlgorithms :: "AlgLib \<Rightarrow> string \<Rightarrow> string list" where
  "sshdResolveKexAlgorithms lib raw = sshdResolveAlgorithmList raw sshdDefaultKexAlgorithms (sshdAllSupportedKexAlgorithms lib)"

definition sshdResolveMACs :: "AlgLib \<Rightarrow> string \<Rightarrow> string list" where
  "sshdResolveMACs lib raw = sshdResolveAlgorithmList raw sshdDefaultMACs (sshdAllSupportedMACs lib)"

definition sshdResolveHostKeyAlgorithms :: "AlgLib \<Rightarrow> string \<Rightarrow> string list" where
  "sshdResolveHostKeyAlgorithms lib raw = sshdResolveAlgorithmList raw sshdDefaultHostKeyAlgorithms (sshdAllSupportedHostKeyAlgorithms lib)"

definition sshdResolvePubkeyAcceptedAlgorithms :: "AlgLib \<Rightarrow> string \<Rightarrow> string list" where
  "sshdResolvePubkeyAcceptedAlgorithms lib raw = sshdResolveAlgorithmList raw sshdDefaultPubkeyAcceptedAlgorithms (sshdAllSupportedPublicKeyAlgorithms lib)"

definition sshdResolveHostbasedAcceptedAlgorithms :: "AlgLib \<Rightarrow> string \<Rightarrow> string list" where
  "sshdResolveHostbasedAcceptedAlgorithms lib raw = sshdResolveAlgorithmList raw sshdDefaultHostbasedAcceptedAlgorithms (sshdAllSupportedPublicKeyAlgorithms lib)"

definition sshdResolveCASignatureAlgorithms :: "AlgLib \<Rightarrow> string \<Rightarrow> string list" where
  "sshdResolveCASignatureAlgorithms lib raw = sshdResolveAlgorithmList raw sshdDefaultCASignatureAlgorithms (sshdAllSupportedPublicKeyAlgorithms lib)"

section \<open>Lemmas\<close>

lemma contains_iff: "contains xs v \<longleftrightarrow> v \<in> set xs"
  by (induction xs) auto

lemma set_expandWild: "set (expandWild c avail r) = set r \<union> {s \<in> set avail. glob c s}"
  by (induction avail arbitrary: r) (auto simp: contains_iff MatchPattern_def mp.mtch_glob)

definition hasWild :: "string \<Rightarrow> bool" where
  "hasWild c \<longleftrightarrow> CHR ''*'' \<in> set c \<or> CHR ''?'' \<in> set c"

definition selects :: "string list \<Rightarrow> string \<Rightarrow> string \<Rightarrow> bool" where
  "selects avail c s \<longleftrightarrow> s \<in> set avail \<and> (c = s \<or> c \<notin> set avail \<and> hasWild c \<and> glob c s)"

lemma set_filterLoop: "set (filterLoop cs avail r) = set r \<union> {s. \<exists>c \<in> set cs. selects avail c s}"
proof (induction cs arbitrary: r)
  case (Cons c cs)
  have w: "list_ex (\<lambda>x. x = CHR ''*'' \<or> x = CHR ''?'') c \<longleftrightarrow> hasWild c"
    by (auto simp: list_ex_iff hasWild_def)
  show ?case
    by (auto simp: Cons.IH w set_expandWild selects_def)
qed simp

lemma filterLoop_literal:
  "list_all (\<lambda>c. c \<in> set avail \<or> \<not> hasWild c) cs \<Longrightarrow>
   filterLoop cs avail r = r @ filter (\<lambda>c. c \<in> set avail) cs"
proof (induction cs arbitrary: r)
  case (Cons c cs)
  have w: "list_ex (\<lambda>x. x = CHR ''*'' \<or> x = CHR ''?'') c \<longleftrightarrow> hasWild c"
    by (auto simp: list_ex_iff hasWild_def)
  show ?case using Cons by (auto simp: w)
qed simp

lemma filterSupported_copies: "sshdFilterSupported cs avail = filterSupported cs avail"
proof -
  have c: "sshdContains xs v = contains xs v" for xs v by (induction xs) auto
  have e: "sshdExpandWild p xs r = expandWild p xs r" for p xs r
    by (induction xs arbitrary: r) (auto simp: c)
  have "sshdFilterLoop cs avail r = filterLoop cs avail r" for r
    by (induction cs arbitrary: r) (auto simp: e)
  then show ?thesis by (simp add: sshdFilterSupported_def filterSupported_def)
qed

section \<open>Properties\<close>

text \<open>C27: a resolved algorithm list, of the client as of the server, holds exactly the
  algorithms of the library that the list names or that a pattern of the list matches,
  where the list is what the operator makes of the defaults; without patterns it is
  that list in its order with the names the library lacks left out.\<close>

theorem resolveAlgorithmList_selects:
  "set (resolveAlgorithmList raw d avail) =
     {s. \<exists>c \<in> set (ApplyListOp raw (SplitAlgList d)). selects avail c s} \<and>
   (list_all (\<lambda>c. \<not> hasWild c) (ApplyListOp raw (SplitAlgList d)) \<longrightarrow>
      resolveAlgorithmList raw d avail =
        filter (\<lambda>c. c \<in> set avail) (ApplyListOp raw (SplitAlgList d))) \<and>
   sshdResolveAlgorithmList raw d avail = resolveAlgorithmList raw d avail"
proof (intro conjI impI)
  show "set (resolveAlgorithmList raw d avail) =
     {s. \<exists>c \<in> set (ApplyListOp raw (SplitAlgList d)). selects avail c s}"
    by (simp add: resolveAlgorithmList_def Let_def filterSupported_def set_filterLoop)
  show "sshdResolveAlgorithmList raw d avail = resolveAlgorithmList raw d avail"
    by (simp add: resolveAlgorithmList_def sshdResolveAlgorithmList_def filterSupported_copies)
next
  assume "list_all (\<lambda>c. \<not> hasWild c) (ApplyListOp raw (SplitAlgList d))"
  then have "list_all (\<lambda>c. c \<in> set avail \<or> \<not> hasWild c) (ApplyListOp raw (SplitAlgList d))"
    by (auto simp: list_all_iff)
  then show "resolveAlgorithmList raw d avail =
        filter (\<lambda>c. c \<in> set avail) (ApplyListOp raw (SplitAlgList d))"
    by (simp add: resolveAlgorithmList_def Let_def filterSupported_def filterLoop_literal)
qed

theorem resolveAlgorithmList_selects_witness:
  "resolveAlgorithmList ''b,x,a'' ''c'' [''a'', ''b''] = [''b'', ''a'']"
proof -
  have l: "ApplyListOp ''b,x,a'' (SplitAlgList ''c'') = [''b'', ''x'', ''a'']" by code_simp
  show ?thesis
    using resolveAlgorithmList_selects[of "''b,x,a''" "''c''" "[''a'', ''b'']"]
    by (simp add: l hasWild_def)
qed

end
