(* ===== verification/ClientSession.thy ===== *)
theory ClientSession
  imports Pattern ClientOptions
begin

text \<open>
  Sessions of the client (\<^verbatim>\<open>pkg/session\<close>): the environment and the pseudo-terminal a
  session asks for, the agent socket, and the matcher of environment names.  The
  calls on the SSH session are recorded in order; the terminal, the environment and
  the answers of the peer are arguments.
\<close>

section \<open>The matcher\<close>

function MatchGlob :: "string \<Rightarrow> string \<Rightarrow> bool" where
  "MatchGlob [] value = (value = [])"
| "MatchGlob (c # pat) value =
     (if c = CHR ''*'' then
        (if pat = [] then True else list_ex (MatchGlob pat) (tails value))
      else if c = CHR ''?'' then
        (case value of [] \<Rightarrow> False | _ # vs \<Rightarrow> MatchGlob pat vs)
      else
        (case value of [] \<Rightarrow> False | v # vs \<Rightarrow> if c \<noteq> v then False else MatchGlob pat vs))"
  by pat_completeness auto
termination
  by (relation "measure (\<lambda>(p, v). length p)") auto

declare MatchGlob.simps(2) [simp del]

interpretation mg: glob_matcher MatchGlob
proof
  fix p v
  show "MatchGlob (CHR ''*'' # p) v \<longleftrightarrow> (\<exists>i \<le> length v. MatchGlob p (drop i v))"
    by (cases "p = []") (auto simp: MatchGlob.simps(2) list_ex_tails)
  show "MatchGlob (CHR ''?'' # p) v \<longleftrightarrow> (\<exists>c w. v = c # w \<and> MatchGlob p w)"
    by (cases v) (auto simp: MatchGlob.simps(2))
  fix c
  assume "c \<noteq> CHR ''*''" "c \<noteq> CHR ''?''"
  then show "MatchGlob (c # p) v \<longleftrightarrow> (\<exists>w. v = c # w \<and> MatchGlob p w)"
    by (cases v) (auto simp: MatchGlob.simps(2))
qed simp

definition MatchEnvPattern :: "string \<Rightarrow> string \<Rightarrow> bool" where
  "MatchEnvPattern pattern name =
     (if hasPrefix pattern ''-'' then False else MatchGlob pattern name)"

section \<open>Configuring a session\<close>

record SessionWorld =
  swEnviron :: "string list"
  swGetenv :: "string \<Rightarrow> string"
  swIsTerminal :: bool
  swGetSize :: "(int \<times> int) option"
  swRequestPty :: "go_error option"
  swRequestAgent :: "go_error option"
  swForwardToRemote :: "string \<Rightarrow> go_error option"

datatype SessionCall = Setenv string string | RequestPty string int int "(string \<times> int) list"

record SessionHandler =
  shPTYRequested :: bool
  shHasCommand :: bool

definition NewHandler :: "bool \<Rightarrow> SessionHandler" where
  "NewHandler hasCommand = \<lparr>shPTYRequested = False, shHasCommand = hasCommand\<rparr>"

definition cutEq :: "string \<Rightarrow> (string \<times> string) option" where
  "cutEq s =
     (case indexByte s CHR ''='' of
        None \<Rightarrow> None
      | Some i \<Rightarrow> Some (take i s, drop (Suc i) s))"

primrec setEnvCalls :: "string list \<Rightarrow> SessionCall list" where
  "setEnvCalls [] = []"
| "setEnvCalls (env # envs) =
     (case cutEq env of
        Some (k, v) \<Rightarrow> Setenv k v # setEnvCalls envs
      | None \<Rightarrow> setEnvCalls envs)"

primrec sendEnvCalls :: "string list \<Rightarrow> string list \<Rightarrow> SessionCall list" where
  "sendEnvCalls patterns [] = []"
| "sendEnvCalls patterns (envVar # environ) =
     (case cutEq envVar of
        Some (k, v) \<Rightarrow>
          if list_ex (\<lambda>pattern. MatchEnvPattern pattern k) patterns
          then Setenv k v # sendEnvCalls patterns environ
          else sendEnvCalls patterns environ
      | None \<Rightarrow> sendEnvCalls patterns environ)"

definition wantPTY :: "string \<Rightarrow> bool \<Rightarrow> bool \<Rightarrow> bool" where
  "wantPTY requestTTY isTerminal hasCommand =
     (if requestTTY = ''yes'' \<or> requestTTY = ''force'' then True
      else if requestTTY = ''auto'' then isTerminal \<and> \<not> hasCommand
      else False)"

definition terminalModes :: "(string \<times> int) list" where
  "terminalModes = [(''ECHO'', 1), (''TTY_OP_ISPEED'', 14400), (''TTY_OP_OSPEED'', 14400)]"

text \<open>The answer holds the calls made, the handler afterwards, and the error, if any.\<close>

definition ConfigureSession ::
  "SessionWorld \<Rightarrow> SessionHandler \<Rightarrow> ClientOptions \<Rightarrow>
   SessionCall list \<times> SessionHandler \<times> go_error option" where
  "ConfigureSession w h opts =
     (let envCalls = setEnvCalls (cSetEnv opts) @
            (if cSendEnv opts \<noteq> [] then sendEnvCalls (cSendEnv opts) (swEnviron w) else []);
          requestTTY = (case cRequestTTY opts of Some v \<Rightarrow> v | None \<Rightarrow> ''auto'')
      in if wantPTY requestTTY (swIsTerminal w) (shHasCommand h) then
           (let env = swGetenv w ''TERM'';
                termType = (if env = [] then ''xterm-256color'' else env);
                (width, height) = (case swGetSize w of Some sz \<Rightarrow> sz | None \<Rightarrow> (80, 24));
                calls = envCalls @ [RequestPty termType height width terminalModes]
            in case swRequestPty w of
                 Some err \<Rightarrow>
                   (calls, h,
                    if requestTTY = ''force'' then Some (Wrapf ''requesting PTY: %w'' [] err) else None)
               | None \<Rightarrow> (calls, h\<lparr>shPTYRequested := True\<rparr>, None))
         else (envCalls, h, None))"

section \<open>The agent\<close>

text \<open>The socket of the agent to forward; \<^term>\<open>None\<close> when none is to be forwarded.\<close>

definition agentSocket :: "SessionWorld \<Rightarrow> ClientOptions \<Rightarrow> string option" where
  "agentSocket w opts =
     (let agentPath = (case cForwardAgent opts of Some p \<Rightarrow> p | None \<Rightarrow> ''no'') in
      if agentPath = ''no'' then None
      else if agentPath = ''yes'' then Some (swGetenv w ''SSH_AUTH_SOCK'')
      else if hasPrefix agentPath ''$'' then Some (swGetenv w (drop 1 agentPath))
      else Some agentPath)"

definition ForwardAgent :: "SessionWorld \<Rightarrow> ClientOptions \<Rightarrow> go_error option" where
  "ForwardAgent w opts =
     (case agentSocket w opts of
        None \<Rightarrow> None
      | Some socketPath \<Rightarrow>
          if socketPath = [] then Some (Errorf ''SSH_AUTH_SOCK not set'' [])
          else (case swRequestAgent w of
                  Some err \<Rightarrow> Some (Wrapf ''requesting agent forwarding: %w'' [] err)
                | None \<Rightarrow>
                    (case swForwardToRemote w socketPath of
                       Some err \<Rightarrow> Some (Wrapf ''forwarding to remote: %w'' [] err)
                     | None \<Rightarrow> None)))"

section \<open>Properties\<close>

lemma set_sendEnvCalls:
  "set (sendEnvCalls ps env) =
     {Setenv k v |k v. \<exists>e \<in> set env. cutEq e = Some (k, v) \<and> list_ex (\<lambda>p. MatchEnvPattern p k) ps}"
  by (induction env) (auto split: option.split)

lemma set_setEnvCalls:
  "set (setEnvCalls env) = {Setenv k v |k v. \<exists>e \<in> set env. cutEq e = Some (k, v)}"
  by (induction env) (auto split: option.split)

text \<open>The variables a session sends are exactly those SetEnv gives and those of the
  local environment whose name matches a SendEnv pattern that is not negated; a
  terminal is requested at most once, after them, and for \<^verbatim>\<open>RequestTTY auto\<close> only on a
  terminal and without a command.\<close>

theorem ConfigureSession_calls:
  "\<exists>pty. fst (ConfigureSession w h opts) =
       filter (\<lambda>c. \<exists>k v. c = Setenv k v) (fst (ConfigureSession w h opts)) @ pty \<and>
     length pty \<le> 1 \<and>
     (Setenv k v \<in> set (fst (ConfigureSession w h opts)) \<longleftrightarrow>
        (\<exists>e \<in> set (cSetEnv opts). cutEq e = Some (k, v)) \<or>
        (\<exists>e \<in> set (swEnviron w). cutEq e = Some (k, v) \<and>
           (\<exists>p \<in> set (cSendEnv opts). \<not> hasPrefix p ''-'' \<and> glob p k))) \<and>
     (pty \<noteq> [] \<longleftrightarrow> (case cRequestTTY opts of
        None \<Rightarrow> swIsTerminal w \<and> \<not> shHasCommand h
      | Some m \<Rightarrow> m = ''yes'' \<or> m = ''force'' \<or> m = ''auto'' \<and> swIsTerminal w \<and> \<not> shHasCommand h))"
proof -
  define envs where "envs = setEnvCalls (cSetEnv opts) @
      (if cSendEnv opts \<noteq> [] then sendEnvCalls (cSendEnv opts) (swEnviron w) else [])"
  define pty where "pty = (if wantPTY (case cRequestTTY opts of Some v \<Rightarrow> v | None \<Rightarrow> ''auto'')
      (swIsTerminal w) (shHasCommand h)
     then [RequestPty (if swGetenv w ''TERM'' = [] then ''xterm-256color'' else swGetenv w ''TERM'')
        (snd (case swGetSize w of Some sz \<Rightarrow> sz | None \<Rightarrow> (80, 24)))
        (fst (case swGetSize w of Some sz \<Rightarrow> sz | None \<Rightarrow> (80, 24))) terminalModes] else [])"
  have c: "fst (ConfigureSession w h opts) = envs @ pty"
    by (simp add: ConfigureSession_def envs_def pty_def Let_def case_prod_beta' split: option.split)
  have f: "filter (\<lambda>c. \<exists>k v. c = Setenv k v) envs = envs"
    unfolding filter_id_conv by (auto simp: envs_def set_sendEnvCalls set_setEnvCalls)
  have p: "filter (\<lambda>c. \<exists>k v. c = Setenv k v) pty = []" "length pty \<le> 1" "Setenv k v \<notin> set pty"
    by (simp_all add: pty_def)
  have m: "Setenv k v \<in> set envs \<longleftrightarrow>
      (\<exists>e \<in> set (cSetEnv opts). cutEq e = Some (k, v)) \<or>
      (\<exists>e \<in> set (swEnviron w). cutEq e = Some (k, v) \<and>
         (\<exists>p \<in> set (cSendEnv opts). \<not> hasPrefix p ''-'' \<and> glob p k))"
    by (auto simp: envs_def set_sendEnvCalls set_setEnvCalls list_ex_iff MatchEnvPattern_def
        mg.mtch_glob)
  have "pty \<noteq> [] \<longleftrightarrow> (case cRequestTTY opts of
        None \<Rightarrow> swIsTerminal w \<and> \<not> shHasCommand h
      | Some m \<Rightarrow> m = ''yes'' \<or> m = ''force'' \<or> m = ''auto'' \<and> swIsTerminal w \<and> \<not> shHasCommand h)"
    by (auto simp: pty_def wantPTY_def split: option.split)
  then show ?thesis using f p m unfolding c by (intro exI[of _ pty]) simp
qed

end
