(* ===== verification/ServerSession.thy ===== *)
theory ServerSession
  imports Pattern ServerOptions
begin

text \<open>
  Sessions of the server (\<^verbatim>\<open>pkg/sshserver/default_session.go\<close>, and the helpers of
  \<^verbatim>\<open>session.go\<close> it uses).  A session reads channel requests until one of them runs
  something; what it does on the channel and with its launcher is recorded in order.
  The wire format of the SSH library, the launcher, the subsystem handlers and the
  channel are arguments (record \<^verbatim>\<open>SessWorld\<close>).  A launcher answers with the calls it
  makes on the exit reporter and with its result, which may depend on the answer of
  the last of them.
\<close>

unbundle bit_operations_syntax

section \<open>Environment names\<close>

function matchEnvPattern :: "string \<Rightarrow> string \<Rightarrow> bool" where
  "matchEnvPattern [] name = (name = [])"
| "matchEnvPattern (c # pat) name =
     (if c = CHR ''*'' then
        (let rest = skipStars pat
         in if rest = [] then True else list_ex (matchEnvPattern rest) (tails name))
      else if c = CHR ''?'' then
        (case name of [] \<Rightarrow> False | _ # vs \<Rightarrow> matchEnvPattern pat vs)
      else
        (case name of [] \<Rightarrow> False | v # vs \<Rightarrow> if c \<noteq> v then False else matchEnvPattern pat vs))"
  by pat_completeness auto
termination
  by (relation "measure (\<lambda>(p, v). length p)") (auto simp: length_skipStars less_Suc_eq_le)

declare matchEnvPattern.simps(2) [simp del]

lemma matchEnvPattern_same: "matchEnvPattern p v = matchPattern p v"
proof (induction p v rule: matchEnvPattern.induct)
  case (2 c p v)
  have s: "list_ex (matchEnvPattern (skipStars p)) (tails v) = list_ex (matchPattern (skipStars p)) (tails v)"
    if "c = CHR ''*''" "skipStars p \<noteq> []"
    using 2(1)[OF that(1) refl that(2)] by (auto simp: list_ex_iff)
  show ?case
    using s 2(2,3) by (cases v) (auto simp: matchEnvPattern.simps(2) matchPattern.simps(2) Let_def)
qed simp

interpretation me: glob_matcher matchEnvPattern
  by unfold_locales (simp_all add: matchEnvPattern_same mp.mtch_nil mp.mtch_star mp.mtch_one mp.mtch_lit)

definition envNameAccepted :: "string \<Rightarrow> string list \<Rightarrow> bool" where
  "envNameAccepted name accept =
     (if name = ''TERM'' then True else list_ex (\<lambda>pattern. matchEnvPattern pattern name) accept)"

section \<open>Requests and effects\<close>

type_synonym bytes = "8 word list"

record ChanReq =
  rqType :: string
  rqWantReply :: bool
  rqPayload :: bytes

record PTYRequest =
  ptyTerm :: string
  ptyWidth :: "32 word"
  ptyHeight :: "32 word"
  ptyModes :: string

record WindowChange =
  wcWidth :: "32 word"
  wcHeight :: "32 word"

record ProcessRequest =
  prUser :: string
  prCommand :: string
  prEnv :: "string list"
  prPTY :: "PTYRequest option"

datatype ExitCall = ExitStatus "32 word" | ExitSignal string bool string

type_synonym launch_result = "ExitCall list \<times> (go_error option \<Rightarrow> go_error option)"

record SessWorld =
  uStr :: "bytes \<Rightarrow> go_error + string"
  uStrStr :: "bytes \<Rightarrow> go_error + string \<times> string"
  uPty :: "bytes \<Rightarrow> go_error + string \<times> 32 word \<times> 32 word \<times> 32 word \<times> 32 word \<times> string"
  uWindow :: "bytes \<Rightarrow> go_error + 32 word \<times> 32 word \<times> 32 word \<times> 32 word"
  mExitSignal :: "string \<Rightarrow> bool \<Rightarrow> string \<Rightarrow> bytes"
  chSend :: "string \<Rightarrow> bytes \<Rightarrow> go_error option"
  launcher :: "(ProcessRequest \<Rightarrow> launch_result) option"
  subsystemHandler :: "handle \<Rightarrow> string \<Rightarrow> go_error option"

datatype SessOut =
    Reply bool
  | Resized WindowChange
  | Signalled string
  | RanProcess ProcessRequest
  | RanSubsystem handle string
  | Sent string bytes

definition parsePTYRequest :: "SessWorld \<Rightarrow> bytes \<Rightarrow> go_error + PTYRequest" where
  "parsePTYRequest w payload =
     (case uPty w payload of
        Inl err \<Rightarrow> Inl err
      | Inr (term, columns, rows, width, height, modeList) \<Rightarrow>
          Inr \<lparr>ptyTerm = term, ptyWidth = columns, ptyHeight = rows, ptyModes = modeList\<rparr>)"

definition parseEnvRequest :: "SessWorld \<Rightarrow> bytes \<Rightarrow> go_error + string \<times> string" where
  "parseEnvRequest w payload = uStrStr w payload"

definition parseWindowChange :: "SessWorld \<Rightarrow> bytes \<Rightarrow> go_error + WindowChange" where
  "parseWindowChange w payload =
     (case uWindow w payload of
        Inl err \<Rightarrow> Inl err
      | Inr (columns, rows, width, height) \<Rightarrow> Inr \<lparr>wcWidth = columns, wcHeight = rows\<rparr>)"

definition parseSignal :: "SessWorld \<Rightarrow> bytes \<Rightarrow> go_error + string" where
  "parseSignal w payload = uStr w payload"

definition parseExecOrSubsystem :: "SessWorld \<Rightarrow> bytes \<Rightarrow> go_error + string" where
  "parseExecOrSubsystem w payload = uStr w payload"

definition encodeUint32 :: "32 word \<Rightarrow> bytes" where
  "encodeUint32 n = [ucast (drop_bit 24 n), ucast (drop_bit 16 n), ucast (drop_bit 8 n), ucast n]"

section \<open>The exit reporter\<close>

text \<open>The reporter is the flag \<^verbatim>\<open>sent\<close>; a call answers with the error of the channel.\<close>

definition exitCall :: "SessWorld \<Rightarrow> ExitCall \<Rightarrow> bool \<Rightarrow> bool \<times> SessOut list \<times> go_error option" where
  "exitCall w call sent =
     (if sent then (True, [], None)
      else case call of
        ExitStatus status \<Rightarrow>
          (let payload = encodeUint32 status
           in (True, [Sent ''exit-status'' payload], chSend w ''exit-status'' payload))
      | ExitSignal sig core errMsg \<Rightarrow>
          (let payload = mExitSignal w sig core errMsg
           in (True, [Sent ''exit-signal'' payload], chSend w ''exit-signal'' payload)))"

primrec exitCalls ::
  "SessWorld \<Rightarrow> ExitCall list \<Rightarrow> bool \<Rightarrow> go_error option \<Rightarrow> bool \<times> SessOut list \<times> go_error option" where
  "exitCalls w [] sent lst = (sent, [], lst)"
| "exitCalls w (c # cs) sent lst =
     (let (sent1, out1, ans) = exitCall w c sent;
          (sent2, out2, lst') = exitCalls w cs sent1 ans
      in (sent2, out1 @ out2, lst'))"

definition runProcess ::
  "SessWorld \<Rightarrow> (ProcessRequest \<Rightarrow> launch_result) \<Rightarrow> ProcessRequest \<Rightarrow> SessOut list \<times> go_error option" where
  "runProcess w launch req =
     (let (calls, res) = launch req;
          (sent, out, lst) = exitCalls w calls False None
      in case res lst of
           None \<Rightarrow> (RanProcess req # out, None)
         | Some err \<Rightarrow>
             (let (sent', out', ans) = exitCall w (ExitStatus 1) sent
              in (RanProcess req # out @ out', Some err)))"

section \<open>The session\<close>

record SessState =
  ssPty :: "PTYRequest option"
  ssEnv :: "string list"

datatype SessNext = Continue SessState | Finish "go_error option"

definition withProcess ::
  "SessWorld \<Rightarrow> (ProcessRequest \<Rightarrow> launch_result) \<Rightarrow> ProcessRequest \<Rightarrow> SessOut list \<times> SessNext" where
  "withProcess w launch req =
     (let (out, err) = runProcess w launch req in (Reply True # out, Finish err))"

definition handleSubsystem ::
  "SessWorld \<Rightarrow> ServerOptions \<Rightarrow> string \<Rightarrow> SessState \<Rightarrow> string \<Rightarrow> SessOut list \<times> SessNext" where
  "handleSubsystem w opts user st name =
     (case LookupSubsystem name opts of
        None \<Rightarrow> ([Reply False], Finish None)
      | Some sub \<Rightarrow>
          (case (subInternal sub, subHandler sub) of
             (True, Some h) \<Rightarrow>
               (case subsystemHandler w h name of
                  Some err \<Rightarrow> ([Reply True, RanSubsystem h name],
                               Finish (Some (Wrapf ''subsystem %s: %w'' [name] err)))
                | None \<Rightarrow>
                    (let (sent, out, ans) = exitCall w (ExitStatus 0) False
                     in ([Reply True, RanSubsystem h name] @ out, Finish ans)))
           | _ \<Rightarrow>
               (case launcher w of
                  None \<Rightarrow> (let (sent, out, ans) = exitCall w (ExitStatus 1) False
                           in (Reply True # out, Finish None))
                | Some launch \<Rightarrow>
                    if subCommand sub = []
                    then (let (sent, out, ans) = exitCall w (ExitStatus 1) False
                          in (Reply True # out, Finish None))
                    else withProcess w launch
                           \<lparr>prUser = user, prCommand = subCommand sub, prEnv = ssEnv st, prPTY = None\<rparr>)))"

definition forcedCommand :: "ServerOptions \<Rightarrow> string \<Rightarrow> string" where
  "forcedCommand opts cmd =
     (case sForceCommand opts of
        Some f \<Rightarrow> if f \<noteq> ''none'' \<and> f \<noteq> [] then f else cmd
      | None \<Rightarrow> cmd)"

definition handleRequest ::
  "SessWorld \<Rightarrow> ServerOptions \<Rightarrow> string \<Rightarrow> SessState \<Rightarrow> ChanReq \<Rightarrow> SessOut list \<times> SessNext" where
  "handleRequest w opts user st req =
     (let t = rqType req in
      if t = ''pty-req'' then
        (if sPermitTTY opts = Some False then ([Reply False], Continue st)
         else case parsePTYRequest w (rqPayload req) of
           Inl err \<Rightarrow> ([Reply False], Continue st)
         | Inr p \<Rightarrow> ([Reply True], Continue (st\<lparr>ssPty := Some p\<rparr>)))
      else if t = ''env'' then
        (case parseEnvRequest w (rqPayload req) of
           Inl err \<Rightarrow> ([Reply False], Continue st)
         | Inr (name, value) \<Rightarrow>
             ([Reply True],
              Continue (if envNameAccepted name (sAcceptEnv opts)
                        then st\<lparr>ssEnv := ssEnv st @ [name @ ''='' @ value]\<rparr> else st)))
      else if t = ''window-change'' then
        (if launcher w = None then ([], Continue st)
         else case parseWindowChange w (rqPayload req) of
           Inl err \<Rightarrow> ([], Continue st)
         | Inr wc \<Rightarrow> ([Resized wc], Continue st))
      else if t = ''signal'' then
        (if launcher w = None then ([], Continue st)
         else case parseSignal w (rqPayload req) of
           Inl err \<Rightarrow> ([], Continue st)
         | Inr sig \<Rightarrow> ([Signalled sig], Continue st))
      else if t = ''shell'' then
        (case launcher w of
           None \<Rightarrow> ([Reply False], Finish None)
         | Some launch \<Rightarrow>
             withProcess w launch
               \<lparr>prUser = user, prCommand = [], prEnv = ssEnv st, prPTY = ssPty st\<rparr>)
      else if t = ''exec'' then
        (case parseExecOrSubsystem w (rqPayload req) of
           Inl err \<Rightarrow> ([Reply False], Finish None)
         | Inr cmd \<Rightarrow>
             (case launcher w of
                None \<Rightarrow> ([Reply False], Finish None)
              | Some launch \<Rightarrow>
                  withProcess w launch
                    \<lparr>prUser = user, prCommand = forcedCommand opts cmd,
                     prEnv = ssEnv st, prPTY = ssPty st\<rparr>))
      else if t = ''subsystem'' then
        (case parseExecOrSubsystem w (rqPayload req) of
           Inl err \<Rightarrow> ([Reply False], Finish None)
         | Inr name \<Rightarrow> handleSubsystem w opts user st name)
      else (if rqWantReply req then ([Reply False], Continue st) else ([], Continue st)))"

primrec sessionLoop ::
  "SessWorld \<Rightarrow> ServerOptions \<Rightarrow> string \<Rightarrow> ChanReq list \<Rightarrow> SessState \<Rightarrow> SessOut list \<times> go_error option" where
  "sessionLoop w opts user [] st = ([], None)"
| "sessionLoop w opts user (req # reqs) st =
     (case handleRequest w opts user st req of
        (out, Finish err) \<Rightarrow> (out, err)
      | (out, Continue st') \<Rightarrow>
          (let (out', err) = sessionLoop w opts user reqs st' in (out @ out', err)))"

definition HandleSession ::
  "SessWorld \<Rightarrow> ServerOptions \<Rightarrow> string \<Rightarrow> ChanReq list \<Rightarrow> SessOut list \<times> go_error option" where
  "HandleSession w opts user reqs = sessionLoop w opts user reqs \<lparr>ssPty = None, ssEnv = []\<rparr>"

section \<open>The reference launcher\<close>

datatype WaitResult = WaitOk | WaitExit int | WaitOther

record ProcWorld =
  pwEnviron :: "string list"
  pwStart :: "string list \<Rightarrow> string list \<Rightarrow> go_error option"
  pwWait :: "string list \<Rightarrow> string list \<Rightarrow> WaitResult"

definition execArgv :: "string \<Rightarrow> ProcessRequest \<Rightarrow> string list" where
  "execArgv shell0 req =
     (let shell = (if shell0 = [] then ''/bin/sh'' else shell0)
      in if prCommand req = [] then [shell] else [shell, ''-c'', prCommand req])"

text \<open>A command without an environment of its own (\<^verbatim>\<open>cmd.Env\<close> is nil, also behind an append of
  nothing) gets the environment of the server.\<close>

definition execEnv :: "ProcWorld \<Rightarrow> ProcessRequest \<Rightarrow> string list" where
  "execEnv pw req = (if prEnv req = [] then pwEnviron pw else prEnv req)"

text \<open>The exit code of a process is an \<^verbatim>\<open>int\<close>, converted to 32 bits; it is -1 for a process
  that a signal ended.\<close>

definition execLauncher :: "ProcWorld \<Rightarrow> string \<Rightarrow> ProcessRequest \<Rightarrow> launch_result" where
  "execLauncher pw shell req =
     (let argv = execArgv shell req; env = execEnv pw req in
      case pwStart pw argv env of
        Some err \<Rightarrow> ([ExitStatus 127], id)
      | None \<Rightarrow>
          (case pwWait pw argv env of
             WaitOk \<Rightarrow> ([ExitStatus 0], id)
           | WaitExit code \<Rightarrow> ([ExitStatus (word_of_int code)], id)
           | WaitOther \<Rightarrow> ([ExitStatus 1], id)))"

section \<open>Lemmas\<close>

definition isSent :: "SessOut \<Rightarrow> bool" where
  "isSent x \<longleftrightarrow> (\<exists>t b. x = Sent t b)"

definition sentCount :: "SessOut list \<Rightarrow> nat" where
  "sentCount out = length (filter isSent out)"

lemma sentCount_simps [simp]:
  "sentCount [] = 0" "sentCount (xs @ ys) = sentCount xs + sentCount ys"
  "sentCount (Reply b # xs) = sentCount xs" "sentCount (Resized c # xs) = sentCount xs"
  "sentCount (Signalled s # xs) = sentCount xs" "sentCount (RanProcess p # xs) = sentCount xs"
  "sentCount (RanSubsystem h n # xs) = sentCount xs" "sentCount (Sent t d # xs) = Suc (sentCount xs)"
  by (simp_all add: sentCount_def isSent_def)

text \<open>The reporter sends something exactly when it has not done so before.\<close>

lemma exitCall_sent:
  "exitCall w c s = (s', out, ans) \<Longrightarrow> s' \<and> sentCount out = (if s then 0 else 1)"
  by (cases c) (auto simp: exitCall_def Let_def split: if_splits)

lemma exitCalls_sent:
  "exitCalls w cs s l = (s', out, l') \<Longrightarrow>
   (s \<longrightarrow> s') \<and> sentCount out = (if \<not> s \<and> s' then 1 else 0)"
proof (induction cs arbitrary: s s' l l' out)
  case (Cons c cs)
  obtain s1 o1 a1 where 1: "exitCall w c s = (s1, o1, a1)" by (cases "exitCall w c s")
  obtain s2 o2 l2 where 2: "exitCalls w cs s1 a1 = (s2, o2, l2)" by (cases "exitCalls w cs s1 a1")
  have "s' = s2" "out = o1 @ o2" using Cons.prems 1 2 by auto
  then show ?case using exitCall_sent[OF 1] Cons.IH[OF 2] by auto
qed auto

lemma runProcess_sent: "sentCount (fst (runProcess w launch req)) \<le> 1"
proof -
  obtain calls res where l: "launch req = (calls, res)" by (cases "launch req")
  obtain s out lst where e: "exitCalls w calls False None = (s, out, lst)"
    by (cases "exitCalls w calls False None")
  obtain s' out' ans where x: "exitCall w (ExitStatus 1) s = (s', out', ans)"
    by (cases "exitCall w (ExitStatus 1) s")
  show ?thesis
    using exitCalls_sent[OF e] exitCall_sent[OF x]
    by (auto simp: runProcess_def l e x split: option.split)
qed

lemma withProcess_sent: "sentCount (fst (withProcess w launch req)) \<le> 1"
  using runProcess_sent[of w launch req] by (simp add: withProcess_def case_prod_beta' Let_def)

lemma withProcess_finish: "\<exists>err. snd (withProcess w launch req) = Finish err"
  by (simp add: withProcess_def case_prod_beta' Let_def)

lemma exitCall_count: "sentCount (fst (snd (exitCall w c s))) \<le> 1"
  using exitCall_sent[of w c s] by (cases "exitCall w c s") auto

lemma handleSubsystem_sent: "sentCount (fst (handleSubsystem w opts user st name)) \<le> 1"
  using withProcess_sent[of w] exitCall_count[of w]
  by (simp add: handleSubsystem_def case_prod_beta' Let_def split: option.split bool.split)

lemma handleSubsystem_finish: "\<exists>err. snd (handleSubsystem w opts user st name) = Finish err"
  using withProcess_finish[of w]
  by (simp add: handleSubsystem_def case_prod_beta' Let_def split: option.split bool.split)

lemma handleRequest_sent: "sentCount (fst (handleRequest w opts user st req)) \<le> 1"
  using withProcess_sent[of w] handleSubsystem_sent[of w opts user st]
  by (simp add: handleRequest_def Let_def split: option.split sum.split)

definition startsProcess :: "ChanReq \<Rightarrow> bool" where
  "startsProcess req \<longleftrightarrow> rqType req \<in> {''shell'', ''exec'', ''subsystem''}"

lemma handleRequest_finish:
  "startsProcess req \<Longrightarrow> \<exists>err. snd (handleRequest w opts user st req) = Finish err"
  using withProcess_finish[of w] handleSubsystem_finish[of w opts user st]
  by (auto simp: startsProcess_def handleRequest_def Let_def split: option.split sum.split)

lemma handleRequest_quiet:
  "\<not> startsProcess req \<Longrightarrow>
   sentCount (fst (handleRequest w opts user st req)) = 0 \<and>
   (\<exists>st'. snd (handleRequest w opts user st req) = Continue st')"
  by (simp add: startsProcess_def handleRequest_def Let_def split: option.split sum.split prod.split)

text \<open>The loop in one step.\<close>

lemma sessionLoop_Cons:
  "sessionLoop w opts user (req # reqs) st =
     (let out = fst (handleRequest w opts user st req) in
      case snd (handleRequest w opts user st req) of
        Finish err \<Rightarrow> (out, err)
      | Continue st' \<Rightarrow> (out @ fst (sessionLoop w opts user reqs st'), snd (sessionLoop w opts user reqs st')))"
  by (simp add: case_prod_beta' Let_def split: SessNext.split prod.split)

declare sessionLoop.simps(2) [simp del]

lemma bytes_of_int:
  fixes u :: int
  assumes "0 \<le> u" "u < 4294967296"
  shows "u mod 256 + 256 * (u div 256 mod 256 + 256 * (u div 65536 mod 256 + 256 * (u div 16777216 mod 256))) = u"
proof -
  define v where "v = u div 256"
  define x where "x = v div 256"
  have d: "u div 65536 = x" "u div 16777216 = x div 256"
    using zdiv_zmult2_eq[of 256 u 256] zdiv_zmult2_eq[of 256 "u div 256" 256]
      zdiv_zmult2_eq[of 65536 u 256] by (simp_all add: x_def v_def)
  have m: "u = u mod 256 + 256 * v" "v = v mod 256 + 256 * x" "x = x mod 256 + 256 * (x div 256)"
    by (simp_all add: v_def x_def)
  have "x div 256 mod 256 = x div 256" using assms m by (intro mod_pos_pos_trivial) linarith+
  then have "x mod 256 + 256 * (x div 256 mod 256) = x" using m(3) by simp
  moreover have "v mod 256 + 256 * x = v" "u mod 256 + 256 * v = u" using m(1,2) by simp_all
  ultimately show ?thesis unfolding d v_def[symmetric] by simp
qed

lemma encodeUint32_rcat: "word_rcat (encodeUint32 n) = n"
proof -
  have u: "0 \<le> uint n" "uint n < 4294967296" using uint_lt2p[of n] by simp_all
  have t: "take_bit 32 (uint n) = uint n" using u by (simp add: take_bit_eq_mod)
  have b: "uint (ucast (drop_bit k n) :: 8 word) = uint n div 2 ^ k mod 256" for k
  proof -
    have "uint (ucast (drop_bit k n) :: 8 word) = uint (drop_bit k n) mod 256"
      by (simp only: unsigned_ucast_eq take_bit_eq_mod) simp
    also have "uint (drop_bit k n) = uint n div 2 ^ k"
      by (simp only: unsigned_drop_bit_eq drop_bit_eq_div[of k "take_bit _ _"]) (simp add: t)
    finally show ?thesis .
  qed
  have b0: "uint (ucast n :: 8 word) = uint n mod 256"
    by (simp add: unsigned_ucast_eq take_bit_eq_mod)
  have p: "(2::int) ^ 24 = 16777216" "(2::int) ^ 16 = 65536" "(2::int) ^ 8 = 256" by simp_all
  have "horner_sum uint 256 (rev (encodeUint32 n)) = uint n"
    unfolding encodeUint32_def rev.simps append.simps horner_sum_simps b b0 p
    using bytes_of_int[OF u] by (simp only: mult_zero_right add_0_right)
  then show ?thesis unfolding word_rcat_def by simp
qed

section \<open>Properties\<close>

text \<open>C30: a session reports the end of its command at most once, by an exit status or an
  exit signal, whatever the client asks and however often the launcher calls the
  reporter.\<close>

theorem HandleSession_exit_once:
  "length (filter isSent (fst (HandleSession w opts user reqs))) \<le> 1"
proof -
  have "sentCount (fst (sessionLoop w opts user reqs st)) \<le> 1" for st
  proof (induction reqs arbitrary: st)
    case (Cons req reqs)
    show ?case
    proof (cases "startsProcess req")
      case True
      then show ?thesis
        using handleRequest_finish[OF True, of w opts user st] handleRequest_sent[of w opts user st req]
        by (auto simp: sessionLoop_Cons Let_def)
    next
      case False
      then show ?thesis
        using handleRequest_quiet[OF False, of w opts user st] Cons.IH
        by (auto simp: sessionLoop_Cons Let_def)
    qed
  qed simp
  then show ?thesis by (simp add: HandleSession_def sentCount_def)
qed

text \<open>A closed world for the witnesses: payloads are text, processes end well.\<close>

definition demoSess :: SessWorld where
  "demoSess = \<lparr>uStr = (\<lambda>b. Inr (map (\<lambda>x. char_of (unat x)) b)), uStrStr = (\<lambda>b. Inr (''LANG'', ''C'')),
     uPty = (\<lambda>b. Inr (''xterm'', 80, 24, 0, 0, [])), uWindow = (\<lambda>b. Inr (80, 24, 0, 0)),
     mExitSignal = (\<lambda>s c m. []), chSend = (\<lambda>t b. None),
     launcher = Some (\<lambda>p. ([ExitStatus 0, ExitStatus 1], id)),
     subsystemHandler = (\<lambda>h n. None)\<rparr>"

definition demoReq :: "string \<Rightarrow> bytes \<Rightarrow> ChanReq" where
  "demoReq t b = \<lparr>rqType = t, rqWantReply = True, rqPayload = b\<rparr>"

definition demoProcess :: "string \<Rightarrow> PTYRequest option \<Rightarrow> ProcessRequest" where
  "demoProcess cmd pty = \<lparr>prUser = ''bob'', prCommand = cmd, prEnv = [''LANG=C''], prPTY = pty\<rparr>"

text \<open>The first shell, exec or subsystem request ends the reading: no request behind it
  has any effect, so a window change or a signal never reaches a process that runs.\<close>

theorem HandleSession_reads_no_further:
  assumes "startsProcess req"
  shows "HandleSession w opts user (pre @ req # rest) = HandleSession w opts user (pre @ [req])"
proof -
  have "sessionLoop w opts user (pre @ req # rest) st = sessionLoop w opts user (pre @ [req]) st" for st
  proof (induction pre arbitrary: st)
    case Nil
    then show ?case
      using handleRequest_finish[OF assms, of w opts user st]
      by (auto simp: sessionLoop_Cons Let_def)
  next
    case (Cons r pre)
    then show ?case by (simp add: sessionLoop_Cons Let_def split: SessNext.split)
  qed
  then show ?thesis by (simp add: HandleSession_def)
qed

theorem HandleSession_reads_no_further_witness:
  "HandleSession demoSess sshdEmptyOptions ''bob'' [demoReq ''shell'' [], demoReq ''window-change'' []] =
   HandleSession demoSess sshdEmptyOptions ''bob'' [demoReq ''shell'' []]"
  using HandleSession_reads_no_further[of "demoReq ''shell'' []" demoSess sshdEmptyOptions "''bob''" "[]"]
  by (simp add: startsProcess_def demoReq_def)

text \<open>What a process may be given: the user of the connection, variables the configuration
  accepts, and a terminal only where it is permitted.\<close>

definition envAllowed :: "ServerOptions \<Rightarrow> string \<Rightarrow> bool" where
  "envAllowed opts e \<longleftrightarrow>
     (\<exists>n v. e = n @ ''='' @ v \<and> (n = ''TERM'' \<or> (\<exists>q \<in> set (sAcceptEnv opts). glob q n)))"

definition processAllowed :: "ServerOptions \<Rightarrow> string \<Rightarrow> ProcessRequest \<Rightarrow> bool" where
  "processAllowed opts user p \<longleftrightarrow>
     prUser p = user \<and> (\<forall>e \<in> set (prEnv p). envAllowed opts e) \<and>
     (sPermitTTY opts = Some False \<longrightarrow> prPTY p = None)"

definition stateAllowed :: "ServerOptions \<Rightarrow> SessState \<Rightarrow> bool" where
  "stateAllowed opts st \<longleftrightarrow>
     (\<forall>e \<in> set (ssEnv st). envAllowed opts e) \<and> (sPermitTTY opts = Some False \<longrightarrow> ssPty st = None)"

lemma exitCall_out: "RanProcess p \<notin> set (fst (snd (exitCall w c s)))"
  by (simp add: exitCall_def Let_def split: ExitCall.split)

lemma exitCalls_out: "RanProcess p \<notin> set (fst (snd (exitCalls w cs s l)))"
  using exitCall_out by (induction cs arbitrary: s l) (auto simp: case_prod_beta' Let_def)

lemma withProcess_out:
  "RanProcess p \<in> set (fst (withProcess w launch req)) \<longleftrightarrow> p = req"
  using exitCalls_out exitCall_out
  by (auto simp: withProcess_def runProcess_def case_prod_beta' Let_def split: option.split)

lemma handleRequest_out:
  assumes "RanProcess p \<in> set (fst (handleRequest w opts user st req))"
  shows "prUser p = user \<and> prEnv p = ssEnv st \<and> (prPTY p = ssPty st \<or> prPTY p = None)"
  using assms exitCall_out
  by (auto simp: handleRequest_def handleSubsystem_def withProcess_out case_prod_beta' Let_def
      split: if_splits option.splits sum.splits bool.splits)

lemma accepted_allowed:
  "envNameAccepted n (sAcceptEnv opts) \<Longrightarrow> envAllowed opts (n @ ''='' @ v)"
  unfolding envNameAccepted_def envAllowed_def
  by (intro exI[of _ n] exI[of _ v]) (auto simp: list_ex_iff me.mtch_glob split: if_splits)

lemma handleRequest_state:
  assumes "snd (handleRequest w opts user st req) = Continue st'" and "stateAllowed opts st"
  shows "stateAllowed opts st'"
proof -
  have "\<not> startsProcess req" using assms(1) handleRequest_finish[of req w opts user st] by auto
  then show ?thesis
    using assms
    by (auto simp: handleRequest_def startsProcess_def Let_def stateAllowed_def
        split: if_splits sum.splits prod.splits intro: accepted_allowed[simplified])
qed



text \<open>A forced command replaces the command of an exec request only: a shell request
  still starts a shell and an external subsystem still runs its own command.\<close>

theorem HandleSession_forced_command:
  assumes "launcher w = Some launch" and "sForceCommand opts = Some f" and "f \<noteq> ''none''" and "f \<noteq> []"
    and "uStr w b = Inr cmd" and "LookupSubsystem cmd opts = Some sub"
    and "\<not> subInternal sub" and "subCommand sub \<noteq> []"
  shows "(RanProcess p \<in> set (fst (HandleSession w opts user [demoReq ''exec'' b])) \<longleftrightarrow>
            p = \<lparr>prUser = user, prCommand = f, prEnv = [], prPTY = None\<rparr>) \<and>
         (RanProcess p \<in> set (fst (HandleSession w opts user [demoReq ''shell'' b])) \<longleftrightarrow>
            p = \<lparr>prUser = user, prCommand = [], prEnv = [], prPTY = None\<rparr>) \<and>
         (RanProcess p \<in> set (fst (HandleSession w opts user [demoReq ''subsystem'' b])) \<longleftrightarrow>
            p = \<lparr>prUser = user, prCommand = subCommand sub, prEnv = [], prPTY = None\<rparr>)"
proof -
  have s: "fst (HandleSession w opts user [demoReq t b]) =
      fst (handleRequest w opts user \<lparr>ssPty = None, ssEnv = []\<rparr> (demoReq t b))" for t
    by (simp add: HandleSession_def sessionLoop_Cons Let_def split: SessNext.split)
  show ?thesis
    unfolding s using assms
    by (simp add: handleRequest_def demoReq_def parseExecOrSubsystem_def withProcess_out
        forcedCommand_def handleSubsystem_def split: option.split)
qed

theorem HandleSession_forced_command_witness:
  "RanProcess \<lparr>prUser = ''bob'', prCommand = [], prEnv = [], prPTY = None\<rparr> \<in>
     set (fst (HandleSession demoSess (sshdEmptyOptions\<lparr>sForceCommand := Some ''/bin/false'',
        sSubsystems := [''a'' \<mapsto> \<lparr>subName = ''a'', subCommand = ''/x'', subInternal = False, subHandler = None\<rparr>]\<rparr>)
        ''bob'' [demoReq ''shell'' [97]]))"
proof -
  have "char_of (unat (97 :: 8 word)) = CHR ''a''" by code_simp
  then have "uStr demoSess [97] = Inr ''a''" by (simp add: demoSess_def)
  moreover have "launcher demoSess = Some (\<lambda>p. ([ExitStatus 0, ExitStatus 1], id))"
    by (simp add: demoSess_def)
  ultimately show ?thesis
    by (subst HandleSession_forced_command[where f = "''/bin/false''" and cmd = "''a''"
          and sub = "\<lparr>subName = ''a'', subCommand = ''/x'', subInternal = False, subHandler = None\<rparr>",
          THEN conjunct2, THEN conjunct1])
      (simp_all add: LookupSubsystem_def)
qed

text \<open>C40: an exit code reaches the client as a status of 32 bits in network byte order, so a
  process that a signal ended, whose exit code is -1, is reported with the status
  4294967295 and not with an exit signal.\<close>

theorem runProcess_exit_status:
  assumes "pwStart pw (execArgv shell req) (execEnv pw req) = None"
    and "pwWait pw (execArgv shell req) (execEnv pw req) = WaitExit code"
  shows "\<exists>payload. fst (runProcess w (execLauncher pw shell) req) = [RanProcess req, Sent ''exit-status'' payload] \<and>
     length payload = 4 \<and> (word_rcat payload :: 32 word) = word_of_int code"
  using assms encodeUint32_rcat[of "word_of_int code"]
  by (auto simp: runProcess_def execLauncher_def Let_def exitCall_def encodeUint32_def split: option.split)

theorem runProcess_exit_status_witness:
  "\<exists>payload. fst (runProcess demoSess (execLauncher \<lparr>pwEnviron = [], pwStart = (\<lambda>a e. None), pwWait = (\<lambda>a e. WaitExit (-1))\<rparr> [])
       (demoProcess ''kill -9 $$'' None)) = [RanProcess (demoProcess ''kill -9 $$'' None), Sent ''exit-status'' payload] \<and>
     (word_rcat payload :: 32 word) = 4294967295"
  using runProcess_exit_status[of "\<lparr>pwEnviron = [], pwStart = (\<lambda>a e. None), pwWait = (\<lambda>a e. WaitExit (-1))\<rparr>" "[]"
      "demoProcess ''kill -9 $$'' None" "-1" demoSess] by auto

end
