(* ===== verification/ServerListen.thy ===== *)
theory ServerListen
  imports ServerOptions Dialer
begin

text \<open>
  The addresses the server listens on (\<^verbatim>\<open>Listen\<close> and its helpers in
  \<^verbatim>\<open>pkg/sshserver/ssh.go\<close>).  \<^verbatim>\<open>net.Listen\<close> is an argument; a listener is an
  opaque handle.
\<close>

section \<open>Listening addresses\<close>

definition parseListenAddress :: "string \<Rightarrow> string \<times> string \<times> bool" where
  "parseListenAddress raw0 =
     (let raw1 = trimSpace raw0;
          raw = (case indexOf (toLower raw1) '' rdomain '' of
                   Some (Suc i) \<Rightarrow> trimSpace (take (Suc i) raw1)
                 | _ \<Rightarrow> raw1)
      in if hasPrefix raw ''['' then
           (case indexByte raw CHR '']'' of
              None \<Rightarrow> (raw, [], False)
            | Some e \<Rightarrow>
                (let host = take (e - 1) (drop 1 raw); rest = drop (e + 1) raw
                 in if hasPrefix rest '':'' then (host, drop 1 rest, True) else (host, [], False)))
         else if countByte raw CHR '':'' = 1 then
           (case netSplitHostPort raw of
              Some (h, p) \<Rightarrow> (h, p, True)
            | None \<Rightarrow> (raw, [], False))
         else (raw, [], False))"

definition expandListenAddresses :: "ServerOptions \<Rightarrow> string list" where
  "expandListenAddresses opts =
     (let ports = (if sPorts opts = [] then [22] else sPorts opts)
      in if sListenAddress opts = [] then map (\<lambda>p. JoinHostPort [] (itoaInt p)) ports
         else concat (map (\<lambda>raw.
                let (host, port, hasPort) = parseListenAddress raw
                in if hasPort then [JoinHostPort host port]
                   else map (\<lambda>p. JoinHostPort host (itoaInt p)) ports) (sListenAddress opts)))"

text \<open>The loop opens the addresses in turn; when one fails those opened so far are closed.
  The answer is the result and the listeners closed on the way.\<close>

primrec listenLoop ::
  "(string \<Rightarrow> go_error + handle) \<Rightarrow> string list \<Rightarrow> handle list \<Rightarrow> (go_error + handle list) \<times> handle list" where
  "listenLoop listen [] listeners = (Inr listeners, [])"
| "listenLoop listen (addr # addrs) listeners =
     (case listen addr of
        Inl err \<Rightarrow> (Inl (Wrapf ''listening on %s: %w'' [addr] err), listeners)
      | Inr l \<Rightarrow> listenLoop listen addrs (listeners @ [l]))"

definition listenNetwork :: "ServerOptions \<Rightarrow> string" where
  "listenNetwork opts =
     (case sAddressFamily opts of
        Some fam \<Rightarrow>
          if toLower fam = ''inet'' then ''tcp4''
          else if toLower fam = ''inet6'' then ''tcp6'' else ''tcp''
      | None \<Rightarrow> ''tcp'')"

definition Listen ::
  "(string \<Rightarrow> string \<Rightarrow> go_error + handle) \<Rightarrow> ServerOptions \<Rightarrow> (go_error + handle list) \<times> handle list" where
  "Listen listen opts =
     (let addrs = expandListenAddresses opts
      in if addrs = [] then (Inl (Errorf ''no listen addresses configured'' []), [])
         else listenLoop (listen (listenNetwork opts)) addrs [])"

section \<open>Properties\<close>

lemma listenLoop_result:
  "case listenLoop listen addrs ls of
     (Inr out, closed) \<Rightarrow> closed = [] \<and> (\<exists>new. out = ls @ new \<and> map listen addrs = map Inr new)
   | (Inl err, closed) \<Rightarrow> (\<exists>n new. closed = ls @ new \<and> n < length addrs \<and>
        map listen (take n addrs) = map Inr new \<and> (\<exists>e. listen (addrs ! n) = Inl e))"
proof (induction addrs arbitrary: ls)
  case (Cons a addrs)
  show ?case
  proof (cases "listen a")
    case (Inl e)
    then show ?thesis by (auto intro!: exI[of _ 0])
  next
    case (Inr l)
    show ?thesis
    proof (cases "listenLoop listen addrs (ls @ [l])")
      case (Pair r closed)
      note IH = Cons.IH[of "ls @ [l]", unfolded Pair prod.case]
      show ?thesis
      proof (cases r)
        case (Inr out)
        then obtain new where "closed = []" "out = (ls @ [l]) @ new" "map listen addrs = map Inr new"
          using IH by auto
        then show ?thesis using Pair Inr \<open>listen a = Inr l\<close> by (auto intro!: exI[of _ "l # new"])
      next
        case (Inl err)
        then obtain n new e where "closed = (ls @ [l]) @ new" "n < length addrs"
          "map listen (take n addrs) = map Inr new" "listen (addrs ! n) = Inl e" using IH by auto
        then show ?thesis using Pair Inl \<open>listen a = Inr l\<close>
          by (auto intro!: exI[of _ "Suc n"] exI[of _ "l # new"])
      qed
    qed
  qed
qed simp

lemma expandListenAddresses_not_Nil: "expandListenAddresses opts \<noteq> []"
proof (cases "sListenAddress opts")
  case (Cons raw raws)
  then show ?thesis
    by (cases "parseListenAddress raw") (auto simp: expandListenAddresses_def Let_def)
qed (simp add: expandListenAddresses_def Let_def)

text \<open>C31: the server listens on all its addresses or on none: when one address fails, every
  listener opened before it, and nothing else, has been closed.\<close>

theorem Listen_all_or_none:
  "case Listen netListen opts of
     (Inr out, closed) \<Rightarrow> closed = [] \<and>
        map (netListen (listenNetwork opts)) (expandListenAddresses opts) = map Inr out
   | (Inl err, closed) \<Rightarrow> \<exists>n < length (expandListenAddresses opts).
        map (netListen (listenNetwork opts)) (take n (expandListenAddresses opts)) = map Inr closed \<and>
        (\<exists>e. netListen (listenNetwork opts) (expandListenAddresses opts ! n) = Inl e)"
  using listenLoop_result[where listen = "netListen (listenNetwork opts)" and addrs = "expandListenAddresses opts"
      and ls = "[]"]
    expandListenAddresses_not_Nil[of opts]
  by (simp add: Listen_def Let_def split: prod.splits sum.splits)

end
