(* ===== verification/ServerForward.thy ===== *)
theory ServerForward
  imports ServerSession ServerListen
begin

text \<open>
  TCP forwarding by the server (\<^verbatim>\<open>pkg/sshserver/default_forward.go\<close> and the
  permission checks of \<^verbatim>\<open>ssh.go\<close>): what a client may open, the channels it opens
  itself, the listeners it asks for, and the forwarder they share as a state machine.
  Sockets, channels and the wire format of the SSH library are arguments.
\<close>

section \<open>Forwarding permissions\<close>

definition allowedBy :: "string option \<Rightarrow> string \<Rightarrow> bool" where
  "allowedBy setting direction =
     (case setting of
        None \<Rightarrow> True
      | Some s \<Rightarrow>
          (let v = toLower s in
           if v = ''no'' then False
           else if v = ''yes'' \<or> v = ''all'' then True
           else if v = ''local'' then direction = ''local''
           else if v = ''remote'' then direction = ''remote''
           else True))"

definition tcpForwardingAllowed :: "ServerOptions \<Rightarrow> string \<Rightarrow> bool" where
  "tcpForwardingAllowed opts direction =
     (if sDisableForwarding opts = Some True then False
      else allowedBy (sAllowTcpForwarding opts) direction)"

definition streamLocalAllowed :: "ServerOptions \<Rightarrow> string \<Rightarrow> bool" where
  "streamLocalAllowed opts direction =
     (if sDisableForwarding opts = Some True then False
      else allowedBy (sAllowStreamLocalForwarding opts) direction)"

primrec permitLoop :: "(string \<Rightarrow> bool) \<Rightarrow> string list \<Rightarrow> bool" where
  "permitLoop fits [] = False"
| "permitLoop fits (p # ps) =
     (if p = ''any'' then True
      else if p = ''none'' then False
      else if fits p then True else permitLoop fits ps)"

definition permitOpenAllows :: "string \<Rightarrow> string list \<Rightarrow> bool" where
  "permitOpenAllows dest permits =
     (if permits = [] then True else permitLoop (\<lambda>p. p = dest) permits)"

definition forwardKey :: "string \<Rightarrow> 32 word \<Rightarrow> string" where
  "forwardKey bindAddr bindPort = JoinHostPort bindAddr (itoaInt (uint bindPort))"

definition permitListenAllows :: "string \<Rightarrow> 32 word \<Rightarrow> string list \<Rightarrow> bool" where
  "permitListenAllows bindAddr bindPort permits =
     (if permits = [] then True
      else permitLoop (\<lambda>p. p = JoinHostPort bindAddr (itoaInt (uint bindPort)) \<or>
                           p = itoaInt (uint bindPort)) permits)"

section \<open>Channels opened by the client\<close>

datatype FwdOut =
    ChanReject string string
  | TargetDial string
  | ChanAccept
  | TargetClose
  | DiscardRequests
  | Piped

record FwdWorld =
  uDirect :: "bytes \<Rightarrow> go_error + string \<times> 32 word \<times> string \<times> 32 word"
  fwDial :: "Dialer \<Rightarrow> string \<Rightarrow> string \<Rightarrow> go_error option"
  fwAccept :: "go_error option"
  fwReject :: "string \<Rightarrow> string \<Rightarrow> go_error option"

definition HandleDirectTcpIP ::
  "FwdWorld \<Rightarrow> ServerOptions \<Rightarrow> bytes \<Rightarrow> FwdOut list \<times> go_error option" where
  "HandleDirectTcpIP w opts extra =
     (let reject = (\<lambda>reason m. ([ChanReject reason m], fwReject w reason m)) in
      case uDirect w extra of
        Inl err \<Rightarrow> reject ''ConnectionFailed'' ''invalid direct-tcpip payload''
      | Inr (host, port, originHost, originPort) \<Rightarrow>
          (let dest = JoinHostPort host (itoaInt (uint port)) in
           if \<not> permitOpenAllows dest (sPermitOpen opts)
           then reject ''Prohibited'' ''destination not permitted''
           else case fwDial w (GetDialer (sDialerConfig opts)) ''tcp'' dest of
             Some err \<Rightarrow>
               ([TargetDial dest, ChanReject ''ConnectionFailed'' (errText err)],
                fwReject w ''ConnectionFailed'' (errText err))
           | None \<Rightarrow>
               (case fwAccept w of
                  Some err \<Rightarrow> ([TargetDial dest, ChanAccept, TargetClose], Some err)
                | None \<Rightarrow> ([TargetDial dest, ChanAccept, DiscardRequests, Piped, Piped], None))))"

text \<open>One direction of a pipe: the copy, then both ends are closed, those that can be.\<close>

datatype PipeOut = CopyAll | CloseDst | CloseSrc

definition pipeClose :: "bool \<Rightarrow> bool \<Rightarrow> PipeOut list" where
  "pipeClose dstCloser srcCloser =
     [CopyAll] @ (if dstCloser then [CloseDst] else []) @ (if srcCloser then [CloseSrc] else [])"

section \<open>Remote forwards\<close>

type_synonym forwards = "string \<rightharpoonup> handle"

text \<open>\<^verbatim>\<open>net.Listen\<close> answers with the listener and the port it got.\<close>

definition StartRemoteForward ::
  "(string \<Rightarrow> string \<Rightarrow> go_error + handle \<times> 32 word) \<Rightarrow> ServerOptions \<Rightarrow> string \<Rightarrow> 32 word \<Rightarrow>
   forwards \<Rightarrow> (go_error + 32 word) \<times> forwards" where
  "StartRemoteForward listen opts bindAddr bindPort fwds =
     (if \<not> permitListenAllows bindAddr bindPort (sPermitListen opts)
      then (Inl (Errorf ''listen not permitted'' []), fwds)
      else case listen ''tcp'' (JoinHostPort bindAddr (itoaInt (uint bindPort))) of
        Inl err \<Rightarrow> (Inl err, fwds)
      | Inr (listener, actualPort) \<Rightarrow>
          (Inr actualPort, fwds(forwardKey bindAddr actualPort \<mapsto> listener)))"

text \<open>The answer holds the listener that was closed.\<close>

definition StopRemoteForward ::
  "(handle \<Rightarrow> go_error option) \<Rightarrow> string \<Rightarrow> 32 word \<Rightarrow> forwards \<Rightarrow>
   go_error option \<times> handle option \<times> forwards" where
  "StopRemoteForward close bindAddr bindPort fwds =
     (let key = forwardKey bindAddr bindPort in
      case fwds key of
        None \<Rightarrow> (Some (Errorf ''no such forward: %s'' [key]), None, fwds)
      | Some listener \<Rightarrow> (close listener, Some listener, fwds(key := None)))"

text \<open>A connection that a listener accepted: a channel is opened for it, or it is closed.\<close>

datatype DispatchOut = ChanOpen string bytes | RawClose | FwdDiscard | FwdPiped

definition dispatchForwarded ::
  "(string \<times> 32 word \<times> string \<times> 32 word \<Rightarrow> bytes) \<Rightarrow> (string \<Rightarrow> bytes \<Rightarrow> go_error option) \<Rightarrow>
   string \<times> int \<Rightarrow> string \<Rightarrow> 32 word \<Rightarrow> DispatchOut list" where
  "dispatchForwarded marshal open origin bindAddr bindPort =
     (let payload = marshal (bindAddr, bindPort, fst origin, word_of_int (snd origin)) in
      case open ''forwarded-tcpip'' payload of
        Some err \<Rightarrow> [ChanOpen ''forwarded-tcpip'' payload, RawClose]
      | None \<Rightarrow> [ChanOpen ''forwarded-tcpip'' payload, FwdDiscard, FwdPiped, FwdPiped])"

section \<open>The forwarder as a state machine\<close>

text \<open>
  One forwarder serves all connections.  Its state is the map of the code, the listeners
  that are open, with the address and port they were asked and told for, and the accept
  loops that run, each for the connection that started it.  A step is an event; the
  operating system gives every listener a new handle and never opens an address that is
  already open.
\<close>

type_synonym conn = nat

datatype FwdEvent =
    EvStart conn string "32 word" handle "32 word"
  | EvStop conn string "32 word"
  | EvAccept conn handle string "32 word"
  | EvAcceptError conn handle string "32 word"

record FwdState =
  fsForwards :: forwards
  fsOpen :: "(handle \<times> string \<times> 32 word) set"
  fsLoops :: "(handle \<times> string \<times> 32 word \<times> conn) set"

definition fwdInit :: FwdState where
  "fwdInit = \<lparr>fsForwards = Map.empty, fsOpen = {}, fsLoops = {}\<rparr>"

inductive fwdStep :: "ServerOptions \<Rightarrow> FwdState \<Rightarrow> FwdEvent \<Rightarrow> FwdState \<Rightarrow> bool"
  for opts :: ServerOptions where
  step_start:
    "StartRemoteForward (\<lambda>n ad. Inr (l, q)) opts a p (fsForwards s) = (Inr q, f) \<Longrightarrow>
     l \<notin> fst ` fsOpen s \<Longrightarrow> (a, q) \<notin> snd ` fsOpen s \<Longrightarrow>
     fwdStep opts s (EvStart c a p l q)
       \<lparr>fsForwards = f, fsOpen = insert (l, a, q) (fsOpen s), fsLoops = insert (l, a, q, c) (fsLoops s)\<rparr>"
| step_stop:
    "StopRemoteForward (\<lambda>h. None) a p (fsForwards s) = (None, Some l, f) \<Longrightarrow>
     fwdStep opts s (EvStop c a p)
       (s\<lparr>fsForwards := f, fsOpen := {x \<in> fsOpen s. fst x \<noteq> l}\<rparr>)"
| step_accept:
    "(l, a, q, c) \<in> fsLoops s \<Longrightarrow> l \<in> fst ` fsOpen s \<Longrightarrow> fwdStep opts s (EvAccept c l a q) s"
| step_accept_error:
    "(l, a, q, c) \<in> fsLoops s \<Longrightarrow>
     fwdStep opts s (EvAcceptError c l a q) (s\<lparr>fsLoops := fsLoops s - {(l, a, q, c)}\<rparr>)"

inductive_cases fwdStep_StartE: "fwdStep opts s (EvStart c a p l q) t"
inductive_cases fwdStep_StopE: "fwdStep opts s (EvStop c a p) t"
inductive_simps fwdStep_Stop_iff: "fwdStep opts s (EvStop c a p) t"

inductive fwdReach :: "ServerOptions \<Rightarrow> FwdState \<Rightarrow> bool" for opts :: ServerOptions where
  reach_init: "fwdReach opts fwdInit"
| reach_step: "fwdReach opts s \<Longrightarrow> fwdStep opts s e t \<Longrightarrow> fwdReach opts t"

section \<open>Lemmas\<close>

text \<open>The key of a forward determines its address and port.\<close>

lemma append_colon_eq:
  assumes "s @ CHR '':'' # p = t @ CHR '':'' # q" and "CHR '':'' \<notin> set p" and "CHR '':'' \<notin> set q"
  shows "s = t \<and> p = q"
proof -
  have "Some (length s) = Some (length t)"
    using assms lastIndexByte_append[of "CHR '':''" p s] lastIndexByte_append[of "CHR '':''" q t] by simp
  then show ?thesis using assms(1) by simp
qed

lemma colon_itoaInt: "CHR '':'' \<notin> set (itoaInt (uint (p :: 32 word)))"
proof -
  have "list_all isDigit (itoaInt (uint p))"
    using natDigits_isDigit by (simp add: itoaInt_def)
  moreover have "\<not> isDigit CHR '':''" by code_simp
  ultimately show ?thesis by (auto simp: list_all_iff)
qed

lemma itoaInt_inj: "itoaInt (uint (p :: 32 word)) = itoaInt (uint q) \<Longrightarrow> p = q"
proof -
  assume "itoaInt (uint p) = itoaInt (uint q)"
  moreover have "atoi (itoaInt (uint r)) = Some (uint r)" for r :: "32 word"
    using uint_lt2p[of r] by (intro atoi_itoaInt) (auto simp: minInt_def maxInt_def intro: order_trans[of _ 0])
  ultimately show "p = q" by (metis option.inject word_uint_eq_iff)
qed

lemma forwardKey_inj [simp]: "forwardKey a p = forwardKey b q \<longleftrightarrow> a = b \<and> p = q"
proof
  assume k: "forwardKey a p = forwardKey b q"
  let ?h = "\<lambda>a. if CHR '':'' \<in> set a then ''['' @ a @ '']'' else a"
  have j: "forwardKey a p = ?h a @ CHR '':'' # itoaInt (uint p)" for a p
    by (simp add: forwardKey_def JoinHostPort_def)
  have "?h a = ?h b" "itoaInt (uint p) = itoaInt (uint q)"
    using append_colon_eq[OF k[unfolded j]] colon_itoaInt by auto
  then show "a = b \<and> p = q" using itoaInt_inj by (auto split: if_splits)
qed simp

lemma fwdStep_Start_map:
  "fwdStep opts s (EvStart c a p l q) t \<Longrightarrow>
   fsForwards t = (fsForwards s)(forwardKey a q \<mapsto> l) \<and> permitListenAllows a p (sPermitListen opts)"
  by (erule fwdStep_StartE) (auto simp: StartRemoteForward_def split: if_splits)

text \<open>The invariant: the map holds exactly the open listeners, each handle is open once, and
  each was permitted for the port it was asked for.\<close>

definition fwdInv :: "ServerOptions \<Rightarrow> FwdState \<Rightarrow> bool" where
  "fwdInv opts s \<longleftrightarrow>
     (\<forall>l a q. (l, a, q) \<in> fsOpen s \<longleftrightarrow> fsForwards s (forwardKey a q) = Some l) \<and>
     inj_on fst (fsOpen s) \<and> finite (fsOpen s) \<and>
     dom (fsForwards s) \<subseteq> range (\<lambda>(a, q). forwardKey a q) \<and>
     (\<forall>(l, a, q) \<in> fsOpen s. \<exists>p. permitListenAllows a p (sPermitListen opts))"

lemma fwdInv_init: "fwdInv opts fwdInit"
  by (simp add: fwdInv_def fwdInit_def)

lemma fwdInv_start:
  assumes "fwdInv opts s" and "f = (fsForwards s)(forwardKey a q \<mapsto> l)"
    and "l \<notin> fst ` fsOpen s" and "(a, q) \<notin> snd ` fsOpen s" and "permitListenAllows a p (sPermitListen opts)"
  shows "fwdInv opts \<lparr>fsForwards = f, fsOpen = insert (l, a, q) (fsOpen s), fsLoops = L\<rparr>"
  unfolding fwdInv_def
proof (intro conjI allI)
  fix l' a' q'
  have "fsForwards s (forwardKey a q) = None"
    using assms(1,4) unfolding fwdInv_def by (metis not_None_eq image_eqI snd_conv)
  then show "(l', a', q') \<in> fsOpen \<lparr>fsForwards = f, fsOpen = insert (l, a, q) (fsOpen s), fsLoops = L\<rparr> \<longleftrightarrow>
      fsForwards \<lparr>fsForwards = f, fsOpen = insert (l, a, q) (fsOpen s), fsLoops = L\<rparr> (forwardKey a' q') = Some l'"
    using assms(1,2) unfolding fwdInv_def by auto
qed (use assms in \<open>auto simp: fwdInv_def image_iff inj_on_def\<close>)

lemma fwdInv_unique:
  "fwdInv opts s \<Longrightarrow> (l, a, p) \<in> fsOpen s \<Longrightarrow> (l, b, q) \<in> fsOpen s \<Longrightarrow> b = a \<and> q = p"
  unfolding fwdInv_def inj_on_def by (metis fst_conv prod.inject)

lemma fwdInv_stop:
  assumes "fwdInv opts s" and "fsForwards s (forwardKey a p) = Some l"
  shows "fwdInv opts (s\<lparr>fsForwards := (fsForwards s)(forwardKey a p := None),
      fsOpen := {x \<in> fsOpen s. fst x \<noteq> l}\<rparr>) \<and>
    {x \<in> fsOpen s. fst x \<noteq> l} = fsOpen s - {(l, a, p)}"
proof -
  have o: "(l, a, p) \<in> fsOpen s" using assms by (simp add: fwdInv_def)
  then have e: "{x \<in> fsOpen s. fst x \<noteq> l} = fsOpen s - {(l, a, p)}"
    using fwdInv_unique[OF assms(1)] by auto
  have "inj_on fst (fsOpen s - {(l, a, p)})"
    using assms(1) by (auto simp: fwdInv_def intro: inj_on_diff)
  then show ?thesis using assms o unfolding e by (auto simp: fwdInv_def)
qed

lemma StopRemoteForward_Some:
  "StopRemoteForward (\<lambda>h. None) a p fwds = (None, Some l, f) \<longleftrightarrow>
   fwds (forwardKey a p) = Some l \<and> f = fwds(forwardKey a p := None)"
  by (auto simp: StopRemoteForward_def Let_def split: option.splits)

lemma fwdInv_step: "fwdStep opts s e t \<Longrightarrow> fwdInv opts s \<Longrightarrow> fwdInv opts t"
proof (induction rule: fwdStep.induct)
  case (step_start l q a p s f c)
  then have "f = (fsForwards s)(forwardKey a q \<mapsto> l)" "permitListenAllows a p (sPermitListen opts)"
    by (auto simp: StartRemoteForward_def split: if_splits)
  then show ?case using step_start fwdInv_start by blast
next
  case (step_stop a p s l f c)
  then show ?case using fwdInv_stop by (simp add: StopRemoteForward_Some)
qed (auto simp: fwdInv_def)

section \<open>Properties\<close>



text \<open>A connection cancels forwards, one after the other.\<close>

inductive cancelsAll :: "ServerOptions \<Rightarrow> conn \<Rightarrow> FwdState \<Rightarrow> FwdState \<Rightarrow> bool"
  for opts :: ServerOptions and c :: conn where
  cancelsAll_done: "cancelsAll opts c s s"
| cancelsAll_more:
    "fwdStep opts s (EvStop c a p) t \<Longrightarrow> cancelsAll opts c t u \<Longrightarrow> cancelsAll opts c s u"

lemma cancel_open:
  assumes "fwdInv opts s" and "(l, a, q) \<in> fsOpen s"
  obtains t where "fwdStep opts s (EvStop c a q) t" and "fwdInv opts t"
    and "fsOpen t = fsOpen s - {(l, a, q)}" and "fsLoops t = fsLoops s"
proof -
  have f: "fsForwards s (forwardKey a q) = Some l" using assms by (simp add: fwdInv_def)
  let ?t = "s\<lparr>fsForwards := (fsForwards s)(forwardKey a q := None), fsOpen := {x \<in> fsOpen s. fst x \<noteq> l}\<rparr>"
  have "fwdStep opts s (EvStop c a q) ?t"
    by (rule step_stop) (simp add: StopRemoteForward_Some f)
  then show ?thesis using fwdInv_stop[OF assms(1) f] that by auto
qed

text \<open>Whichever connection it is, it can cancel every forward of every other: from each
  state the forwarder reaches, cancellations by one connection alone close all
  listeners.  The forwarder does not know whose forward is whose.\<close>

theorem forwarder_cancel_by_anyone:
  assumes "fwdReach opts s"
  shows "\<exists>t. cancelsAll opts c s t \<and> fsOpen t = {} \<and> fsForwards t = Map.empty"
proof -
  have "fwdInv opts s" using assms by induction (auto intro: fwdInv_init fwdInv_step)
  then have "\<exists>t. cancelsAll opts c s t \<and> fsOpen t = {} \<and> fwdInv opts t"
  proof (induction "card (fsOpen s)" arbitrary: s)
    case 0
    then have "fsOpen s = {}" by (auto simp: fwdInv_def)
    then show ?case using cancelsAll_done 0 by metis
  next
    case (Suc n)
    then obtain l a q where o: "(l, a, q) \<in> fsOpen s" by (cases "fsOpen s = {}") auto
    obtain t where t: "fwdStep opts s (EvStop c a q) t" "fwdInv opts t" "fsOpen t = fsOpen s - {(l, a, q)}"
      using cancel_open[OF Suc.prems o] by metis
    have "n = card (fsOpen t)" using Suc.hyps(2) t(3) o Suc.prems by (simp add: fwdInv_def)
    from Suc.hyps(1)[OF this t(2)] show ?case using cancelsAll_more[OF t(1)] by metis
  qed
  moreover have "fsOpen t = {} \<Longrightarrow> fwdInv opts t \<Longrightarrow> fsForwards t = Map.empty" for t
  proof (rule ext)
    fix k
    assume "fsOpen t = {}" "fwdInv opts t"
    then show "fsForwards t k = None" unfolding fwdInv_def
      by (cases "k \<in> dom (fsForwards t)") (auto simp: dom_def)
  qed
  ultimately show ?thesis by metis
qed


theorem forwarder_cancel_by_anyone_witness:
  "\<exists>t. cancelsAll sshdEmptyOptions 2 (fwdInit\<lparr>fsForwards := [forwardKey ''h'' 80 \<mapsto> 5],
      fsOpen := {(5, ''h'', 80)}, fsLoops := {(5, ''h'', 80, 1)}\<rparr>) t \<and> fsOpen t = {}"
proof -
  let ?t = "fwdInit\<lparr>fsForwards := [forwardKey ''h'' 80 \<mapsto> 5], fsOpen := {(5, ''h'', 80)},
      fsLoops := {(5, ''h'', 80, 1)}\<rparr>"
  have "fwdStep sshdEmptyOptions fwdInit (EvStart 1 ''h'' 0 5 80) ?t"
    using step_start[of 5 80 sshdEmptyOptions "''h''" 0 fwdInit "[forwardKey ''h'' 80 \<mapsto> 5]" 1]
    by (simp add: fwdInit_def StartRemoteForward_def permitListenAllows_def sshdEmptyOptions_def)
  then have "fwdReach sshdEmptyOptions ?t" by (rule reach_step[OF reach_init])
  from forwarder_cancel_by_anyone[OF this, of 2] show ?thesis by metis
qed

text \<open>A remote forward that has been started is stopped by the address and the port the
  client was told, which closes its listener and leaves the other forwards as they were;
  GatewayPorts has no say in the address that is opened.\<close>

theorem remote_forward_start_stop:
  assumes "StartRemoteForward listen opts a p fwds = (Inr q, fwds')"
  shows "\<exists>l. listen ''tcp'' (JoinHostPort a (itoaInt (uint p))) = Inr (l, q) \<and>
     permitListenAllows a p (sPermitListen opts) \<and>
     StopRemoteForward close a q fwds' = (close l, Some l, fwds(forwardKey a q := None)) \<and>
     StartRemoteForward listen (opts\<lparr>sGatewayPorts := g\<rparr>) a p fwds = (Inr q, fwds')"
  using assms
  by (auto simp: StartRemoteForward_def StopRemoteForward_def split: if_splits sum.splits)

theorem remote_forward_start_stop_witness:
  "\<exists>l. StopRemoteForward (\<lambda>l. None) ''0.0.0.0'' 8080 [forwardKey ''0.0.0.0'' 8080 \<mapsto> 7] =
     (None, Some l, Map.empty)"
proof -
  let ?listen = "\<lambda>n a. Inr (7, 8080) :: go_error + handle \<times> 32 word"
  have "StartRemoteForward ?listen (sshdEmptyOptions\<lparr>sGatewayPorts := Some ''no''\<rparr>) ''0.0.0.0'' 0 Map.empty =
      (Inr 8080, [forwardKey ''0.0.0.0'' 8080 \<mapsto> 7])"
    by (simp add: StartRemoteForward_def permitListenAllows_def sshdEmptyOptions_def)
  from remote_forward_start_stop[OF this, of "\<lambda>l. None" None] show ?thesis by auto
qed

end
