(* ===== verification/KeyLib.thy ===== *)
theory KeyLib
  imports ConfTypes
begin

text \<open>
  What the code uses of the SSH library's keys and of the file system: parsing,
  certificates, fingerprints.  All of it is an argument (record \<^verbatim>\<open>KeyLib\<close>); a key, a
  certificate and a signer are values of any type.  Files and keys in wire form are
  byte strings.  The keys of a file are those its successive parses yield.
\<close>

record ('pub, 'cert, 'signer) KeyLib =
  klReadFile :: "string \<Rightarrow> go_error + string"
  klParsePrivate :: "string \<Rightarrow> go_error + 'signer"
  klPassphraseMissing :: "go_error \<Rightarrow> bool"
  klParseWithPassphrase :: "string \<Rightarrow> string \<Rightarrow> go_error + 'signer"
  klParseAuthorized :: "string \<Rightarrow> go_error + 'pub \<times> string"
  klAsCert :: "'pub \<Rightarrow> 'cert option"
  klCertKey :: "'cert \<Rightarrow> 'pub"
  klNewCertSigner :: "'cert \<Rightarrow> 'signer \<Rightarrow> go_error + 'signer"
  klPublic :: "'signer \<Rightarrow> 'pub"
  klFingerprint :: "'pub \<Rightarrow> string"
  klMarshal :: "'pub \<Rightarrow> string"

text \<open>The parser of authorized keys returns a proper remainder of its input.\<close>

definition parseShrinks :: "('pub, 'cert, 'signer) KeyLib \<Rightarrow> bool" where
  "parseShrinks lib \<longleftrightarrow>
     (\<forall>d k r. klParseAuthorized lib d = Inr (k, r) \<longrightarrow> length r < length d)"

lemma parseShrinksD:
  "parseShrinks lib \<Longrightarrow> klParseAuthorized lib d = Inr (k, r) \<Longrightarrow> length r < length d"
  by (simp add: parseShrinks_def)

inductive keyIn :: "('pub, 'cert, 'signer) KeyLib \<Rightarrow> string \<Rightarrow> 'pub \<Rightarrow> bool"
  for lib :: "('pub, 'cert, 'signer) KeyLib" where
  keyIn_here: "d \<noteq> [] \<Longrightarrow> klParseAuthorized lib d = Inr (k, r) \<Longrightarrow> keyIn lib d k"
| keyIn_later: "d \<noteq> [] \<Longrightarrow> klParseAuthorized lib d = Inr (k', r) \<Longrightarrow> keyIn lib r k \<Longrightarrow> keyIn lib d k"

inductive_simps keyIn_iff: "keyIn lib d k"

lemma keyIn_Nil [simp]: "\<not> keyIn lib [] k"
  by (simp add: keyIn_iff[of lib "[]"])

lemma keyIn_err: "klParseAuthorized lib d = Inl e \<Longrightarrow> \<not> keyIn lib d k"
  by (simp add: keyIn_iff[of lib d])

lemma keyIn_step:
  "d \<noteq> [] \<Longrightarrow> klParseAuthorized lib d = Inr (k', r) \<Longrightarrow> keyIn lib d k \<longleftrightarrow> k = k' \<or> keyIn lib r k"
  by (auto simp: keyIn_iff[of lib d])

text \<open>Induction along the parses of a file.\<close>

lemma parse_induct [consumes 1, case_names empty error key]:
  assumes "parseShrinks lib"
    and "P []"
    and "\<And>d e. d \<noteq> [] \<Longrightarrow> klParseAuthorized lib d = Inl e \<Longrightarrow> P d"
    and "\<And>d k r. d \<noteq> [] \<Longrightarrow> klParseAuthorized lib d = Inr (k, r) \<Longrightarrow> P r \<Longrightarrow> P d"
  shows "P d"
proof (induction d rule: length_induct)
  case (1 d)
  show ?case
  proof (cases "d = []")
    case False
    show ?thesis
    proof (cases "klParseAuthorized lib d")
      case (Inl e)
      then show ?thesis using assms(3) False by blast
    next
      case (Inr kr)
      obtain k r where "kr = (k, r)" by (cases kr)
      then show ?thesis using assms(4)[OF False] Inr 1 parseShrinksD[OF assms(1)] by blast
    qed
  qed (simp add: assms(2))
qed

text \<open>A library for the witnesses: a file is keys of one letter, a certificate is a capital
  letter whose key is the small one.\<close>

definition demoLib :: "(string \<Rightarrow> go_error + string) \<Rightarrow> (char, char, char) KeyLib" where
  "demoLib read =
     \<lparr>klReadFile = read,
      klParsePrivate = (\<lambda>d. case d of c # _ \<Rightarrow> Inr c | [] \<Rightarrow> Inl (ErrExt ''no key'')),
      klPassphraseMissing = (\<lambda>e. False),
      klParseWithPassphrase = (\<lambda>d p. Inl (ErrExt ''no key'')),
      klParseAuthorized = (\<lambda>d. case d of c # r \<Rightarrow> Inr (c, r) | [] \<Rightarrow> Inl (ErrExt ''no key'')),
      klAsCert = (\<lambda>k. if k = upperChar k then Some k else None),
      klCertKey = lowerChar,
      klNewCertSigner = (\<lambda>c s. Inr c),
      klPublic = id,
      klFingerprint = (\<lambda>k. [k]),
      klMarshal = (\<lambda>k. [k])\<rparr>"

lemma parseShrinks_demo [simp]: "parseShrinks (demoLib read)"
  by (auto simp: parseShrinks_def demoLib_def split: list.splits)

end
