(* ===== verification/ServerAuth.thy ===== *)
theory ServerAuth
  imports KeyLib Helpers Algorithms ServerSession
begin

text \<open>
  Authentication on the server: the access control and authenticators of
  \<^verbatim>\<open>pkg/sshserver/default_auth.go\<close> and the part of \<^verbatim>\<open>ssh.go\<close> that turns the options into
  a configuration of the SSH library.  The key loops may not end for an arbitrary
  parser, so they answer with an option; \<^term>\<open>None\<close> means that the code does not return.
\<close>

type_synonym Permissions = "(string \<times> string) list"

section \<open>Access\<close>

definition userPart :: "string \<Rightarrow> string" where
  "userPart p = (case indexByte p CHR ''@'' of Some i \<Rightarrow> take i p | None \<Rightarrow> p)"

primrec matchAnyWord :: "string \<Rightarrow> string list \<Rightarrow> bool" where
  "matchAnyWord v [] = False"
| "matchAnyWord v (p # ps) = (if matchEnvPattern (userPart p) v then True else matchAnyWord v ps)"

definition CheckAccess :: "string \<Rightarrow> ServerOptions \<Rightarrow> go_error option" where
  "CheckAccess user opts =
     (case sRefuseConnection opts of
        Some m \<Rightarrow>
          if m \<noteq> [] then Some (Errorf ''connection refused: %s'' [m])
          else if sDenyUsers opts \<noteq> [] \<and> matchAnyWord user (sDenyUsers opts)
          then Some (Errorf ''user %s denied by DenyUsers'' [user])
          else if sAllowUsers opts \<noteq> [] \<and> \<not> matchAnyWord user (sAllowUsers opts)
          then Some (Errorf ''user %s not in AllowUsers'' [user])
          else None
      | None \<Rightarrow>
          if sDenyUsers opts \<noteq> [] \<and> matchAnyWord user (sDenyUsers opts)
          then Some (Errorf ''user %s denied by DenyUsers'' [user])
          else if sAllowUsers opts \<noteq> [] \<and> \<not> matchAnyWord user (sAllowUsers opts)
          then Some (Errorf ''user %s not in AllowUsers'' [user])
          else None)"

definition StaticPassword ::
  "(string \<rightharpoonup> string) \<Rightarrow> string \<Rightarrow> string \<Rightarrow> ServerOptions \<Rightarrow> go_error + Permissions" where
  "StaticPassword users user password opts =
     (case users user of
        None \<Rightarrow> Inl (Errorf ''unknown user'' [])
      | Some want \<Rightarrow>
          if want = [] \<or> want \<noteq> password then Inl (Errorf ''password mismatch'' []) else Inr [])"

definition DenyPassword :: "string \<Rightarrow> string \<Rightarrow> ServerOptions \<Rightarrow> go_error + Permissions" where
  "DenyPassword user password opts = Inl (Errorf ''password authentication disabled'' [])"

section \<open>Authorized keys\<close>

partial_function (option) authorizedLoop ::
  "('pub, 'cert, 'signer) KeyLib \<Rightarrow> string \<Rightarrow> string \<Rightarrow> bool option" where
  "authorizedLoop lib keyBytes rest =
     (if rest = [] then Some False
      else case klParseAuthorized lib rest of
        Inl err \<Rightarrow> Some False
      | Inr (auth, next) \<Rightarrow>
          if klMarshal lib auth = keyBytes then Some True else authorizedLoop lib keyBytes next)"

primrec authorizedFiles ::
  "('pub, 'cert, 'signer) KeyLib \<Rightarrow> string \<Rightarrow> string \<Rightarrow> string list \<Rightarrow> bool option" where
  "authorizedFiles lib home keyBytes [] = Some False"
| "authorizedFiles lib home keyBytes (relPath # files) =
     (let path = (if \<not> IsAbs relPath then pathJoin [home, relPath] else relPath) in
      case klReadFile lib path of
        Inl err \<Rightarrow> authorizedFiles lib home keyBytes files
      | Inr data \<Rightarrow>
          (case authorizedLoop lib keyBytes data of
             None \<Rightarrow> None
           | Some found \<Rightarrow> if found then Some True else authorizedFiles lib home keyBytes files))"

definition keyFiles :: "ServerOptions \<Rightarrow> string list" where
  "keyFiles opts =
     (if sAuthorizedKeysFile opts = [] then [''.ssh/authorized_keys'', ''.ssh/authorized_keys2'']
      else sAuthorizedKeysFile opts)"

definition AuthenticatePublicKey ::
  "('pub, 'cert, 'signer) KeyLib \<Rightarrow> (string \<Rightarrow> go_error + string) \<Rightarrow> string \<Rightarrow> 'pub \<Rightarrow> ServerOptions \<Rightarrow>
   (go_error + Permissions) option" where
  "AuthenticatePublicKey lib lookupUser user key opts =
     (case lookupUser user of
        Inl err \<Rightarrow> Some (Inl (Wrapf ''unknown user: %w'' [] err))
      | Inr home \<Rightarrow>
          (case authorizedFiles lib home (klMarshal lib key) (keyFiles opts) of
             None \<Rightarrow> None
           | Some found \<Rightarrow>
               Some (if found then Inr [(''pubkey-fp'', klFingerprint lib key)]
                     else Inl (Errorf ''public key not authorized'' []))))"

section \<open>The configuration of the library\<close>

record ('pub, 'signer) AuthHandlers =
  ahPassword :: "(string \<Rightarrow> string \<Rightarrow> ServerOptions \<Rightarrow> go_error + Permissions) option"
  ahPublicKey :: "(string \<Rightarrow> 'pub \<Rightarrow> ServerOptions \<Rightarrow> (go_error + Permissions) option) option"
  ahKeyboardInteractive :: "(string \<Rightarrow> handle \<Rightarrow> ServerOptions \<Rightarrow> go_error + Permissions) option"
  ahHostbased :: bool
  ahGSSAPI :: "handle option"
  ahHostKeyProvider :: "(ServerOptions \<Rightarrow> go_error + 'signer list) option"
  ahLogger :: bool

record ('pub, 'signer) ServerConfig =
  scVersion :: string
  scCiphers :: "string list"
  scKeyExchanges :: "string list"
  scMACs :: "string list"
  scPublicKeyAuthAlgorithms :: "string list"
  scRekeyThreshold :: "64 word"
  scMaxAuthTries :: int
  scBanner :: "string option"
  scPassword :: "(string \<Rightarrow> string \<Rightarrow> go_error + Permissions) option"
  scPublicKey :: "(string \<Rightarrow> 'pub \<Rightarrow> (go_error + Permissions) option) option"
  scKeyboardInteractive :: "(string \<Rightarrow> handle \<Rightarrow> go_error + Permissions) option"
  scGSSAPI :: "((string \<Rightarrow> string \<Rightarrow> go_error + Permissions) \<times> handle) option"
  scHostKeys :: "'signer list"
  scAuthLog :: bool

definition emptyServerConfig :: "('pub, 'signer) ServerConfig" where
  "emptyServerConfig = \<lparr>scVersion = [], scCiphers = [], scKeyExchanges = [], scMACs = [],
     scPublicKeyAuthAlgorithms = [], scRekeyThreshold = 0, scMaxAuthTries = 0, scBanner = None,
     scPassword = None, scPublicKey = None, scKeyboardInteractive = None, scGSSAPI = None,
     scHostKeys = [], scAuthLog = False\<rparr>"

definition enabled :: "bool option \<Rightarrow> bool" where
  "enabled o1 = (case o1 of Some v \<Rightarrow> v | None \<Rightarrow> False)"

definition passwordCallback ::
  "bool \<Rightarrow> (string \<Rightarrow> string \<Rightarrow> ServerOptions \<Rightarrow> go_error + Permissions) \<Rightarrow> ServerOptions \<Rightarrow>
   string \<Rightarrow> string \<Rightarrow> go_error + Permissions" where
  "passwordCallback passwordEnabled auth opts user password =
     (if \<not> passwordEnabled then Inl (Errorf ''password authentication disabled'' [])
      else if password = [] \<and> \<not> enabled (sPermitEmptyPasswords opts)
      then Inl (Errorf ''empty password rejected'' [])
      else auth user password opts)"

text \<open>Every principal the GSSAPI library has authenticated may log in as any user.\<close>

definition gssAllowLogin :: "string \<Rightarrow> string \<Rightarrow> go_error + Permissions" where
  "gssAllowLogin user srcName = Inr []"

definition wireAuthCallbacks ::
  "('pub, 'signer) ServerConfig \<Rightarrow> ServerOptions \<Rightarrow> ('pub, 'signer) AuthHandlers \<Rightarrow>
   ('pub, 'signer) ServerConfig" where
  "wireAuthCallbacks cfg0 opts h =
     (let passwordEnabled = enabled (sPasswordAuthentication opts);
          pubkeyEnabled = enabled (sPubkeyAuthentication opts);
          kbdEnabled = enabled (sKbdInteractiveAuthentication opts);
          gssEnabled = enabled (sGSSAPIAuthentication opts);
          cfg1 = (case ahPassword h of
                    Some auth \<Rightarrow>
                      if passwordEnabled
                      then cfg0\<lparr>scPassword := Some (passwordCallback passwordEnabled auth opts)\<rparr> else cfg0
                  | None \<Rightarrow> cfg0);
          cfg2 = (case ahPublicKey h of
                    Some auth \<Rightarrow>
                      if pubkeyEnabled then cfg1\<lparr>scPublicKey := Some (\<lambda>user key. auth user key opts)\<rparr> else cfg1
                  | None \<Rightarrow> cfg1);
          cfg3 = (case ahKeyboardInteractive h of
                    Some auth \<Rightarrow>
                      if kbdEnabled
                      then cfg2\<lparr>scKeyboardInteractive := Some (\<lambda>user client. auth user client opts)\<rparr> else cfg2
                  | None \<Rightarrow> cfg2)
      in case ahGSSAPI h of
           Some server \<Rightarrow>
             if gssEnabled then cfg3\<lparr>scGSSAPI := Some (gssAllowLogin, server)\<rparr> else cfg3
         | None \<Rightarrow> cfg3)"

section \<open>Host keys\<close>

primrec certLoop ::
  "('pub, 'cert, 'signer) KeyLib \<Rightarrow> 'signer \<Rightarrow> string list \<Rightarrow> 'signer option" where
  "certLoop lib signer [] = None"
| "certLoop lib signer (cp # cps) =
     (case klReadFile lib cp of
        Inl err \<Rightarrow> certLoop lib signer cps
      | Inr data \<Rightarrow>
          (case klParseAuthorized lib data of
             Inl err \<Rightarrow> certLoop lib signer cps
           | Inr (pub, rest) \<Rightarrow>
               (case klAsCert lib pub of
                  None \<Rightarrow> certLoop lib signer cps
                | Some cert \<Rightarrow>
                    if klFingerprint lib (klPublic lib signer) \<noteq> klFingerprint lib (klCertKey lib cert)
                    then certLoop lib signer cps
                    else (case klNewCertSigner lib cert signer of
                            Inr cs \<Rightarrow> Some cs
                          | Inl err \<Rightarrow> certLoop lib signer cps))))"

definition findHostCertificate ::
  "('pub, 'cert, 'signer) KeyLib \<Rightarrow> string \<Rightarrow> string list \<Rightarrow> 'signer \<Rightarrow> 'signer option" where
  "findHostCertificate lib keyPath explicitCerts signer =
     certLoop lib signer ((keyPath @ ''-cert.pub'') # explicitCerts)"

type_synonym logline = "string \<times> string"

primrec hostKeyLoop ::
  "('pub, 'cert, 'signer) KeyLib \<Rightarrow> bool \<Rightarrow> string list \<Rightarrow> string list \<Rightarrow> 'signer list \<times> logline list" where
  "hostKeyLoop lib logging certs [] = ([], [])"
| "hostKeyLoop lib logging certs (path # paths) =
     (let (signers, logs) = hostKeyLoop lib logging certs paths;
          log = (\<lambda>level fmt err. if logging then [(level, sprintf fmt [path, errText err])] else [])
      in case klReadFile lib path of
           Inl err \<Rightarrow> (signers, log ''DEBUG'' ''skipping host key %s: %v'' err @ logs)
         | Inr data \<Rightarrow>
             (case klParsePrivate lib data of
                Inl err \<Rightarrow> (signers, log ''ERROR'' ''parsing host key %s: %v'' err @ logs)
              | Inr signer \<Rightarrow>
                  (case findHostCertificate lib path certs signer of
                     Some cert \<Rightarrow> (cert # signers, logs)
                   | None \<Rightarrow> (signer # signers, logs))))"

definition loadHostKeys ::
  "('pub, 'cert, 'signer) KeyLib \<Rightarrow> ServerOptions \<Rightarrow> ('pub, 'signer) AuthHandlers \<Rightarrow>
   (go_error + 'signer list) \<times> logline list" where
  "loadHostKeys lib opts h =
     (case ahHostKeyProvider h of
        Some hostKeys \<Rightarrow> (hostKeys opts, [])
      | None \<Rightarrow>
          (let (signers, logs) = hostKeyLoop lib (ahLogger h) (sHostCertificate opts) (sHostKey opts)
           in (Inr signers, logs)))"

section \<open>The server configuration\<close>

definition serverVersion :: "ServerOptions \<Rightarrow> string" where
  "serverVersion opts =
     (case sVersionAddendum opts of
        Some v \<Rightarrow>
          if v \<noteq> ''none'' \<and> v \<noteq> [] then ''SSH-2.0-sshconf '' @ v else ''SSH-2.0-sshconf''
      | None \<Rightarrow> ''SSH-2.0-sshconf'')"

definition rekeyThreshold :: "string option \<Rightarrow> 64 word" where
  "rekeyThreshold o1 =
     (case o1 of
        None \<Rightarrow> 0
      | Some v \<Rightarrow> (let (bytes, seconds) = ParseRekeyLimit v in if bytes > 0 then bytes else 0))"

definition bannerPath :: "ServerOptions \<Rightarrow> string option" where
  "bannerPath opts =
     (case sBanner opts of
        Some b \<Rightarrow> if b \<noteq> ''none'' \<and> b \<noteq> [] then Some b else None
      | None \<Rightarrow> None)"

definition bannerCallback :: "('pub, 'cert, 'signer) KeyLib \<Rightarrow> string \<Rightarrow> string" where
  "bannerCallback lib path = (case klReadFile lib path of Inl err \<Rightarrow> [] | Inr data \<Rightarrow> data)"

definition baseServerConfig :: "AlgLib \<Rightarrow> ServerOptions \<Rightarrow> ('pub, 'signer) ServerConfig" where
  "baseServerConfig algs opts =
     (let alg = (\<lambda>resolve o1. case o1 of Some v \<Rightarrow> resolve algs v | None \<Rightarrow> [])
      in emptyServerConfig\<lparr>
           scVersion := serverVersion opts,
           scCiphers := alg sshdResolveCiphers (sCiphers opts),
           scKeyExchanges := alg sshdResolveKexAlgorithms (sKexAlgorithms opts),
           scMACs := alg sshdResolveMACs (sMACs opts),
           scPublicKeyAuthAlgorithms :=
             alg sshdResolvePubkeyAcceptedAlgorithms (sPubkeyAcceptedAlgorithms opts),
           scRekeyThreshold := rekeyThreshold (sRekeyLimit opts),
           scMaxAuthTries := (case sMaxAuthTries opts of Some n \<Rightarrow> n | None \<Rightarrow> 0),
           scBanner := bannerPath opts\<rparr>)"

definition SSHServerConfig ::
  "AlgLib \<Rightarrow> ('pub, 'cert, 'signer) KeyLib \<Rightarrow> ServerOptions \<Rightarrow> ('pub, 'signer) AuthHandlers \<Rightarrow>
   (go_error + ('pub, 'signer) ServerConfig) \<times> logline list" where
  "SSHServerConfig algs lib opts h =
     (let cfg = wireAuthCallbacks (baseServerConfig algs opts) opts h;
          (keys, logs) = loadHostKeys lib opts h
      in case keys of
           Inl err \<Rightarrow> (Inl (Wrapf ''loading host keys: %w'' [] err), logs)
         | Inr signers \<Rightarrow>
             if signers = [] then (Inl (Errorf ''no host keys available'' []), logs)
             else (Inr (cfg\<lparr>scHostKeys := signers, scAuthLog := ahLogger h\<rparr>), logs))"

text \<open>The line the logger gets for an attempt to authenticate.\<close>

definition authLogCallback :: "string \<Rightarrow> string \<Rightarrow> string \<Rightarrow> go_error option \<Rightarrow> logline" where
  "authLogCallback user addr method authErr =
     (case authErr of
        Some e \<Rightarrow> (''INFO'', sprintf ''auth %s for %s from %s failed: %v'' [method, user, addr, errText e])
      | None \<Rightarrow> (''INFO'', sprintf ''auth %s for %s from %s succeeded'' [method, user, addr]))"

section \<open>Lemmas\<close>

lemma matchAnyWord_iff: "matchAnyWord v ps \<longleftrightarrow> (\<exists>p \<in> set ps. glob (userPart p) v)"
  by (induction ps) (auto simp: me.mtch_glob)


text \<open>The key loop returns, and finds what the file holds.\<close>

lemma authorizedLoop_result:
  assumes "parseShrinks lib"
  shows "authorizedLoop lib kb d = Some (\<exists>k. keyIn lib d k \<and> klMarshal lib k = kb)"
  using assms
proof (induction d rule: parse_induct)
  case empty
  then show ?case by (simp add: authorizedLoop.simps)
next
  case (error d e)
  then show ?case by (simp add: authorizedLoop.simps keyIn_err)
next
  case (key d k r)
  then show ?case by (subst authorizedLoop.simps) (auto simp: keyIn_step)
qed

definition homePath :: "string \<Rightarrow> string \<Rightarrow> string" where
  "homePath home p = (if IsAbs p then p else pathJoin [home, p])"

definition fileHolds :: "('pub, 'cert, 'signer) KeyLib \<Rightarrow> string \<Rightarrow> string \<Rightarrow> bool" where
  "fileHolds lib kb path \<longleftrightarrow>
     (\<exists>data k. klReadFile lib path = Inr data \<and> keyIn lib data k \<and> klMarshal lib k = kb)"

lemma authorizedFiles_result:
  assumes "parseShrinks lib"
  shows "authorizedFiles lib home kb fs = Some (\<exists>p \<in> set fs. fileHolds lib kb (homePath home p))"
proof (induction fs)
  case (Cons p fs)
  have "(if \<not> IsAbs p then pathJoin [home, p] else p) = homePath home p" by (simp add: homePath_def)
  then show ?case
    using Cons.IH by (cases "klReadFile lib (homePath home p)")
      (simp_all add: authorizedLoop_result[OF assms] Let_def fileHolds_def, blast)
qed simp

text \<open>A certificate is offered only for the key it certifies.\<close>

lemma certLoop_sound:
  "certLoop lib signer cps = Some cs \<Longrightarrow>
   \<exists>cp data pub rest cert. cp \<in> set cps \<and> klReadFile lib cp = Inr data \<and>
     klParseAuthorized lib data = Inr (pub, rest) \<and> klAsCert lib pub = Some cert \<and>
     klFingerprint lib (klCertKey lib cert) = klFingerprint lib (klPublic lib signer) \<and>
     klNewCertSigner lib cert signer = Inr cs"
proof (induction cps)
  case (Cons cp cps)
  then show ?case
    by (auto split: sum.splits option.splits if_splits) (metis list.set_intros)+
qed simp

definition noCallbacks :: "('pub, 'signer) ServerConfig \<Rightarrow> bool" where
  "noCallbacks cfg \<longleftrightarrow> scPassword cfg = None \<and> scPublicKey cfg = None \<and>
     scKeyboardInteractive cfg = None \<and> scGSSAPI cfg = None"

lemma wireAuthCallbacks_fields:
  assumes "noCallbacks cfg"
  shows "scPassword (wireAuthCallbacks cfg opts h) =
     (if enabled (sPasswordAuthentication opts)
      then map_option (\<lambda>a. passwordCallback True a opts) (ahPassword h) else None)"
    and "scPublicKey (wireAuthCallbacks cfg opts h) =
     (if enabled (sPubkeyAuthentication opts)
      then map_option (\<lambda>a u k. a u k opts) (ahPublicKey h) else None)"
    and "scKeyboardInteractive (wireAuthCallbacks cfg opts h) =
     (if enabled (sKbdInteractiveAuthentication opts)
      then map_option (\<lambda>a u c. a u c opts) (ahKeyboardInteractive h) else None)"
    and "scGSSAPI (wireAuthCallbacks cfg opts h) =
     (if enabled (sGSSAPIAuthentication opts)
      then map_option (\<lambda>s. (gssAllowLogin, s)) (ahGSSAPI h) else None)"
  using assms by (auto simp: wireAuthCallbacks_def Let_def noCallbacks_def split: option.split)

lemma enabled_iff: "enabled x \<longleftrightarrow> x = Some True"
  by (cases x) (auto simp: enabled_def)

lemma noCallbacks_base: "noCallbacks (baseServerConfig algs opts)"
  by (simp add: noCallbacks_def baseServerConfig_def emptyServerConfig_def Let_def)

lemma SSHServerConfig_InrD:
  "fst (SSHServerConfig algs lib opts h) = Inr cfg \<Longrightarrow>
   scHostKeys cfg \<noteq> [] \<and> fst (loadHostKeys lib opts h) = Inr (scHostKeys cfg) \<and>
   cfg = (wireAuthCallbacks (baseServerConfig algs opts) opts h)
           \<lparr>scHostKeys := scHostKeys cfg, scAuthLog := ahLogger h\<rparr>"
  by (auto simp: SSHServerConfig_def Let_def case_prod_beta' split: sum.splits if_splits)

section \<open>Properties\<close>

text \<open>A user is admitted exactly when connections are not refused, no DenyUsers pattern
  matches the name and, if there are AllowUsers patterns, one of them does; of a pattern
  with an at sign only the part before it counts, so a user allowed from one host is
  allowed from every host.\<close>

theorem CheckAccess_iff:
  "CheckAccess user opts = None \<longleftrightarrow>
     (sRefuseConnection opts = None \<or> sRefuseConnection opts = Some []) \<and>
     \<not> (\<exists>p \<in> set (sDenyUsers opts). glob (userPart p) user) \<and>
     (sAllowUsers opts = [] \<or> (\<exists>p \<in> set (sAllowUsers opts). glob (userPart p) user))"
proof -
  have d: "sDenyUsers opts \<noteq> [] \<and> matchAnyWord user (sDenyUsers opts) \<longleftrightarrow>
      (\<exists>p \<in> set (sDenyUsers opts). glob (userPart p) user)"
    by (auto simp: matchAnyWord_iff)
  show ?thesis
    unfolding CheckAccess_def d matchAnyWord_iff by (cases "sRefuseConnection opts") auto
qed


text \<open>C19: public key authentication ends for every file, and admits a user exactly when the
  user exists and one of the key files, relative to the user's home, can be read and
  holds the key.\<close>

theorem AuthenticatePublicKey_returns:
  assumes "parseShrinks lib"
  shows "\<exists>r. AuthenticatePublicKey lib lookupUser user key opts = Some r \<and>
    ((\<exists>p. r = Inr p) \<longleftrightarrow>
       (\<exists>home. lookupUser user = Inr home \<and>
          (\<exists>f \<in> set (keyFiles opts). fileHolds lib (klMarshal lib key) (homePath home f)))) \<and>
    (\<forall>p. r = Inr p \<longrightarrow> p = [(''pubkey-fp'', klFingerprint lib key)])"
  by (auto simp: AuthenticatePublicKey_def authorizedFiles_result[OF assms] split: sum.split)

theorem AuthenticatePublicKey_returns_witness:
  "\<exists>r. AuthenticatePublicKey (demoLib (\<lambda>f. if f = ''/h/k'' then Inr ''ab'' else Inl (ErrExt ''no file'')))
     (\<lambda>u. Inr ''/h'') ''bob'' CHR ''b'' (sshdEmptyOptions\<lparr>sAuthorizedKeysFile := [''/h/k'']\<rparr>) = Some (Inr r)"
proof -
  let ?read = "\<lambda>f. if f = ''/h/k'' then Inr ''ab'' else Inl (ErrExt ''no file'')"
  have p: "homePath ''/h'' ''/h/k'' = ''/h/k''" by code_simp
  have "fileHolds (demoLib ?read) ''b'' ''/h/k''"
    unfolding fileHolds_def
    by (rule exI[of _ "''ab''"]) (auto simp: demoLib_def keyIn_iff[of _ "''ab''"] keyIn_iff[of _ "''b''"])
  then show ?thesis
    using AuthenticatePublicKey_returns[OF parseShrinks_demo[of ?read], of "\<lambda>u. Inr ''/h''" "''bob''"
        "CHR ''b''" "sshdEmptyOptions\<lparr>sAuthorizedKeysFile := [''/h/k'']\<rparr>"]
    by (auto simp: keyFiles_def p demoLib_def)
qed

text \<open>A configuration of the server has host keys and offers exactly the methods that are
  switched on and have a handler: the password handler never sees an empty password
  unless PermitEmptyPasswords says so, host based authentication is never offered, and
  a GSSAPI login is granted whatever the user.\<close>

theorem SSHServerConfig_methods:
  assumes "fst (SSHServerConfig algs lib opts h) = Inr cfg"
  shows "scHostKeys cfg \<noteq> [] \<and> fst (loadHostKeys lib opts h) = Inr (scHostKeys cfg) \<and>
    (scPassword cfg \<noteq> None \<longleftrightarrow> sPasswordAuthentication opts = Some True \<and> ahPassword h \<noteq> None) \<and>
    (scPublicKey cfg \<noteq> None \<longleftrightarrow> sPubkeyAuthentication opts = Some True \<and> ahPublicKey h \<noteq> None) \<and>
    (scKeyboardInteractive cfg \<noteq> None \<longleftrightarrow>
       sKbdInteractiveAuthentication opts = Some True \<and> ahKeyboardInteractive h \<noteq> None) \<and>
    (\<forall>cb user. scPassword cfg = Some cb \<and> sPermitEmptyPasswords opts \<noteq> Some True \<longrightarrow>
       (\<exists>e. cb user [] = Inl e)) \<and>
    (\<forall>cb server user name. scGSSAPI cfg = Some (cb, server) \<longrightarrow> cb user name = Inr []) \<and>
    fst (SSHServerConfig algs lib opts (h\<lparr>ahHostbased := b\<rparr>)) = Inr cfg"
proof -
  have w: "wireAuthCallbacks cfg opts (h\<lparr>ahHostbased := b\<rparr>) = wireAuthCallbacks cfg opts h"
    for cfg :: "('a, 'b) ServerConfig" by (simp add: wireAuthCallbacks_def)
  have l: "loadHostKeys lib opts (h\<lparr>ahHostbased := b\<rparr>) = loadHostKeys lib opts h"
    by (cases "ahHostKeyProvider h") (simp_all add: loadHostKeys_def)
  have g: "ahLogger (h\<lparr>ahHostbased := b\<rparr>) = ahLogger h" by simp
  have "SSHServerConfig algs lib opts (h\<lparr>ahHostbased := b\<rparr>) = SSHServerConfig algs lib opts h"
    unfolding SSHServerConfig_def w l g ..
  moreover define keys where "keys = scHostKeys cfg"
  have "cfg = (wireAuthCallbacks (baseServerConfig algs opts) opts h)
      \<lparr>scHostKeys := keys, scAuthLog := ahLogger h\<rparr>"
    using SSHServerConfig_InrD[OF assms] by (simp add: keys_def)
  ultimately show ?thesis
    using assms SSHServerConfig_InrD[OF assms] wireAuthCallbacks_fields[OF noCallbacks_base, where opts = opts and h = h]
    by (simp add: enabled_iff gssAllowLogin_def, auto simp: enabled_iff passwordCallback_def)
qed

theorem SSHServerConfig_methods_witness:
  "\<exists>cfg cb e. fst (SSHServerConfig (\<lparr>libSupported = \<lparr>alCiphers = [], alKeyExchanges = [], alMACs = [],
        alHostKeys = [], alPublicKeyAuths = []\<rparr>, libInsecure = \<lparr>alCiphers = [], alKeyExchanges = [],
        alMACs = [], alHostKeys = [], alPublicKeyAuths = []\<rparr>\<rparr>) (demoLib (\<lambda>f. Inr ''x''))
      (sshdEmptyOptions\<lparr>sPasswordAuthentication := Some True\<rparr>)
      \<lparr>ahPassword = Some (StaticPassword [''bob'' \<mapsto> ''pw'']), ahPublicKey = None, ahKeyboardInteractive = None,
       ahHostbased = False, ahGSSAPI = None, ahHostKeyProvider = Some (\<lambda>o1. Inr ''k''), ahLogger = True\<rparr>) = Inr cfg \<and>
     scPassword cfg = Some cb \<and> cb ''bob'' [] = Inl e"
proof -
  let ?al = "\<lparr>libSupported = \<lparr>alCiphers = [], alKeyExchanges = [], alMACs = [],
        alHostKeys = [], alPublicKeyAuths = []\<rparr>, libInsecure = \<lparr>alCiphers = [], alKeyExchanges = [],
        alMACs = [], alHostKeys = [], alPublicKeyAuths = []\<rparr>\<rparr> :: AlgLib"
  let ?o = "sshdEmptyOptions\<lparr>sPasswordAuthentication := Some True\<rparr>"
  let ?h = "\<lparr>ahPassword = Some (StaticPassword [''bob'' \<mapsto> ''pw'']), ahPublicKey = None, ahKeyboardInteractive = None,
       ahHostbased = False, ahGSSAPI = None, ahHostKeyProvider = Some (\<lambda>o1. Inr ''k''), ahLogger = True\<rparr>
       :: (char, char) AuthHandlers"
  let ?lib = "demoLib (\<lambda>f. Inr ''x'')"
  obtain cfg where c: "fst (SSHServerConfig ?al ?lib ?o ?h) = Inr cfg"
    by (simp add: SSHServerConfig_def loadHostKeys_def)
  have "sPermitEmptyPasswords ?o \<noteq> Some True" by (simp add: sshdEmptyOptions_def)
  moreover have "scPassword cfg \<noteq> None" using SSHServerConfig_methods[OF c, of False] by simp
  then obtain cb where "scPassword cfg = Some cb" by (cases "scPassword cfg") simp_all
  ultimately show ?thesis using SSHServerConfig_methods[OF c] c by blast
qed

end
