(* ===== verification/ServerConn.thy ===== *)
theory ServerConn
  imports ServerForward ServerAuth
begin

text \<open>
  A connection of the server (\<^verbatim>\<open>pkg/sshserver/ssh.go\<close>): the handshake, the access check,
  the dispatch of channels and of global requests, and the accept loop.  The SSH
  library, the socket and the handlers an application supplies are arguments; what
  the code does with them is recorded in order.  Every channel and the global requests
  have a goroutine of their own, so their records are separate lists.
\<close>

section \<open>Handlers\<close>

text \<open>The handlers of forwards work on a state \<^typ>\<open>'s\<close> of their own.\<close>

record 's TcpForwarder =
  tfDirect :: "ServerOptions \<Rightarrow> bytes \<Rightarrow> FwdOut list \<times> go_error option"
  tfStart :: "ServerOptions \<Rightarrow> string \<Rightarrow> 32 word \<Rightarrow> 's \<Rightarrow> (go_error + 32 word) \<times> 's"
  tfStop :: "string \<Rightarrow> 32 word \<Rightarrow> 's \<Rightarrow> go_error option \<times> 's"

record 's StreamForwarder =
  slDirect :: "ServerOptions \<Rightarrow> bytes \<Rightarrow> go_error option"
  slStart :: "ServerOptions \<Rightarrow> string \<Rightarrow> 's \<Rightarrow> go_error option \<times> 's"
  slStop :: "string \<Rightarrow> 's \<Rightarrow> go_error option \<times> 's"

record 's ConnHandlers =
  chSession :: "(ServerOptions \<Rightarrow> string \<Rightarrow> ChanReq list \<Rightarrow> SessOut list \<times> go_error option) option"
  chTcp :: "'s TcpForwarder option"
  chStreamLocal :: "'s StreamForwarder option"
  chTunnel :: "(ServerOptions \<Rightarrow> bytes \<Rightarrow> go_error option) option"
  chAccess :: "(string \<Rightarrow> ServerOptions \<Rightarrow> go_error option) option"
  chLogger :: bool

definition logf :: "'s ConnHandlers \<Rightarrow> string \<Rightarrow> string \<Rightarrow> string list \<Rightarrow> (string \<times> string) list" where
  "logf h level fmt args = (if \<not> chLogger h then [] else [(level, sprintf fmt args)])"

section \<open>Channels\<close>

record NewChannel =
  ncType :: string
  ncExtra :: bytes
  ncAccept :: "go_error option"
  ncRequests :: "ChanReq list"

datatype DispOut =
    DispReject string string
  | DispAccept
  | DispSession "SessOut list"
  | DispClose
  | DispTcp "FwdOut list"
  | DispStream
  | DispTunnel
  | DispLog "(string \<times> string) list"

definition logErr :: "'s ConnHandlers \<Rightarrow> string \<Rightarrow> go_error option \<Rightarrow> DispOut list" where
  "logErr h fmt err =
     (case err of Some e \<Rightarrow> [DispLog (logf h ''ERROR'' fmt [errText e])] | None \<Rightarrow> [])"

definition dispatchChannel ::
  "string \<Rightarrow> NewChannel \<Rightarrow> ServerOptions \<Rightarrow> 's ConnHandlers \<Rightarrow> DispOut list" where
  "dispatchChannel user nc opts h =
     (if ncType nc = ''session'' then
        (case chSession h of
           None \<Rightarrow> [DispReject ''Prohibited'' ''session handling not available'']
         | Some handle \<Rightarrow>
             (case ncAccept nc of
                Some err \<Rightarrow> [DispAccept]
              | None \<Rightarrow>
                  (let (out, err) = handle opts user (ncRequests nc)
                   in [DispAccept, DispSession out] @ logErr h ''session handler: %v'' err @ [DispClose])))
      else if ncType nc = ''direct-tcpip'' then
        (case chTcp h of
           None \<Rightarrow> [DispReject ''Prohibited'' ''TCP forwarding disabled'']
         | Some f \<Rightarrow>
             if \<not> tcpForwardingAllowed opts ''local''
             then [DispReject ''Prohibited'' ''TCP forwarding disabled'']
             else (let (out, err) = tfDirect f opts (ncExtra nc)
                   in DispTcp out # logErr h ''direct-tcpip: %v'' err))
      else if ncType nc = ''direct-streamlocal@openssh.com'' then
        (case chStreamLocal h of
           None \<Rightarrow> [DispReject ''Prohibited'' ''StreamLocal forwarding disabled'']
         | Some f \<Rightarrow>
             if \<not> streamLocalAllowed opts ''local''
             then [DispReject ''Prohibited'' ''StreamLocal forwarding disabled'']
             else DispStream # logErr h ''direct-streamlocal: %v'' (slDirect f opts (ncExtra nc)))
      else if ncType nc = ''tun@openssh.com'' then
        (case chTunnel h of
           None \<Rightarrow> [DispReject ''Prohibited'' ''tunnel forwarding disabled'']
         | Some f \<Rightarrow>
             if sPermitTunnel opts = None \<or> sPermitTunnel opts = Some ''no''
             then [DispReject ''Prohibited'' ''tunnel forwarding disabled'']
             else DispTunnel # logErr h ''tunnel: %v'' (f opts (ncExtra nc)))
      else [DispReject ''UnknownChannelType'' (''unknown channel type: '' @ ncType nc)])"

section \<open>Global requests\<close>

text \<open>The reply of a request is the flag and the payload, or none.\<close>

type_synonym reply = "(bool \<times> bytes) option"

record GlobalWire =
  uBind :: "bytes \<Rightarrow> go_error + string \<times> 32 word"
  uPath :: "bytes \<Rightarrow> go_error + string"

definition parseTcpForwardPayload :: "GlobalWire \<Rightarrow> bytes \<Rightarrow> go_error + string \<times> 32 word" where
  "parseTcpForwardPayload w payload =
     (case uBind w payload of
        Inl err \<Rightarrow> Inl (Wrapf ''invalid tcpip-forward payload: %w'' [] err)
      | Inr r \<Rightarrow> Inr r)"

definition parseStreamLocalPayload :: "GlobalWire \<Rightarrow> bytes \<Rightarrow> go_error + string" where
  "parseStreamLocalPayload w payload =
     (case uPath w payload of
        Inl err \<Rightarrow> Inl (Wrapf ''invalid streamlocal-forward payload: %w'' [] err)
      | Inr r \<Rightarrow> Inr r)"

definition replyOf :: "go_error option \<times> 's \<Rightarrow> reply \<times> 's" where
  "replyOf r = (case fst r of Some err \<Rightarrow> Some (False, []) | None \<Rightarrow> Some (True, []), snd r)"

definition handleGlobal ::
  "GlobalWire \<Rightarrow> ServerOptions \<Rightarrow> 's ConnHandlers \<Rightarrow> ChanReq \<Rightarrow> 's \<Rightarrow> reply \<times> 's" where
  "handleGlobal w opts h req s =
     (let t = rqType req; no = (Some (False, []), s) in
      if t = ''tcpip-forward'' then
        (case chTcp h of
           None \<Rightarrow> no
         | Some f \<Rightarrow>
             if \<not> tcpForwardingAllowed opts ''remote'' then no
             else (case parseTcpForwardPayload w (rqPayload req) of
                     Inl err \<Rightarrow> no
                   | Inr (bindAddr, bindPort) \<Rightarrow>
                       (case tfStart f opts bindAddr bindPort s of
                          (Inl err, s') \<Rightarrow> (Some (False, []), s')
                        | (Inr bound, s') \<Rightarrow> (Some (True, encodeUint32 bound), s'))))
      else if t = ''cancel-tcpip-forward'' then
        (case chTcp h of
           None \<Rightarrow> no
         | Some f \<Rightarrow>
             (case parseTcpForwardPayload w (rqPayload req) of
                Inl err \<Rightarrow> no
              | Inr (bindAddr, bindPort) \<Rightarrow> replyOf (tfStop f bindAddr bindPort s)))
      else if t = ''streamlocal-forward@openssh.com'' then
        (case chStreamLocal h of
           None \<Rightarrow> no
         | Some f \<Rightarrow>
             if \<not> streamLocalAllowed opts ''remote'' then no
             else (case parseStreamLocalPayload w (rqPayload req) of
                     Inl err \<Rightarrow> no
                   | Inr path \<Rightarrow> replyOf (slStart f opts path s)))
      else if t = ''cancel-streamlocal-forward@openssh.com'' then
        (case chStreamLocal h of
           None \<Rightarrow> no
         | Some f \<Rightarrow>
             (case parseStreamLocalPayload w (rqPayload req) of
                Inl err \<Rightarrow> no
              | Inr path \<Rightarrow> replyOf (slStop f path s)))
      else if rqWantReply req then no else (None, s))"

primrec handleGlobalRequests ::
  "GlobalWire \<Rightarrow> ServerOptions \<Rightarrow> 's ConnHandlers \<Rightarrow> ChanReq list \<Rightarrow> 's \<Rightarrow> reply list \<times> 's" where
  "handleGlobalRequests w opts h [] s = ([], s)"
| "handleGlobalRequests w opts h (req # reqs) s =
     (let (r, s1) = handleGlobal w opts h req s;
          (rs, s2) = handleGlobalRequests w opts h reqs s1
      in (r # rs, s2))"


text \<open>The forwarder of the package.\<close>

definition DefaultTcpForwarder ::
  "FwdWorld \<Rightarrow> (string \<Rightarrow> string \<Rightarrow> go_error + handle \<times> 32 word) \<Rightarrow> (handle \<Rightarrow> go_error option) \<Rightarrow>
   forwards TcpForwarder" where
  "DefaultTcpForwarder fw lstn cls =
     \<lparr>tfDirect = HandleDirectTcpIP fw,
      tfStart = StartRemoteForward lstn,
      tfStop = (\<lambda>a p s. let (err, closed, s') = StopRemoteForward cls a p s in (err, s'))\<rparr>"

section \<open>A connection\<close>

datatype ConnOut =
    SetKeepAlive
  | SetKeepAlivePeriod int
  | SetReadDeadline int
  | ClearReadDeadline
  | ConnLog "(string \<times> string) list"
  | Handshake
  | Globals "reply list"
  | Dispatched "DispOut list"
  | SrvConnClose
  | RawConnClose

record ('pub, 'signer) ConnWorld =
  cwIsTCP :: bool
  cwRemoteAddr :: string
  cwHandshake :: "('pub, 'signer) ServerConfig \<Rightarrow> go_error + string"
  cwWire :: GlobalWire
  cwGlobals :: "ChanReq list"
  cwChannels :: "NewChannel list"

text \<open>\<^verbatim>\<open>time.Duration(n) * time.Second\<close>\<close>

definition seconds :: "int \<Rightarrow> int" where
  "seconds n = wrap64 (n * 1000000000)"

definition checkAccess :: "'s ConnHandlers \<Rightarrow> string \<Rightarrow> ServerOptions \<Rightarrow> go_error option" where
  "checkAccess h user opts = (case chAccess h of None \<Rightarrow> None | Some check \<Rightarrow> check user opts)"

definition handleConnection ::
  "AlgLib \<Rightarrow> ('pub, 'cert, 'signer) KeyLib \<Rightarrow> ('pub, 'signer) ConnWorld \<Rightarrow> ServerOptions \<Rightarrow>
   ('pub, 'signer) AuthHandlers \<Rightarrow> 's ConnHandlers \<Rightarrow> 's \<Rightarrow> ConnOut list \<times> go_error option \<times> 's" where
  "handleConnection algs lib w opts ah h s =
     (let keep = (if cwIsTCP w \<and> enabled (sTCPKeepAlive opts)
                  then [SetKeepAlive, SetKeepAlivePeriod (seconds 30)] else []);
          graceOf = (\<lambda>f. case sLoginGraceTime opts of Some n \<Rightarrow> if n > 0 then [f n] else [] | None \<Rightarrow> []);
          (result, logs) = SSHServerConfig algs lib opts ah;
          start = keep @ graceOf (\<lambda>n. SetReadDeadline (seconds n)) @ [ConnLog logs]
      in case result of
           Inl err \<Rightarrow>
             (start @ [ConnLog (logf h ''ERROR'' ''server config error: %v'' [errText err]), RawConnClose],
              Some (Wrapf ''server config: %w'' [] err), s)
         | Inr cfg \<Rightarrow>
             (case cwHandshake w cfg of
                Inl err \<Rightarrow>
                  (start @ [Handshake,
                      ConnLog (logf h ''INFO'' ''handshake from %s failed: %v'' [cwRemoteAddr w, errText err]),
                      RawConnClose],
                   Some (Wrapf ''handshake: %w'' [] err), s)
              | Inr user \<Rightarrow>
                  (let up = start @ [Handshake] @ graceOf (\<lambda>n. ClearReadDeadline) in
                   case checkAccess h user opts of
                     Some err \<Rightarrow>
                       (up @ [ConnLog (logf h ''INFO'' ''access denied for %s from %s: %v''
                                         [user, cwRemoteAddr w, errText err]),
                              SrvConnClose, RawConnClose],
                        Some (Wrapf ''access denied: %w'' [] err), s)
                   | None \<Rightarrow>
                       (let (replies, s') = handleGlobalRequests (cwWire w) opts h (cwGlobals w) s
                        in (up @ [Globals replies] @
                              map (\<lambda>nc. Dispatched (dispatchChannel user nc opts h)) (cwChannels w) @
                              [SrvConnClose, RawConnClose],
                            None, s')))))"

text \<open>The accept loop, on the answers of the listener: the connections handed on, and the
  error that ends it.\<close>

primrec Serve :: "(go_error + nat) list \<Rightarrow> nat list \<times> go_error option" where
  "Serve [] = ([], None)"
| "Serve (r # rs) =
     (case r of
        Inl err \<Rightarrow> ([], Some err)
      | Inr c \<Rightarrow> (let (cs, err) = Serve rs in (c # cs, err)))"

section \<open>The contract of a forwarder\<close>

text \<open>What \<^verbatim>\<open>handlers.go\<close> promises of remote forwards: a start adds the forward it reports
  and a failing one none, a stop removes the forward it names, and only succeeds when
  there is one.\<close>

locale remote_forwards =
  fixes start :: "string \<Rightarrow> 32 word \<Rightarrow> 's \<Rightarrow> (go_error + 32 word) \<times> 's"
    and stop :: "string \<Rightarrow> 32 word \<Rightarrow> 's \<Rightarrow> go_error option \<times> 's"
    and live :: "'s \<Rightarrow> (string \<times> 32 word) set"
  assumes start_ok: "start a p s = (Inr q, s') \<Longrightarrow> live s' = insert (a, q) (live s)"
    and start_err: "start a p s = (Inl e, s') \<Longrightarrow> live s' = live s"
    and stop_live: "live (snd (stop a p s)) = live s - {(a, p)}"
    and stop_ok: "fst (stop a p s) = None \<Longrightarrow> (a, p) \<in> live s"

text \<open>The forwards there are, as the client sees it: from the requests and their replies.\<close>

definition seenForwards ::
  "GlobalWire \<Rightarrow> ChanReq \<times> reply \<Rightarrow> (string \<times> 32 word) set \<Rightarrow> (string \<times> 32 word) set" where
  "seenForwards w x F =
     (case x of (req, r) \<Rightarrow>
        (case parseTcpForwardPayload w (rqPayload req) of
           Inl err \<Rightarrow> F
         | Inr (a, p) \<Rightarrow>
             if rqType req = ''tcpip-forward''
             then (case r of Some (True, payload) \<Rightarrow> insert (a, word_rcat payload) F | _ \<Rightarrow> F)
             else if rqType req = ''cancel-tcpip-forward'' then F - {(a, p)}
             else F))"

context remote_forwards
begin

lemma handleGlobal_live:
  assumes "tfStart f opts = start" and "tfStop f = stop" and "chTcp h = Some f" and "chStreamLocal h = None"
    and "handleGlobal w opts h req s = (r, s')"
  shows "live s' = seenForwards w (req, r) (live s)"
proof -
  consider (start) "rqType req = ''tcpip-forward''" | (stop) "rqType req = ''cancel-tcpip-forward''"
    | (other) "rqType req \<noteq> ''tcpip-forward''" "rqType req \<noteq> ''cancel-tcpip-forward''" by blast
  then show ?thesis
  proof cases
    case start
    then show ?thesis
      using assms(3-5)
      by (auto simp: assms(1) handleGlobal_def seenForwards_def Let_def encodeUint32_rcat
          dest: start_ok start_err split: sum.splits prod.splits if_splits)
  next
    case stop
    then show ?thesis
      using assms(3-5)
      by (auto simp: assms(2) handleGlobal_def seenForwards_def Let_def replyOf_def stop_live
          split: sum.splits prod.splits if_splits)
  next
    case other
    then show ?thesis
      using assms
      by (auto simp: handleGlobal_def seenForwards_def Let_def split: sum.splits if_splits)
  qed
qed

lemma cancel_granted:
  assumes "tfStop f = stop" and "chTcp h = Some f"
    and "rqType req = ''cancel-tcpip-forward''" and "handleGlobal w opts h req s = (Some (True, b), s')"
  shows "\<exists>a p. parseTcpForwardPayload w (rqPayload req) = Inr (a, p) \<and> (a, p) \<in> live s"
  using assms(2-4)
  by (auto simp: assms(1) handleGlobal_def Let_def replyOf_def intro: stop_ok
      split: sum.splits option.splits)

lemma handleGlobalRequests_live:
  assumes "tfStart f opts = start" and "tfStop f = stop" and "chTcp h = Some f" and "chStreamLocal h = None"
    and "handleGlobalRequests w opts h reqs s = (rs, s')"
  shows "live s' = fold (seenForwards w) (zip reqs rs) (live s) \<and> length rs = length reqs \<and>
    (\<forall>i < length reqs. \<forall>b. rqType (reqs ! i) = ''cancel-tcpip-forward'' \<and> rs ! i = Some (True, b) \<longrightarrow>
       (\<exists>a p. parseTcpForwardPayload w (rqPayload (reqs ! i)) = Inr (a, p) \<and>
          (a, p) \<in> fold (seenForwards w) (zip (take i reqs) (take i rs)) (live s)))"
  using assms(5)
proof (induction reqs arbitrary: s rs)
  case (Cons req reqs)
  obtain r s1 where 1: "handleGlobal w opts h req s = (r, s1)" by (cases "handleGlobal w opts h req s")
  obtain rs' where 2: "handleGlobalRequests w opts h reqs s1 = (rs', s')" "rs = r # rs'"
    using Cons.prems 1 by (auto split: prod.splits)
  note l = handleGlobal_live[OF assms(1-4) 1] and g = cancel_granted[OF assms(2,3), of req w opts s _ s1]
  show ?case
    using Cons.IH[OF 2(1)] g 1 unfolding 2(2) l
    by (auto simp: nth_Cons l[symmetric] split: nat.splits) 
qed simp

end

text \<open>The forwarder of the package keeps the contract.\<close>

definition liveForwards :: "forwards \<Rightarrow> (string \<times> 32 word) set" where
  "liveForwards f = {(a, q). f (forwardKey a q) \<noteq> None}"

interpretation tf: remote_forwards "StartRemoteForward lstn opts"
  "tfStop (DefaultTcpForwarder fw lstn cls)" liveForwards
  for fw lstn cls opts
proof
  show "StartRemoteForward lstn opts a p s = (Inr q, s') \<Longrightarrow>
      liveForwards s' = insert (a, q) (liveForwards s)" for a p s q s'
    by (auto simp: StartRemoteForward_def liveForwards_def split: if_splits sum.splits)
  show "StartRemoteForward lstn opts a p s = (Inl e, s') \<Longrightarrow> liveForwards s' = liveForwards s" for a p s e s'
    by (auto simp: StartRemoteForward_def split: if_splits sum.splits)
  show "liveForwards (snd (tfStop (DefaultTcpForwarder fw lstn cls) a p s)) = liveForwards s - {(a, p)}" for a p s
    by (auto simp: DefaultTcpForwarder_def StopRemoteForward_def liveForwards_def Let_def split: option.splits)
  show "fst (tfStop (DefaultTcpForwarder fw lstn cls) a p s) = None \<Longrightarrow> (a, p) \<in> liveForwards s" for a p s
    by (auto simp: DefaultTcpForwarder_def StopRemoteForward_def liveForwards_def Let_def split: option.splits)
qed


section \<open>Properties\<close>

text \<open>C16: the remote forwards that are open after a connection's global requests are those the
  client can tell from the replies, port by port, and a cancellation is granted only for
  a forward that is open, whatever the requests and their order.\<close>

theorem global_requests_forwards:
  assumes "handleGlobalRequests w opts (h\<lparr>chTcp := Some (DefaultTcpForwarder fw lstn cls), chStreamLocal := None\<rparr>)
      reqs s = (rs, s')"
  shows "liveForwards s' = fold (seenForwards w) (zip reqs rs) (liveForwards s) \<and>
    length rs = length reqs \<and>
    (\<forall>i < length reqs. \<forall>b. rqType (reqs ! i) = ''cancel-tcpip-forward'' \<and> rs ! i = Some (True, b) \<longrightarrow>
       (\<exists>a p. parseTcpForwardPayload w (rqPayload (reqs ! i)) = Inr (a, p) \<and>
          (a, p) \<in> fold (seenForwards w) (zip (take i reqs) (take i rs)) (liveForwards s)))"
  by (rule tf.handleGlobalRequests_live[OF _ _ _ _ assms]) (simp_all add: DefaultTcpForwarder_def)

definition noHandlers :: "'s ConnHandlers" where
  "noHandlers = \<lparr>chSession = None, chTcp = None, chStreamLocal = None, chTunnel = None,
     chAccess = None, chLogger = False\<rparr>"

definition demoWire :: GlobalWire where
  "demoWire = \<lparr>uBind = (\<lambda>b. if b = [] then Inr (''h'', 0) else Inr (''h'', 80)), uPath = (\<lambda>b. Inr [])\<rparr>"

definition demoFwd :: FwdWorld where
  "demoFwd = \<lparr>uDirect = (\<lambda>b. Inr (''h'', 80, [], 0)), fwDial = (\<lambda>d n a. None), fwAccept = None,
     fwReject = (\<lambda>r m. None)\<rparr>"

definition demoForwarder :: "forwards TcpForwarder" where
  "demoForwarder = DefaultTcpForwarder demoFwd (\<lambda>n a. Inr (7, 80)) (\<lambda>l. None)"

theorem global_requests_forwards_witness:
  "liveForwards (snd (handleGlobalRequests demoWire sshdEmptyOptions
     (noHandlers\<lparr>chTcp := Some demoForwarder, chStreamLocal := None\<rparr>)
     [demoReq ''tcpip-forward'' [], demoReq ''cancel-tcpip-forward'' [1]] Map.empty)) = {}"
proof -
  let ?h = "noHandlers\<lparr>chTcp := Some (DefaultTcpForwarder demoFwd (\<lambda>n a. Inr (7, 80)) (\<lambda>l. None)), chStreamLocal := None\<rparr>"
  let ?reqs = "[demoReq ''tcpip-forward'' [], demoReq ''cancel-tcpip-forward'' [1]]"
  have "handleGlobalRequests demoWire sshdEmptyOptions ?h ?reqs Map.empty =
      ([Some (True, encodeUint32 80), Some (True, [])], Map.empty)"
    by (simp add: handleGlobal_def demoReq_def demoWire_def parseTcpForwardPayload_def DefaultTcpForwarder_def
        StartRemoteForward_def StopRemoteForward_def permitListenAllows_def tcpForwardingAllowed_def
        allowedBy_def sshdEmptyOptions_def replyOf_def)
  from global_requests_forwards[OF this] show ?thesis
    using \<open>handleGlobalRequests demoWire sshdEmptyOptions ?h ?reqs Map.empty = _\<close>
    by (simp add: demoForwarder_def seenForwards_def demoReq_def demoWire_def parseTcpForwardPayload_def
        liveForwards_def encodeUint32_rcat)
qed

definition cancels :: "ChanReq \<Rightarrow> bool" where
  "cancels req \<longleftrightarrow> rqType req \<in> {''cancel-tcpip-forward'', ''cancel-streamlocal-forward@openssh.com''}"

lemma handleGlobal_disabled:
  assumes "sDisableForwarding opts = Some True" and "\<not> cancels req"
  shows "\<exists>r. handleGlobal w opts h req s = (r, s) \<and> (r = None \<or> r = Some (False, []))"
  using assms
  by (auto simp: handleGlobal_def cancels_def Let_def tcpForwardingAllowed_def streamLocalAllowed_def
      split: option.split)

lemma dispatchChannel_disabled:
  "sDisableForwarding opts = Some True \<Longrightarrow>
   (\<forall>out. DispTcp out \<notin> set (dispatchChannel user nc opts h)) \<and>
   DispStream \<notin> set (dispatchChannel user nc opts h)"
  by (auto simp: dispatchChannel_def tcpForwardingAllowed_def streamLocalAllowed_def logErr_def Let_def
      case_prod_beta' split: option.splits if_splits)



text \<open>What a connection may do at all.\<close>

lemma SSHServerConfig_result: "SSHServerConfig algs lib opts ah = (Inr cfg, logs) \<Longrightarrow>
   fst (SSHServerConfig algs lib opts ah) = Inr cfg" by simp

definition busy :: "ConnOut \<Rightarrow> bool" where
  "busy x \<longleftrightarrow> (\<exists>rs. x = Globals rs) \<or> (\<exists>out. x = Dispatched out)"

lemma handleConnection_busy:
  assumes "x \<in> set (fst (handleConnection algs lib w opts ah h s))" and "busy x"
  shows "\<exists>cfg user. fst (SSHServerConfig algs lib opts ah) = Inr cfg \<and> cwHandshake w cfg = Inr user \<and>
    checkAccess h user opts = None"
  using assms
  by (auto simp: handleConnection_def Let_def case_prod_beta' busy_def
      split: sum.splits option.splits if_splits)

lemma handleConnection_close:
  "\<exists>out. fst (handleConnection algs lib w opts ah h s) = out @ [RawConnClose] \<and> RawConnClose \<notin> set out"
proof -
  have m: "RawConnClose \<notin> (\<lambda>nc. Dispatched (f nc)) ` S" for f :: "NewChannel \<Rightarrow> DispOut list" and S
    by auto
  show ?thesis
    by (auto simp: handleConnection_def Let_def case_prod_beta' m
        split: sum.splits option.splits intro: exI[of _ "_ @ [_]"])
qed



definition demoConn :: "(char, char) ConnWorld" where
  "demoConn = \<lparr>cwIsTCP = True, cwRemoteAddr = [], cwHandshake = (\<lambda>cfg. Inr ''bob''), cwWire = demoWire,
     cwGlobals = [], cwChannels = []\<rparr>"

definition demoAuth :: "(char, char) AuthHandlers" where
  "demoAuth = \<lparr>ahPassword = None, ahPublicKey = None, ahKeyboardInteractive = None, ahHostbased = False,
     ahGSSAPI = None, ahHostKeyProvider = Some (\<lambda>o1. Inr ''k''), ahLogger = False\<rparr>"


end
