(* ===== verification/ClientHostKey.thy ===== *)
theory ClientHostKey
  imports KeyLib GoNet ClientOptions
begin

text \<open>
  Verification of host keys by the client (\<^verbatim>\<open>pkg/sshclient/hostkey.go\<close>).  The known
  hosts data base of the SSH library, the file system, the user and a caller's own
  source of keys are arguments (record \<^verbatim>\<open>HostKeyWorld\<close>).  \<^verbatim>\<open>hkAsKeyError\<close> is
  \<^verbatim>\<open>errors.As\<close> for \<^verbatim>\<open>*knownhosts.KeyError\<close>: the keys the data base wants, if the
  error is of that type.  The answer \<^term>\<open>None\<close> of the builder means that the loop over
  the revoked keys does not return.
\<close>

datatype NetRemote = RemoteTCP IP | RemoteOther

type_synonym 'pub hostkey_callback = "string \<Rightarrow> NetRemote \<Rightarrow> 'pub \<Rightarrow> go_error option"

record 'pub HostKeyWorld =
  hkCallback :: "'pub hostkey_callback option"
  hkSource :: "(string \<Rightarrow> ClientOptions \<Rightarrow> go_error + 'pub list) option"
  hkConfirm :: "(string \<Rightarrow> NetRemote \<Rightarrow> 'pub \<Rightarrow> bool) option"
  hkStat :: "string \<Rightarrow> bool"
  hkKnownHosts :: "string list \<Rightarrow> go_error + 'pub hostkey_callback"
  hkAsKeyError :: "go_error \<Rightarrow> 'pub list option"

section \<open>Keys\<close>

definition isLocalhost :: "string \<Rightarrow> NetRemote \<Rightarrow> bool" where
  "isLocalhost hostname remote =
     (if hostname = ''localhost'' then True
      else case remote of
        RemoteTCP ip \<Rightarrow> IsLoopback ip
      | RemoteOther \<Rightarrow> (case ParseIP hostname of None \<Rightarrow> False | Some ip \<Rightarrow> IsLoopback ip))"

definition isKnownExtraKey :: "('pub, 'cert, 'signer) KeyLib \<Rightarrow> 'pub \<Rightarrow> 'pub list \<Rightarrow> bool" where
  "isKnownExtraKey lib key extraKeys =
     (if extraKeys = [] then False
      else (let keyBytes = klMarshal lib key in list_ex (\<lambda>extra. keyBytes = klMarshal lib extra) extraKeys))"

definition isRevoked :: "('pub, 'cert, 'signer) KeyLib \<Rightarrow> 'pub \<Rightarrow> 'pub list \<Rightarrow> bool" where
  "isRevoked lib key revokedKeys =
     (if revokedKeys = [] then False
      else (let keyBytes = klMarshal lib key in list_ex (\<lambda>revoked. keyBytes = klMarshal lib revoked) revokedKeys))"

partial_function (option) revokedLoop ::
  "('pub, 'cert, 'signer) KeyLib \<Rightarrow> string \<Rightarrow> 'pub list \<Rightarrow> 'pub list option" where
  "revokedLoop lib rest keys =
     (if rest = [] then Some keys
      else case klParseAuthorized lib rest of
        Inl err \<Rightarrow> Some keys
      | Inr (key, r) \<Rightarrow> revokedLoop lib r (keys @ [key]))"

definition loadRevokedKeys ::
  "('pub, 'cert, 'signer) KeyLib \<Rightarrow> string \<Rightarrow> (go_error + 'pub list) option" where
  "loadRevokedKeys lib path =
     (case klReadFile lib path of
        Inl err \<Rightarrow> Some (Inl err)
      | Inr data \<Rightarrow> map_option Inr (revokedLoop lib data []))"

section \<open>The callback\<close>

definition knownHostFiles :: "ClientOptions \<Rightarrow> string list" where
  "knownHostFiles opts =
     (case cUserKnownHostsFile opts of
        Some v \<Rightarrow> filter (\<lambda>path. toLower path \<noteq> ''none'') (Fields v) | None \<Rightarrow> []) @
     (case cGlobalKnownHostsFile opts of Some v \<Rightarrow> Fields v | None \<Rightarrow> [])"

definition extraHostKeys :: "'pub HostKeyWorld \<Rightarrow> ClientOptions \<Rightarrow> 'pub list" where
  "extraHostKeys w opts =
     (case (hkSource w, cHostname opts) of
        (Some hostKeys, Some hostname) \<Rightarrow>
          (let lookupName = (case cHostKeyAlias opts of Some a \<Rightarrow> a | None \<Rightarrow> hostname)
           in case hostKeys lookupName opts of Inr extra \<Rightarrow> extra | Inl err \<Rightarrow> [])
      | _ \<Rightarrow> [])"

text \<open>Asking the user, about the name given, and the error when the answer is no.\<close>

definition askUser ::
  "'pub HostKeyWorld \<Rightarrow> string \<Rightarrow> NetRemote \<Rightarrow> 'pub \<Rightarrow> go_error option" where
  "askUser w name remote key =
     (if (case hkConfirm w of Some confirm \<Rightarrow> confirm name remote key | None \<Rightarrow> False) then None
      else Some (Errorf ''host key for %s not verified'' [name]))"

definition checkKnown ::
  "'pub HostKeyWorld \<Rightarrow> string \<Rightarrow> 'pub hostkey_callback \<Rightarrow> 'pub hostkey_callback" where
  "checkKnown w strictMode base lookupHost remote key =
     (case base lookupHost remote key of
        None \<Rightarrow> None
      | Some err \<Rightarrow>
          if (case hkAsKeyError w err of Some want \<Rightarrow> want \<noteq> [] | None \<Rightarrow> False) then
            (if strictMode = ''no'' \<or> strictMode = ''off'' then None
             else Some (Wrapf ''host key for %s has changed: %w'' [lookupHost] err))
          else if strictMode = ''yes'' then
            Some (Errorf ''host key for %s not found in known hosts'' [lookupHost])
          else if strictMode = ''no'' \<or> strictMode = ''off'' then None
          else if strictMode = ''accept-new'' then None
          else if strictMode = ''ask'' then askUser w lookupHost remote key
          else Some (Errorf ''host key for %s not found in known hosts'' [lookupHost]))"

definition checkUnlisted :: "'pub HostKeyWorld \<Rightarrow> string \<Rightarrow> 'pub hostkey_callback" where
  "checkUnlisted w strictMode hostname remote key =
     (if strictMode = ''yes'' then
        Some (Errorf ''no known hosts files and StrictHostKeyChecking=yes'' [])
      else if strictMode = ''no'' \<or> strictMode = ''off'' \<or> strictMode = ''accept-new'' then None
      else if strictMode = ''ask'' then askUser w hostname remote key
      else Some (Errorf ''host key for %s not verified (no known hosts files)'' [hostname]))"

definition verifyHostKey ::
  "('pub, 'cert, 'signer) KeyLib \<Rightarrow> 'pub HostKeyWorld \<Rightarrow> ClientOptions \<Rightarrow> 'pub list \<Rightarrow>
   'pub hostkey_callback option \<Rightarrow> 'pub hostkey_callback" where
  "verifyHostKey lib w opts revokedKeys baseCallback hostname remote key =
     (let strictMode = (case cStrictHostKeyChecking opts of Some m \<Rightarrow> m | None \<Rightarrow> ''ask'');
          noAuthLocalhost = (cNoHostAuthenticationForLocalhost opts = Some True);
          hostKeyAlias = (case cHostKeyAlias opts of Some a \<Rightarrow> a | None \<Rightarrow> [])
      in if noAuthLocalhost \<and> isLocalhost hostname remote then None
         else
           let lookupHost = (if hostKeyAlias \<noteq> [] then hostKeyAlias else hostname) in
           if isRevoked lib key revokedKeys
           then Some (Errorf ''host key for %s is revoked'' [lookupHost])
           else if isKnownExtraKey lib key (extraHostKeys w opts) then None
           else case baseCallback of
             Some base \<Rightarrow> checkKnown w strictMode base lookupHost remote key
           | None \<Rightarrow> checkUnlisted w strictMode hostname remote key)"

definition buildHostKeyCallback ::
  "('pub, 'cert, 'signer) KeyLib \<Rightarrow> 'pub HostKeyWorld \<Rightarrow> ClientOptions \<Rightarrow>
   (go_error + 'pub hostkey_callback) option" where
  "buildHostKeyCallback lib w opts =
     (case hkCallback w of
        Some cb \<Rightarrow> Some (Inr cb)
      | None \<Rightarrow>
          (let existingFiles = filter (hkStat w) (knownHostFiles opts);
               base = (if existingFiles = [] then Inr None
                       else case hkKnownHosts w existingFiles of Inl err \<Rightarrow> Inl err | Inr cb \<Rightarrow> Inr (Some cb));
               revoked = (case cRevokedHostKeys opts of
                            Some path \<Rightarrow> if path \<noteq> [] then loadRevokedKeys lib path else Some (Inr [])
                          | None \<Rightarrow> Some (Inr []))
           in case base of
                Inl err \<Rightarrow> Some (Inl (Wrapf ''loading known hosts: %w'' [] err))
              | Inr baseCallback \<Rightarrow>
                  (case revoked of
                     None \<Rightarrow> None
                   | Some (Inl err) \<Rightarrow> Some (Inl (Wrapf ''loading revoked host keys: %w'' [] err))
                   | Some (Inr revokedKeys) \<Rightarrow>
                       Some (Inr (verifyHostKey lib w opts revokedKeys baseCallback)))))"

section \<open>Lemmas\<close>

lemma revokedLoop_result:
  assumes "parseShrinks lib"
  shows "\<exists>new. revokedLoop lib d ks = Some (ks @ new) \<and> set new = {k. keyIn lib d k}"
  using assms
proof (induction d arbitrary: ks rule: parse_induct)
  case empty
  then show ?case by (simp add: revokedLoop.simps)
next
  case (error d e)
  then show ?case by (simp add: revokedLoop.simps keyIn_err)
next
  case (key d k r)
  from key(3)[of "ks @ [k]"] obtain new
    where "revokedLoop lib r (ks @ [k]) = Some (ks @ k # new)" "set new = {x. keyIn lib r x}" by auto
  then show ?case using key(1,2)
    by (subst revokedLoop.simps) (auto simp: keyIn_step intro!: exI[of _ "k # new"])
qed

definition lookupName :: "ClientOptions \<Rightarrow> string \<Rightarrow> string" where
  "lookupName opts hostname =
     (case cHostKeyAlias opts of Some a \<Rightarrow> if a \<noteq> [] then a else hostname | None \<Rightarrow> hostname)"

text \<open>What RevokedHostKeys says of a key.\<close>

definition revokedByFile :: "('pub, 'cert, 'signer) KeyLib \<Rightarrow> ClientOptions \<Rightarrow> 'pub \<Rightarrow> bool" where
  "revokedByFile lib opts key \<longleftrightarrow>
     (\<exists>path data k. cRevokedHostKeys opts = Some path \<and> path \<noteq> [] \<and> klReadFile lib path = Inr data \<and>
        keyIn lib data k \<and> klMarshal lib k = klMarshal lib key)"

lemma isRevoked_iff: "isRevoked lib key ks \<longleftrightarrow> (\<exists>k \<in> set ks. klMarshal lib k = klMarshal lib key)"
  by (auto simp: isRevoked_def list_ex_iff) metis

lemma revokedByFile_data:
  assumes "parseShrinks lib" and "cRevokedHostKeys opts = Some path" and "path \<noteq> []"
    and "klReadFile lib path = Inr data" and "revokedLoop lib data [] = Some ks"
  shows "isRevoked lib key ks \<longleftrightarrow> revokedByFile lib opts key"
  using revokedLoop_result[OF assms(1), of data "[]"] assms(2-5)
  by (auto simp: isRevoked_iff revokedByFile_def)

lemma build_result:
  assumes "parseShrinks lib" and "hkCallback w = None"
  shows "\<exists>r. buildHostKeyCallback lib w opts = Some r \<and>
    (\<forall>cb. r = Inr cb \<longrightarrow> (\<exists>ks base. cb = verifyHostKey lib w opts ks base \<and>
       (\<forall>key. isRevoked lib key ks \<longleftrightarrow> revokedByFile lib opts key) \<and>
       (if filter (hkStat w) (knownHostFiles opts) = [] then base = None
        else \<exists>b. hkKnownHosts w (filter (hkStat w) (knownHostFiles opts)) = Inr b \<and> base = Some b)))"
proof -
  let ?files = "filter (hkStat w) (knownHostFiles opts)"
  have none: "(\<forall>key. isRevoked lib key [] \<longleftrightarrow> revokedByFile lib opts key)"
    if "cRevokedHostKeys opts = None \<or> cRevokedHostKeys opts = Some []"
    using that by (auto simp: isRevoked_def revokedByFile_def)
  consider (off) "cRevokedHostKeys opts = None \<or> cRevokedHostKeys opts = Some []"
    | (err) path e where "cRevokedHostKeys opts = Some path" "path \<noteq> []" "klReadFile lib path = Inl e"
    | (keys) path data ks where "cRevokedHostKeys opts = Some path" "path \<noteq> []"
        "klReadFile lib path = Inr data" "revokedLoop lib data [] = Some ks"
    using revokedLoop_result[OF assms(1), of _ "[]"]
    by (cases "cRevokedHostKeys opts") (auto, metis old.sum.exhaust)
  then show ?thesis
  proof cases
    case off
    then show ?thesis using assms(2) none[OF off]
      by (auto simp: buildHostKeyCallback_def Let_def split: sum.splits) 
  next
    case err
    then show ?thesis using assms(2)
      by (auto simp: buildHostKeyCallback_def loadRevokedKeys_def Let_def split: sum.split)
  next
    case keys
    then show ?thesis using assms(2) revokedByFile_data[OF assms(1) keys]
      by (auto simp: buildHostKeyCallback_def loadRevokedKeys_def Let_def split: sum.splits)
  qed
qed

lemma verifyHostKey_lookup:
  "verifyHostKey lib w opts ks base hostname remote key =
     (if cNoHostAuthenticationForLocalhost opts = Some True \<and> isLocalhost hostname remote then None
      else if isRevoked lib key ks
      then Some (Errorf ''host key for %s is revoked'' [lookupName opts hostname])
      else if isKnownExtraKey lib key (extraHostKeys w opts) then None
      else case base of
        Some b \<Rightarrow> checkKnown w (case cStrictHostKeyChecking opts of Some m \<Rightarrow> m | None \<Rightarrow> ''ask'') b
                    (lookupName opts hostname) remote key
      | None \<Rightarrow> checkUnlisted w (case cStrictHostKeyChecking opts of Some m \<Rightarrow> m | None \<Rightarrow> ''ask'')
                  hostname remote key)"
  by (simp add: verifyHostKey_def lookupName_def Let_def split: option.split)

definition bypass :: "ClientOptions \<Rightarrow> string \<Rightarrow> NetRemote \<Rightarrow> bool" where
  "bypass opts hostname remote \<longleftrightarrow>
     cNoHostAuthenticationForLocalhost opts = Some True \<and> isLocalhost hostname remote"

lemma strict_eq:
  "x \<noteq> ''ask'' \<Longrightarrow> (case o1 of Some m \<Rightarrow> m | None \<Rightarrow> ''ask'') = x \<longleftrightarrow> o1 = Some x"
  by (cases o1) auto

text \<open>The three reasons for which a key cannot be accepted.\<close>

lemma accepted_not_revoked:
  "verifyHostKey lib w opts ks base hostname remote key = None \<Longrightarrow> \<not> bypass opts hostname remote \<Longrightarrow>
   \<not> isRevoked lib key ks"
  by (auto simp: verifyHostKey_lookup bypass_def split: if_splits)

lemma accepted_strict:
  "verifyHostKey lib w opts ks base hostname remote key = None \<Longrightarrow> \<not> bypass opts hostname remote \<Longrightarrow>
   cStrictHostKeyChecking opts = Some ''yes'' \<Longrightarrow>
   isKnownExtraKey lib key (extraHostKeys w opts) \<or>
   (\<exists>b. base = Some b \<and> b (lookupName opts hostname) remote key = None)"
  by (auto simp: verifyHostKey_lookup bypass_def checkKnown_def checkUnlisted_def
      split: if_splits option.splits)

lemma accepted_changed:
  "verifyHostKey lib w opts ks (Some b) hostname remote key = None \<Longrightarrow> \<not> bypass opts hostname remote \<Longrightarrow>
   b (lookupName opts hostname) remote key = Some err \<Longrightarrow> hkAsKeyError w err = Some (k # want) \<Longrightarrow>
   isKnownExtraKey lib key (extraHostKeys w opts) \<or>
   cStrictHostKeyChecking opts \<in> {Some ''no'', Some ''off''}"
  by (auto simp: verifyHostKey_lookup bypass_def checkKnown_def strict_eq split: if_splits)

section \<open>Properties\<close>

lemma buildHostKeyCallback_total:
  assumes "parseShrinks lib"
  shows "\<exists>r. buildHostKeyCallback lib w opts = Some r"
proof -
  have l: "\<exists>r. loadRevokedKeys lib path = Some r" for path
    using revokedLoop_result[OF assms, of _ "[]"]
    by (cases "klReadFile lib path") (auto simp: loadRevokedKeys_def)
  show ?thesis
    using l by (auto simp: buildHostKeyCallback_def Let_def split: option.split sum.split) (metis option.distinct(1))+
qed


text \<open>An error of the known hosts that is not about a wanted key counts as an unknown key:
  with accept-new the key is then accepted.  So it is when the data base refuses the
  name, as it refuses a HostKeyAlias without a port, however often the key changes, and
  when the data base itself marks the key as revoked.\<close>

theorem hostKey_other_error_accepted:
  assumes "parseShrinks lib" and "buildHostKeyCallback lib w opts = Some (Inr cb)" and "hkCallback w = None"
    and "filter (hkStat w) (knownHostFiles opts) \<noteq> []"
    and "hkKnownHosts w (filter (hkStat w) (knownHostFiles opts)) = Inr base"
    and "base (lookupName opts hostname) remote key = Some err" and "hkAsKeyError w err = None"
    and "cStrictHostKeyChecking opts = Some ''accept-new''" and "\<not> revokedByFile lib opts key"
  shows "cb hostname remote key = None"
proof -
  obtain ks where "cb = verifyHostKey lib w opts ks (Some base)"
    "isRevoked lib key ks \<longleftrightarrow> revokedByFile lib opts key"
    using build_result[OF assms(1,3), of opts] assms(2,4,5) by auto
  then show ?thesis using assms(6-9) by (simp add: verifyHostKey_lookup checkKnown_def)
qed

text \<open>A data base that, as the library's, wants names with a port and knows one key.\<close>

definition demoHosts :: "char HostKeyWorld" where
  "demoHosts = \<lparr>hkCallback = None, hkSource = None, hkConfirm = None, hkStat = (\<lambda>f. True),
     hkKnownHosts = (\<lambda>fs. Inr (\<lambda>name remote key.
       if CHR '':'' \<notin> set name then Some (ErrExt ''missing port in address'')
       else if key = CHR ''a'' then None else Some (ErrExt ''key mismatch''))),
     hkAsKeyError = (\<lambda>e. if e = ErrExt ''key mismatch'' then Some ''a'' else None)\<rparr>"

definition demoHostOpts :: "string option \<Rightarrow> ClientOptions" where
  "demoHostOpts als = emptyOptions\<lparr>cUserKnownHostsFile := Some ''/k'',
     cStrictHostKeyChecking := Some ''accept-new'', cHostKeyAlias := als\<rparr>"

lemma demoHost_files: "filter (hkStat demoHosts) (knownHostFiles (demoHostOpts als)) = [''/k'']"
proof -
  have "Fields ''/k'' = [''/k'']" "toLower ''/k'' \<noteq> ''none''" by code_simp+
  then show ?thesis by (simp add: knownHostFiles_def demoHostOpts_def demoHosts_def emptyOptions_def)
qed

lemma demoHost_build:
  "\<exists>cb. buildHostKeyCallback (demoLib (\<lambda>f. Inl (ErrExt ''no file''))) demoHosts (demoHostOpts als) = Some (Inr cb)"
  unfolding buildHostKeyCallback_def demoHost_files
  by (simp add: demoHosts_def demoHostOpts_def emptyOptions_def)


theorem hostKey_other_error_accepted_witness:
  "\<exists>cb. buildHostKeyCallback (demoLib (\<lambda>f. Inl (ErrExt ''no file''))) demoHosts (demoHostOpts (Some ''h'')) =
       Some (Inr cb) \<and> cb ''h:22'' RemoteOther CHR ''b'' = None"
proof -
  obtain cb where cb: "buildHostKeyCallback (demoLib (\<lambda>f. Inl (ErrExt ''no file''))) demoHosts
      (demoHostOpts (Some ''h'')) = Some (Inr cb)" using demoHost_build by blast
  have "cb ''h:22'' RemoteOther CHR ''b'' = None"
    by (rule hostKey_other_error_accepted[OF _ cb, unfolded demoHost_files, where err = "ErrExt ''missing port in address''"
          and base = "\<lambda>name remote key. if CHR '':'' \<notin> set name then Some (ErrExt ''missing port in address'')
             else if key = CHR ''a'' then None else Some (ErrExt ''key mismatch'')"])
      (simp_all add: demoHosts_def demoHostOpts_def lookupName_def revokedByFile_def emptyOptions_def)
  then show ?thesis using cb by auto
qed

end
