(* ===== verification/ClientAuth.thy ===== *)
theory ClientAuth
  imports KeyLib Algorithms Helpers
begin

text \<open>
  Authentication methods of the client (\<^verbatim>\<open>pkg/sshclient/auth.go\<close>, \<^verbatim>\<open>gssapi.go\<close>,
  \<^verbatim>\<open>auth_gssapi.go\<close>): which methods are tried in which order, and which keys the
  public key method offers.  Keys and files are those of \<^verbatim>\<open>KeyLib\<close>; the agent, the
  environment and the handlers of an application are arguments.
\<close>

section \<open>GSSAPI\<close>

record GSSAPIConfig =
  gcEnabled :: bool
  gcDelegateCredentials :: bool
  gcTarget :: string

definition gssapiConfigFromOptions :: "ClientOptions \<Rightarrow> GSSAPIConfig" where
  "gssapiConfigFromOptions opts =
     \<lparr>gcEnabled = (case cGSSAPIAuthentication opts of Some v \<Rightarrow> v | None \<Rightarrow> False),
      gcDelegateCredentials = (case cGSSAPIDelegateCredentials opts of Some v \<Rightarrow> v | None \<Rightarrow> False),
      gcTarget = (case cHostname opts of Some h \<Rightarrow> ''host@'' @ h | None \<Rightarrow> [])\<rparr>"

text \<open>The wrapper around a GSSAPI client puts its own choice in place of the library's flag.\<close>

definition InitSecContext ::
  "(string \<Rightarrow> string \<Rightarrow> bool \<Rightarrow> 'r) \<Rightarrow> bool \<Rightarrow> string \<Rightarrow> string \<Rightarrow> bool \<Rightarrow> 'r" where
  "InitSecContext inner delegCreds target token isGSSDelegCreds = inner target token delegCreds"

section \<open>Keys\<close>

record 'signer AuthWorld =
  auGetenv :: "string \<Rightarrow> string"
  auDialAgent :: "string \<Rightarrow> go_error + (go_error + 'signer list)"
  auGSSAPI :: "handle option"
  auUI :: "(string \<Rightarrow> go_error + string) option"
  auKeyProvider :: "(ClientOptions \<Rightarrow> go_error + 'signer list) option"
  auHostbased :: "(ClientOptions \<Rightarrow> handle option) option"

definition getAgentSigners :: "'signer AuthWorld \<Rightarrow> ClientOptions \<Rightarrow> 'signer list" where
  "getAgentSigners w opts =
     (let socketPath =
            (case cIdentityAgent opts of
               None \<Rightarrow> Some (auGetenv w ''SSH_AUTH_SOCK'')
             | Some agentPath \<Rightarrow>
                 if toLower agentPath = ''none'' then None
                 else if agentPath = ''SSH_AUTH_SOCK'' then Some (auGetenv w ''SSH_AUTH_SOCK'')
                 else if hasPrefix agentPath ''$'' then Some (auGetenv w (drop 1 agentPath))
                 else Some agentPath)
      in case socketPath of
           None \<Rightarrow> []
         | Some path \<Rightarrow>
             if path = [] then []
             else (case auDialAgent w path of
                     Inl err \<Rightarrow> []
                   | Inr (Inl err) \<Rightarrow> []
                   | Inr (Inr signers) \<Rightarrow> signers))"

definition loadPrivateKey ::
  "('pub, 'cert, 'signer) KeyLib \<Rightarrow> (string \<Rightarrow> go_error + string) option \<Rightarrow> string \<Rightarrow> go_error + 'signer" where
  "loadPrivateKey lib passphraseCallback path =
     (case klReadFile lib path of
        Inl err \<Rightarrow> Inl err
      | Inr data \<Rightarrow>
          (case klParsePrivate lib data of
             Inr signer \<Rightarrow> Inr signer
           | Inl err \<Rightarrow>
               (case passphraseCallback of
                  Some callback \<Rightarrow>
                    if klPassphraseMissing lib err
                    then (case callback path of
                            Inl err' \<Rightarrow> Inl err'
                          | Inr passphrase \<Rightarrow> klParseWithPassphrase lib data passphrase)
                    else Inl err
                | None \<Rightarrow> Inl err)))"

text \<open>A certificate in a file: the first key of the file, if it is one.\<close>

definition certInFile :: "('pub, 'cert, 'signer) KeyLib \<Rightarrow> string \<Rightarrow> 'cert option" where
  "certInFile lib certFile =
     (case klReadFile lib certFile of
        Inl err \<Rightarrow> None
      | Inr certData \<Rightarrow>
          (case klParseAuthorized lib certData of
             Inl err \<Rightarrow> None
           | Inr (pubKey, rest) \<Rightarrow> klAsCert lib pubKey))"

definition loadCertificate ::
  "('pub, 'cert, 'signer) KeyLib \<Rightarrow> string \<Rightarrow> 'signer \<Rightarrow> 'signer option" where
  "loadCertificate lib keyFile signer =
     (case certInFile lib (keyFile @ ''-cert.pub'') of
        None \<Rightarrow> None
      | Some cert \<Rightarrow>
          (case klNewCertSigner lib cert signer of Inl err \<Rightarrow> None | Inr certSigner \<Rightarrow> Some certSigner))"

primrec identitySigners ::
  "('pub, 'cert, 'signer) KeyLib \<Rightarrow> (string \<Rightarrow> go_error + string) option \<Rightarrow> string list \<Rightarrow> 'signer list" where
  "identitySigners lib pass [] = []"
| "identitySigners lib pass (keyFile # keyFiles) =
     (case loadPrivateKey lib pass keyFile of
        Inl err \<Rightarrow> identitySigners lib pass keyFiles
      | Inr signer \<Rightarrow>
          (case loadCertificate lib keyFile signer of Some cert \<Rightarrow> [cert] | None \<Rightarrow> []) @
          [signer] @ identitySigners lib pass keyFiles)"

primrec matchingSigner ::
  "('pub, 'cert, 'signer) KeyLib \<Rightarrow> (string \<Rightarrow> go_error + string) option \<Rightarrow> 'cert \<Rightarrow> string list \<Rightarrow>
   'signer list" where
  "matchingSigner lib pass cert [] = []"
| "matchingSigner lib pass cert (keyFile # keyFiles) =
     (case loadPrivateKey lib pass keyFile of
        Inl err \<Rightarrow> matchingSigner lib pass cert keyFiles
      | Inr signer \<Rightarrow>
          if klFingerprint lib (klPublic lib signer) = klFingerprint lib (klCertKey lib cert)
          then (case klNewCertSigner lib cert signer of Inr certSigner \<Rightarrow> [certSigner] | Inl err \<Rightarrow> [])
          else matchingSigner lib pass cert keyFiles)"

primrec certificateSigners ::
  "('pub, 'cert, 'signer) KeyLib \<Rightarrow> (string \<Rightarrow> go_error + string) option \<Rightarrow> string list \<Rightarrow> string list \<Rightarrow>
   'signer list" where
  "certificateSigners lib pass keyFiles [] = []"
| "certificateSigners lib pass keyFiles (certFile # certFiles) =
     (case certInFile lib certFile of
        None \<Rightarrow> certificateSigners lib pass keyFiles certFiles
      | Some cert \<Rightarrow> matchingSigner lib pass cert keyFiles @ certificateSigners lib pass keyFiles certFiles)"

definition buildPublicKeyAuth ::
  "('pub, 'cert, 'signer) KeyLib \<Rightarrow> 'signer AuthWorld \<Rightarrow> ClientOptions \<Rightarrow> 'signer list" where
  "buildPublicKeyAuth lib w opts =
     (let identitiesOnly = (cIdentitiesOnly opts = Some True)
      in (if \<not> identitiesOnly then getAgentSigners w opts else []) @
         (case auKeyProvider w of
            Some signers \<Rightarrow> (case signers opts of Inr extra \<Rightarrow> extra | Inl err \<Rightarrow> [])
          | None \<Rightarrow> []) @
         identitySigners lib (auUI w) (cIdentityFile opts) @
         certificateSigners lib (auUI w) (cIdentityFile opts) (cCertificateFile opts))"

section \<open>Methods\<close>

datatype 'signer AuthMethod =
    GSSAPIWithMIC handle bool string
  | PublicKeys "'signer list"
  | KeyboardInteractive
  | RetryPassword int
  | Hostbased handle

definition methodEnabled :: "ClientOptions \<Rightarrow> string \<Rightarrow> bool" where
  "methodEnabled opts method =
     (if method = ''gssapi-with-mic'' then cGSSAPIAuthentication opts = Some True
      else if method = ''hostbased'' then cHostbasedAuthentication opts = Some True
      else if method = ''publickey'' then cPubkeyAuthentication opts \<noteq> None \<and> cPubkeyAuthentication opts \<noteq> Some ''no''
      else if method = ''keyboard-interactive'' then cKbdInteractiveAuthentication opts = Some True
      else if method = ''password'' then cPasswordAuthentication opts = Some True
      else False)"

text \<open>The thin wrappers of \<^verbatim>\<open>crypto.go\<close>.\<close>

definition splitAlgList :: "string \<Rightarrow> string list" where
  "splitAlgList s = SplitAlgList s"

definition parseRekeyLimit :: "string \<Rightarrow> 64 word \<times> int" where
  "parseRekeyLimit value = ParseRekeyLimit value"

definition methodOrder :: "ClientOptions \<Rightarrow> string list" where
  "methodOrder opts =
     (case cPreferredAuthentications opts of
        None \<Rightarrow> [''gssapi-with-mic'', ''hostbased'', ''publickey'', ''keyboard-interactive'', ''password'']
      | Some p \<Rightarrow> splitAlgList p)"

definition passwordPrompts :: "ClientOptions \<Rightarrow> int" where
  "passwordPrompts opts = (case cNumberOfPasswordPrompts opts of Some n \<Rightarrow> n | None \<Rightarrow> 3)"

definition methodStep ::
  "('pub, 'cert, 'signer) KeyLib \<Rightarrow> 'signer AuthWorld \<Rightarrow> ClientOptions \<Rightarrow> string \<Rightarrow> 'signer AuthMethod list" where
  "methodStep lib w opts method =
     (if method = ''gssapi-with-mic'' then
        (case auGSSAPI w of
           None \<Rightarrow> []
         | Some client \<Rightarrow>
             (let gssConfig = gssapiConfigFromOptions opts
              in [GSSAPIWithMIC client (gcDelegateCredentials gssConfig) (gcTarget gssConfig)]))
      else if method = ''publickey'' then [PublicKeys (buildPublicKeyAuth lib w opts)]
      else if method = ''keyboard-interactive'' then
        (if auUI w \<noteq> None then [KeyboardInteractive] else [])
      else if method = ''password'' then
        (if auUI w \<noteq> None
         then [RetryPassword (passwordPrompts opts)] else [])
      else if method = ''hostbased'' then
        (case auHostbased w of
           None \<Rightarrow> []
         | Some authMethod \<Rightarrow> (case authMethod opts of Some am \<Rightarrow> [Hostbased am] | None \<Rightarrow> []))
      else [])"

primrec methodLoop ::
  "('pub, 'cert, 'signer) KeyLib \<Rightarrow> 'signer AuthWorld \<Rightarrow> ClientOptions \<Rightarrow> string list \<Rightarrow> 'signer AuthMethod list" where
  "methodLoop lib w opts [] = []"
| "methodLoop lib w opts (method # order) =
     (if \<not> methodEnabled opts method then methodLoop lib w opts order
      else methodStep lib w opts method @ methodLoop lib w opts order)"

definition buildAuthMethods ::
  "('pub, 'cert, 'signer) KeyLib \<Rightarrow> 'signer AuthWorld \<Rightarrow> ClientOptions \<Rightarrow> go_error + 'signer AuthMethod list" where
  "buildAuthMethods lib w opts = Inr (methodLoop lib w opts (methodOrder opts))"

section \<open>Properties\<close>

fun methodName :: "'signer AuthMethod \<Rightarrow> string" where
  "methodName (GSSAPIWithMIC c d t) = ''gssapi-with-mic''"
| "methodName (PublicKeys ss) = ''publickey''"
| "methodName KeyboardInteractive = ''keyboard-interactive''"
| "methodName (RetryPassword n) = ''password''"
| "methodName (Hostbased h) = ''hostbased''"

text \<open>What each method needs besides its option.\<close>

definition methodAvailable :: "'signer AuthWorld \<Rightarrow> ClientOptions \<Rightarrow> string \<Rightarrow> bool" where
  "methodAvailable w opts method \<longleftrightarrow>
     (method = ''gssapi-with-mic'' \<and> auGSSAPI w \<noteq> None) \<or>
     method = ''publickey'' \<or>
     (method \<in> {''keyboard-interactive'', ''password''} \<and> auUI w \<noteq> None) \<or>
     (method = ''hostbased'' \<and> (\<exists>f am. auHostbased w = Some f \<and> f opts = Some am))"

lemma methodStep_name:
  "map methodName (methodStep lib w opts m) = (if methodAvailable w opts m then [m] else [])"
  by (auto simp: methodStep_def methodAvailable_def Let_def split: option.split)

lemma methodLoop_names:
  "map methodName (methodLoop lib w opts order) =
     filter (\<lambda>m. methodEnabled opts m \<and> methodAvailable w opts m) order"
  by (induction order) (simp_all add: methodStep_name)

text \<open>The methods there can be.\<close>

definition possibleMethods ::
  "('pub, 'cert, 'signer) KeyLib \<Rightarrow> 'signer AuthWorld \<Rightarrow> ClientOptions \<Rightarrow> 'signer AuthMethod set" where
  "possibleMethods lib w opts =
     range (\<lambda>c. GSSAPIWithMIC c (cGSSAPIDelegateCredentials opts = Some True)
       (case cHostname opts of Some h \<Rightarrow> ''host@'' @ h | None \<Rightarrow> [])) \<union>
     {PublicKeys (buildPublicKeyAuth lib w opts), KeyboardInteractive,
      RetryPassword (passwordPrompts opts)} \<union> range Hostbased"

lemma methodStep_possible: "set (methodStep lib w opts m) \<subseteq> possibleMethods lib w opts"
proof -
  have g: "gcDelegateCredentials (gssapiConfigFromOptions opts) = (cGSSAPIDelegateCredentials opts = Some True)"
    by (cases "cGSSAPIDelegateCredentials opts") (auto simp: gssapiConfigFromOptions_def)
  have t: "gcTarget (gssapiConfigFromOptions opts) = (case cHostname opts of Some h \<Rightarrow> ''host@'' @ h | None \<Rightarrow> [])"
    by (simp add: gssapiConfigFromOptions_def)
  have "list_all (\<lambda>x. x \<in> possibleMethods lib w opts) (methodStep lib w opts m)"
    unfolding possibleMethods_def g[symmetric] t[symmetric]
    by (simp add: methodStep_def Let_def split: option.split)
  then show ?thesis by (auto simp: list_all_iff)
qed

lemma methodLoop_possible: "set (methodLoop lib w opts order) \<subseteq> possibleMethods lib w opts"
  using methodStep_possible[of lib w opts] by (induction order) auto

text \<open>The client tries exactly the methods that are enabled and have what they need, in
  the order of PreferredAuthentications, a method named twice twice; keys come with the
  public key method only, and passwords are asked for NumberOfPasswordPrompts times.\<close>

theorem buildAuthMethods_order:
  "\<exists>ams. buildAuthMethods lib w opts = Inr ams \<and>
     map methodName ams =
       filter (\<lambda>m. methodEnabled opts m \<and> methodAvailable w opts m) (methodOrder opts) \<and>
     set ams \<subseteq> possibleMethods lib w opts"
  by (simp add: buildAuthMethods_def methodLoop_names methodLoop_possible)

lemma identitySigners_from:
  "x \<in> set (identitySigners lib pass fs) \<Longrightarrow>
   \<exists>f \<in> set fs. \<exists>s. loadPrivateKey lib pass f = Inr s \<and> (x = s \<or> (\<exists>c. klNewCertSigner lib c s = Inr x))"
  by (induction fs) (force simp: loadCertificate_def split: sum.splits option.splits)+

lemma matchingSigner_from:
  "x \<in> set (matchingSigner lib pass cert fs) \<Longrightarrow>
   \<exists>f \<in> set fs. \<exists>s. loadPrivateKey lib pass f = Inr s \<and> klNewCertSigner lib cert s = Inr x"
  by (induction fs) (auto split: sum.splits if_splits)

lemma certificateSigners_from:
  "x \<in> set (certificateSigners lib pass fs cs) \<Longrightarrow>
   \<exists>f \<in> set fs. \<exists>s c. loadPrivateKey lib pass f = Inr s \<and> klNewCertSigner lib c s = Inr x"
  by (induction cs) (auto split: option.splits, metis matchingSigner_from)

text \<open>C23: with IdentitiesOnly every key the public key method offers comes from the key
  provider or from one of the identity files, itself or wrapped in a certificate; the
  agent is not asked.\<close>

theorem buildPublicKeyAuth_identitiesOnly:
  assumes "cIdentitiesOnly opts = Some True" and "x \<in> set (buildPublicKeyAuth lib w opts)"
  shows "(\<exists>p ks. auKeyProvider w = Some p \<and> p opts = Inr ks \<and> x \<in> set ks) \<or>
    (\<exists>f \<in> set (cIdentityFile opts). \<exists>s. loadPrivateKey lib (auUI w) f = Inr s \<and>
       (x = s \<or> (\<exists>c. klNewCertSigner lib c s = Inr x)))"
proof -
  consider (prov) p ks where "auKeyProvider w = Some p" "p opts = Inr ks" "x \<in> set ks"
    | (id) "x \<in> set (identitySigners lib (auUI w) (cIdentityFile opts))"
    | (cert) "x \<in> set (certificateSigners lib (auUI w) (cIdentityFile opts) (cCertificateFile opts))"
    using assms by (auto simp: buildPublicKeyAuth_def dest: sym split: option.splits sum.splits)
  then show ?thesis
  proof cases
    case cert
    then show ?thesis using certificateSigners_from by metis
  qed (use identitySigners_from in \<open>metis+\<close>)
qed

theorem buildPublicKeyAuth_identitiesOnly_witness:
  "loadPrivateKey (demoLib (\<lambda>f. Inr ''x'')) None ''id'' = Inr CHR ''x''"
proof -
  let ?w = "\<lparr>auGetenv = (\<lambda>v. ''/agent''), auDialAgent = (\<lambda>p. Inr (Inr ''z'')), auGSSAPI = None, auUI = None,
    auKeyProvider = None, auHostbased = None\<rparr>"
  let ?o = "emptyOptions\<lparr>cIdentitiesOnly := Some True, cIdentityFile := [''id'']\<rparr>"
  have "CHR ''x'' \<in> set (buildPublicKeyAuth (demoLib (\<lambda>f. Inr ''x'')) ?w ?o)"
    by (simp add: buildPublicKeyAuth_def loadPrivateKey_def demoLib_def)
  from buildPublicKeyAuth_identitiesOnly[OF _ this] show ?thesis
    by (auto simp: loadPrivateKey_def demoLib_def)
qed

end
