(* ===== verification/ClientConnect.thy ===== *)
theory ClientConnect
  imports ClientAuth ClientHostKey ClientResolve
begin

text \<open>
  From resolved options to a session (\<^verbatim>\<open>pkg/sshclient/ssh.go\<close>): the configuration handed
  to the SSH library, and the handlers called after connecting and for a session.  A
  handler is its answer; the calls made are recorded in order.
\<close>

section \<open>The client configuration\<close>

datatype BannerMode = NoBanner | BannerToUI | BannerDropped

record ('pub, 'signer) ClientConfig =
  ccUser :: string
  ccTimeout :: int
  ccClientVersion :: string
  ccCiphers :: "string list"
  ccKeyExchanges :: "string list"
  ccMACs :: "string list"
  ccHostKeyAlgorithms :: "string list"
  ccRekeyThreshold :: "64 word"
  ccAuth :: "'signer AuthMethod list"
  ccHostKeyCallback :: "'pub hostkey_callback"
  ccBanner :: BannerMode

definition clientVersion :: "ClientOptions \<Rightarrow> string" where
  "clientVersion opts =
     (case cVersionAddendum opts of
        Some v \<Rightarrow> if v \<noteq> ''none'' then ''SSH-2.0-'' @ Version @ '' '' @ v else ''SSH-2.0-'' @ Version
      | None \<Rightarrow> ''SSH-2.0-'' @ Version)"

definition SSHClientConfig ::
  "AlgLib \<Rightarrow> ('pub, 'cert, 'signer) KeyLib \<Rightarrow> 'pub HostKeyWorld \<Rightarrow> 'signer AuthWorld \<Rightarrow> ClientOptions \<Rightarrow>
   (go_error + ('pub, 'signer) ClientConfig) option" where
  "SSHClientConfig algs lib hw aw opts =
     (let alg = (\<lambda>resolve o1. case o1 of Some v \<Rightarrow> resolve algs v | None \<Rightarrow> []) in
      case buildAuthMethods lib aw opts of
        Inl err \<Rightarrow> Some (Inl err)
      | Inr authMethods \<Rightarrow>
          (case buildHostKeyCallback lib hw opts of
             None \<Rightarrow> None
           | Some (Inl err) \<Rightarrow> Some (Inl err)
           | Some (Inr hostKeyCallback) \<Rightarrow>
               Some (Inr
                 \<lparr>ccUser = (case cUser opts of Some u \<Rightarrow> u | None \<Rightarrow> []),
                  ccTimeout = (case cConnectTimeout opts of
                                 Some n \<Rightarrow> if n > 0 then wrap64 (n * 1000000000) else 0 | None \<Rightarrow> 0),
                  ccClientVersion = clientVersion opts,
                  ccCiphers = alg ResolveCiphers (cCiphers opts),
                  ccKeyExchanges = alg ResolveKexAlgorithms (cKexAlgorithms opts),
                  ccMACs = alg ResolveMACs (cMACs opts),
                  ccHostKeyAlgorithms = alg ResolveHostKeyAlgorithms (cHostKeyAlgorithms opts),
                  ccRekeyThreshold =
                    (case cRekeyLimit opts of
                       Some v \<Rightarrow> (let (bytes, secs) = parseRekeyLimit v in if bytes > 0 then bytes else 0)
                     | None \<Rightarrow> 0),
                  ccAuth = authMethods,
                  ccHostKeyCallback = hostKeyCallback,
                  ccBanner = (if auUI aw \<noteq> None then BannerToUI
                              else if cBatchMode opts = Some False then BannerDropped else NoBanner)\<rparr>)))"

section \<open>Handlers of a connection\<close>

type_synonym handler = "(ClientOptions \<Rightarrow> go_error option) option"

datatype HandlerCall =
    CallSession | CallAgent | CallX11 | CallTerminal
  | CallMultiplexer | CallForwarding | CallTunnel
  | CallLocalCommand string
  | CallLog string string

record ConnectHandlers =
  coSession :: handler
  coAgentForwarding :: handler
  coX11Forwarding :: handler
  coTerminal :: handler
  coMultiplexer :: handler
  coForwarding :: handler
  coTunnel :: handler
  coCommandExecutor :: "(string \<Rightarrow> go_error option) option"
  coLogger :: bool

text \<open>One guarded call whose error ends the sequence, and the rest of the sequence.\<close>

definition guarded ::
  "handler \<Rightarrow> bool \<Rightarrow> HandlerCall \<Rightarrow> string \<Rightarrow> ClientOptions \<Rightarrow>
   HandlerCall list \<times> go_error option \<Rightarrow> HandlerCall list \<times> go_error option" where
  "guarded h wanted call what opts rest =
     (case h of
        None \<Rightarrow> rest
      | Some f \<Rightarrow>
          if \<not> wanted then rest
          else (case f opts of
                  Some err \<Rightarrow> ([call], Some (Wrapf what [] err))
                | None \<Rightarrow> (call # fst rest, snd rest)))"

definition configureSession ::
  "ConnectHandlers \<Rightarrow> ClientOptions \<Rightarrow> HandlerCall list \<times> go_error option" where
  "configureSession h opts =
     guarded (coSession h) True CallSession ''configuring session: %w'' opts
     (guarded (coAgentForwarding h)
        (cForwardAgent opts \<noteq> None \<and> cForwardAgent opts \<noteq> Some ''no'')
        CallAgent ''setting up agent forwarding: %w'' opts
     (guarded (coX11Forwarding h) (cForwardX11 opts = Some True)
        CallX11 ''setting up X11 forwarding: %w'' opts
     (guarded (coTerminal h) True CallTerminal ''setting up terminal: %w'' opts
     ([], None))))"

definition logError :: "ConnectHandlers \<Rightarrow> string \<Rightarrow> go_error \<Rightarrow> HandlerCall list" where
  "logError h fmt err = (if coLogger h then [CallLog ''ERROR'' (sprintf fmt [errText err])] else [])"

definition localCommandCalls :: "ConnectHandlers \<Rightarrow> ClientOptions \<Rightarrow> HandlerCall list" where
  "localCommandCalls h opts =
     (case (coCommandExecutor h, cLocalCommand opts) of
        (Some execute, Some cmd) \<Rightarrow>
          if cPermitLocalCommand opts = Some True \<and> cmd \<noteq> []
          then CallLocalCommand cmd #
               (case execute cmd of Some err \<Rightarrow> logError h ''LocalCommand failed: %v'' err | None \<Rightarrow> [])
          else []
      | _ \<Rightarrow> [])"

text \<open>Forwarding that fails is fatal only with ExitOnForwardFailure.\<close>

definition forwardingCalls ::
  "ConnectHandlers \<Rightarrow> ClientOptions \<Rightarrow> HandlerCall list \<times> go_error option \<Rightarrow> HandlerCall list \<times> go_error option" where
  "forwardingCalls h opts rest =
     (case coForwarding h of
        None \<Rightarrow> rest
      | Some setup \<Rightarrow>
          (case setup opts of
             None \<Rightarrow> (CallForwarding # fst rest, snd rest)
           | Some err \<Rightarrow>
               if cExitOnForwardFailure opts = Some True
               then ([CallForwarding], Some (Wrapf ''setting up forwarding: %w'' [] err))
               else (CallForwarding # logError h ''forwarding setup failed: %v'' err @ fst rest, snd rest)))"

definition PostConnect ::
  "ConnectHandlers \<Rightarrow> ClientOptions \<Rightarrow> HandlerCall list \<times> go_error option" where
  "PostConnect h opts =
     guarded (coMultiplexer h) (cControlMaster opts \<noteq> None \<and> cControlMaster opts \<noteq> Some ''no'')
       CallMultiplexer ''registering multiplexed connection: %w'' opts
     (forwardingCalls h opts
     (guarded (coTunnel h) (cTunnel opts \<noteq> None \<and> cTunnel opts \<noteq> Some ''no'')
       CallTunnel ''setting up tunnel: %w'' opts
     (localCommandCalls h opts, None)))"

section \<open>Lemmas\<close>

lemma guarded_call:
  "c \<in> set (fst (guarded h wanted call what opts rest)) \<Longrightarrow> c \<noteq> call \<Longrightarrow>
   c \<in> set (fst rest) \<and> snd (guarded h wanted call what opts rest) = snd rest \<and>
   (\<forall>f. h = Some f \<and> wanted \<longrightarrow> f opts = None)"
  by (auto simp: guarded_def split: option.splits if_splits)

lemma forwardingCalls_call:
  "c \<in> set (fst (forwardingCalls h opts rest)) \<Longrightarrow> c \<noteq> CallForwarding \<Longrightarrow> (\<nexists>l m. c = CallLog l m) \<Longrightarrow>
   c \<in> set (fst rest) \<and> snd (forwardingCalls h opts rest) = snd rest \<and>
   (\<forall>f. coForwarding h = Some f \<and> f opts \<noteq> None \<longrightarrow> cExitOnForwardFailure opts \<noteq> Some True)"
  by (auto simp: forwardingCalls_def logError_def split: option.splits if_splits)

lemma localCommandCalls_iff:
  "CallLocalCommand cmd \<in> set (localCommandCalls h opts) \<longleftrightarrow>
   coCommandExecutor h \<noteq> None \<and> cPermitLocalCommand opts = Some True \<and> cLocalCommand opts = Some cmd \<and> cmd \<noteq> []"
  by (cases "coCommandExecutor h"; cases "cLocalCommand opts")
    (auto simp: localCommandCalls_def logError_def split: option.splits)

section \<open>Properties\<close>

text \<open>A local command runs only when it is permitted, only after everything else that was
  wanted of the connection has been set up, and never after a forwarding failure with
  ExitOnForwardFailure; its own failure does not fail the connection.\<close>

theorem PostConnect_local_command:
  assumes "CallLocalCommand cmd \<in> set (fst (PostConnect h opts))"
  shows "cPermitLocalCommand opts = Some True \<and> cLocalCommand opts = Some cmd \<and> cmd \<noteq> [] \<and>
    snd (PostConnect h opts) = None \<and>
    (\<forall>f. coMultiplexer h = Some f \<and> cControlMaster opts \<noteq> None \<and> cControlMaster opts \<noteq> Some ''no'' \<longrightarrow>
       f opts = None) \<and>
    (\<forall>f. coForwarding h = Some f \<and> f opts \<noteq> None \<longrightarrow> cExitOnForwardFailure opts \<noteq> Some True) \<and>
    (\<forall>f. coTunnel h = Some f \<and> cTunnel opts \<noteq> None \<and> cTunnel opts \<noteq> Some ''no'' \<longrightarrow> f opts = None)"
proof -
  note 1 = guarded_call[OF assms[unfolded PostConnect_def], simplified]
  note 2 = forwardingCalls_call[OF conjunct1[OF 1], simplified]
  note 3 = guarded_call[OF conjunct1[OF 2], simplified]
  show ?thesis
    using 1 2 3 localCommandCalls_iff unfolding PostConnect_def by auto
qed

definition demoConnect :: ConnectHandlers where
  "demoConnect = \<lparr>coSession = None, coAgentForwarding = None, coX11Forwarding = None, coTerminal = None,
     coMultiplexer = None, coForwarding = Some (\<lambda>o1. Some (ErrExt ''in use'')), coTunnel = None,
     coCommandExecutor = Some (\<lambda>c. None), coLogger = False\<rparr>"

theorem PostConnect_local_command_witness:
  "snd (PostConnect demoConnect (emptyOptions\<lparr>cPermitLocalCommand := Some True, cLocalCommand := Some ''x''\<rparr>)) = None"
proof -
  have "CallLocalCommand ''x'' \<in> set (fst (PostConnect demoConnect
      (emptyOptions\<lparr>cPermitLocalCommand := Some True, cLocalCommand := Some ''x''\<rparr>)))"
    by (simp add: PostConnect_def guarded_def forwardingCalls_def localCommandCalls_def demoConnect_def emptyOptions_def)
  from PostConnect_local_command[OF this] show ?thesis by blast
qed

end
