(* ===== verification/ClientForward.thy ===== *)
theory ClientForward
  imports ClientOptions GoNet
begin

text \<open>
  Port forwarding by the client (\<^verbatim>\<open>pkg/forward\<close>).  Listening and the channel to the
  server are arguments; what is asked of them and logged is recorded in order.  The
  goroutines that serve a listener are described by what they do with one connection.
\<close>

section \<open>Targets\<close>

definition parseDynamicSpec :: "string \<Rightarrow> string \<Rightarrow> string \<times> string" where
  "parseDynamicSpec spec defaultBind =
     (case lastIndexByte spec CHR '':'' of
        Some idx \<Rightarrow> (take idx spec, drop (Suc idx) spec)
      | None \<Rightarrow> (defaultBind, spec))"

definition HostFromTarget :: "string \<Rightarrow> string" where
  "HostFromTarget target = (case netSplitHostPort target of None \<Rightarrow> target | Some (h, p) \<Rightarrow> h)"

text \<open>\<^verbatim>\<open>strconv.ParseUint(p, 10, 32)\<close>\<close>

definition parseUint32 :: "string \<Rightarrow> nat option" where
  "parseUint32 s = (case unsignedDigits s of Some n \<Rightarrow> if n < 4294967296 then Some n else None | None \<Rightarrow> None)"

definition PortFromTarget :: "string \<Rightarrow> 32 word" where
  "PortFromTarget target =
     (case netSplitHostPort target of
        None \<Rightarrow> 22
      | Some (h, p) \<Rightarrow> (case parseUint32 p of None \<Rightarrow> 22 | Some n \<Rightarrow> of_nat n))"

text \<open>Standard input and output over a channel: what is sent, the message, the exit code.\<close>

datatype StdioOut = OpenDirect string "32 word" string "32 word" | StdioMessage string | StdioCopy

definition RunStdioForward :: "go_error option \<Rightarrow> string \<Rightarrow> StdioOut list \<times> int" where
  "RunStdioForward openErr target =
     (let opening = OpenDirect (HostFromTarget target) (PortFromTarget target) ''127.0.0.1'' 0 in
      case openErr of
        Some err \<Rightarrow>
          ([opening, StdioMessage (sprintf ''ssh: stdio forwarding to %s failed: %v'' [target, errText err])], 255)
      | None \<Rightarrow> ([opening, StdioCopy], 0))"

section \<open>Listeners\<close>

datatype ForwardOut =
    ListenLocal string
  | ListenRemote string
  | ServeLocal string string
  | ServeRemote string string
  | ServeSocks string
  | ForwardLog string

record ForwardWorld =
  fwListen :: "string \<Rightarrow> go_error option"
  fwRemoteListen :: "string \<Rightarrow> go_error option"
  fwLogger :: bool

definition fwdLog :: "ForwardWorld \<Rightarrow> string \<Rightarrow> string list \<Rightarrow> ForwardOut list" where
  "fwdLog w fmt args = (if fwLogger w then [ForwardLog (sprintf fmt args)] else [])"

definition bindOr :: "Forward \<Rightarrow> string \<Rightarrow> string" where
  "bindOr fwd defaultBind = (if fwBindAddress fwd \<noteq> [] then fwBindAddress fwd else defaultBind)"

definition setupLocalForward ::
  "ForwardWorld \<Rightarrow> Forward \<Rightarrow> string \<Rightarrow> ForwardOut list \<times> go_error option" where
  "setupLocalForward w fwd defaultBind =
     (let listenAddr = JoinHostPort (bindOr fwd defaultBind) (fwBindPort fwd);
          targetAddr = JoinHostPort (fwHost fwd) (fwHostPort fwd)
      in case fwListen w listenAddr of
           Some err \<Rightarrow> ([ListenLocal listenAddr], Some (Wrapf ''listen on %s: %w'' [listenAddr] err))
         | None \<Rightarrow>
             ([ListenLocal listenAddr] @ fwdLog w ''Local forwarding: %s -> %s'' [listenAddr, targetAddr] @
                [ServeLocal listenAddr targetAddr], None))"

definition setupRemoteForward ::
  "ForwardWorld \<Rightarrow> Forward \<Rightarrow> string \<Rightarrow> ForwardOut list \<times> go_error option" where
  "setupRemoteForward w fwd defaultBind =
     (let listenAddr = JoinHostPort (bindOr fwd defaultBind) (fwBindPort fwd);
          targetAddr = JoinHostPort (fwHost fwd) (fwHostPort fwd)
      in case fwRemoteListen w listenAddr of
           Some err \<Rightarrow> ([ListenRemote listenAddr], Some (Wrapf ''remote listen on %s: %w'' [listenAddr] err))
         | None \<Rightarrow>
             ([ListenRemote listenAddr] @ fwdLog w ''Remote forwarding: %s -> %s'' [listenAddr, targetAddr] @
                [ServeRemote listenAddr targetAddr], None))"

definition setupDynamicForward ::
  "ForwardWorld \<Rightarrow> string \<Rightarrow> string \<Rightarrow> ForwardOut list \<times> go_error option" where
  "setupDynamicForward w spec defaultBind =
     (let (bind, port) = parseDynamicSpec spec defaultBind;
          listenAddr = JoinHostPort bind port
      in case fwListen w listenAddr of
           Some err \<Rightarrow> ([ListenLocal listenAddr], Some (Wrapf ''listen on %s: %w'' [listenAddr] err))
         | None \<Rightarrow>
             ([ListenLocal listenAddr] @ fwdLog w ''Dynamic forwarding (SOCKS5): %s'' [listenAddr] @
                [ServeSocks listenAddr], None))"

text \<open>What a served connection is given: the target, or the log line and its end.\<close>

datatype ServedOut = DialTarget string | ServedLog string | CopyBoth | CloseTarget | CloseConn

definition serveConn :: "bool \<Rightarrow> string \<Rightarrow> string \<Rightarrow> go_error option \<Rightarrow> ServedOut list" where
  "serveConn logging fmt targetAddr dialErr =
     (case dialErr of
        Some err \<Rightarrow>
          [DialTarget targetAddr] @
          (if logging then [ServedLog (sprintf fmt [targetAddr, errText err])] else []) @ [CloseConn]
      | None \<Rightarrow> [DialTarget targetAddr, CopyBoth, CloseTarget, CloseConn])"

definition serveLocal :: "bool \<Rightarrow> string \<Rightarrow> go_error option \<Rightarrow> ServedOut list" where
  "serveLocal logging = serveConn logging ''Failed to dial remote %s: %v''"

definition serveRemote :: "bool \<Rightarrow> string \<Rightarrow> go_error option \<Rightarrow> ServedOut list" where
  "serveRemote logging = serveConn logging ''Failed to dial local %s: %v''"

text \<open>The two directions of a copy; a side that can be closed for writing is.\<close>

datatype CopyOut = CopyTo bool | CloseWrite bool

definition BiCopy :: "bool \<Rightarrow> bool \<Rightarrow> CopyOut list \<times> CopyOut list" where
  "BiCopy aCloses bCloses =
     ([CopyTo True] @ (if bCloses then [CloseWrite True] else []),
      [CopyTo False] @ (if aCloses then [CloseWrite False] else []))"

section \<open>All forwards\<close>

text \<open>The loops go on after an error and keep the first one.\<close>

primrec forwardLoop ::
  "ForwardWorld \<Rightarrow> ('f \<Rightarrow> ForwardOut list \<times> go_error option) \<Rightarrow> string \<Rightarrow> ('f \<Rightarrow> string list) \<Rightarrow> 'f list \<Rightarrow>
   go_error option \<Rightarrow> ForwardOut list \<times> go_error option" where
  "forwardLoop w start fmt args [] firstErr = ([], firstErr)"
| "forwardLoop w start fmt args (f # fs) firstErr =
     (case start f of
        (out, None) \<Rightarrow>
          (let (out', err) = forwardLoop w start fmt args fs firstErr in (out @ out', err))
      | (out, Some e) \<Rightarrow>
          (let (out', err) = forwardLoop w start fmt args fs (orElse firstErr (Some e))
           in (out @ fwdLog w fmt (args f @ [errText e]) @ out', err)))"

definition forwardArgs :: "Forward \<Rightarrow> string list" where
  "forwardArgs fwd = [fwBindAddress fwd, fwBindPort fwd, fwHost fwd, fwHostPort fwd]"

definition SetupForwarding ::
  "ForwardWorld \<Rightarrow> ClientOptions \<Rightarrow> ForwardOut list \<times> go_error option" where
  "SetupForwarding w opts =
     (let bindHost = (if cGatewayPorts opts = Some True then [] else ''127.0.0.1'');
          (out1, e1) = forwardLoop w (\<lambda>f. setupLocalForward w f bindHost)
             ''Warning: Could not set up local forwarding %s:%s -> %s:%s: %v'' forwardArgs
             (cLocalForward opts) None;
          (out2, e2) = forwardLoop w (\<lambda>f. setupRemoteForward w f bindHost)
             ''Warning: Could not set up remote forwarding %s:%s -> %s:%s: %v'' forwardArgs
             (cRemoteForward opts) e1;
          (out3, e3) = forwardLoop w (\<lambda>spec. setupDynamicForward w spec bindHost)
             ''Warning: Could not set up dynamic forwarding %s: %v'' (\<lambda>spec. [spec])
             (cDynamicForward opts) e2
      in (out1 @ out2 @ out3, e3))"


section \<open>Lemmas\<close>

definition isListen :: "ForwardOut \<Rightarrow> bool" where
  "isListen x \<longleftrightarrow> (\<exists>a. x = ListenLocal a \<or> x = ListenRemote a)"

lemma isListen_simps [simp]:
  "isListen (ListenLocal a)" "isListen (ListenRemote a)" "\<not> isListen (ServeLocal a t)"
  "\<not> isListen (ServeRemote a t)" "\<not> isListen (ServeSocks a)" "\<not> isListen (ForwardLog m)"
  by (simp_all add: isListen_def)

lemma filter_fwdLog [simp]: "filter isListen (fwdLog w fmt args) = []"
  by (simp add: fwdLog_def)

primrec firstError :: "('f \<Rightarrow> go_error option) \<Rightarrow> 'f list \<Rightarrow> go_error option" where
  "firstError g [] = None"
| "firstError g (f # fs) = (case g f of Some e \<Rightarrow> Some e | None \<Rightarrow> firstError g fs)"

lemma firstError_None: "firstError g fs = None \<longleftrightarrow> list_all (\<lambda>f. g f = None) fs"
  by (induction fs) (auto split: option.split)

text \<open>A loop over forwards each of which makes one attempt.\<close>

lemma forwardLoop_result:
  assumes "\<And>f. filter isListen (fst (start f)) = [attempt f]"
  shows "filter isListen (fst (forwardLoop w start fmt args fs e)) = map attempt fs \<and>
    snd (forwardLoop w start fmt args fs e) =
      (case e of Some err \<Rightarrow> Some err
       | None \<Rightarrow> firstError (\<lambda>f. snd (start f)) fs)"
proof (induction fs arbitrary: e)
  case (Cons f fs)
  obtain out err where f: "start f = (out, err)" by (cases "start f")
  then have "filter isListen out = [attempt f]" using assms[of f] by simp
  then show ?case using Cons.IH f by (cases err; cases e) (simp_all add: case_prod_beta' Let_def)
qed (auto split: option.split)

definition defaultBindOf :: "ClientOptions \<Rightarrow> string" where
  "defaultBindOf opts = (if cGatewayPorts opts = Some True then [] else ''127.0.0.1'')"

definition forwardAddr :: "ClientOptions \<Rightarrow> Forward \<Rightarrow> string" where
  "forwardAddr opts f = JoinHostPort (bindOr f (defaultBindOf opts)) (fwBindPort f)"

definition dynamicAddr :: "ClientOptions \<Rightarrow> string \<Rightarrow> string" where
  "dynamicAddr opts spec =
     (let (bind, port) = parseDynamicSpec spec (defaultBindOf opts) in JoinHostPort bind port)"

lemma setupLocal_result:
  "filter isListen (fst (setupLocalForward w f b)) = [ListenLocal (JoinHostPort (bindOr f b) (fwBindPort f))] \<and>
   (snd (setupLocalForward w f b) = None \<longleftrightarrow> fwListen w (JoinHostPort (bindOr f b) (fwBindPort f)) = None)"
  by (simp add: setupLocalForward_def Let_def split: option.split)

lemma setupRemote_result:
  "filter isListen (fst (setupRemoteForward w f b)) = [ListenRemote (JoinHostPort (bindOr f b) (fwBindPort f))] \<and>
   (snd (setupRemoteForward w f b) = None \<longleftrightarrow> fwRemoteListen w (JoinHostPort (bindOr f b) (fwBindPort f)) = None)"
  by (simp add: setupRemoteForward_def Let_def split: option.split)

lemma setupDynamic_result:
  "filter isListen (fst (setupDynamicForward w s (defaultBindOf opts))) = [ListenLocal (dynamicAddr opts s)] \<and>
   (snd (setupDynamicForward w s (defaultBindOf opts)) = None \<longleftrightarrow> fwListen w (dynamicAddr opts s) = None)"
  by (simp add: setupDynamicForward_def dynamicAddr_def Let_def case_prod_beta' split: option.split)

section \<open>Properties\<close>

text \<open>Every forward is tried once, whatever became of those before it: local ones, remote
  ones, dynamic ones, in their order, where a forward without an address listens on the
  loopback address unless GatewayPorts is set; there is an error exactly when some
  listener could not be opened.\<close>

theorem SetupForwarding_tries_all:
  "filter isListen (fst (SetupForwarding w opts)) =
     map (ListenLocal \<circ> forwardAddr opts) (cLocalForward opts) @
     map (ListenRemote \<circ> forwardAddr opts) (cRemoteForward opts) @
     map (ListenLocal \<circ> dynamicAddr opts) (cDynamicForward opts) \<and>
   (snd (SetupForwarding w opts) = None \<longleftrightarrow>
     list_all (\<lambda>f. fwListen w (forwardAddr opts f) = None) (cLocalForward opts) \<and>
     list_all (\<lambda>f. fwRemoteListen w (forwardAddr opts f) = None) (cRemoteForward opts) \<and>
     list_all (\<lambda>s. fwListen w (dynamicAddr opts s) = None) (cDynamicForward opts))"
proof -
  let ?b = "defaultBindOf opts"
  note l = forwardLoop_result[where start = "\<lambda>f. setupLocalForward w f ?b", OF conjunct1[OF setupLocal_result]]
  note r = forwardLoop_result[where start = "\<lambda>f. setupRemoteForward w f ?b", OF conjunct1[OF setupRemote_result]]
  note d = forwardLoop_result[where start = "\<lambda>s. setupDynamicForward w s ?b", OF conjunct1[OF setupDynamic_result]]
  have n: "(case e of Some err \<Rightarrow> Some err | None \<Rightarrow> x) = None \<longleftrightarrow> e = None \<and> x = None"
    for e x :: "go_error option" by (cases e) auto
  show ?thesis
    by (simp add: SetupForwarding_def defaultBindOf_def[symmetric] case_prod_beta' Let_def l r d n
        firstError_None setupLocal_result setupRemote_result setupDynamic_result
        comp_def forwardAddr_def)
qed

text \<open>A dynamic forward with an IPv6 address, written in brackets as the configuration
  wants it, listens on no address: the brackets are put around it a second time.\<close>

theorem dynamic_forward_brackets:
  assumes "CHR '':'' \<in> set h" and "CHR '':'' \<notin> set p"
  shows "filter isListen (fst (setupDynamicForward w (''['' @ h @ '']:'' @ p) b)) =
     [ListenLocal (''['' @ (''['' @ h @ '']'') @ '']'' @ '':'' @ p)] \<and>
   (b' \<noteq> [] \<and> CHR '':'' \<notin> set b' \<longrightarrow>
      filter isListen (fst (setupDynamicForward w (b' @ '':'' @ p) b)) = [ListenLocal (b' @ '':'' @ p)])"
proof -
  have i: "parseDynamicSpec (x @ CHR '':'' # p) b = (x, p)" for x
    using assms(2) by (simp add: parseDynamicSpec_def)
  have e: "''['' @ h @ '']:'' @ p = (''['' @ h @ '']'') @ CHR '':'' # p" by simp
  show ?thesis
    unfolding setupDynamicForward_def e using assms(1) i[of b'] i[of "''['' @ h @ '']''"]
    by (auto simp: Let_def JoinHostPort_def split: option.split)
qed

theorem dynamic_forward_brackets_witness:
  "filter isListen (fst (setupDynamicForward \<lparr>fwListen = (\<lambda>a. None), fwRemoteListen = (\<lambda>a. None), fwLogger = False\<rparr>
     ''[::1]:1080'' ''127.0.0.1'')) = [ListenLocal (''['' @ ''[::1]'' @ '']:1080'')]"
  using dynamic_forward_brackets[of "''::1''" "''1080''"
      "\<lparr>fwListen = (\<lambda>a. None), fwRemoteListen = (\<lambda>a. None), fwLogger = False\<rparr>" "''127.0.0.1''" "[]"] by simp

end
