(* ===== verification/ClientTerminal.thy ===== *)
theory ClientTerminal
  imports ConfTypes
begin

text \<open>
  The local terminal of the client (\<^verbatim>\<open>pkg/terminal\<close>): the reader that watches for escape
  sequences, and the mode of the terminal.  The reader underneath and the terminal
  driver are arguments.
\<close>

section \<open>The escape reader\<close>

text \<open>A reader answers a request for at most n bytes with bytes and an error; the bytes fit
  the request.\<close>

type_synonym 's reader = "nat \<Rightarrow> 's \<Rightarrow> (string \<times> go_error option) \<times> 's"

record EscapeReader =
  erEscape :: char
  erAtStart :: bool

datatype EscEffect = CloseFn | PrintHelp

definition eof :: go_error where "eof = ErrExt ''EOF''"

definition NewEscapeReader :: "string \<Rightarrow> EscapeReader" where
  "NewEscapeReader escapeChar =
     \<lparr>erEscape =
        (if escapeChar = [] then CHR ''~''
         else if escapeChar = ''none'' then CHR 0x00
         else if length escapeChar = 2 \<and> escapeChar ! 0 = CHR ''^''
         then char_of (of_char (escapeChar ! 1) mod 32 :: nat)
         else escapeChar ! 0),
      erAtStart = True\<rparr>"

definition isNewline :: "char \<Rightarrow> bool" where
  "isNewline b \<longleftrightarrow> b = CHR 0x0D \<or> b = CHR 0x0A"

text \<open>\<^verbatim>\<open>Read\<close> into a buffer of \<^term>\<open>plen\<close> bytes, at least one.\<close>

definition escRead ::
  "'s reader \<Rightarrow> nat \<Rightarrow> EscapeReader \<Rightarrow> 's \<Rightarrow>
   (string \<times> go_error option) \<times> EscEffect list \<times> EscapeReader \<times> 's" where
  "escRead rd plen e s =
     (let esc = erEscape e in
      if esc = CHR 0x00 then (let (r, s') = rd plen s in (r, [], e, s'))
      else
        (case rd 1 s of
           (([], err), s1) \<Rightarrow> (([], err), [], e, s1)
         | ((b # _, err), s1) \<Rightarrow>
             if isNewline b then (([b], err), [], e\<lparr>erAtStart := True\<rparr>, s1)
             else if erAtStart e \<and> b = esc then
               (let e' = e\<lparr>erAtStart := False\<rparr> in
                case rd 1 s1 of
                  (([], err2), s2) \<Rightarrow> (([b], err2), [], e', s2)
                | ((c # _, err2), s2) \<Rightarrow>
                    if c = CHR ''.'' then (([], Some eof), [CloseFn], e', s2)
                    else if c = CHR ''?'' then (([], err2), [PrintHelp], e', s2)
                    else if c = esc then (([esc], err2), [], e', s2)
                    else if plen \<ge> 2 then (([esc, c], err2), [], e', s2)
                    else (([esc], err2), [], e', s2))
             else (([b], err), [], e\<lparr>erAtStart := False\<rparr>, s1)))"

text \<open>\<^verbatim>\<open>io.Copy\<close> from the reader: it reads until there is an error.  Its input is a byte
  string here, read in whatever pieces are asked for.\<close>

definition readString :: "string reader" where
  "readString n s = (if s = [] then (([], Some eof), []) else ((take n s, None), drop n s))"

definition copyBuffer :: nat where "copyBuffer = 32768"

lemma copyBuffer_gt: "0 < copyBuffer" "2 \<le> copyBuffer"
  by (simp_all add: copyBuffer_def)

lemma escRead_shrinks:
  "escRead readString copyBuffer e s = ((out, None), eff, e', s') \<Longrightarrow> length s' < length s"
proof (cases s)
  case (Cons b t)
  assume "escRead readString copyBuffer e s = ((out, None), eff, e', s')"
  then show ?thesis using Cons copyBuffer_gt
    by (cases t) (auto simp: escRead_def readString_def Let_def split: if_splits)
qed (auto simp: escRead_def readString_def Let_def split: if_splits)

function escCopy :: "EscapeReader \<Rightarrow> string \<Rightarrow> string \<times> EscEffect list" where
  "escCopy e s =
     (case escRead readString copyBuffer e s of
        ((out, Some err), eff, e', s') \<Rightarrow> (out, eff)
      | ((out, None), eff, e', s') \<Rightarrow>
          (let (out', eff') = escCopy e' s' in (out @ out', eff @ eff')))"
  by pat_completeness auto
termination
  by (relation "measure (\<lambda>(e, s). length s)") (auto dest: escRead_shrinks[OF sym])

declare escCopy.simps [simp del]

section \<open>The mode of the terminal\<close>

text \<open>\<^typ>\<open>'m\<close> is a mode of the terminal driver, \<^term>\<open>raw\<close> what \<^verbatim>\<open>term.MakeRaw\<close> makes of it.\<close>

record 'm TermState =
  tsMode :: 'm
  tsOldState :: "'m option"
  tsSession :: bool

definition MakeRaw :: "('m \<Rightarrow> go_error + 'm) \<Rightarrow> 'm TermState \<Rightarrow> go_error option \<times> 'm TermState" where
  "MakeRaw raw t =
     (case raw (tsMode t) of
        Inl err \<Rightarrow> (Some err, t)
      | Inr m \<Rightarrow> (None, t\<lparr>tsMode := m, tsOldState := Some (tsMode t)\<rparr>))"

definition Restore :: "'m TermState \<Rightarrow> 'm TermState" where
  "Restore t = (case tsOldState t of Some m \<Rightarrow> t\<lparr>tsMode := m, tsOldState := None\<rparr> | None \<Rightarrow> t)"

definition SetupTerminal :: "('m \<Rightarrow> go_error + 'm) \<Rightarrow> 'm TermState \<Rightarrow> go_error option \<times> 'm TermState" where
  "SetupTerminal raw t =
     (if tsOldState t = None \<and> tsSession t
      then (case MakeRaw raw t of
              (Some err, t') \<Rightarrow> (Some (Wrapf ''setting raw mode: %w'' [] err), t')
            | (None, t') \<Rightarrow> (None, t'))
      else (None, t))"

text \<open>What \<^verbatim>\<open>cmd/ssh\<close> does to the terminal in a session: the session is stored, the session
  is configured, which calls \<^verbatim>\<open>SetupTerminal\<close>, with a pseudo-terminal the mode is made raw,
  and in the end it is restored; a deferred call restores again.\<close>

definition sessionTerminal :: "('m \<Rightarrow> go_error + 'm) \<Rightarrow> bool \<Rightarrow> 'm TermState \<Rightarrow> 'm TermState" where
  "sessionTerminal raw ptyRequested t =
     (case SetupTerminal raw (t\<lparr>tsSession := True\<rparr>) of
        (Some err, t') \<Rightarrow> t'
      | (None, t') \<Rightarrow>
          if ptyRequested
          then (case MakeRaw raw t' of
                  (Some err, t'') \<Rightarrow> Restore t''
                | (None, t'') \<Rightarrow> Restore (Restore t''))
          else Restore t')"

section \<open>What the reader does to its input\<close>

text \<open>A transducer on the bytes of the input, with the flag for the start of a line.\<close>

definition emit :: "string \<Rightarrow> string \<times> EscEffect list \<Rightarrow> string \<times> EscEffect list" where
  "emit out r = (out @ fst r, snd r)"

fun escSpec :: "char \<Rightarrow> bool \<Rightarrow> string \<Rightarrow> string \<times> EscEffect list" where
  "escSpec esc atStart [] = ([], [])"
| "escSpec esc atStart (b # s) =
     (if isNewline b then emit [b] (escSpec esc True s)
      else if atStart \<and> b = esc then
        (case s of
           [] \<Rightarrow> ([b], [])
         | c # s' \<Rightarrow>
             if c = CHR ''.'' then ([], [CloseFn])
             else if c = CHR ''?'' then (fst (escSpec esc False s'), PrintHelp # snd (escSpec esc False s'))
             else if c = esc then emit [esc] (escSpec esc False s')
             else emit [esc, c] (escSpec esc False s'))
      else emit [b] (escSpec esc False s))"

declare escSpec.simps(2) [simp del]

text \<open>One read of a string, case by case.\<close>

lemma readString_one:
  "readString (Suc 0) [] = (([], Some eof), [])" "readString (Suc 0) (x # xs) = (([x], None), xs)"
  by (simp_all add: readString_def)

lemma escRead_end:
  "erEscape e \<noteq> CHR 0x00 \<Longrightarrow> escRead readString copyBuffer e [] = (([], Some eof), [], e, [])"
  by (simp add: escRead_def readString_one Let_def)

lemma escRead_plain:
  "erEscape e \<noteq> CHR 0x00 \<Longrightarrow> isNewline b \<or> \<not> (erAtStart e \<and> b = erEscape e) \<Longrightarrow>
   escRead readString copyBuffer e (b # t) = (([b], None), [], e\<lparr>erAtStart := isNewline b\<rparr>, t)"
  by (auto simp: escRead_def readString_one Let_def)

lemma escRead_last:
  "erEscape e \<noteq> CHR 0x00 \<Longrightarrow> \<not> isNewline (erEscape e) \<Longrightarrow> erAtStart e \<Longrightarrow>
   escRead readString copyBuffer e [erEscape e] = (([erEscape e], Some eof), [], e\<lparr>erAtStart := False\<rparr>, [])"
  by (simp add: escRead_def readString_one Let_def)

lemma escRead_pair:
  "erEscape e \<noteq> CHR 0x00 \<Longrightarrow> \<not> isNewline (erEscape e) \<Longrightarrow> erAtStart e \<Longrightarrow>
   escRead readString copyBuffer e (erEscape e # c # u) =
     (if c = CHR ''.'' then (([], Some eof), [CloseFn], e\<lparr>erAtStart := False\<rparr>, u)
      else if c = CHR ''?'' then (([], None), [PrintHelp], e\<lparr>erAtStart := False\<rparr>, u)
      else if c = erEscape e then (([erEscape e], None), [], e\<lparr>erAtStart := False\<rparr>, u)
      else (([erEscape e, c], None), [], e\<lparr>erAtStart := False\<rparr>, u))"
  using copyBuffer_gt(2) by (simp add: escRead_def readString_one Let_def)

lemma escCopy_more:
  "escRead readString copyBuffer e s = ((out, None), eff, e', s') \<Longrightarrow>
   escCopy e s = (out @ fst (escCopy e' s'), eff @ snd (escCopy e' s'))"
  by (simp add: escCopy.simps[of e s] case_prod_beta' Let_def)

lemma escCopy_stop:
  "escRead readString copyBuffer e s = ((out, Some err), eff, e', s') \<Longrightarrow> escCopy e s = (out, eff)"
  by (simp add: escCopy.simps[of e s])

lemma escCopy_spec:
  "erEscape e \<noteq> CHR 0x00 \<Longrightarrow> escCopy e s = escSpec (erEscape e) (erAtStart e) s"
proof (induction "length s" arbitrary: e s rule: less_induct)
  case less
  note nz = less.prems
  have ih: "escCopy (e\<lparr>erAtStart := st\<rparr>) u = escSpec (erEscape e) st u" if "length u < length s" for st u
    using less.hyps[OF that, of "e\<lparr>erAtStart := st\<rparr>"] nz by simp
  show ?case
  proof (cases s)
    case Nil
    then show ?thesis using escCopy_stop[OF escRead_end[OF nz]] by simp
  next
    case (Cons b t)
    show ?thesis
    proof (cases "isNewline b \<or> \<not> (erAtStart e \<and> b = erEscape e)")
      case True
      then show ?thesis
        using escCopy_more[OF escRead_plain[OF nz True, of t]] ih[of t "isNewline b"] Cons
        by (cases "isNewline b") (auto simp: escSpec.simps(2) emit_def)
    next
      case False
      then have b: "b = erEscape e" "\<not> isNewline (erEscape e)" "erAtStart e" by auto
      show ?thesis
      proof (cases t)
        case Nil
        then show ?thesis using escCopy_stop[OF escRead_last[OF nz b(2,3)]] b Cons
          by (simp add: escSpec.simps(2))
      next
        case (Cons c u)
        note r = escRead_pair[OF nz b(2,3), of c u]
        have l: "length u < length s" using Cons \<open>s = b # t\<close> by simp
        have s: "s = erEscape e # c # u" using Cons \<open>s = b # t\<close> b(1) by simp
        consider "c = CHR ''.''" | "c \<noteq> CHR ''.''" by blast
        then show ?thesis
        proof cases
          case 1
          then show ?thesis using escCopy_stop[OF r[simplified 1 if_True simp_thms]] b
            by (simp add: s escSpec.simps(2))
        next
          case 2
          then show ?thesis
            using r escCopy_more[of e s] ih[OF l, of False] b
            by (auto simp: s escSpec.simps(2) emit_def)
        qed
      qed
    qed
  qed
qed

text \<open>Input in which no line starts with the escape character.\<close>

definition plainLines :: "char \<Rightarrow> string \<Rightarrow> bool" where
  "plainLines esc s \<longleftrightarrow> (\<forall>pre post. s = pre @ esc # post \<longrightarrow> pre \<noteq> [] \<and> \<not> isNewline (last pre))"

fun plainFrom :: "char \<Rightarrow> bool \<Rightarrow> string \<Rightarrow> bool" where
  "plainFrom esc st [] = True"
| "plainFrom esc st (b # s) = (\<not> (st \<and> b = esc) \<and> plainFrom esc (isNewline b) s)"

lemma plainFrom_iff:
  "plainFrom esc st s \<longleftrightarrow> (\<forall>pre post. s = pre @ esc # post \<longrightarrow> (if pre = [] then \<not> st else \<not> isNewline (last pre)))"
proof (induction s arbitrary: st)
  case (Cons b s)
  show ?case
  proof
    assume a: "plainFrom esc st (b # s)"
    show "\<forall>pre post. b # s = pre @ esc # post \<longrightarrow> (if pre = [] then \<not> st else \<not> isNewline (last pre))"
      using a Cons.IH[of "isNewline b"] by (auto simp: Cons_eq_append_conv split: if_splits)
  next
    assume a: "\<forall>pre post. b # s = pre @ esc # post \<longrightarrow> (if pre = [] then \<not> st else \<not> isNewline (last pre))"
    have "\<not> (st \<and> b = esc)" using a[rule_format, of "[]" s] by auto
    moreover have "plainFrom esc (isNewline b) s"
      unfolding Cons.IH
    proof (intro allI impI)
      fix pre post
      assume "s = pre @ esc # post"
      then show "if pre = [] then \<not> isNewline b else \<not> isNewline (last pre)"
        using a[rule_format, of "b # pre" post] by auto
    qed
    ultimately show "plainFrom esc st (b # s)" by simp
  qed
qed simp

lemma plainLines_iff: "plainLines esc s \<longleftrightarrow> plainFrom esc True s"
  by (auto simp: plainFrom_iff plainLines_def)

definition atLineStart :: "bool \<Rightarrow> string \<Rightarrow> bool" where
  "atLineStart st pre = (if pre = [] then st else isNewline (last pre))"

lemma escSpec_plain:
  "plainFrom esc st pre \<Longrightarrow> escSpec esc st (pre @ s) = emit pre (escSpec esc (atLineStart st pre) s)"
proof (induction pre arbitrary: st)
  case (Cons b pre)
  then have "escSpec esc (isNewline b) (pre @ s) = emit pre (escSpec esc (atLineStart (isNewline b) pre) s)"
    by simp
  moreover have "atLineStart st (b # pre) = atLineStart (isNewline b) pre"
    by (simp add: atLineStart_def)
  ultimately show ?case
    using Cons.prems by (cases "isNewline b") (auto simp: escSpec.simps(2) emit_def)
qed (simp add: emit_def atLineStart_def)

section \<open>Properties\<close>



text \<open>After a session with a pseudo-terminal the terminal is left in raw mode: the mode is
  made raw twice, and what is restored is the raw mode that was saved the second time.
  Without a pseudo-terminal the terminal is raw during the session as well.\<close>

theorem sessionTerminal_left_raw:
  assumes "tsOldState t = None" and "raw (tsMode t) = Inr m" and "raw m = Inr m'"
  shows "tsMode (sessionTerminal raw True t) = m \<and>
    tsMode (snd (SetupTerminal raw (t\<lparr>tsSession := True\<rparr>))) = m \<and>
    tsMode (sessionTerminal raw False t) = tsMode t"
  using assms by (simp add: sessionTerminal_def SetupTerminal_def MakeRaw_def Restore_def)

theorem sessionTerminal_left_raw_witness:
  "tsMode (sessionTerminal (\<lambda>m. Inr ''raw'') True \<lparr>tsMode = ''cooked'', tsOldState = None, tsSession = False\<rparr>) = ''raw''"
  using sessionTerminal_left_raw[of "\<lparr>tsMode = ''cooked'', tsOldState = None, tsSession = False\<rparr>"
      "\<lambda>m. Inr ''raw''" "''raw''" "''raw''"] by simp

end
