(* ===== verification/Logger.thy ===== *)
theory Logger
  imports ConfTypes
begin

text \<open>
  The logger (\<^verbatim>\<open>pkg/logger/logger.go\<close>).  A logger and its children share one level,
  through a pointer; so the level is a state of its own and a logger is its name.
\<close>

definition Levels :: "(string \<times> int) list" where
  "Levels = [(''QUIET'', -1), (''FATAL'', 0), (''ERROR'', 1), (''INFO'', 2), (''VERBOSE'', 3),
     (''DEBUG'', 4), (''DEBUG1'', 4), (''DEBUG2'', 5), (''DEBUG3'', 6)]"

text \<open>\<^term>\<open>True\<close> for the log file, \<^term>\<open>False\<close> for standard error.\<close>

record LogState =
  lsLevel :: int
  lsToFile :: bool

definition NewLogger :: "(string \<Rightarrow> bool) \<Rightarrow> string \<Rightarrow> int \<Rightarrow> bool \<Rightarrow> LogState" where
  "NewLogger canOpen logFilePath verbosity quiet =
     \<lparr>lsLevel = (if quiet then -1 else if verbosity > 0 then 2 + verbosity else 2),
      lsToFile = (logFilePath \<noteq> [] \<and> canOpen logFilePath)\<rparr>"

definition Child :: "string option \<Rightarrow> string \<Rightarrow> string option" where
  "Child l name =
     (case l of
        None \<Rightarrow> None
      | Some lname \<Rightarrow>
          Some (if lname \<noteq> [] \<and> name \<noteq> [] then lname @ ''.'' @ name
                else if lname \<noteq> [] then lname else name))"

definition SetLevel :: "string \<Rightarrow> LogState \<Rightarrow> LogState" where
  "SetLevel levelName st =
     (case map_of Levels (toUpper levelName) of Some lvl \<Rightarrow> st\<lparr>lsLevel := lvl\<rparr> | None \<Rightarrow> st)"

definition logLevelOf :: "string \<Rightarrow> int" where
  "logLevelOf level = (case map_of Levels (toUpper level) of Some n \<Rightarrow> n | None \<Rightarrow> 2)"

definition Log :: "LogState \<Rightarrow> string \<Rightarrow> string \<Rightarrow> string \<Rightarrow> string option" where
  "Log st lname level msg0 =
     (let msgLevel = logLevelOf level in
      if msgLevel > lsLevel st then None
      else
        (let msg = (if lname \<noteq> [] then lname @ '': '' @ msg0 else msg0);
             prefix1 = toLower level;
             prefix2 = (if prefix1 = ''info'' then [] else prefix1)
         in if prefix2 \<noteq> []
            then Some (sprintf ''debug%d: %s'' [itoaInt (msgLevel - 2), msg] @ [CHR 0x0A])
            else Some (msg @ [CHR 0x0A])))"

section \<open>Properties\<close>

lemma Log_None_iff: "Log st lname level msg = None \<longleftrightarrow> logLevelOf level > lsLevel st"
  by (simp add: Log_def Let_def)

lemma sprintf_debug: "sprintf ''debug%d: %s'' [a, b] = ''debug'' @ a @ '': '' @ b"
  by (simp)

text \<open>A message is written exactly when its level is within the level last set, on the
  logger or on any child of it, and behind the names of its logger; one of level ERROR
  is written as the debug message of level -1.\<close>

theorem Log_levels:
  "(Log (SetLevel set_level st) lname level msg = None \<longleftrightarrow>
      logLevelOf level > (case map_of Levels (toUpper set_level) of Some n \<Rightarrow> n | None \<Rightarrow> lsLevel st)) \<and>
   (case Log st lname ''ERROR'' msg of
      None \<Rightarrow> lsLevel st < 1
    | Some line \<Rightarrow> line = ''debug-1: '' @ (if lname = [] then [] else lname @ '': '') @ msg @ [CHR 0x0A])"
proof -
  have e: "toUpper ''ERROR'' = ''ERROR''" "toLower ''ERROR'' = ''error''" "itoaInt (-1) = ''-1''" by code_simp+
  have l: "logLevelOf ''ERROR'' = 1" by (simp add: logLevelOf_def e Levels_def)
  show ?thesis
    by (auto simp: Log_None_iff SetLevel_def Log_def l e sprintf_debug Let_def split: option.split)
qed

end
