(* ===== verification/TermIO.thy ===== *)
theory TermIO
  imports ConfTypes
begin

text \<open>
  Input from a terminal: Go's buffered reader, which takes what has arrived, and the
  passwords read from the terminal, a list that runs out.
\<close>

text \<open>A buffered reader over an input that comes in pieces: the bytes it has read ahead and
  the pieces it has not read.\<close>

definition eofErr :: go_error where "eofErr = ErrExt ''EOF''"

fun ReadString :: "string \<Rightarrow> string list \<Rightarrow> (go_error + string) \<times> string \<times> string list" where
  "ReadString buf [] =
     (if CHR 0x0A \<in> set buf
      then (Inr (takeWhile (\<lambda>c. c \<noteq> CHR 0x0A) buf @ newline), tl (dropWhile (\<lambda>c. c \<noteq> CHR 0x0A) buf), [])
      else (Inl eofErr, [], []))"
| "ReadString buf (piece # pieces) =
     (if CHR 0x0A \<in> set buf
      then (Inr (takeWhile (\<lambda>c. c \<noteq> CHR 0x0A) buf @ newline), tl (dropWhile (\<lambda>c. c \<noteq> CHR 0x0A) buf),
            piece # pieces)
      else ReadString (buf @ piece) pieces)"

text \<open>\<^verbatim>\<open>strings.TrimRight(line, "\r\n")\<close>\<close>

definition trimLineEnd :: "string \<Rightarrow> string" where
  "trimLineEnd line = rev (dropWhile (\<lambda>c. c = CHR 0x0D \<or> c = CHR 0x0A) (rev line))"

text \<open>What the terminal answers to the next question for a password.\<close>

type_synonym typed = "(go_error + string) list"

definition nextTyped :: "typed \<Rightarrow> (go_error + string) \<times> typed" where
  "nextTyped ts = (case ts of [] \<Rightarrow> (Inl eofErr, []) | t # ts' \<Rightarrow> (t, ts'))"

end
