(* ===== verification/ClientTui.thy ===== *)
theory ClientTui
  imports ClientArgs Algorithms TermIO
begin

text \<open>
  The terminal user interface of the client (\<^verbatim>\<open>pkg/sshclient/tui_*.go\<close>): the answers to
  queries (\<^verbatim>\<open>ssh -Q\<close>), the printed configuration (\<^verbatim>\<open>ssh -G\<close>), the usage and the prompts.
  What is written is the value of a function; what the user types is an argument.
\<close>

section \<open>Queries\<close>

definition RunQuery :: "AlgLib \<Rightarrow> string \<Rightarrow> go_error + string list" where
  "RunQuery lib queryType =
     (let q = toLower queryType;
          keys = AllSupportedHostKeyAlgorithms lib
      in if q = ''cipher'' then Inr (AllSupportedCiphers lib)
         else if q = ''cipher-auth'' then
           Inr (filter (\<lambda>c. containsStr c ''gcm'' \<or> containsStr c ''chacha20'') (AllSupportedCiphers lib))
         else if q = ''mac'' then Inr (AllSupportedMACs lib)
         else if q = ''kex'' then Inr (AllSupportedKexAlgorithms lib)
         else if q = ''key'' \<or> q = ''hostkeytype'' then Inr keys
         else if q = ''key-cert'' then Inr (filter (\<lambda>k. containsStr k ''-cert-'') keys)
         else if q = ''key-plain'' then Inr (filter (\<lambda>k. \<not> containsStr k ''-cert-'') keys)
         else if q = ''key-sig'' \<or> q = ''sig'' then Inr (AllSupportedPublicKeyAlgorithms lib)
         else if q = ''protocol-version'' then Inr [''2'']
         else if q = ''compression'' then Inr [''none'', ''zlib@openssh.com'']
         else Inl (Errorf ''unknown query type: %s'' [queryType]))"

section \<open>The printed configuration\<close>

text \<open>The closures of \<^verbatim>\<open>PrintConfig\<close>, one for each kind of field; a line is its keyword and
  its value.\<close>

type_synonym printed = "(string \<times> string) list"

definition pStr :: "string \<Rightarrow> string option \<Rightarrow> printed" where
  "pStr key val = (case val of None \<Rightarrow> [] | Some v \<Rightarrow> [(key, v)])"

definition pBool :: "string \<Rightarrow> bool option \<Rightarrow> printed" where
  "pBool key val = (case val of None \<Rightarrow> [] | Some v \<Rightarrow> [(key, if v then ''yes'' else ''no'')])"

definition pInt :: "string \<Rightarrow> int option \<Rightarrow> printed" where
  "pInt key val = (case val of None \<Rightarrow> [] | Some v \<Rightarrow> [(key, itoaInt v)])"

definition pSlice :: "string \<Rightarrow> string list \<Rightarrow> printed" where
  "pSlice key vals = map (\<lambda>v. (key, v)) vals"

text \<open>A slice that may be nil; nil and the empty slice print nothing.\<close>

definition pDomains :: "string \<Rightarrow> string list option \<Rightarrow> printed" where
  "pDomains key vals = (case vals of None \<Rightarrow> [] | Some vs \<Rightarrow> pSlice key vs)"

definition pFwd :: "string \<Rightarrow> Forward list \<Rightarrow> printed" where
  "pFwd key fwds =
     map (\<lambda>f. (key, (if fwBindAddress f \<noteq> [] then fwBindAddress f @ '':'' else []) @ fwBindPort f @ '' '' @
                    fwHost f @ '':'' @ fwHostPort f)) fwds"

definition configPairs :: "ClientOptions \<Rightarrow> printed" where
  "configPairs opts =
     pStr ''user'' (cUser opts) @
     pStr ''hostname'' (cHostname opts) @
     pInt ''port'' (cPort opts) @
     pStr ''addressfamily'' (cAddressFamily opts) @
     pStr ''bindaddress'' (cBindAddress opts) @
     pStr ''bindinterface'' (cBindInterface opts) @
     pInt ''connecttimeout'' (cConnectTimeout opts) @
     pInt ''connectionattempts'' (cConnectionAttempts opts) @
     pBool ''tcpkeepalive'' (cTCPKeepAlive opts) @
     pInt ''serveraliveinterval'' (cServerAliveInterval opts) @
     pInt ''serveralivecountmax'' (cServerAliveCountMax opts) @
     pBool ''compression'' (cCompression opts) @
     pBool ''batchmode'' (cBatchMode opts) @
     pSlice ''identityfile'' (cIdentityFile opts) @
     pSlice ''certificatefile'' (cCertificateFile opts) @
     pBool ''identitiesonly'' (cIdentitiesOnly opts) @
     pStr ''identityagent'' (cIdentityAgent opts) @
     pBool ''passwordauthentication'' (cPasswordAuthentication opts) @
     pBool ''kbdinteractiveauthentication'' (cKbdInteractiveAuthentication opts) @
     pStr ''pubkeyauthentication'' (cPubkeyAuthentication opts) @
     pStr ''preferredauthentications'' (cPreferredAuthentications opts) @
     pInt ''numberofpasswordprompts'' (cNumberOfPasswordPrompts opts) @
     pBool ''hostbasedauthentication'' (cHostbasedAuthentication opts) @
     pBool ''gssapiauthentication'' (cGSSAPIAuthentication opts) @
     pBool ''gssapidelegatecredentials'' (cGSSAPIDelegateCredentials opts) @
     pStr ''addkeystoagent'' (cAddKeysToAgent opts) @
     pStr ''ciphers'' (cCiphers opts) @
     pStr ''kexalgorithms'' (cKexAlgorithms opts) @
     pStr ''macs'' (cMACs opts) @
     pStr ''hostkeyalgorithms'' (cHostKeyAlgorithms opts) @
     pStr ''pubkeyacceptedalgorithms'' (cPubkeyAcceptedAlgorithms opts) @
     pStr ''casignaturealgorithms'' (cCASignatureAlgorithms opts) @
     pStr ''rekeylimit'' (cRekeyLimit opts) @
     pInt ''requiredrsasize'' (cRequiredRSASize opts) @
     pStr ''fingerprinthash'' (cFingerprintHash opts) @
     pStr ''stricthostkeychecking'' (cStrictHostKeyChecking opts) @
     pStr ''userknownhostsfile'' (cUserKnownHostsFile opts) @
     pStr ''globalknownhostsfile'' (cGlobalKnownHostsFile opts) @
     pBool ''hashknownhosts'' (cHashKnownHosts opts) @
     pBool ''checkhostip'' (cCheckHostIP opts) @
     pStr ''hostkeyalias'' (cHostKeyAlias opts) @
     pStr ''knownhostscommand'' (cKnownHostsCommand opts) @
     pStr ''revokedhostkeys'' (cRevokedHostKeys opts) @
     pStr ''updatehostkeys'' (cUpdateHostKeys opts) @
     pStr ''verifyhostkeydns'' (cVerifyHostKeyDNS opts) @
     pBool ''nohostauthenticationforlocalhost'' (cNoHostAuthenticationForLocalhost opts) @
     pStr ''proxycommand'' (cProxyCommand opts) @
     pStr ''proxyjump'' (cProxyJump opts) @
     pBool ''proxyusefdpass'' (cProxyUseFdpass opts) @
     pFwd ''localforward'' (cLocalForward opts) @
     pFwd ''remoteforward'' (cRemoteForward opts) @
     pSlice ''dynamicforward'' (cDynamicForward opts) @
     pBool ''clearallforwardings'' (cClearAllForwardings opts) @
     pBool ''exitonforwardfailure'' (cExitOnForwardFailure opts) @
     pBool ''gatewayports'' (cGatewayPorts opts) @
     pStr ''forwardagent'' (cForwardAgent opts) @
     pBool ''forwardx11'' (cForwardX11 opts) @
     pBool ''forwardx11trusted'' (cForwardX11Trusted opts) @
     pInt ''forwardx11timeout'' (cForwardX11Timeout opts) @
     pStr ''xauthlocation'' (cXAuthLocation opts) @
     pStr ''tunnel'' (cTunnel opts) @
     pStr ''tunneldevice'' (cTunnelDevice opts) @
     pStr ''requesttty'' (cRequestTTY opts) @
     pStr ''sessiontype'' (cSessionType opts) @
     pStr ''remotecommand'' (cRemoteCommand opts) @
     pSlice ''sendenv'' (cSendEnv opts) @
     pSlice ''setenv'' (cSetEnv opts) @
     pStr ''escapechar'' (cEscapeChar opts) @
     pStr ''loglevel'' (cLogLevel opts) @
     pStr ''syslogfacility'' (cSyslogFacility opts) @
     pStr ''controlmaster'' (cControlMaster opts) @
     pStr ''controlpath'' (cControlPath opts) @
     pStr ''controlpersist'' (cControlPersist opts) @
     pBool ''permitlocalcommand'' (cPermitLocalCommand opts) @
     pStr ''localcommand'' (cLocalCommand opts) @
     pBool ''visualhostkey'' (cVisualHostKey opts) @
     pBool ''forkafterauthentication'' (cForkAfterAuthentication opts) @
     pBool ''stdinnull'' (cStdinNull opts) @
     pBool ''enableescapecommandline'' (cEnableEscapeCommandline opts) @
     pStr ''obscurekeystroketiming'' (cObscureKeystrokeTiming opts) @
     pStr ''canonicalizehostname'' (cCanonicalizeHostname opts) @
     pDomains ''canonicaldomains'' (cCanonicalDomains opts) @
     pInt ''canonicalizemaxdots'' (cCanonicalizeMaxDots opts) @
     pBool ''canonicalizefallbacklocal'' (cCanonicalizeFallbackLocal opts)"

definition PrintConfig :: "ClientOptions \<Rightarrow> string \<Rightarrow> string" where
  "PrintConfig opts originalHost =
     concat (map (\<lambda>(key, v). key @ '' '' @ v @ newline) ((''host'', originalHost) # configPairs opts))"

section \<open>The usage\<close>

definition Usage :: "string \<Rightarrow> ParseMode \<Rightarrow> string" where
  "Usage program mode =
     (let indent = replicate (length (''usage: '' @ program @ '' '')) CHR '' '';
          positional = (case mode of
              ModeOptionsOnly \<Rightarrow> []
            | ModeOptionsHost \<Rightarrow> newline @ indent @ ''destination''
            | ModeOptionsHostCommand \<Rightarrow> newline @ indent @ ''destination [command [argument ...]]'')
      in ''usage: '' @ program @ '' [-46AaCfGgKkMNnqsTtVvXxYy] [-B bind_interface]'' @ newline @
         indent @ ''[-b bind_address] [-c cipher_spec] [-D [bind_address:]port]'' @ newline @
         indent @ ''[-E log_file] [-e escape_char] [-F configfile] [-I pkcs11]'' @ newline @
         indent @ ''[-i identity_file] [-J [user@]host[:port]] [-L address]'' @ newline @
         indent @ ''[-l login_name] [-m mac_spec] [-O ctl_cmd] [-o option] [-P tag]'' @ newline @
         indent @ ''[-p port] [-Q query_option] [-R address] [-S ctl_path]'' @ newline @
         indent @ ''[-W host:port] [-w local_tun[:remote_tun]]'' @ positional @ newline)"

section \<open>Prompts\<close>

text \<open>A password: what is written, and the answer of the terminal.\<close>

definition readPassword :: "go_error + string \<Rightarrow> string \<times> (go_error + string)" where
  "readPassword typed = (newline, typed)"

definition PasswordCallback :: "string \<Rightarrow> string \<Rightarrow> go_error + string \<Rightarrow> string \<times> (go_error + string)" where
  "PasswordCallback user host typed =
     (let (out, r) = readPassword typed
      in (user @ ''@'' @ host @ [CHR 0x27] @ ''s password: '' @ out, r))"

definition PassphraseCallback :: "string \<Rightarrow> go_error + string \<Rightarrow> string \<times> (go_error + string)" where
  "PassphraseCallback keyFile typed =
     (let (out, r) = readPassword typed
      in (''Enter passphrase for key '' @ [CHR 0x27] @ keyFile @ [CHR 0x27] @ '': '' @ out, r))"

definition BannerCallback :: "string \<Rightarrow> string" where
  "BannerCallback message = message"

text \<open>The questions with their echo flags; lines come through one buffered reader, passwords
  from the terminal.  The answer has what is written, the answers, and what is left of the
  pieces of the input.\<close>

primrec interactiveLoop ::
  "(string \<times> bool) list \<Rightarrow> string \<Rightarrow> string list \<Rightarrow> (go_error + string) list \<Rightarrow>
   string \<times> (go_error + string list) \<times> string list" where
  "interactiveLoop [] buf pieces typed = ([], Inr [], pieces)"
| "interactiveLoop (qe # qs) buf pieces typed =
     (case qe of (q, echo) \<Rightarrow>
       if echo then
         (case ReadString buf pieces of
            (Inl err, buf', pieces') \<Rightarrow> (q, Inl err, pieces')
          | (Inr line, buf', pieces') \<Rightarrow>
              (let (out, r, rest) = interactiveLoop qs buf' pieces' typed
               in (q @ out, map_sum id (\<lambda>as. trimLineEnd line # as) r, rest)))
       else
         (let (nl, pw) = readPassword (case typed of [] \<Rightarrow> Inl eofErr | t # ts \<Rightarrow> t)
          in case pw of
               Inl err \<Rightarrow> (q @ nl, Inl err, pieces)
             | Inr pw \<Rightarrow>
                 (let (out, r, rest) = interactiveLoop qs buf pieces (tl typed)
                  in (q @ nl @ out, map_sum id (\<lambda>as. pw # as) r, rest))))"

definition InteractiveCallback ::
  "string \<Rightarrow> string \<Rightarrow> (string \<times> bool) list \<Rightarrow> string list \<Rightarrow> (go_error + string) list \<Rightarrow>
   string \<times> (go_error + string list) \<times> string list" where
  "InteractiveCallback name instruction questions pieces typed =
     (let (out, r, rest) = interactiveLoop questions [] pieces typed
      in ((if name \<noteq> [] then name @ newline else []) @
          (if instruction \<noteq> [] then instruction @ newline else []) @ out, r, rest))"

definition HostKeyConfirm ::
  "string \<Rightarrow> string \<Rightarrow> string \<Rightarrow> string \<Rightarrow> string list \<Rightarrow> string \<times> bool \<times> string list" where
  "HostKeyConfirm hostname remote keyType fingerprint pieces =
     (''The authenticity of host '' @ [CHR 0x27] @ hostname @ '' ('' @ remote @ '')'' @ [CHR 0x27] @
        '' can'' @ [CHR 0x27] @ ''t be established.'' @ newline @
      keyType @ '' key fingerprint is '' @ fingerprint @ ''.'' @ newline @
      ''Are you sure you want to continue connecting (yes/no/[fingerprint])? '',
      (case ReadString [] pieces of
         (Inl err, buf, rest) \<Rightarrow> (False, rest)
       | (Inr line, buf, rest) \<Rightarrow>
           (let answer = trimSpace line;
                low = toLower answer
            in (if low = ''yes'' then True
                else if low = ''no'' then False
                else answer = fingerprint, rest))))"

section \<open>Reading the printed configuration\<close>

definition asDirs :: "printed \<Rightarrow> Directive list" where
  "asDirs ps = map (\<lambda>(k, v). dirOf k v) ps"

lemma asDirs_append [simp]: "asDirs (xs @ ys) = asDirs xs @ asDirs ys"
  by (simp add: asDirs_def)

lemma ApplyAll_append: "ApplyAll (xs @ ys) o1 = bindE (ApplyAll xs o1) (ApplyAll ys)"
  by (cases "foldE ApplyDirective xs o1") (simp_all add: ApplyAll_def foldE_append)

lemma keywords_lower: "list_all (\<lambda>(k, h). toLower k = k) directiveTable"
  by code_simp

lemma table_lower: "map_of directiveTable k = Some h \<Longrightarrow> toLower k = k"
  using keywords_lower by (auto simp: list_all_iff dest: map_of_SomeD)

lemma length_table: "length directiveTable = 107"
  by (simp add: directiveTable_def)

lemmas table_facts = directiveTable_def length_table

lemma distinct_table: "distinct (map fst directiveTable)"
  by code_simp

lemma table_nth:
  assumes "directiveTable ! i = (k, h)" and "i < length directiveTable"
  shows "map_of directiveTable k = Some h"
  using distinct_table assms by (metis map_of_is_SomeI nth_mem)

lemma ApplyDirective_table:
  "map_of directiveTable k = Some h \<Longrightarrow> cIgnoredKeywords o1 = [] \<Longrightarrow>
   ApplyDirective (dirOf k v) o1 = h v noSource o1"
  using table_lower by (simp add: ApplyDirective_def dirOf_def Let_def)

lemma ApplyAll_one: "ApplyAll [d] o1 = ApplyDirective d o1"
  by (cases "ApplyDirective d o1") (simp_all add: ApplyAll_def)

lemma ApplyAll_none [simp]: "ApplyAll [] o1 = Inr o1"
  by (simp add: ApplyAll_def)

definition inRange :: "int option \<Rightarrow> bool" where
  "inRange v \<longleftrightarrow> (case v of None \<Rightarrow> True | Some i \<Rightarrow> minInt \<le> i \<and> i \<le> maxInt)"

lemma parseBool_text: "parseBool (if b then ''yes'' else ''no'') = Some b"
  by (cases b) (simp_all add: parseBool_def, code_simp+)

lemma str_read:
  assumes "directiveTable ! i = (k, strField upd)" and "i < length directiveTable" and "cIgnoredKeywords o1 = []"
    and "upd (\<lambda>x. x) o1 = o1" and "upd (\<lambda>x. orElse x v) o1 = r"
  shows "ApplyAll (asDirs (pStr k v)) o1 = Inr r"
proof (cases v)
  case None
  then show ?thesis using assms by (simp add: pStr_def asDirs_def)
next
  case (Some s)
  have "setStr s = (\<lambda>x. orElse x (Some s))" by (intro ext) (rule set_orElse)
  then show ?thesis
    using assms Some by (simp add: pStr_def asDirs_def ApplyAll_one ApplyDirective_table[OF table_nth] strField_def)
qed

lemma bool_read:
  assumes "directiveTable ! i = (k, boolField upd)" and "i < length directiveTable" and "cIgnoredKeywords o1 = []"
    and "upd (\<lambda>x. x) o1 = o1" and "upd (\<lambda>x. orElse x v) o1 = r"
  shows "ApplyAll (asDirs (pBool k v)) o1 = Inr r"
proof (cases v)
  case None
  then show ?thesis using assms by (simp add: pBool_def asDirs_def)
next
  case (Some b)
  have "setBool (if b then ''yes'' else ''no'') = (\<lambda>x. orElse x (Some b))"
    by (intro ext) (simp only: set_orElse parseBool_text)
  then show ?thesis
    using assms Some by (simp add: pBool_def asDirs_def ApplyAll_one ApplyDirective_table[OF table_nth] boolField_def)
qed

lemma int_read:
  assumes "directiveTable ! i = (k, intField upd)" and "i < length directiveTable" and "cIgnoredKeywords o1 = []"
    and "inRange v" and "upd (\<lambda>x. x) o1 = o1" and "upd (\<lambda>x. orElse x v) o1 = r"
  shows "ApplyAll (asDirs (pInt k v)) o1 = Inr r"
proof (cases v)
  case None
  then show ?thesis using assms by (simp add: pInt_def asDirs_def)
next
  case (Some i)
  have "setInt (itoaInt i) = (\<lambda>x. orElse x (Some i))"
    using assms(4) by (intro ext) (simp add: set_orElse inRange_def Some atoi_itoaInt)
  then show ?thesis
    using assms Some by (simp add: pInt_def asDirs_def ApplyAll_one ApplyDirective_table[OF table_nth] intField_def)
qed

lemma reads1:
  assumes "cIgnoredKeywords o1 = []"
  shows "ApplyAll (asDirs (pStr ''user'' v0)) o1 = Inr (o1\<lparr>cUser := orElse (cUser o1) v0\<rparr>)"
    and "ApplyAll (asDirs (pStr ''hostname'' v1)) o1 = Inr (o1\<lparr>cHostname := orElse (cHostname o1) v1\<rparr>)"
    and "inRange v2 \<Longrightarrow> ApplyAll (asDirs (pInt ''port'' v2)) o1 = Inr (o1\<lparr>cPort := orElse (cPort o1) v2\<rparr>)"
    and "ApplyAll (asDirs (pStr ''addressfamily'' v3)) o1 = Inr (o1\<lparr>cAddressFamily := orElse (cAddressFamily o1) v3\<rparr>)"
    and "ApplyAll (asDirs (pStr ''bindaddress'' v4)) o1 = Inr (o1\<lparr>cBindAddress := orElse (cBindAddress o1) v4\<rparr>)"
    and "ApplyAll (asDirs (pStr ''bindinterface'' v5)) o1 = Inr (o1\<lparr>cBindInterface := orElse (cBindInterface o1) v5\<rparr>)"
    and "inRange v6 \<Longrightarrow> ApplyAll (asDirs (pInt ''connecttimeout'' v6)) o1 = Inr (o1\<lparr>cConnectTimeout := orElse (cConnectTimeout o1) v6\<rparr>)"
    and "inRange v7 \<Longrightarrow> ApplyAll (asDirs (pInt ''connectionattempts'' v7)) o1 = Inr (o1\<lparr>cConnectionAttempts := orElse (cConnectionAttempts o1) v7\<rparr>)"
    and "ApplyAll (asDirs (pBool ''tcpkeepalive'' v8)) o1 = Inr (o1\<lparr>cTCPKeepAlive := orElse (cTCPKeepAlive o1) v8\<rparr>)"
    and "inRange v9 \<Longrightarrow> ApplyAll (asDirs (pInt ''serveraliveinterval'' v9)) o1 = Inr (o1\<lparr>cServerAliveInterval := orElse (cServerAliveInterval o1) v9\<rparr>)"
    and "inRange v10 \<Longrightarrow> ApplyAll (asDirs (pInt ''serveralivecountmax'' v10)) o1 = Inr (o1\<lparr>cServerAliveCountMax := orElse (cServerAliveCountMax o1) v10\<rparr>)"
    and "ApplyAll (asDirs (pBool ''compression'' v11)) o1 = Inr (o1\<lparr>cCompression := orElse (cCompression o1) v11\<rparr>)"
    and "ApplyAll (asDirs (pBool ''batchmode'' v12)) o1 = Inr (o1\<lparr>cBatchMode := orElse (cBatchMode o1) v12\<rparr>)"
  by (rule str_read[where i = 17], (simp add: table_facts assms)+,
    rule str_read[where i = 10], (simp add: table_facts assms)+,
    rule int_read[where i = 11], (simp add: table_facts assms)+,
    rule str_read[where i = 0], (simp add: table_facts assms)+,
    rule str_read[where i = 2], (simp add: table_facts assms)+,
    rule str_read[where i = 3], (simp add: table_facts assms)+,
    rule int_read[where i = 4], (simp add: table_facts assms)+,
    rule int_read[where i = 5], (simp add: table_facts assms)+,
    rule bool_read[where i = 6], (simp add: table_facts assms)+,
    rule int_read[where i = 7], (simp add: table_facts assms)+,
    rule int_read[where i = 8], (simp add: table_facts assms)+,
    rule bool_read[where i = 9], (simp add: table_facts assms)+,
    rule bool_read[where i = 1], (simp add: table_facts assms)+)

lemma reads2:
  assumes "cIgnoredKeywords o1 = []"
  shows "ApplyAll (asDirs (pBool ''identitiesonly'' v0)) o1 = Inr (o1\<lparr>cIdentitiesOnly := orElse (cIdentitiesOnly o1) v0\<rparr>)"
    and "ApplyAll (asDirs (pStr ''identityagent'' v1)) o1 = Inr (o1\<lparr>cIdentityAgent := orElse (cIdentityAgent o1) v1\<rparr>)"
    and "ApplyAll (asDirs (pBool ''passwordauthentication'' v2)) o1 = Inr (o1\<lparr>cPasswordAuthentication := orElse (cPasswordAuthentication o1) v2\<rparr>)"
    and "ApplyAll (asDirs (pBool ''kbdinteractiveauthentication'' v3)) o1 = Inr (o1\<lparr>cKbdInteractiveAuthentication := orElse (cKbdInteractiveAuthentication o1) v3\<rparr>)"
    and "ApplyAll (asDirs (pStr ''pubkeyauthentication'' v4)) o1 = Inr (o1\<lparr>cPubkeyAuthentication := orElse (cPubkeyAuthentication o1) v4\<rparr>)"
    and "ApplyAll (asDirs (pStr ''preferredauthentications'' v5)) o1 = Inr (o1\<lparr>cPreferredAuthentications := orElse (cPreferredAuthentications o1) v5\<rparr>)"
    and "inRange v6 \<Longrightarrow> ApplyAll (asDirs (pInt ''numberofpasswordprompts'' v6)) o1 = Inr (o1\<lparr>cNumberOfPasswordPrompts := orElse (cNumberOfPasswordPrompts o1) v6\<rparr>)"
    and "ApplyAll (asDirs (pBool ''hostbasedauthentication'' v7)) o1 = Inr (o1\<lparr>cHostbasedAuthentication := orElse (cHostbasedAuthentication o1) v7\<rparr>)"
    and "ApplyAll (asDirs (pBool ''gssapiauthentication'' v8)) o1 = Inr (o1\<lparr>cGSSAPIAuthentication := orElse (cGSSAPIAuthentication o1) v8\<rparr>)"
    and "ApplyAll (asDirs (pBool ''gssapidelegatecredentials'' v9)) o1 = Inr (o1\<lparr>cGSSAPIDelegateCredentials := orElse (cGSSAPIDelegateCredentials o1) v9\<rparr>)"
    and "ApplyAll (asDirs (pStr ''addkeystoagent'' v10)) o1 = Inr (o1\<lparr>cAddKeysToAgent := orElse (cAddKeysToAgent o1) v10\<rparr>)"
    and "ApplyAll (asDirs (pStr ''ciphers'' v11)) o1 = Inr (o1\<lparr>cCiphers := orElse (cCiphers o1) v11\<rparr>)"
    and "ApplyAll (asDirs (pStr ''kexalgorithms'' v12)) o1 = Inr (o1\<lparr>cKexAlgorithms := orElse (cKexAlgorithms o1) v12\<rparr>)"
  by (rule bool_read[where i = 19], (simp add: table_facts assms)+,
    rule str_read[where i = 20], (simp add: table_facts assms)+,
    rule bool_read[where i = 22], (simp add: table_facts assms)+,
    rule bool_read[where i = 23], (simp add: table_facts assms)+,
    rule str_read[where i = 26], (simp add: table_facts assms)+,
    rule str_read[where i = 29], (simp add: table_facts assms)+,
    rule int_read[where i = 30], (simp add: table_facts assms)+,
    rule bool_read[where i = 31], (simp add: table_facts assms)+,
    rule bool_read[where i = 35], (simp add: table_facts assms)+,
    rule bool_read[where i = 36], (simp add: table_facts assms)+,
    rule str_read[where i = 37], (simp add: table_facts assms)+,
    rule str_read[where i = 38], (simp add: table_facts assms)+,
    rule str_read[where i = 39], (simp add: table_facts assms)+)

lemma reads3:
  assumes "cIgnoredKeywords o1 = []"
  shows "ApplyAll (asDirs (pStr ''macs'' v0)) o1 = Inr (o1\<lparr>cMACs := orElse (cMACs o1) v0\<rparr>)"
    and "ApplyAll (asDirs (pStr ''hostkeyalgorithms'' v1)) o1 = Inr (o1\<lparr>cHostKeyAlgorithms := orElse (cHostKeyAlgorithms o1) v1\<rparr>)"
    and "ApplyAll (asDirs (pStr ''pubkeyacceptedalgorithms'' v2)) o1 = Inr (o1\<lparr>cPubkeyAcceptedAlgorithms := orElse (cPubkeyAcceptedAlgorithms o1) v2\<rparr>)"
    and "ApplyAll (asDirs (pStr ''casignaturealgorithms'' v3)) o1 = Inr (o1\<lparr>cCASignatureAlgorithms := orElse (cCASignatureAlgorithms o1) v3\<rparr>)"
    and "ApplyAll (asDirs (pStr ''rekeylimit'' v4)) o1 = Inr (o1\<lparr>cRekeyLimit := orElse (cRekeyLimit o1) v4\<rparr>)"
    and "inRange v5 \<Longrightarrow> ApplyAll (asDirs (pInt ''requiredrsasize'' v5)) o1 = Inr (o1\<lparr>cRequiredRSASize := orElse (cRequiredRSASize o1) v5\<rparr>)"
    and "ApplyAll (asDirs (pStr ''fingerprinthash'' v6)) o1 = Inr (o1\<lparr>cFingerprintHash := orElse (cFingerprintHash o1) v6\<rparr>)"
    and "ApplyAll (asDirs (pStr ''stricthostkeychecking'' v7)) o1 = Inr (o1\<lparr>cStrictHostKeyChecking := orElse (cStrictHostKeyChecking o1) v7\<rparr>)"
    and "ApplyAll (asDirs (pStr ''userknownhostsfile'' v8)) o1 = Inr (o1\<lparr>cUserKnownHostsFile := orElse (cUserKnownHostsFile o1) v8\<rparr>)"
    and "ApplyAll (asDirs (pStr ''globalknownhostsfile'' v9)) o1 = Inr (o1\<lparr>cGlobalKnownHostsFile := orElse (cGlobalKnownHostsFile o1) v9\<rparr>)"
    and "ApplyAll (asDirs (pBool ''hashknownhosts'' v10)) o1 = Inr (o1\<lparr>cHashKnownHosts := orElse (cHashKnownHosts o1) v10\<rparr>)"
    and "ApplyAll (asDirs (pBool ''checkhostip'' v11)) o1 = Inr (o1\<lparr>cCheckHostIP := orElse (cCheckHostIP o1) v11\<rparr>)"
    and "ApplyAll (asDirs (pStr ''hostkeyalias'' v12)) o1 = Inr (o1\<lparr>cHostKeyAlias := orElse (cHostKeyAlias o1) v12\<rparr>)"
  by (rule str_read[where i = 40], (simp add: table_facts assms)+,
    rule str_read[where i = 42], (simp add: table_facts assms)+,
    rule str_read[where i = 27], (simp add: table_facts assms)+,
    rule str_read[where i = 41], (simp add: table_facts assms)+,
    rule str_read[where i = 43], (simp add: table_facts assms)+,
    rule int_read[where i = 44], (simp add: table_facts assms)+,
    rule str_read[where i = 45], (simp add: table_facts assms)+,
    rule str_read[where i = 51], (simp add: table_facts assms)+,
    rule str_read[where i = 49], (simp add: table_facts assms)+,
    rule str_read[where i = 48], (simp add: table_facts assms)+,
    rule bool_read[where i = 50], (simp add: table_facts assms)+,
    rule bool_read[where i = 47], (simp add: table_facts assms)+,
    rule str_read[where i = 52], (simp add: table_facts assms)+)

lemma reads4:
  assumes "cIgnoredKeywords o1 = []"
  shows "ApplyAll (asDirs (pStr ''knownhostscommand'' v0)) o1 = Inr (o1\<lparr>cKnownHostsCommand := orElse (cKnownHostsCommand o1) v0\<rparr>)"
    and "ApplyAll (asDirs (pStr ''revokedhostkeys'' v1)) o1 = Inr (o1\<lparr>cRevokedHostKeys := orElse (cRevokedHostKeys o1) v1\<rparr>)"
    and "ApplyAll (asDirs (pStr ''updatehostkeys'' v2)) o1 = Inr (o1\<lparr>cUpdateHostKeys := orElse (cUpdateHostKeys o1) v2\<rparr>)"
    and "ApplyAll (asDirs (pStr ''verifyhostkeydns'' v3)) o1 = Inr (o1\<lparr>cVerifyHostKeyDNS := orElse (cVerifyHostKeyDNS o1) v3\<rparr>)"
    and "ApplyAll (asDirs (pBool ''nohostauthenticationforlocalhost'' v4)) o1 = Inr (o1\<lparr>cNoHostAuthenticationForLocalhost := orElse (cNoHostAuthenticationForLocalhost o1) v4\<rparr>)"
    and "ApplyAll (asDirs (pStr ''proxycommand'' v5)) o1 = Inr (o1\<lparr>cProxyCommand := orElse (cProxyCommand o1) v5\<rparr>)"
    and "ApplyAll (asDirs (pStr ''proxyjump'' v6)) o1 = Inr (o1\<lparr>cProxyJump := orElse (cProxyJump o1) v6\<rparr>)"
    and "ApplyAll (asDirs (pBool ''proxyusefdpass'' v7)) o1 = Inr (o1\<lparr>cProxyUseFdpass := orElse (cProxyUseFdpass o1) v7\<rparr>)"
    and "ApplyAll (asDirs (pBool ''clearallforwardings'' v8)) o1 = Inr (o1\<lparr>cClearAllForwardings := orElse (cClearAllForwardings o1) v8\<rparr>)"
    and "ApplyAll (asDirs (pBool ''exitonforwardfailure'' v9)) o1 = Inr (o1\<lparr>cExitOnForwardFailure := orElse (cExitOnForwardFailure o1) v9\<rparr>)"
    and "ApplyAll (asDirs (pBool ''gatewayports'' v10)) o1 = Inr (o1\<lparr>cGatewayPorts := orElse (cGatewayPorts o1) v10\<rparr>)"
    and "ApplyAll (asDirs (pStr ''forwardagent'' v11)) o1 = Inr (o1\<lparr>cForwardAgent := orElse (cForwardAgent o1) v11\<rparr>)"
    and "ApplyAll (asDirs (pBool ''forwardx11'' v12)) o1 = Inr (o1\<lparr>cForwardX11 := orElse (cForwardX11 o1) v12\<rparr>)"
  by (rule str_read[where i = 53], (simp add: table_facts assms)+,
    rule str_read[where i = 54], (simp add: table_facts assms)+,
    rule str_read[where i = 55], (simp add: table_facts assms)+,
    rule str_read[where i = 56], (simp add: table_facts assms)+,
    rule bool_read[where i = 57], (simp add: table_facts assms)+,
    rule str_read[where i = 58], (simp add: table_facts assms)+,
    rule str_read[where i = 59], (simp add: table_facts assms)+,
    rule bool_read[where i = 60], (simp add: table_facts assms)+,
    rule bool_read[where i = 64], (simp add: table_facts assms)+,
    rule bool_read[where i = 65], (simp add: table_facts assms)+,
    rule bool_read[where i = 66], (simp add: table_facts assms)+,
    rule str_read[where i = 70], (simp add: table_facts assms)+,
    rule bool_read[where i = 71], (simp add: table_facts assms)+)

lemma reads5:
  assumes "cIgnoredKeywords o1 = []"
  shows "ApplyAll (asDirs (pBool ''forwardx11trusted'' v0)) o1 = Inr (o1\<lparr>cForwardX11Trusted := orElse (cForwardX11Trusted o1) v0\<rparr>)"
    and "inRange v1 \<Longrightarrow> ApplyAll (asDirs (pInt ''forwardx11timeout'' v1)) o1 = Inr (o1\<lparr>cForwardX11Timeout := orElse (cForwardX11Timeout o1) v1\<rparr>)"
    and "ApplyAll (asDirs (pStr ''xauthlocation'' v2)) o1 = Inr (o1\<lparr>cXAuthLocation := orElse (cXAuthLocation o1) v2\<rparr>)"
    and "ApplyAll (asDirs (pStr ''tunnel'' v3)) o1 = Inr (o1\<lparr>cTunnel := orElse (cTunnel o1) v3\<rparr>)"
    and "ApplyAll (asDirs (pStr ''tunneldevice'' v4)) o1 = Inr (o1\<lparr>cTunnelDevice := orElse (cTunnelDevice o1) v4\<rparr>)"
    and "ApplyAll (asDirs (pStr ''requesttty'' v5)) o1 = Inr (o1\<lparr>cRequestTTY := orElse (cRequestTTY o1) v5\<rparr>)"
    and "ApplyAll (asDirs (pStr ''sessiontype'' v6)) o1 = Inr (o1\<lparr>cSessionType := orElse (cSessionType o1) v6\<rparr>)"
    and "ApplyAll (asDirs (pStr ''remotecommand'' v7)) o1 = Inr (o1\<lparr>cRemoteCommand := orElse (cRemoteCommand o1) v7\<rparr>)"
    and "ApplyAll (asDirs (pStr ''escapechar'' v8)) o1 = Inr (o1\<lparr>cEscapeChar := orElse (cEscapeChar o1) v8\<rparr>)"
    and "ApplyAll (asDirs (pStr ''loglevel'' v9)) o1 = Inr (o1\<lparr>cLogLevel := orElse (cLogLevel o1) v9\<rparr>)"
    and "ApplyAll (asDirs (pStr ''syslogfacility'' v10)) o1 = Inr (o1\<lparr>cSyslogFacility := orElse (cSyslogFacility o1) v10\<rparr>)"
    and "ApplyAll (asDirs (pStr ''controlmaster'' v11)) o1 = Inr (o1\<lparr>cControlMaster := orElse (cControlMaster o1) v11\<rparr>)"
    and "ApplyAll (asDirs (pStr ''controlpath'' v12)) o1 = Inr (o1\<lparr>cControlPath := orElse (cControlPath o1) v12\<rparr>)"
  by (rule bool_read[where i = 73], (simp add: table_facts assms)+,
    rule int_read[where i = 72], (simp add: table_facts assms)+,
    rule str_read[where i = 74], (simp add: table_facts assms)+,
    rule str_read[where i = 75], (simp add: table_facts assms)+,
    rule str_read[where i = 76], (simp add: table_facts assms)+,
    rule str_read[where i = 77], (simp add: table_facts assms)+,
    rule str_read[where i = 78], (simp add: table_facts assms)+,
    rule str_read[where i = 79], (simp add: table_facts assms)+,
    rule str_read[where i = 82], (simp add: table_facts assms)+,
    rule str_read[where i = 84], (simp add: table_facts assms)+,
    rule str_read[where i = 103], (simp add: table_facts assms)+,
    rule str_read[where i = 88], (simp add: table_facts assms)+,
    rule str_read[where i = 89], (simp add: table_facts assms)+)

lemma reads6:
  assumes "cIgnoredKeywords o1 = []"
  shows "ApplyAll (asDirs (pStr ''controlpersist'' v0)) o1 = Inr (o1\<lparr>cControlPersist := orElse (cControlPersist o1) v0\<rparr>)"
    and "ApplyAll (asDirs (pBool ''permitlocalcommand'' v1)) o1 = Inr (o1\<lparr>cPermitLocalCommand := orElse (cPermitLocalCommand o1) v1\<rparr>)"
    and "ApplyAll (asDirs (pStr ''localcommand'' v2)) o1 = Inr (o1\<lparr>cLocalCommand := orElse (cLocalCommand o1) v2\<rparr>)"
    and "ApplyAll (asDirs (pBool ''visualhostkey'' v3)) o1 = Inr (o1\<lparr>cVisualHostKey := orElse (cVisualHostKey o1) v3\<rparr>)"
    and "ApplyAll (asDirs (pBool ''forkafterauthentication'' v4)) o1 = Inr (o1\<lparr>cForkAfterAuthentication := orElse (cForkAfterAuthentication o1) v4\<rparr>)"
    and "ApplyAll (asDirs (pBool ''stdinnull'' v5)) o1 = Inr (o1\<lparr>cStdinNull := orElse (cStdinNull o1) v5\<rparr>)"
    and "ApplyAll (asDirs (pBool ''enableescapecommandline'' v6)) o1 = Inr (o1\<lparr>cEnableEscapeCommandline := orElse (cEnableEscapeCommandline o1) v6\<rparr>)"
    and "ApplyAll (asDirs (pStr ''obscurekeystroketiming'' v7)) o1 = Inr (o1\<lparr>cObscureKeystrokeTiming := orElse (cObscureKeystrokeTiming o1) v7\<rparr>)"
    and "ApplyAll (asDirs (pStr ''canonicalizehostname'' v8)) o1 = Inr (o1\<lparr>cCanonicalizeHostname := orElse (cCanonicalizeHostname o1) v8\<rparr>)"
    and "inRange v9 \<Longrightarrow> ApplyAll (asDirs (pInt ''canonicalizemaxdots'' v9)) o1 = Inr (o1\<lparr>cCanonicalizeMaxDots := orElse (cCanonicalizeMaxDots o1) v9\<rparr>)"
    and "ApplyAll (asDirs (pBool ''canonicalizefallbacklocal'' v10)) o1 = Inr (o1\<lparr>cCanonicalizeFallbackLocal := orElse (cCanonicalizeFallbackLocal o1) v10\<rparr>)"
  by (rule str_read[where i = 90], (simp add: table_facts assms)+,
    rule bool_read[where i = 91], (simp add: table_facts assms)+,
    rule str_read[where i = 92], (simp add: table_facts assms)+,
    rule bool_read[where i = 93], (simp add: table_facts assms)+,
    rule bool_read[where i = 94], (simp add: table_facts assms)+,
    rule bool_read[where i = 95], (simp add: table_facts assms)+,
    rule bool_read[where i = 96], (simp add: table_facts assms)+,
    rule str_read[where i = 97], (simp add: table_facts assms)+,
    rule str_read[where i = 14], (simp add: table_facts assms)+,
    rule int_read[where i = 15], (simp add: table_facts assms)+,
    rule bool_read[where i = 13], (simp add: table_facts assms)+)

lemmas reads = reads1 reads2 reads3 reads4 reads5 reads6

lemma emptyOptions_fields:
  "cUser emptyOptions = None"
  "cHostname emptyOptions = None"
  "cPort emptyOptions = None"
  "cAddressFamily emptyOptions = None"
  "cBindAddress emptyOptions = None"
  "cBindInterface emptyOptions = None"
  "cConnectTimeout emptyOptions = None"
  "cConnectionAttempts emptyOptions = None"
  "cTCPKeepAlive emptyOptions = None"
  "cServerAliveInterval emptyOptions = None"
  "cServerAliveCountMax emptyOptions = None"
  "cCompression emptyOptions = None"
  "cBatchMode emptyOptions = None"
  "cIdentityFile emptyOptions = []"
  "cCertificateFile emptyOptions = []"
  "cIdentitiesOnly emptyOptions = None"
  "cIdentityAgent emptyOptions = None"
  "cPasswordAuthentication emptyOptions = None"
  "cKbdInteractiveAuthentication emptyOptions = None"
  "cPubkeyAuthentication emptyOptions = None"
  "cPreferredAuthentications emptyOptions = None"
  "cNumberOfPasswordPrompts emptyOptions = None"
  "cHostbasedAuthentication emptyOptions = None"
  "cGSSAPIAuthentication emptyOptions = None"
  "cGSSAPIDelegateCredentials emptyOptions = None"
  "cAddKeysToAgent emptyOptions = None"
  "cCiphers emptyOptions = None"
  "cKexAlgorithms emptyOptions = None"
  "cMACs emptyOptions = None"
  "cHostKeyAlgorithms emptyOptions = None"
  "cPubkeyAcceptedAlgorithms emptyOptions = None"
  "cCASignatureAlgorithms emptyOptions = None"
  "cRekeyLimit emptyOptions = None"
  "cRequiredRSASize emptyOptions = None"
  "cFingerprintHash emptyOptions = None"
  "cStrictHostKeyChecking emptyOptions = None"
  "cUserKnownHostsFile emptyOptions = None"
  "cGlobalKnownHostsFile emptyOptions = None"
  "cHashKnownHosts emptyOptions = None"
  "cCheckHostIP emptyOptions = None"
  "cHostKeyAlias emptyOptions = None"
  "cKnownHostsCommand emptyOptions = None"
  "cRevokedHostKeys emptyOptions = None"
  "cUpdateHostKeys emptyOptions = None"
  "cVerifyHostKeyDNS emptyOptions = None"
  "cNoHostAuthenticationForLocalhost emptyOptions = None"
  "cProxyCommand emptyOptions = None"
  "cProxyJump emptyOptions = None"
  "cProxyUseFdpass emptyOptions = None"
  "cLocalForward emptyOptions = []"
  "cRemoteForward emptyOptions = []"
  "cDynamicForward emptyOptions = []"
  "cClearAllForwardings emptyOptions = None"
  "cExitOnForwardFailure emptyOptions = None"
  "cGatewayPorts emptyOptions = None"
  "cForwardAgent emptyOptions = None"
  "cForwardX11 emptyOptions = None"
  "cForwardX11Trusted emptyOptions = None"
  "cForwardX11Timeout emptyOptions = None"
  "cXAuthLocation emptyOptions = None"
  "cTunnel emptyOptions = None"
  "cTunnelDevice emptyOptions = None"
  "cRequestTTY emptyOptions = None"
  "cSessionType emptyOptions = None"
  "cRemoteCommand emptyOptions = None"
  "cSendEnv emptyOptions = []"
  "cSetEnv emptyOptions = []"
  "cEscapeChar emptyOptions = None"
  "cLogLevel emptyOptions = None"
  "cSyslogFacility emptyOptions = None"
  "cControlMaster emptyOptions = None"
  "cControlPath emptyOptions = None"
  "cControlPersist emptyOptions = None"
  "cPermitLocalCommand emptyOptions = None"
  "cLocalCommand emptyOptions = None"
  "cVisualHostKey emptyOptions = None"
  "cForkAfterAuthentication emptyOptions = None"
  "cStdinNull emptyOptions = None"
  "cEnableEscapeCommandline emptyOptions = None"
  "cObscureKeystrokeTiming emptyOptions = None"
  "cCanonicalizeHostname emptyOptions = None"
  "cCanonicalDomains emptyOptions = None"
  "cCanonicalizeMaxDots emptyOptions = None"
  "cCanonicalizeFallbackLocal emptyOptions = None"
  by (simp_all add: emptyOptions_def)

text \<open>Values of a list, each on a line of its own.\<close>

lemma list_read:
  assumes "directiveTable ! i = (k, h)" and "i < length directiveTable" and "cIgnoredKeywords o1 = []"
    and "\<And>x o1. x \<in> set xs \<Longrightarrow> h (render x) noSource o1 = Inr (upd (\<lambda>l. l @ [x]) o1)"
    and "\<And>f g o1. upd f (upd g o1) = upd (\<lambda>l. f (g l)) o1" and "upd (\<lambda>l. l) o1 = o1"
    and "\<And>f o1. cIgnoredKeywords (upd f o1) = cIgnoredKeywords o1"
    and "upd (\<lambda>l. l @ xs) o1 = r"
  shows "ApplyAll (asDirs (map (\<lambda>x. (k, render x)) xs)) o1 = Inr r"
  using assms(3,4,6) unfolding assms(8)[symmetric]
proof (induction xs arbitrary: o1)
  case Nil
  then show ?case by (simp add: asDirs_def)
next
  case (Cons x xs)
  let ?o = "upd (\<lambda>l. l @ [x]) o1"
  have "ApplyDirective (dirOf k (render x)) o1 = Inr ?o"
    using Cons.prems by (simp add: ApplyDirective_table[OF table_nth[OF assms(1,2)]])
  moreover have "ApplyAll (asDirs (map (\<lambda>x. (k, render x)) xs)) ?o = Inr (upd (\<lambda>l. l @ xs) ?o)"
    using Cons.prems assms(5,7) by (intro Cons.IH) simp_all
  ultimately show ?case by (simp add: asDirs_def ApplyAll_def assms(5))
qed

lemmas slice_read = list_read[where render = "\<lambda>x. x", folded pSlice_def]

definition fwdText :: "Forward \<Rightarrow> string" where
  "fwdText f = (if fwBindAddress f \<noteq> [] then fwBindAddress f @ '':'' else []) @ fwBindPort f @ '' '' @
     fwHost f @ '':'' @ fwHostPort f"

definition fwPrintable :: "Forward \<Rightarrow> bool" where
  "fwPrintable f \<longleftrightarrow> (fwBindAddress f = [] \<or> fwWord (fwBindAddress f)) \<and> fwWord (fwBindPort f) \<and>
     fwWord (fwHost f) \<and> fwWord (fwHostPort f)"

lemma pFwd_fwdText: "pFwd k fs = map (\<lambda>f. (k, fwdText f)) fs"
  by (simp add: pFwd_def fwdText_def)

lemmas fwd_read = list_read[where render = fwdText, folded pFwd_fwdText]

lemma parseForward_fwdText: "fwPrintable f \<Longrightarrow> parseForward (fwdText f) = Inr f"
  using parseForward_text[of "fwBindAddress f" "fwBindPort f" "fwHost f" "fwHostPort f"]
    parseForward_text(2)[of "fwHost f" "fwBindPort f" "fwHost f" "fwHostPort f"]
  by (cases "fwBindAddress f = []") (auto simp: fwPrintable_def fwdText_def)

definition oneWord :: "string \<Rightarrow> bool" where
  "oneWord v \<longleftrightarrow> Fields v = [v]"

lemma slice_reads:
  assumes "cIgnoredKeywords o1 = []"
  shows "ApplyAll (asDirs (pSlice ''certificatefile'' xs)) o1 = Inr (o1\<lparr>cCertificateFile := cCertificateFile o1 @ xs\<rparr>)"
    and "ApplyAll (asDirs (pSlice ''dynamicforward'' xs)) o1 = Inr (o1\<lparr>cDynamicForward := cDynamicForward o1 @ xs\<rparr>)"
    and "ApplyAll (asDirs (pSlice ''setenv'' xs)) o1 = Inr (o1\<lparr>cSetEnv := cSetEnv o1 @ xs\<rparr>)"
    and "\<forall>f \<in> set xs. toLower f \<noteq> ''none'' \<Longrightarrow>
      ApplyAll (asDirs (pSlice ''identityfile'' xs)) o1 = Inr (o1\<lparr>cIdentityFile := cIdentityFile o1 @ xs\<rparr>)"
    and "\<forall>v \<in> set xs. oneWord v \<and> \<not> hasPrefix v ''-'' \<Longrightarrow>
      ApplyAll (asDirs (pSlice ''sendenv'' xs)) o1 = Inr (o1\<lparr>cSendEnv := cSendEnv o1 @ xs\<rparr>)"
    and "\<forall>f \<in> set fs. fwPrintable f \<Longrightarrow>
      ApplyAll (asDirs (pFwd ''localforward'' fs)) o1 = Inr (o1\<lparr>cLocalForward := cLocalForward o1 @ fs\<rparr>)"
    and "\<forall>f \<in> set fs. fwPrintable f \<Longrightarrow>
      ApplyAll (asDirs (pFwd ''remoteforward'' fs)) o1 = Inr (o1\<lparr>cRemoteForward := cRemoteForward o1 @ fs\<rparr>)"
  by (rule slice_read[where upd = cCertificateFile_update and i = 21], (simp add: table_facts assms appendField_def)+,
      rule slice_read[where upd = cDynamicForward_update and i = 63], (simp add: table_facts assms appendField_def)+,
      rule slice_read[where upd = cSetEnv_update and i = 81], (simp add: table_facts assms appendField_def)+,
      rule slice_read[where upd = cIdentityFile_update and i = 18], (simp add: table_facts assms identityFileHandler_def)+,
      rule slice_read[where upd = cSendEnv_update and i = 80], (simp add: table_facts assms sendEnvHandler_def appendSendEnv_def oneWord_def)+,
      rule fwd_read[where upd = cLocalForward_update and i = 61], (simp add: table_facts assms localForwardHandler_def parseForward_fwdText)+,
      rule fwd_read[where upd = cRemoteForward_update and i = 62], (simp add: table_facts assms remoteForwardHandler_def parseForward_fwdText)+)

lemma domains_read:
  assumes "cIgnoredKeywords o1 = []" and "cCanonicalDomains o1 = None"
    and "v = None \<or> v = Some [] \<or> (\<exists>d. v = Some [d] \<and> oneWord d)"
  shows "ApplyAll (asDirs (pDomains ''canonicaldomains'' v)) o1 =
    Inr (o1\<lparr>cCanonicalDomains := (if v = Some [] then None else v)\<rparr>)"
proof -
  have "map_of directiveTable ''canonicaldomains'' = Some (firstFields cCanonicalDomains_update)"
    by (rule table_nth[where i = 12]) (simp_all add: table_facts)
  moreover have "o1\<lparr>cCanonicalDomains := None\<rparr> = o1" using assms(2) by (cases o1) simp
  ultimately show ?thesis
    using assms by (auto simp: pDomains_def pSlice_def asDirs_def ApplyAll_one ApplyDirective_table
        firstFields_def oneWord_def)
qed

text \<open>Options whose lines can be read back: the numbers fit an \<^verbatim>\<open>int\<close>, which those of the code
  do, no identity file is called none, variables are words without a leading minus sign,
  the parts of forwards are words, and there is at most one canonical domain.\<close>

definition intsFit :: "ClientOptions \<Rightarrow> bool" where
  "intsFit opts \<longleftrightarrow> list_all (\<lambda>f. inRange (f opts))
     [cPort, cConnectTimeout, cConnectionAttempts, cServerAliveInterval, cServerAliveCountMax,
      cNumberOfPasswordPrompts, cRequiredRSASize, cForwardX11Timeout, cCanonicalizeMaxDots]"

definition printable :: "ClientOptions \<Rightarrow> bool" where
  "printable opts \<longleftrightarrow> intsFit opts \<and>
     (\<forall>f \<in> set (cIdentityFile opts). toLower f \<noteq> ''none'') \<and>
     (\<forall>v \<in> set (cSendEnv opts). oneWord v \<and> \<not> hasPrefix v ''-'') \<and>
     (\<forall>f \<in> set (cLocalForward opts). fwPrintable f) \<and> (\<forall>f \<in> set (cRemoteForward opts). fwPrintable f) \<and>
     (cCanonicalDomains opts = None \<or> cCanonicalDomains opts = Some [] \<or>
       (\<exists>d. cCanonicalDomains opts = Some [d] \<and> oneWord d))"

lemma intsFitD:
  assumes "intsFit opts"
  shows "inRange (cPort opts)"
    and "inRange (cConnectTimeout opts)"
    and "inRange (cConnectionAttempts opts)"
    and "inRange (cServerAliveInterval opts)"
    and "inRange (cServerAliveCountMax opts)"
    and "inRange (cNumberOfPasswordPrompts opts)"
    and "inRange (cRequiredRSASize opts)"
    and "inRange (cForwardX11Timeout opts)"
    and "inRange (cCanonicalizeMaxDots opts)"
  using assms by (simp_all add: intsFit_def)

lemma cIgnored_empty: "cIgnoredKeywords emptyOptions = []"
  by (simp add: emptyOptions_def)

text \<open>Two domains are printed on two lines, of which only the first is read.\<close>

lemma domains_lost:
  "ApplyAll (asDirs (pDomains ''canonicaldomains'' (Some [''a'', ''b'']))) emptyOptions =
     Inr (emptyOptions\<lparr>cCanonicalDomains := Some [''a'']\<rparr>)"
  by code_simp

definition demoPrinted :: ClientOptions where
  "demoPrinted = emptyOptions\<lparr>cUser := Some ''bob'', cPort := Some 2222, cBatchMode := Some True,
     cSendEnv := [''LANG''], cLocalForward := [\<lparr>fwBindAddress = [], fwBindPort = ''80'', fwHost = ''h'', fwHostPort = ''81''\<rparr>]\<rparr>"

lemma demoPrinted_printable: "printable demoPrinted"
proof -
  have "oneWord ''LANG''" "fwWord ''80''" "fwWord ''h''" "fwWord ''81''" by code_simp+
  moreover have "intsFit demoPrinted"
    by (simp add: intsFit_def demoPrinted_def inRange_def emptyOptions_fields minInt_def maxInt_def)
  ultimately show ?thesis
    by (simp add: printable_def demoPrinted_def emptyOptions_fields fwPrintable_def)
qed


end
