(* ===== verification/SshMain.thy ===== *)
theory SshMain
  imports ClientArgs ClientConnect ClientForward ClientSession ClientTerminal ClientTui Logger
begin

text \<open>
  The client program (\<^verbatim>\<open>cmd/ssh/main.go\<close>): from its arguments to its exit code.  The
  operating system, the SSH library and the server are arguments (record \<^verbatim>\<open>SshWorld\<close>);
  what the program prints, dials, sets up and starts is recorded in order.  The mode of
  the terminal has a model of its own in \<^verbatim>\<open>ClientTerminal\<close>.
\<close>

section \<open>The end of a session\<close>

text \<open>What \<^verbatim>\<open>Wait\<close> of a session answers: no error, an exit error with its status and signal,
  another error.\<close>

datatype SessionEnd = EndOk | EndExit int string | EndError go_error

definition signalNumber :: "string \<Rightarrow> int" where
  "signalNumber sig =
     (case map_of [(''HUP'', 1), (''INT'', 2), (''QUIT'', 3), (''ABRT'', 6), (''KILL'', 9),
                   (''TERM'', 15), (''USR1'', 10), (''USR2'', 12)] sig of
        Some n \<Rightarrow> n | None \<Rightarrow> 0)"

definition exitCode :: "SessionEnd \<Rightarrow> int" where
  "exitCode e =
     (case e of
        EndOk \<Rightarrow> 0
      | EndExit code sig \<Rightarrow>
          if code \<noteq> 0 then code else if sig \<noteq> [] then 128 + signalNumber sig else code
      | EndError err \<Rightarrow> 255)"

section \<open>Options after resolution\<close>

definition ttyOverride :: "CLIArgs \<Rightarrow> ClientOptions \<Rightarrow> ClientOptions" where
  "ttyOverride args opts =
     (if caNoTTY args then opts\<lparr>cRequestTTY := Some ''no''\<rparr>
      else if caTTYCount args \<ge> 2 then opts\<lparr>cRequestTTY := Some ''force''\<rparr>
      else if caTTYCount args = 1 then opts\<lparr>cRequestTTY := Some ''yes''\<rparr>
      else opts)"

definition verbosityOverride :: "CLIArgs \<Rightarrow> ClientOptions \<Rightarrow> ClientOptions" where
  "verbosityOverride args opts =
     (if caQuiet args then opts\<lparr>cLogLevel := Some ''QUIET''\<rparr>
      else if caVerbosity args > 0 then
        (if caVerbosity args = 1 then opts\<lparr>cLogLevel := Some ''VERBOSE''\<rparr>
         else if caVerbosity args = 2 then opts\<lparr>cLogLevel := Some ''DEBUG''\<rparr>
         else opts\<lparr>cLogLevel := Some ''DEBUG3''\<rparr>)
      else opts)"

definition stdioOverride :: "CLIArgs \<Rightarrow> ClientOptions \<Rightarrow> ClientOptions" where
  "stdioOverride args opts =
     (if caStdioFwd args \<noteq> [] then
        opts\<lparr>cSessionType := Some ''none'', cRequestTTY := Some ''no'', cClearAllForwardings := Some True,
             cLocalForward := [], cRemoteForward := [], cDynamicForward := []\<rparr>
      else opts)"

definition postResolve :: "CLIArgs \<Rightarrow> ClientOptions \<Rightarrow> ClientOptions" where
  "postResolve args opts = stdioOverride args (verbosityOverride args (ttyOverride args opts))"

section \<open>The world\<close>

datatype SessionStart = StartSubsystem string | StartCommand string | StartShell

datatype SshOut =
    SshErrLine string
  | SshOutText string
  | SshLogLine string
  | DialOut DialPlan
  | HandshakeOut
  | HandlerOut "HandlerCall list"
  | ForwardOuts "ForwardOut list"
  | StdioOuts "StdioOut list"
  | WaitConn
  | OpenSession
  | SessionCalls "SessionCall list"
  | StdinFrom "EscapeReader option option"
  | Started SessionStart

record ('pub, 'cert, 'signer, 'm) SshWorld =
  xwWorld :: World
  xwAlgs :: AlgLib
  xwLib :: "('pub, 'cert, 'signer) KeyLib"
  xwHost :: "'pub HostKeyWorld"
  xwConfirm :: "string \<Rightarrow> NetRemote \<Rightarrow> 'pub \<Rightarrow> bool"
  xwAgent :: "string \<Rightarrow> go_error + (go_error + 'signer list)"
  xwPassphrase :: "string \<Rightarrow> go_error + string"
  xwCanOpen :: "string \<Rightarrow> bool"
  xwExec :: "string \<Rightarrow> go_error option"
  xwNet :: NetWorld
  xwDial :: "DialPlan \<Rightarrow> go_error option"
  xwHandshake :: "('pub, 'signer) ClientConfig \<Rightarrow> go_error option"
  xwForward :: ForwardWorld
  xwOpenDirect :: "go_error option"
  xwNewSession :: "go_error option"
  xwSession :: SessionWorld
  xwRaw :: "'m \<Rightarrow> go_error + 'm"
  xwMode :: 'm
  xwStdinPipe :: "go_error option"
  xwStart :: "SessionStart \<Rightarrow> go_error option"
  xwWait :: SessionEnd

definition sshErr :: "go_error \<Rightarrow> SshOut" where
  "sshErr err = SshErrLine (''ssh: '' @ errText err @ newline)"

definition sshLog :: "LogState \<Rightarrow> string \<Rightarrow> string \<Rightarrow> SshOut list" where
  "sshLog st level msg = (case Log st [] level msg of Some line \<Rightarrow> [SshLogLine line] | None \<Rightarrow> [])"

section \<open>Handlers\<close>

definition sshAuthWorld :: "('pub, 'cert, 'signer, 'm) SshWorld \<Rightarrow> 'signer AuthWorld" where
  "sshAuthWorld w = \<lparr>auGetenv = swGetenv (xwSession w), auDialAgent = xwAgent w, auGSSAPI = None,
     auUI = Some (xwPassphrase w), auKeyProvider = None, auHostbased = None\<rparr>"

definition sshHostWorld :: "('pub, 'cert, 'signer, 'm) SshWorld \<Rightarrow> 'pub HostKeyWorld" where
  "sshHostWorld w =
     (xwHost w)\<lparr>hkCallback := None, hkSource := None, hkConfirm := Some (xwConfirm w)\<rparr>"

text \<open>The terminal handler is called when the session is stored in the terminal's state.\<close>

definition sshTerminal :: "('pub, 'cert, 'signer, 'm) SshWorld \<Rightarrow> 'm TermState" where
  "sshTerminal w = \<lparr>tsMode = xwMode w, tsOldState = None, tsSession = True\<rparr>"

definition sshHandlers :: "('pub, 'cert, 'signer, 'm) SshWorld \<Rightarrow> SessionHandler \<Rightarrow> ConnectHandlers" where
  "sshHandlers w sess =
     \<lparr>coSession = Some (\<lambda>opts. snd (snd (ConfigureSession (xwSession w) sess opts))),
      coAgentForwarding = Some (ForwardAgent (xwSession w)),
      coX11Forwarding = None,
      coTerminal = Some (\<lambda>opts. fst (SetupTerminal (xwRaw w) (sshTerminal w))),
      coMultiplexer = None,
      coForwarding = Some (\<lambda>opts. snd (SetupForwarding (xwForward w) opts)),
      coTunnel = None,
      coCommandExecutor = Some (xwExec w),
      coLogger = True\<rparr>"

definition sshLookup :: "('pub, 'cert, 'signer, 'm) SshWorld \<Rightarrow> CLIArgs \<Rightarrow> int \<Rightarrow> Directive list \<Rightarrow> Lookup" where
  "sshLookup w args port cliDirectives =
     emptyLookup\<lparr>lkHost := snd (ParseDestination (caDestination args)), lkUser := LookupUser args,
       lkPort := port, lkOriginalHost := caDestination args, lkCommand := RemoteCommand args,
       lkTag := caTag args, lkSessionType := SessionType args, lkVersion := Version,
       lkCommandLineDirectives := cliDirectives, lkCommandExecutor := Some (xwExec w),
       lkUserConfigFile := (if caConfigFile args = [] then []
          else if toLower (caConfigFile args) = ''none'' then ''/dev/null'' else caConfigFile args)\<rparr>"

definition sshLogger :: "('pub, 'cert, 'signer, 'm) SshWorld \<Rightarrow> CLIArgs \<Rightarrow> ClientOptions \<Rightarrow> LogState" where
  "sshLogger w args opts =
     (let lgr = NewLogger (xwCanOpen w) (caLogFile args) (caVerbosity args) (caQuiet args)
      in case cLogLevel opts of Some level \<Rightarrow> SetLevel level lgr | None \<Rightarrow> lgr)"

section \<open>A session\<close>

text \<open>A run goes through stages; each writes what it does in front of what the rest of the
  program does, or ends it with an exit code.\<close>

type_synonym outcome = "SshOut list \<times> int"

definition after :: "SshOut list \<Rightarrow> outcome \<Rightarrow> outcome" where
  "after out r = (out @ fst r, snd r)"

definition failed :: "go_error \<Rightarrow> outcome" where
  "failed err = ([sshErr err], 255)"

definition sessionStart :: "CLIArgs \<Rightarrow> SessionStart" where
  "sessionStart args =
     (let remoteCmd = RemoteCommand args in
      if remoteCmd \<noteq> [] then if caSubsystem args then StartSubsystem remoteCmd else StartCommand remoteCmd
      else StartShell)"

definition stdinReader :: "bool \<Rightarrow> ClientOptions \<Rightarrow> EscapeReader option option" where
  "stdinReader ptyRequested opts =
     (if cStdinNull opts = Some True then None
      else case cEscapeChar opts of
        Some esc \<Rightarrow> if ptyRequested \<and> esc \<noteq> ''none'' then Some (Some (NewEscapeReader esc)) else Some None
      | None \<Rightarrow> Some None)"

text \<open>From the open session to its end.\<close>

definition runSession ::
  "('pub, 'cert, 'signer, 'm) SshWorld \<Rightarrow> CLIArgs \<Rightarrow> ClientOptions \<Rightarrow> LogState \<Rightarrow> outcome" where
  "runSession w args opts lgr =
     (case xwNewSession w of
        Some err \<Rightarrow> failed (Wrapf ''session error: %w'' [] err)
      | None \<Rightarrow>
          (let sess = NewHandler (RemoteCommand args \<noteq> []);
               (calls, sess', sessErr) = ConfigureSession (xwSession w) sess opts;
               (handlers, err) = configureSession (sshHandlers w sess) opts;
               out = [OpenSession, SessionCalls calls, HandlerOut handlers]
           in case err of
                Some err \<Rightarrow> after out (failed err)
              | None \<Rightarrow>
                  (let rawLog = (if shPTYRequested sess' then
                         (case fst (MakeRaw (xwRaw w) (snd (SetupTerminal (xwRaw w) (sshTerminal w)))) of
                            Some err \<Rightarrow> sshLog lgr ''DEBUG'' (sprintf ''Failed to set raw mode: %v'' [errText err])
                          | None \<Rightarrow> []) else [])
                   in case xwStdinPipe w of
                        Some err \<Rightarrow> after (out @ rawLog) (failed err)
                      | None \<Rightarrow>
                          (let start = sessionStart args;
                               out' = out @ rawLog @ [StdinFrom (stdinReader (shPTYRequested sess') opts), Started start]
                           in case xwStart w start of
                                Some err \<Rightarrow> after out' (failed err)
                              | None \<Rightarrow> (out', exitCode (xwWait w))))))"

section \<open>A connection\<close>

text \<open>Behind the handshake: forwarding, the local command, and a session unless there is
  none.\<close>

definition runConnected ::
  "('pub, 'cert, 'signer, 'm) SshWorld \<Rightarrow> CLIArgs \<Rightarrow> ClientOptions \<Rightarrow> LogState \<Rightarrow> outcome" where
  "runConnected w args opts lgr =
     (let (calls, err) = PostConnect (sshHandlers w (NewHandler (RemoteCommand args \<noteq> []))) opts;
          out = sshLog lgr ''VERBOSE'' ''Authentication succeeded'' @
            [ForwardOuts (fst (SetupForwarding (xwForward w) opts)), HandlerOut calls]
      in case err of
           Some err \<Rightarrow> after out (failed err)
         | None \<Rightarrow>
             if caStdioFwd args \<noteq> [] then
               (let (stdio, code) = RunStdioForward (xwOpenDirect w) (caStdioFwd args)
                in after out ([StdioOuts stdio], code))
             else if cSessionType opts = Some ''none'' then
               after out (sshLog lgr ''VERBOSE'' ''No session requested, waiting...'' @ [WaitConn], 0)
             else after out (runSession w args opts lgr))"

definition runDial ::
  "('pub, 'cert, 'signer, 'm) SshWorld \<Rightarrow> CLIArgs \<Rightarrow> ClientOptions \<Rightarrow> LogState \<Rightarrow>
   ('pub, 'signer) ClientConfig \<Rightarrow> outcome" where
  "runDial w args opts lgr cfg =
     (let host = the (cHostname opts); port = itoaInt (the (cPort opts));
          refused = (\<lambda>err. ([SshErrLine (sprintf ''ssh: connect to host %s port %d: %v'' [host, port, errText err] @ newline)], 255));
          out = sshLog lgr ''VERBOSE'' (sprintf ''Connecting to %s port %d'' [host, port])
      in after out
        (case DialContext (xwNet w) (cDialerConfig opts) ''tcp'' (JoinHostPort host port) of
           Inl err \<Rightarrow> refused err
         | Inr plan \<Rightarrow>
             (case xwDial w plan of
                Some err \<Rightarrow> after [DialOut plan] (refused err)
              | None \<Rightarrow>
                  (case xwHandshake w cfg of
                     Some err \<Rightarrow> after [DialOut plan, HandshakeOut] (failed err)
                   | None \<Rightarrow> after [DialOut plan, HandshakeOut] (runConnected w args opts lgr)))))"

section \<open>The program\<close>

text \<open>With the options resolved.  The configuration may not be built when the loop over the
  revoked keys does not end; then there is no outcome.\<close>

definition runResolved ::
  "('pub, 'cert, 'signer, 'm) SshWorld \<Rightarrow> CLIArgs \<Rightarrow> ClientOptions \<Rightarrow> outcome option" where
  "runResolved w args opts0 =
     (let opts = postResolve args opts0;
          lgr = sshLogger w args opts
      in if caPrintConfig args then Some ([SshOutText (PrintConfig opts (caDestination args))], 0)
         else map_option (\<lambda>r. case r of Inl err \<Rightarrow> failed err | Inr cfg \<Rightarrow> runDial w args opts lgr cfg)
                (SSHClientConfig (xwAlgs w) (xwLib w) (sshHostWorld w) (sshAuthWorld w) opts))"

definition sshRun ::
  "('pub, 'cert, 'signer, 'm) SshWorld \<Rightarrow> string list \<Rightarrow> outcome option" where
  "sshRun w argv =
     (case clientParse ModeOptionsHostCommand argv emptyCLIArgs of
        Inl err \<Rightarrow> Some (failed err)
      | Inr args \<Rightarrow>
          if caVersion args then Some ([SshOutText (''ssh (sshconf) '' @ Version @ newline)], 0)
          else if caQueryType args \<noteq> [] then
            (case RunQuery (xwAlgs w) (caQueryType args) of
               Inl err \<Rightarrow> Some (failed err)
             | Inr algs \<Rightarrow> Some (map (\<lambda>a. SshOutText (a @ newline)) algs, 0))
          else if caDestination args = [] then
            Some ([SshErrLine (Usage ''ssh'' ModeOptionsHostCommand)], 255)
          else
            (case Directives args of
               Inl err \<Rightarrow> Some (failed err)
             | Inr cliDirectives \<Rightarrow>
                 (case LookupPort args of
                    Inl err \<Rightarrow> Some (failed err)
                  | Inr port \<Rightarrow>
                      (case Resolve (xwWorld w) (sshLookup w args port cliDirectives) of
                         Inl err \<Rightarrow> Some (failed err)
                       | Inr opts \<Rightarrow> runResolved w args opts))))"

section \<open>Lemmas\<close>

text \<open>What needs a connection, and what needs a peer that has been verified.\<close>

fun needsConn :: "SshOut \<Rightarrow> bool" where
  "needsConn (SshErrLine m) = False"
| "needsConn (SshOutText m) = False"
| "needsConn (SshLogLine m) = False"
| "needsConn x = True"

fun needsPeer :: "SshOut \<Rightarrow> bool" where
  "needsPeer (DialOut plan) = False"
| "needsPeer HandshakeOut = False"
| "needsPeer x = needsConn x"

fun inSession :: "SshOut \<Rightarrow> bool" where
  "inSession OpenSession = True"
| "inSession (SessionCalls cs) = True"
| "inSession (StdinFrom r) = True"
| "inSession (Started s) = True"
| "inSession x = False"

lemma needsPeer_conn: "needsPeer x \<Longrightarrow> needsConn x" "inSession x \<Longrightarrow> needsPeer x"
  by (cases x; simp)+

lemma fst_after [simp]: "fst (after out r) = out @ fst r" and snd_after [simp]: "snd (after out r) = snd r"
  by (simp_all add: after_def)

lemma failed_simps [simp]: "fst (failed err) = [sshErr err]" "snd (failed err) = 255"
  by (simp_all add: failed_def)

lemma quiet [simp]: "\<not> needsConn (sshErr err)" "list_all (\<lambda>x. \<not> needsConn x) (sshLog lgr l m)"
  by (simp_all add: sshErr_def sshLog_def split: option.split)

lemma quiet_log: "x \<in> set (sshLog lgr l m) \<Longrightarrow> \<not> needsConn x"
  using quiet(2)[of lgr l m] by (simp add: list_all_iff)

lemma quiet_not [simp]: "\<not> needsPeer (sshErr err)" "\<not> inSession (sshErr err)"
  using needsPeer_conn quiet(1) by blast+

lemma no_forward_log [simp]: "ForwardOuts fs \<notin> set (sshLog lgr l m)"
  using quiet_log by fastforce

lemma quiet_log': "x \<in> set (sshLog lgr l m) \<Longrightarrow> \<not> needsPeer x \<and> \<not> inSession x"
  using needsPeer_conn quiet_log by blast

text \<open>The exit code of every stage.\<close>

definition codeOk :: "('pub, 'cert, 'signer, 'm) SshWorld \<Rightarrow> outcome \<Rightarrow> bool" where
  "codeOk w r \<longleftrightarrow> snd r = 0 \<or> snd r = 255 \<or>
     (\<exists>s. Started s \<in> set (fst r)) \<and> snd r = exitCode (xwWait w)"

lemma codeOk_after: "codeOk w r \<Longrightarrow> codeOk w (after out r)"
  by (auto simp: codeOk_def)

lemma codeOk_failed: "codeOk w (failed err)"
  by (simp add: codeOk_def)

lemma codeOk_session: "codeOk w (runSession w args opts lgr)"
  by (simp add: runSession_def codeOk_after codeOk_failed Let_def case_prod_beta' split: option.split)
     (auto simp: codeOk_def)

lemma codeOk_connected: "codeOk w (runConnected w args opts lgr)"
proof -
  have "snd (RunStdioForward a b) \<in> {0, 255}" for a b
    by (simp add: RunStdioForward_def Let_def split: option.split)
  then have "codeOk w (out, snd (RunStdioForward a b))" for out a b
    by (auto simp: codeOk_def)
  then show ?thesis
    by (simp add: runConnected_def Let_def case_prod_beta' codeOk_after codeOk_failed codeOk_session
        split: option.split) (simp add: codeOk_def)
qed

lemma codeOk_dial: "codeOk w (runDial w args opts lgr cfg)"
  by (simp add: runDial_def Let_def codeOk_after codeOk_failed codeOk_connected split: sum.split option.split)
     (simp add: codeOk_def after_def)

text \<open>What a stage that needs a peer was preceded by.\<close>

lemma runDial_peer:
  assumes "x \<in> set (fst (runDial w args opts lgr cfg))" and "needsPeer x"
  shows "xwHandshake w cfg = None \<and> x \<in> set (fst (runConnected w args opts lgr)) \<and>
    (\<exists>plan. DialContext (xwNet w) (cDialerConfig opts) ''tcp''
        (JoinHostPort (the (cHostname opts)) (itoaInt (the (cPort opts)))) = Inr plan \<and> xwDial w plan = None)"
proof (cases "DialContext (xwNet w) (cDialerConfig opts) ''tcp''
    (JoinHostPort (the (cHostname opts)) (itoaInt (the (cPort opts))))")
  case (Inl err)
  then show ?thesis using assms quiet_log' by (auto simp: runDial_def Let_def)
next
  case plan: (Inr plan)
  show ?thesis
  proof (cases "xwDial w plan")
    case None
    then show ?thesis
      using assms quiet_log' plan by (cases "xwHandshake w cfg") (auto simp: runDial_def Let_def)
  next
    case (Some err)
    then show ?thesis using assms quiet_log' plan by (auto simp: runDial_def Let_def)
  qed
qed

lemma runConnected_stdio:
  assumes "x \<in> set (fst (runConnected w args opts lgr))" and "caStdioFwd args \<noteq> []"
  shows "\<not> inSession x \<and> x \<noteq> WaitConn \<and> (\<forall>fs. x = ForwardOuts fs \<longrightarrow> fs = fst (SetupForwarding (xwForward w) opts))"
proof (cases "snd (PostConnect (sshHandlers w (NewHandler (RemoteCommand args \<noteq> []))) opts)")
  case None
  then have "x \<in> set (sshLog lgr ''VERBOSE'' ''Authentication succeeded'') \<or>
      x = ForwardOuts (fst (SetupForwarding (xwForward w) opts)) \<or> (\<exists>cs. x = HandlerOut cs) \<or>
      (\<exists>cs. x = StdioOuts cs)"
    using assms by (auto simp: runConnected_def Let_def case_prod_beta')
  then show ?thesis using quiet_log[of x lgr] quiet_log'[of x lgr] by auto
next
  case (Some err)
  then have "x \<in> set (sshLog lgr ''VERBOSE'' ''Authentication succeeded'') \<or>
      x = ForwardOuts (fst (SetupForwarding (xwForward w) opts)) \<or> (\<exists>cs. x = HandlerOut cs) \<or> x = sshErr err"
    using assms by (auto simp: runConnected_def Let_def case_prod_beta')
  then show ?thesis using quiet_log[of x lgr] quiet_log'[of x lgr] by (auto simp: sshErr_def)
qed

lemma postResolve_fields [simp]:
  "cHostname (postResolve args opts) = cHostname opts" "cPort (postResolve args opts) = cPort opts"
  "cDialerConfig (postResolve args opts) = cDialerConfig opts"
  "cPermitLocalCommand (postResolve args opts) = cPermitLocalCommand opts"
  by (simp_all add: postResolve_def stdioOverride_def verbosityOverride_def ttyOverride_def)

lemma stdio_no_forwards:
  "caStdioFwd args \<noteq> [] \<Longrightarrow> fst (SetupForwarding fw (postResolve args opts)) = []"
  by (simp add: SetupForwarding_def postResolve_def stdioOverride_def Let_def)

text \<open>A run with its options resolved.\<close>

definition sshOptions :: "('pub, 'cert, 'signer, 'm) SshWorld \<Rightarrow> string list \<Rightarrow> CLIArgs \<Rightarrow> ClientOptions \<Rightarrow> bool" where
  "sshOptions w argv args opts \<longleftrightarrow>
     clientParse ModeOptionsHostCommand argv emptyCLIArgs = Inr args \<and> \<not> caVersion args \<and>
     caQueryType args = [] \<and> caDestination args \<noteq> [] \<and>
     (\<exists>ds port. Directives args = Inr ds \<and> LookupPort args = Inr port \<and>
        Resolve (xwWorld w) (sshLookup w args port ds) = Inr opts)"

lemma sshRun_cases:
  obtains (ended) out code where "sshRun w argv = Some (out, code)" "code \<in> {0, 255}"
      "\<And>x. x \<in> set out \<Longrightarrow> \<not> needsConn x"
  | (run) args opts where "sshOptions w argv args opts" "sshRun w argv = runResolved w args opts"
proof (cases "clientParse ModeOptionsHostCommand argv emptyCLIArgs")
  case (Inr args)
  consider (v) "caVersion args" | (q) "\<not> caVersion args" "caQueryType args \<noteq> []"
    | (u) "\<not> caVersion args" "caQueryType args = []" "caDestination args = []"
    | (r) "\<not> caVersion args" "caQueryType args = []" "caDestination args \<noteq> []" by blast
  then show ?thesis
  proof cases
    case v
    then show ?thesis using ended by (simp add: sshRun_def Inr)
  next
    case q
    show ?thesis
    proof (cases "RunQuery (xwAlgs w) (caQueryType args)")
      case (Inl err)
      then show ?thesis using ended q by (simp add: sshRun_def \<open>clientParse _ _ _ = _\<close> failed_def)
    next
      case alg: (Inr algs)
      show ?thesis
        by (rule ended[of "map (\<lambda>a. SshOutText (a @ newline)) algs" 0])
           (use q alg Inr in \<open>auto simp: sshRun_def\<close>)
    qed
  next
    case u
    then show ?thesis using ended by (simp add: sshRun_def Inr)
  next
    case r
    show ?thesis
    proof (cases "Directives args")
      case d: (Inr ds)
      show ?thesis
      proof (cases "LookupPort args")
        case p: (Inr port)
        show ?thesis
          by (cases "Resolve (xwWorld w) (sshLookup w args port ds)")
             (use ended run r Inr d p in \<open>auto simp: sshRun_def sshOptions_def failed_def\<close>)
      qed (use ended r Inr d in \<open>simp add: sshRun_def failed_def\<close>)
    qed (use ended r Inr in \<open>simp add: sshRun_def failed_def\<close>)
  qed
qed (use ended in \<open>simp add: sshRun_def failed_def\<close>)

lemma sshRun_peer:
  assumes "sshRun w argv = Some (out, code)" and "x \<in> set out" and "needsPeer x"
  shows "\<exists>args opts cfg. sshOptions w argv args opts \<and> \<not> caPrintConfig args \<and>
    SSHClientConfig (xwAlgs w) (xwLib w) (sshHostWorld w) (sshAuthWorld w) (postResolve args opts) =
      Some (Inr cfg) \<and>
    x \<in> set (fst (runDial w args (postResolve args opts) (sshLogger w args (postResolve args opts)) cfg))"
proof (rule sshRun_cases[of w argv])
  fix out' code'
  assume "sshRun w argv = Some (out', code')" "\<And>x. x \<in> set out' \<Longrightarrow> \<not> needsConn x"
  then have "\<not> needsConn x" using assms by simp
  then show ?thesis using needsPeer_conn(1)[OF assms(3)] by simp
next
  fix args opts
  assume o1: "sshOptions w argv args opts" and r: "sshRun w argv = runResolved w args opts"
  have np: "\<not> caPrintConfig args" using assms r by (auto simp: runResolved_def Let_def)
  obtain c where c: "SSHClientConfig (xwAlgs w) (xwLib w) (sshHostWorld w) (sshAuthWorld w)
      (postResolve args opts) = Some c"
    using assms(1) r np by (auto simp: runResolved_def Let_def)
  show ?thesis
  proof (cases c)
    case (Inl err)
    then have "x = sshErr err" using assms r np c by (auto simp: runResolved_def Let_def failed_def)
    then show ?thesis using assms(3) by simp
  next
    case (Inr cfg)
    then show ?thesis using assms r np c o1 by (auto simp: runResolved_def Let_def intro!: exI[of _ args])
  qed
qed

lemma SSHClientConfig_total:
  assumes "parseShrinks lib"
  shows "\<exists>r. SSHClientConfig algs lib hw aw opts = Some r"
proof -
  obtain r where r: "buildHostKeyCallback lib hw opts = Some r"
    using buildHostKeyCallback_total[OF assms] by blast
  show ?thesis
    by (cases "buildAuthMethods lib aw opts"; cases r) (simp_all add: SSHClientConfig_def Let_def r)
qed

section \<open>Properties\<close>


text \<open>With -W the program forwards its standard input and output and does nothing else for
  its user: no session is opened and no listener either, whatever the configuration
  says.\<close>

theorem sshRun_stdio_only:
  assumes "sshRun w argv = Some (out, code)" and "x \<in> set out"
    and "clientParse ModeOptionsHostCommand argv emptyCLIArgs = Inr args" and "caStdioFwd args \<noteq> []"
  shows "\<not> inSession x \<and> (\<forall>fs. x = ForwardOuts fs \<longrightarrow> fs = [])"
proof (cases "needsPeer x")
  case True
  then obtain args' opts cfg where 1: "sshOptions w argv args' opts"
    "x \<in> set (fst (runDial w args' (postResolve args' opts) (sshLogger w args' (postResolve args' opts)) cfg))"
    using sshRun_peer[OF assms(1,2)] by blast
  have a: "args' = args" using 1(1) assms(3) by (simp add: sshOptions_def)
  have "x \<in> set (fst (runConnected w args (postResolve args opts) (sshLogger w args (postResolve args opts))))"
    using runDial_peer[OF 1(2) True] by (simp add: a)
  from runConnected_stdio[OF this assms(4)] show ?thesis
    using stdio_no_forwards[OF assms(4)] by auto
next
  case False
  then show ?thesis using needsPeer_conn(2) by (cases x) auto
qed


text \<open>A system for the witnesses: no configuration, no known hosts, a server that lets the
  client in, a session whose command ends with 3.\<close>

definition demoSsh :: "(char, char, char, bool) SshWorld" where
  "demoSsh = \<lparr>xwWorld = emptyWorld, xwAlgs = demoAlgs,
     xwLib = demoLib (\<lambda>f. Inr ''ab''),
     xwHost = demoHosts\<lparr>hkStat := (\<lambda>f. False)\<rparr>, xwConfirm = (\<lambda>h r k. True),
     xwAgent = (\<lambda>p. Inl (ErrExt p)), xwPassphrase = (\<lambda>p. Inl (ErrExt p)), xwCanOpen = (\<lambda>f. False),
     xwExec = (\<lambda>c. None), xwNet = deadNet, xwDial = (\<lambda>p. None), xwHandshake = (\<lambda>cfg. None),
     xwForward = \<lparr>fwListen = (\<lambda>a. None), fwRemoteListen = (\<lambda>a. None), fwLogger = True\<rparr>,
     xwOpenDirect = None, xwNewSession = None,
     xwSession = \<lparr>swEnviron = [], swGetenv = (\<lambda>v. []), swIsTerminal = False, swGetSize = None,
       swRequestPty = None, swRequestAgent = None, swForwardToRemote = (\<lambda>p. None)\<rparr>,
     xwRaw = (\<lambda>m. Inr True), xwMode = False, xwStdinPipe = None, xwStart = (\<lambda>s. None),
     xwWait = EndExit 3 []\<rparr>"

definition demoStdio :: CLIArgs where
  "demoStdio = emptyCLIArgs\<lparr>caStdioFwd := ''x:1'', caDestination := ''h''\<rparr>"

lemma demoSsh_parse:
  "clientParse ModeOptionsHostCommand [''-W'', ''x:1'', ''h''] emptyCLIArgs = Inr demoStdio"
  by code_simp

lemma demoSsh_runs:
  "\<exists>out code fs. sshRun demoSsh [''-W'', ''x:1'', ''h''] = Some (out, code) \<and> ForwardOuts fs \<in> set out"
proof -
  let ?l = "sshLookup demoSsh demoStdio 0 []"
  have a: "caVersion demoStdio = False" "caQueryType demoStdio = []" "caDestination demoStdio \<noteq> []"
    "caPrintConfig demoStdio = False" "Directives demoStdio = Inr []" "LookupPort demoStdio = Inr 0"
    by code_simp+
  have "lkCommandLineDirectives ?l = []" "lkCommandLineOptions ?l = []" "lkPort ?l = 0"
    by (simp_all add: sshLookup_def emptyLookup_def)
  from demo_resolved[OF this] obtain o1 where o1: "Resolve emptyWorld ?l = Inr o1" "cRevokedHostKeys o1 = None"
    "dcBindAddress (cDialerConfig o1) = []" "dcBindInterface (cDialerConfig o1) = []"
    "dcIPQoS (cDialerConfig o1) = ''ef none''" by blast
  let ?o = "postResolve demoStdio o1"
  have "cRevokedHostKeys ?o = None"
    using o1(2) by (simp add: postResolve_def stdioOverride_def verbosityOverride_def ttyOverride_def)
  then have "\<exists>cb. buildHostKeyCallback (xwLib demoSsh) (sshHostWorld demoSsh) ?o = Some (Inr cb)"
    by (simp add: buildHostKeyCallback_def sshHostWorld_def demoSsh_def)
  moreover obtain ams where "buildAuthMethods (xwLib demoSsh) (sshAuthWorld demoSsh) ?o = Inr ams"
    by (simp add: buildAuthMethods_def)
  ultimately obtain cfg where c: "SSHClientConfig (xwAlgs demoSsh) (xwLib demoSsh) (sshHostWorld demoSsh)
      (sshAuthWorld demoSsh) ?o = Some (Inr cfg)" by (auto simp: SSHClientConfig_def Let_def)
  have q: "parseIPQoS ''ef none'' = Inr (Some 184)" by code_simp
  obtain plan where d: "DialContext (xwNet demoSsh) (cDialerConfig ?o) ''tcp'' addr = Inr (plan addr)" for addr
    using o1(3-5) q by (simp add: DialContext_def localAddr_def Let_def)
  have w: "xwWorld demoSsh = emptyWorld" by (simp add: demoSsh_def)
  have r: "sshRun demoSsh [''-W'', ''x:1'', ''h''] =
      Some (runDial demoSsh demoStdio ?o (sshLogger demoSsh demoStdio ?o) cfg)"
    using a o1(1) c by (simp add: sshRun_def demoSsh_parse runResolved_def Let_def w)
  have "ForwardOuts (fst (SetupForwarding (xwForward demoSsh) ?o)) \<in>
      set (fst (runConnected demoSsh demoStdio ?o lgr))" for lgr
    by (simp add: runConnected_def Let_def case_prod_beta' split: option.split)
  then have "ForwardOuts (fst (SetupForwarding (xwForward demoSsh) ?o)) \<in>
      set (fst (runDial demoSsh demoStdio ?o lgr cfg))" for lgr
    using d by (simp add: runDial_def Let_def demoSsh_def)
  then show ?thesis using r by (metis prod.collapse)
qed


theorem sshRun_stdio_only_witness:
  "\<exists>out code. sshRun demoSsh [''-W'', ''x:1'', ''h''] = Some (out, code) \<and> ForwardOuts [] \<in> set out"
proof -
  obtain out code fs where r: "sshRun demoSsh [''-W'', ''x:1'', ''h''] = Some (out, code)" "ForwardOuts fs \<in> set out"
    using demoSsh_runs by blast
  have "caStdioFwd demoStdio \<noteq> []" by (simp add: demoStdio_def)
  from sshRun_stdio_only[OF r demoSsh_parse this] show ?thesis using r by auto
qed


text \<open>A user named in the configuration wins over the one named on the command line: when
  the first entries of a resolution are unconditional and set a user, the resolved options
  have that user, although the program looks up its own user from the destination or -l;
  and the name matched as the original host still has the user in front.\<close>

theorem config_user_wins:
  assumes "ApplyAll ds emptyOptions = Inr e" and "cUser e = Some u"
    and "resolveOptions w (sshLookup sw args 0 cds) (map unconditional ds @ es) = Inr r"
  shows "cUser r = Some u \<and> lkUser (sshLookup sw args 0 cds) = LookupUser args \<and>
    mcOriginalHost (initialContext w (sshLookup sw args 0 cds)) =
      (if caDestination args = [] then snd (ParseDestination []) else caDestination args)"
proof -
  let ?l = "sshLookup sw args 0 cds"
  have "lkPort ?l = 0" by (simp add: sshLookup_def)
  then have "list_all2 ext (scalarsButHost e) (scalarsButHost r)"
    using resolved_keeps[OF assms(1) _ assms(3)] by simp
  then have "ext (scalarsButHost e ! 15) (scalarsButHost r ! 15)"
    by (rule list_all2_nthD) (simp add: scalarsButHost_def length_scalars)
  then have "cUser r = Some u"
    using assms(2) by (simp add: scalarsButHost_def scalars_def ext_def)
  then show ?thesis
    by (simp add: sshLookup_def initialContext_def originalHostOf_def emptyLookup_def emptyMatchContext_def Let_def)
qed

theorem config_user_wins_witness:
  "\<exists>r. resolveOptions emptyWorld (sshLookup demoSsh (emptyCLIArgs\<lparr>caDestination := ''alice@h''\<rparr>) 0 [])
      (map unconditional [dirOf ''User'' ''bob'']) = Inr r \<and> cUser r = Some ''bob'' \<and>
     LookupUser (emptyCLIArgs\<lparr>caDestination := ''alice@h''\<rparr>) = ''alice''"
proof -
  let ?args = "emptyCLIArgs\<lparr>caDestination := ''alice@h''\<rparr>"
  have a: "ApplyAll [dirOf ''User'' ''bob''] emptyOptions = Inr (emptyOptions\<lparr>cUser := Some ''bob''\<rparr>)"
    by code_simp
  have "\<not> wantsCanonical (emptyOptions\<lparr>cUser := Some ''bob''\<rparr>)"
    by (simp add: wantsCanonical_def emptyOptions_def)
  from resolve_unconditional[OF a this, of emptyWorld "sshLookup demoSsh ?args 0 []"]
  obtain r where r: "resolveOptions emptyWorld (sshLookup demoSsh ?args 0 [])
      (map unconditional [dirOf ''User'' ''bob''] @ []) = Inr r" by simp
  have "LookupUser ?args = ''alice''" by code_simp
  with config_user_wins[OF a _ r] r show ?thesis by simp
qed

text \<open>The dialer the program uses knows nothing of proxies: whatever ProxyJump and ProxyCommand
  say, it dials the same address in the same way.\<close>

lemma proxy_ignored:
  "DialContext net (cfg\<lparr>dcProxyJump := jump, dcProxyCommand := command\<rparr>) network addr =
     DialContext net cfg network addr"
  by (simp add: DialContext_def localAddr_def Network_def Let_def cong: sum.case_cong option.case_cong prod.case_cong)

end
