(* ===== verification/ClientRunning.thy ===== *)
theory ClientRunning
  imports SshMain
begin

text \<open>
  A running session of the client (the end of \<^verbatim>\<open>run\<close> in \<^verbatim>\<open>cmd/ssh/main.go\<close>,
  \<^verbatim>\<open>SetupSIGWINCH\<close> of \<^verbatim>\<open>pkg/terminal\<close>): beside the wait for the end of the session there
  are the goroutine that copies the standard input and one that passes on window sizes
  or, without a terminal, signals.  Their steps come in any order: a run is a list of
  events, and what is proved holds for every list.
\<close>

section \<open>Steps\<close>

text \<open>One read of the copying goroutine, with the success of the write of its bytes; a change
  of the window size, with the size that is read; a signal; the end of the session.\<close>

datatype Signal = SIGINT | SIGTERM

datatype RunEvent = CopyRead bool | Winch "(int \<times> int) option" | OsSignal Signal | SessionDone

datatype RunCall =
    SendBytes string | CloseInput | CloseSession | HelpText | WindowChanged int int | SendSignal string
  | RestoreTerminal

record RunState =
  rsReader :: "EscapeReader option"
  rsInput :: string
  rsCopying :: bool
  rsAlive :: bool

definition startRun :: "bool \<Rightarrow> ClientOptions \<Rightarrow> string \<Rightarrow> RunState" where
  "startRun pty opts stdin =
     (case stdinReader pty opts of
        None \<Rightarrow> \<lparr>rsReader = None, rsInput = [], rsCopying = True, rsAlive = True\<rparr>
      | Some rd \<Rightarrow> \<lparr>rsReader = rd, rsInput = stdin, rsCopying = True, rsAlive = True\<rparr>)"

definition readStdin :: "RunState \<Rightarrow> (string \<times> go_error option) \<times> EscEffect list \<times> RunState" where
  "readStdin s =
     (case rsReader s of
        None \<Rightarrow> (let (r, rest) = readString copyBuffer (rsInput s) in (r, [], s\<lparr>rsInput := rest\<rparr>))
      | Some e \<Rightarrow>
          (let (r, eff, e', rest) = escRead readString copyBuffer e (rsInput s)
           in (r, eff, s\<lparr>rsReader := Some e', rsInput := rest\<rparr>)))"

text \<open>The function given to the escape reader restores the terminal and closes the session.\<close>

fun effectCalls :: "EscEffect \<Rightarrow> RunCall list" where
  "effectCalls CloseFn = [RestoreTerminal, CloseSession]"
| "effectCalls PrintHelp = [HelpText]"

text \<open>A round of \<^verbatim>\<open>io.Copy\<close>, with what follows it when it ends.\<close>

definition copyStep :: "bool \<Rightarrow> RunState \<Rightarrow> RunCall list \<times> RunState" where
  "copyStep ok s =
     (let ((bytes, err), eff, s') = readStdin s;
          written = (if bytes = [] \<or> \<not> ok then [] else [SendBytes bytes]);
          stop = (err \<noteq> None \<or> bytes \<noteq> [] \<and> \<not> ok)
      in (concat (map effectCalls eff) @ written @ (if stop then [CloseInput] else []),
          s'\<lparr>rsCopying := \<not> stop\<rparr>))"

fun signalName :: "Signal \<Rightarrow> string" where
  "signalName SIGINT = ''INT''"
| "signalName SIGTERM = ''TERM''"

text \<open>With a terminal the program has no handler for the two signals, which then end it as
  they are.\<close>

fun runStep :: "bool \<Rightarrow> RunEvent \<Rightarrow> RunState \<Rightarrow> RunCall list \<times> RunState" where
  "runStep pty (CopyRead ok) s = (if rsCopying s then copyStep ok s else ([], s))"
| "runStep pty (Winch sz) s =
     (case sz of Some (w, h) \<Rightarrow> (if pty then [WindowChanged h w] else [], s) | None \<Rightarrow> ([], s))"
| "runStep pty (OsSignal sig) s =
     (if pty then ([], s\<lparr>rsAlive := False\<rparr>) else ([SendSignal (signalName sig)], s))"
| "runStep pty SessionDone s = ([RestoreTerminal], s\<lparr>rsAlive := False\<rparr>)"

primrec runAll :: "bool \<Rightarrow> RunEvent list \<Rightarrow> RunState \<Rightarrow> RunCall list \<times> RunState" where
  "runAll pty [] s = ([], s)"
| "runAll pty (ev # evs) s =
     (if \<not> rsAlive s then ([], s)
      else (let (calls, s') = runStep pty ev s; (calls', s'') = runAll pty evs s'
            in (calls @ calls', s'')))"

section \<open>What the peer sees\<close>

definition bytesSent :: "RunCall list \<Rightarrow> string" where
  "bytesSent calls = concat (map (\<lambda>c. case c of SendBytes b \<Rightarrow> b | _ \<Rightarrow> []) calls)"

definition isControl :: "RunCall \<Rightarrow> bool" where
  "isControl c = (case c of WindowChanged h w \<Rightarrow> True | SendSignal n \<Rightarrow> True | _ \<Rightarrow> False)"

definition closings :: "RunCall list \<Rightarrow> nat" where
  "closings calls = length (filter (\<lambda>c. c = CloseInput) calls)"

lemma sent_append [simp]:
  "bytesSent (xs @ ys) = bytesSent xs @ bytesSent ys" "closings (xs @ ys) = closings xs + closings ys"
  by (simp_all add: bytesSent_def closings_def)

lemma sent_simps [simp]:
  "bytesSent [] = []" "closings [] = 0"
  "bytesSent (c # cs) = (case c of SendBytes b \<Rightarrow> b | _ \<Rightarrow> []) @ bytesSent cs"
  "closings (c # cs) = (if c = CloseInput then 1 else 0) + closings cs"
  by (simp_all add: bytesSent_def closings_def)

lemma effects_sent [simp]:
  "bytesSent (concat (map effectCalls eff)) = []" "closings (concat (map effectCalls eff)) = 0"
  "filter isControl (concat (map effectCalls eff)) = []"
proof (induction eff)
  case (Cons x eff)
  { case 1 then show ?case using Cons(1) by (cases x) auto }
  { case 2 then show ?case using Cons(2) by (cases x) auto }
  { case 3 then show ?case using Cons(3) by (cases x) (auto simp: isControl_def) }
qed simp_all

text \<open>What there is left to send.\<close>

definition pending :: "RunState \<Rightarrow> string" where
  "pending s =
     (if \<not> rsCopying s then []
      else case rsReader s of None \<Rightarrow> rsInput s | Some e \<Rightarrow> fst (escCopy e (rsInput s)))"

lemma readStdin_pending:
  assumes "readStdin s = ((bytes, err), eff, s')" and "rsCopying s"
  shows "pending s = bytes @ (if err = None then pending s' else [])"
    and "rsCopying s' \<and> rsAlive s' = rsAlive s"
    and "err = None \<Longrightarrow> length (rsInput s') < length (rsInput s)"
proof -
  show "rsCopying s' \<and> rsAlive s' = rsAlive s"
    using assms by (auto simp: readStdin_def Let_def split: option.splits prod.splits)
  show "err = None \<Longrightarrow> length (rsInput s') < length (rsInput s)"
    using assms copyBuffer_gt
    by (auto simp: readStdin_def Let_def readString_def split: option.splits prod.splits if_splits
        dest: escRead_shrinks)
  show "pending s = bytes @ (if err = None then pending s' else [])"
  proof (cases "rsReader s")
    case None
    then show ?thesis
      using assms by (auto simp: readStdin_def pending_def readString_def split: if_splits)
  next
    case (Some e)
    then show ?thesis
      using assms escCopy.simps[of e "rsInput s"]
      by (auto simp: readStdin_def pending_def Let_def split: prod.splits option.splits)
  qed
qed

lemma copyStep_sends:
  assumes "copyStep ok s = (calls, s')" and "rsCopying s"
  shows "\<exists>lost. pending s = bytesSent calls @ lost @ pending s' \<and> (ok \<or> rsCopying s' \<longrightarrow> lost = [])"
    and "closings calls = (if rsCopying s' then 0 else 1)"
    and "filter isControl calls = []"
    and "rsAlive s' = rsAlive s"
    and "rsCopying s' \<Longrightarrow> length (rsInput s') < length (rsInput s)"
    and "\<not> rsCopying s' \<Longrightarrow> pending s' = []"
proof -
  obtain bytes err eff t where r: "readStdin s = ((bytes, err), eff, t)" by (metis prod.collapse)
  note p = readStdin_pending[OF r assms(2)]
  have c: "calls = concat (map effectCalls eff) @ (if bytes = [] \<or> \<not> ok then [] else [SendBytes bytes]) @
      (if err \<noteq> None \<or> bytes \<noteq> [] \<and> \<not> ok then [CloseInput] else [])"
    and t: "s' = t\<lparr>rsCopying := \<not> (err \<noteq> None \<or> bytes \<noteq> [] \<and> \<not> ok)\<rparr>"
    using assms(1) by (simp_all add: copyStep_def r Let_def)
  have q: "rsCopying s' \<Longrightarrow> pending s' = pending t" using p(2) by (simp add: t pending_def split: option.split)
  show "\<not> rsCopying s' \<Longrightarrow> pending s' = []" by (simp add: pending_def)
  show "closings calls = (if rsCopying s' then 0 else 1)" by (simp add: c t)
  show "filter isControl calls = []" by (simp add: c isControl_def)
  show "rsAlive s' = rsAlive s" using p(2) by (simp add: t)
  show "rsCopying s' \<Longrightarrow> length (rsInput s') < length (rsInput s)" using p(3) by (simp add: t)
  show "\<exists>lost. pending s = bytesSent calls @ lost @ pending s' \<and> (ok \<or> rsCopying s' \<longrightarrow> lost = [])"
  proof (cases "rsCopying s'")
    case True
    then show ?thesis using p(1) q[OF True] by (intro exI[of _ "[]"]) (auto simp: c t)
  next
    case False
    then show ?thesis
      using p(1) by (intro exI[of _ "if ok then [] else pending s"]) (auto simp: c t pending_def)
  qed
qed

section \<open>Runs\<close>

text \<open>The control calls that the events of a run ask for, up to its end.\<close>

fun wanted :: "bool \<Rightarrow> RunEvent list \<Rightarrow> RunCall list" where
  "wanted pty [] = []"
| "wanted pty (Winch (Some (w, h)) # evs) = (if pty then [WindowChanged h w] else []) @ wanted pty evs"
| "wanted pty (OsSignal sig # evs) = (if pty then [] else SendSignal (signalName sig) # wanted pty evs)"
| "wanted pty (SessionDone # evs) = []"
| "wanted pty (_ # evs) = wanted pty evs"

lemma wanted_kind: "c \<in> set (wanted pty evs) \<Longrightarrow> (\<exists>w h. c = WindowChanged h w \<and> pty) \<or> (\<exists>n. c = SendSignal n \<and> \<not> pty)"
  by (induction pty evs rule: wanted.induct) (auto split: if_splits)

lemma runAll_dead: "\<not> rsAlive s \<Longrightarrow> runAll pty evs s = ([], s)"
  by (cases evs) auto

lemma runAll_copying:
  "runAll pty evs s = (calls, t) \<Longrightarrow>
   (\<exists>lost. pending s = bytesSent calls @ lost @ pending t \<and> (CopyRead False \<notin> set evs \<longrightarrow> lost = [])) \<and>
   closings calls = (if rsCopying s \<and> \<not> rsCopying t then 1 else 0) \<and> (rsCopying t \<longrightarrow> rsCopying s)"
proof (induction evs arbitrary: s calls)
  case (Cons ev evs)
  show ?case
  proof (cases "rsAlive s")
    case True
    obtain c1 s1 where 1: "runStep pty ev s = (c1, s1)" by (cases "runStep pty ev s")
    obtain c2 where 2: "runAll pty evs s1 = (c2, t)" "calls = c1 @ c2"
      using Cons.prems True 1 by (auto split: prod.splits)
    note IH = Cons.IH[OF 2(1)]
    show ?thesis
    proof (cases "\<exists>ok. ev = CopyRead ok \<and> rsCopying s")
      case True
      then obtain ok where ev: "ev = CopyRead ok" "rsCopying s" by blast
      have s: "copyStep ok s = (c1, s1)" using 1 ev by simp
      note c = copyStep_sends[OF s ev(2)]
      from c(1) obtain l1 where l1: "pending s = bytesSent c1 @ l1 @ pending s1" "ok \<or> rsCopying s1 \<longrightarrow> l1 = []" by blast
      from IH obtain l2 where l2: "pending s1 = bytesSent c2 @ l2 @ pending t"
        "CopyRead False \<notin> set evs \<longrightarrow> l2 = []" by blast
      show ?thesis
      proof (cases "rsCopying s1")
        case False
        then have "pending s1 = []" by (rule c(6))
        with l1 l2 have "pending s = bytesSent calls @ l1 @ pending t" by (simp add: 2(2))
        then show ?thesis using l1 c(2) IH False ev by (auto simp: 2(2))
      next
        case True
        then have k: "l1 = []" "closings c1 = 0" using l1 c(2) by auto
        with l1 l2 have "pending s = bytesSent calls @ l2 @ pending t" by (simp add: 2(2))
        then show ?thesis using l2 k IH True ev by (auto simp: 2(2))
      qed
    next
      case False
      then have "bytesSent c1 = []" "closings c1 = 0" "rsCopying s1 = rsCopying s" "pending s1 = pending s"
        using 1 by (cases ev; auto simp: pending_def split: if_splits option.splits)+
      then show ?thesis using IH by (auto simp: 2(2))
    qed
  qed (use Cons.prems in \<open>auto intro: exI[of _ "[]"]\<close>)
qed (auto intro: exI[of _ "[]"])

lemma runAll_control: "runAll pty evs s = (calls, t) \<Longrightarrow> rsAlive s \<Longrightarrow> filter isControl calls = wanted pty evs"
proof (induction evs arbitrary: s calls)
  case (Cons ev evs)
  obtain c1 s1 where 1: "runStep pty ev s = (c1, s1)" by (cases "runStep pty ev s")
  obtain c2 where 2: "runAll pty evs s1 = (c2, t)" "calls = c1 @ c2"
    using Cons.prems 1 by (auto split: prod.splits)
  show ?case
  proof (cases "rsAlive s1")
    case True
    note IH = Cons.IH[OF 2(1) True]
    have "filter isControl c1 @ wanted pty evs = wanted pty (ev # evs)"
      using 1 True Cons.prems(2) copyStep_sends(3)[of _ s c1 s1]
      by (cases ev) (auto simp: isControl_def split: option.splits if_splits)
    then show ?thesis using IH by (simp add: 2(2))
  next
    case False
    have "c2 = []" using runAll_dead[OF False, of pty evs] 2(1) by simp
    moreover have "filter isControl c1 = wanted pty (ev # evs)"
      using 1 False Cons.prems(2) copyStep_sends(4)[of _ s c1 s1]
      by (cases ev) (auto simp: isControl_def split: option.splits if_splits)
    ultimately show ?thesis by (simp add: 2(2))
  qed
qed simp

lemma runAll_alive:
  "runAll pty evs s = (calls, t) \<Longrightarrow> rsAlive s \<Longrightarrow> SessionDone \<notin> set evs \<Longrightarrow>
   (\<And>sig. pty \<Longrightarrow> OsSignal sig \<notin> set evs) \<Longrightarrow> rsAlive t"
proof (induction evs arbitrary: s calls)
  case (Cons ev evs)
  obtain c1 s1 where 1: "runStep pty ev s = (c1, s1)" by (cases "runStep pty ev s")
  obtain c2 where 2: "runAll pty evs s1 = (c2, t)" using Cons.prems(1,2) 1 by (auto split: prod.splits)
  have "rsAlive s1"
    using 1 Cons.prems(2-4) copyStep_sends(4)[of _ s c1 s1]
    by (cases ev) (auto split: option.splits if_splits)
  then show ?case using Cons.IH[OF 2] Cons.prems(3,4) by simp
qed simp

text \<open>A copy that goes on takes from the input at every read: so many reads end it.\<close>

definition reads :: "RunEvent list \<Rightarrow> nat" where
  "reads evs = length (filter (\<lambda>ev. \<exists>ok. ev = CopyRead ok) evs)"

lemma runAll_reads:
  "runAll pty evs s = (calls, t) \<Longrightarrow> rsAlive t \<Longrightarrow> rsCopying t \<Longrightarrow> reads evs + length (rsInput t) \<le> length (rsInput s)"
proof (induction evs arbitrary: s calls)
  case (Cons ev evs)
  have a: "rsAlive s" using Cons.prems by (cases "rsAlive s") auto
  obtain c1 s1 where 1: "runStep pty ev s = (c1, s1)" by (cases "runStep pty ev s")
  obtain c2 where 2: "runAll pty evs s1 = (c2, t)" using Cons.prems(1) 1 a by (auto split: prod.splits)
  have k: "rsCopying s1" using runAll_copying[OF 2] Cons.prems(3) by blast
  note IH = Cons.IH[OF 2 Cons.prems(2,3)]
  show ?case
  proof (cases "\<exists>ok. ev = CopyRead ok")
    case True
    then obtain ok where ok: "ev = CopyRead ok" by blast
    have s: "rsCopying s" using 1 ok k by (auto split: if_splits)
    then have "copyStep ok s = (c1, s1)" using 1 ok by simp
    then have "length (rsInput s1) < length (rsInput s)" using copyStep_sends(5) s k by blast
    then show ?thesis using IH ok by (simp add: reads_def)
  next
    case False
    then have "rsInput s1 = rsInput s" using 1 by (cases ev) (auto split: option.splits if_splits)
    then show ?thesis using IH False by (simp add: reads_def)
  qed
qed (simp add: reads_def)

section \<open>Property\<close>

text \<open>What the client sends of its standard input.\<close>

definition stdinText :: "bool \<Rightarrow> ClientOptions \<Rightarrow> string \<Rightarrow> string" where
  "stdinText pty opts stdin =
     (case stdinReader pty opts of
        None \<Rightarrow> []
      | Some None \<Rightarrow> stdin
      | Some (Some e) \<Rightarrow> fst (escCopy e stdin))"

lemma startRun_simps:
  "pending (startRun pty opts stdin) = stdinText pty opts stdin" "rsAlive (startRun pty opts stdin)"
  "rsCopying (startRun pty opts stdin)" "length (rsInput (startRun pty opts stdin)) \<le> length stdin"
  by (simp_all add: startRun_def pending_def stdinText_def split: option.split)

text \<open>C15: in whatever order the reads of the standard input, the changes of the window, the signals
  and the end of the session come: what the server receives is a prefix of the standard
  input (without its escape sequences), all of it once as many reads have been made as it
  has bytes and no write has failed; its end is told once and when the copy ends; and the
  window changes (only with a terminal) and the signals (only without) reach the server
  exactly as they occur, in their order, up to the end.\<close>

theorem session_any_order:
  assumes "runAll pty evs (startRun pty opts stdin) = (calls, t)"
  shows "prefix (bytesSent calls) (stdinText pty opts stdin) \<and>
    (CopyRead False \<notin> set evs \<and> rsAlive t \<and> length stdin < reads evs \<longrightarrow>
       bytesSent calls = stdinText pty opts stdin) \<and>
    closings calls = (if rsCopying t then 0 else 1) \<and>
    filter isControl calls = wanted pty evs \<and>
    (\<forall>c \<in> set (wanted pty evs). if pty then \<exists>w h. c = WindowChanged h w else \<exists>n. c = SendSignal n)"
proof -
  let ?s = "startRun pty opts stdin"
  note start = startRun_simps[of pty opts stdin]
  from runAll_copying[OF assms] start obtain lost where
    c: "stdinText pty opts stdin = bytesSent calls @ lost @ pending t" "CopyRead False \<notin> set evs \<longrightarrow> lost = []"
      "closings calls = (if rsCopying t then 0 else 1)" by (auto split: if_splits)
  have "\<not> rsCopying t" if "rsAlive t" "length stdin < reads evs"
    using runAll_reads[OF assms that(1)] start(4) that(2) by linarith
  then have "pending t = []" if "rsAlive t" "length stdin < reads evs"
    using that by (simp add: pending_def)
  moreover have "filter isControl calls = wanted pty evs" by (rule runAll_control[OF assms start(2)])
  moreover have "\<forall>c \<in> set (wanted pty evs). if pty then \<exists>w h. c = WindowChanged h w else \<exists>n. c = SendSignal n"
    using wanted_kind by fastforce
  ultimately show ?thesis using c by auto
qed

theorem session_any_order_witness:
  "bytesSent (fst (runAll True
      [CopyRead True, Winch (Some (80, 24)), CopyRead True, CopyRead True, CopyRead True]
      (startRun True (emptyOptions\<lparr>cEscapeChar := Some ''~''\<rparr>) ''~.x''))) = [] \<and>
   filter isControl (fst (runAll True
      [CopyRead True, Winch (Some (80, 24)), CopyRead True, CopyRead True, CopyRead True]
      (startRun True (emptyOptions\<lparr>cEscapeChar := Some ''~''\<rparr>) ''~.x''))) = [WindowChanged 24 80]"
proof -
  let ?o = "emptyOptions\<lparr>cEscapeChar := Some ''~''\<rparr>"
  let ?evs = "[CopyRead True, Winch (Some (80, 24)), CopyRead True, CopyRead True, CopyRead True]"
  let ?r = "runAll True ?evs (startRun True ?o ''~.x'')"
  have s: "stdinText True ?o ''~.x'' = []" by code_simp
  have a: "rsAlive (snd ?r)"
    by (rule runAll_alive[OF prod.collapse[symmetric]]) (simp_all add: startRun_simps)
  have r: "length ''~.x'' < reads ?evs" by (auto simp: reads_def)
  note h = session_any_order[OF prod.collapse[symmetric, of ?r]]
  have "CopyRead False \<notin> set ?evs" by simp
  then have "bytesSent (fst ?r) = stdinText True ?o ''~.x''"
    by (intro h[THEN conjunct2, THEN conjunct1, THEN mp] conjI a r)
  moreover have "filter isControl (fst ?r) = wanted True ?evs"
    by (rule h[THEN conjunct2, THEN conjunct2, THEN conjunct2, THEN conjunct1])
  moreover have "wanted True ?evs = [WindowChanged 24 80]" by simp
  ultimately show ?thesis unfolding s by (rule conjI[OF _ trans])
qed

end
