(* ===== verification/SshdMain.thy ===== *)
theory SshdMain
  imports ServerConn ServerArgs ServerResolve Logger
begin

text \<open>
  The server program (\<^verbatim>\<open>cmd/sshd/main.go\<close>): from its arguments to its exit code.  The
  operating system, the SSH library and the clients are arguments (record \<^verbatim>\<open>SshdWorld\<close>);
  what the program prints, logs and serves is recorded in order, the listeners one
  after the other.  A program that still waits for connections has no exit code.
\<close>

record ('pub, 'cert, 'signer) SshdWorld =
  mwWorld :: World
  mwAlgs :: AlgLib
  mwLib :: "('pub, 'cert, 'signer) KeyLib"
  mwLookupUser :: "string \<Rightarrow> go_error + string"
  mwProc :: ProcWorld
  mwSess :: SessWorld
  mwFwd :: FwdWorld
  mwNetListen :: "string \<Rightarrow> string \<Rightarrow> go_error + handle"
  mwFwdListen :: "string \<Rightarrow> string \<Rightarrow> go_error + handle \<times> 32 word"
  mwClose :: "handle \<Rightarrow> go_error option"
  mwCanOpen :: "string \<Rightarrow> bool"
  mwAccepts :: "handle \<Rightarrow> (go_error + nat) list"
  mwIsClosed :: "go_error \<Rightarrow> bool"
  mwStdio :: "('pub, 'signer) ConnWorld"

datatype SshdOut =
    ErrLine string
  | OutLine string
  | LogLine string
  | Served handle nat
  | ConnRun "ConnOut list"

definition version :: string where "version = ''sshconf_1.0''"

definition stderrf :: "go_error \<Rightarrow> SshdOut" where
  "stderrf err = ErrLine (''sshd: '' @ errText err @ newline)"

definition logOut :: "LogState \<Rightarrow> string \<Rightarrow> string \<Rightarrow> string \<Rightarrow> SshdOut list" where
  "logOut st lname level msg = (case Log st lname level msg of Some line \<Rightarrow> [LogLine line] | None \<Rightarrow> [])"

section \<open>Handlers\<close>

text \<open>The handlers of the program: no passwords, keys from files, access by user name, a
  session with the reference launcher, TCP forwarding.\<close>

definition sshdAuthHandlers :: "('pub, 'cert, 'signer) SshdWorld \<Rightarrow> ('pub, 'signer) AuthHandlers" where
  "sshdAuthHandlers w =
     \<lparr>ahPassword = Some DenyPassword,
      ahPublicKey = Some (AuthenticatePublicKey (mwLib w) (mwLookupUser w)),
      ahKeyboardInteractive = None, ahHostbased = False, ahGSSAPI = None, ahHostKeyProvider = None,
      ahLogger = True\<rparr>"

definition sshdConnHandlers :: "('pub, 'cert, 'signer) SshdWorld \<Rightarrow> forwards ConnHandlers" where
  "sshdConnHandlers w =
     \<lparr>chSession = Some (HandleSession (mwSess w\<lparr>launcher := Some (execLauncher (mwProc w) [])\<rparr>)),
      chTcp = Some (DefaultTcpForwarder (mwFwd w) (mwFwdListen w) (mwClose w)),
      chStreamLocal = None, chTunnel = None, chAccess = Some CheckAccess, chLogger = True\<rparr>"

section \<open>The printed configuration\<close>

definition strOrDefault :: "string option \<Rightarrow> string \<Rightarrow> string" where
  "strOrDefault p d = (case p of None \<Rightarrow> d | Some v \<Rightarrow> v)"

definition intOrDefault :: "int option \<Rightarrow> int \<Rightarrow> int" where
  "intOrDefault p d = (case p of None \<Rightarrow> d | Some v \<Rightarrow> v)"

definition boolOrDefault :: "bool option \<Rightarrow> bool \<Rightarrow> string" where
  "boolOrDefault p d = (let v = (case p of Some b \<Rightarrow> b | None \<Rightarrow> d) in if v then ''yes'' else ''no'')"

text \<open>The subsystems come in an order of the runtime's own, which is an argument.\<close>

definition subsystemLine :: "string \<times> Subsystem \<Rightarrow> string" where
  "subsystemLine ns =
     (case ns of (name, sub) \<Rightarrow>
        if subInternal sub then ''subsystem '' @ name @ '' (internal)''
        else ''subsystem '' @ name @ '' '' @ subCommand sub)"

definition printConfig :: "ServerOptions \<Rightarrow> (string \<times> Subsystem) list \<Rightarrow> string list" where
  "printConfig opts subs =
     [''addressfamily '' @ strOrDefault (sAddressFamily opts) ''any''] @
     map (\<lambda>p. ''port '' @ itoaInt p) (sPorts opts) @
     map (\<lambda>a. ''listenaddress '' @ a) (sListenAddress opts) @
     map (\<lambda>hk. ''hostkey '' @ hk) (sHostKey opts) @
     [''loggracetime '' @ itoaInt (intOrDefault (sLoginGraceTime opts) 120),
      ''permitrootlogin '' @ strOrDefault (sPermitRootLogin opts) ''prohibit-password'',
      ''passwordauthentication '' @ boolOrDefault (sPasswordAuthentication opts) True,
      ''pubkeyauthentication '' @ boolOrDefault (sPubkeyAuthentication opts) True,
      ''kbdinteractiveauthentication '' @ boolOrDefault (sKbdInteractiveAuthentication opts) True,
      ''usepam '' @ boolOrDefault (sUsePAM opts) False,
      ''maxauthtries '' @ itoaInt (intOrDefault (sMaxAuthTries opts) 6),
      ''maxsessions '' @ itoaInt (intOrDefault (sMaxSessions opts) 10),
      ''x11forwarding '' @ boolOrDefault (sX11Forwarding opts) False,
      ''allowtcpforwarding '' @ strOrDefault (sAllowTcpForwarding opts) ''yes'',
      ''allowagentforwarding '' @ boolOrDefault (sAllowAgentForwarding opts) True,
      ''compression '' @ strOrDefault (sCompression opts) ''yes'',
      ''loglevel '' @ strOrDefault (sLogLevel opts) ''INFO'',
      ''ciphers '' @ strOrDefault (sCiphers opts) ''default'',
      ''kexalgorithms '' @ strOrDefault (sKexAlgorithms opts) ''default'',
      ''macs '' @ strOrDefault (sMACs opts) ''default''] @
     map subsystemLine subs"

section \<open>The program\<close>

definition sshdLookup :: "SCLIArgs \<Rightarrow> Directive list \<Rightarrow> SLookup" where
  "sshdLookup args cliDirectives =
     emptySLookup\<lparr>slConfigFile := saConfigFile args, slCommandLineDirectives := cliDirectives,
       slVersion := ''sshconf_'' @ version\<rparr>"

definition sshdLogger :: "(string \<Rightarrow> bool) \<Rightarrow> SCLIArgs \<Rightarrow> ServerOptions \<Rightarrow> LogState" where
  "sshdLogger canOpen args opts =
     (let lgr = NewLogger canOpen (saLogFile args) (saDebugLevel args) (saQuiet args)
      in case sLogLevel opts of Some level \<Rightarrow> SetLevel level lgr | None \<Rightarrow> lgr)"

text \<open>One listener: the connections it hands on, and how its loop ends.\<close>

definition serveListener ::
  "('pub, 'cert, 'signer) SshdWorld \<Rightarrow> LogState \<Rightarrow> handle \<Rightarrow> SshdOut list \<times> bool" where
  "serveListener w lgr l =
     (case Serve (mwAccepts w l) of
        (conns, None) \<Rightarrow> (map (Served l) conns, False)
      | (conns, Some err) \<Rightarrow>
          (map (Served l) conns @
             (if \<not> mwIsClosed w err then logOut lgr [] ''ERROR'' (''serve error: '' @ errText err) else []),
           True))"

definition serveInetd ::
  "('pub, 'cert, 'signer) SshdWorld \<Rightarrow> ServerOptions \<Rightarrow> SshdOut list \<times> int" where
  "serveInetd w opts =
     (case handleConnection (mwAlgs w) (mwLib w) (mwStdio w) opts (sshdAuthHandlers w) (sshdConnHandlers w) Map.empty of
        (out, Some err, s) \<Rightarrow> ([ConnRun out, stderrf err], 255)
      | (out, None, s) \<Rightarrow> ([ConnRun out], 0))"

definition validate ::
  "('pub, 'cert, 'signer) SshdWorld \<Rightarrow> ServerOptions \<Rightarrow> SshdOut list \<times> int" where
  "validate w opts =
     (case fst (SSHServerConfig (mwAlgs w) (mwLib w) opts
                  \<lparr>ahPassword = None, ahPublicKey = None, ahKeyboardInteractive = None, ahHostbased = False,
                   ahGSSAPI = None, ahHostKeyProvider = None, ahLogger = True\<rparr>) of
        Inl err \<Rightarrow> ([stderrf err], 255)
      | Inr cfg \<Rightarrow> ([], 0))"

definition serveAll ::
  "('pub, 'cert, 'signer) SshdWorld \<Rightarrow> LogState \<Rightarrow> ServerOptions \<Rightarrow> SshdOut list \<times> int option" where
  "serveAll w lgr opts =
     (case fst (Listen (mwNetListen w) opts) of
        Inl err \<Rightarrow> ([stderrf err], Some 255)
      | Inr listeners \<Rightarrow>
          (let loops = map (serveListener w lgr) listeners
           in (logOut lgr [] ''INFO''
                 (''sshd '' @ version @ '' listening on '' @ itoaInt (int (length listeners)) @ '' address(es)'') @
               concat (map fst loops),
               if list_all snd loops then Some 0 else None)))"

definition sshdRun ::
  "('pub, 'cert, 'signer) SshdWorld \<Rightarrow> string list \<Rightarrow> (string \<times> Subsystem) list \<Rightarrow> SshdOut list \<times> int option" where
  "sshdRun w argv subs =
     (let failed = (\<lambda>err. ([stderrf err], Some 255)); done1 = (\<lambda>r. (fst r, Some (snd r))) in
      case sshdParse argv emptySCLIArgs of
        Inl err \<Rightarrow> failed err
      | Inr args \<Rightarrow>
          if saVersion args then ([OutLine (''sshd (sshconf) '' @ version @ newline)], Some 0)
          else (case sshdDirectives args of
            Inl err \<Rightarrow> failed err
          | Inr cliDirectives \<Rightarrow>
              (case sshdResolve (mwWorld w) (sshdLookup args cliDirectives) of
                 Inl err \<Rightarrow> failed err
               | Inr opts \<Rightarrow>
                   (let lgr = sshdLogger (mwCanOpen w) args opts in
                    if saPrintConfig args \<or> saTestMode args
                    then (map (\<lambda>l. OutLine (l @ newline)) (printConfig opts subs), Some 0)
                    else if saValidate args then done1 (validate w opts)
                    else if saInetd args then done1 (serveInetd w opts)
                    else serveAll w lgr opts))))"

section \<open>Lemmas\<close>

fun serves :: "SshdOut \<Rightarrow> bool" where
  "serves (Served l c) = True"
| "serves (ConnRun out) = True"
| "serves x = False"

fun isErrLine :: "SshdOut \<Rightarrow> bool" where
  "isErrLine (ErrLine m) = True"
| "isErrLine x = False"

lemma logOut_plain [simp]: "list_all (\<lambda>x. \<not> serves x \<and> \<not> isErrLine x) (logOut st n l m)"
  by (simp add: logOut_def split: option.split)

lemma stderrf_kind [simp]: "isErrLine (stderrf err)" "\<not> serves (stderrf err)"
  by (simp_all add: stderrf_def)

lemma printed_plain [simp]: "list_all (\<lambda>x. \<not> serves x \<and> \<not> isErrLine x) (map (\<lambda>l. OutLine (f l)) ls)"
  by (induction ls) simp_all

lemma serveListener_errs: "list_all (\<lambda>x. \<not> isErrLine x) (fst (serveListener w lgr l))"
proof -
  have "list_all (\<lambda>x. \<not> isErrLine x) (logOut lgr n lv m)" for n lv m
    using logOut_plain[of lgr n lv m] by (simp add: list_all_iff)
  then show ?thesis
    by (auto simp: serveListener_def case_prod_beta' list_all_iff split: option.split)
qed

text \<open>The outcome of a program: nothing but lines, or connections too.\<close>

definition goodExit :: "SshdOut list \<times> int option \<Rightarrow> bool" where
  "goodExit r \<longleftrightarrow> snd r \<in> {None, Some 0, Some 255} \<and>
     (snd r = Some 255 \<longleftrightarrow> list_ex isErrLine (fst r))"

lemma goodExitI: "rc \<in> {None, Some 0} \<Longrightarrow> list_all (\<lambda>x. \<not> isErrLine x) out \<Longrightarrow> goodExit (out, rc)"
  by (auto simp: goodExit_def list_all_iff list_ex_iff)

lemma goodExit_failed: "goodExit ([stderrf err], Some 255)"
  by (simp add: goodExit_def)

lemma goodExit_validate: "goodExit (fst (validate w opts), Some (snd (validate w opts)))"
  by (cases "fst (SSHServerConfig (mwAlgs w) (mwLib w) opts
        \<lparr>ahPassword = None, ahPublicKey = None, ahKeyboardInteractive = None, ahHostbased = False,
         ahGSSAPI = None, ahHostKeyProvider = None, ahLogger = True\<rparr>)")
     (simp_all add: validate_def goodExit_def)

lemma goodExit_inetd: "goodExit (fst (serveInetd w opts), Some (snd (serveInetd w opts)))"
  by (simp add: serveInetd_def case_prod_beta' goodExit_def split: option.split)

lemma goodExit_serveAll: "goodExit (serveAll w lgr opts)"
proof (cases "fst (Listen (mwNetListen w) opts)")
  case (Inr ls)
  have "list_all (\<lambda>x. \<not> isErrLine x) (logOut lgr n lv m)" for n lv m
    using logOut_plain[of lgr n lv m] by (simp add: list_all_iff)
  moreover have "list_all (\<lambda>x. \<not> isErrLine x) (concat (map fst (map (serveListener w lgr) ls)))"
    using serveListener_errs[of w lgr] by (induction ls) (simp_all)
  ultimately show ?thesis
    by (simp add: serveAll_def Inr Let_def goodExitI)
qed (simp add: serveAll_def goodExit_failed)

lemma printed_goodExit: "goodExit (map (\<lambda>l. OutLine (f l)) ls, Some 0)"
  by (rule goodExitI) (simp_all add: list_all_iff)

lemmas goodExits = goodExit_failed goodExit_validate goodExit_inetd goodExit_serveAll printed_goodExit

text \<open>The options a run resolves to.\<close>

definition sshdOptions :: "('pub, 'cert, 'signer) SshdWorld \<Rightarrow> string list \<Rightarrow> SCLIArgs \<Rightarrow> ServerOptions \<Rightarrow> bool" where
  "sshdOptions w argv args opts \<longleftrightarrow>
     sshdParse argv emptySCLIArgs = Inr args \<and>
     (\<exists>ds. sshdDirectives args = Inr ds \<and> sshdResolve (mwWorld w) (sshdLookup args ds) = Inr opts)"

definition onlyPrints :: "SCLIArgs \<Rightarrow> bool" where
  "onlyPrints args \<longleftrightarrow> saVersion args \<or> saPrintConfig args \<or> saTestMode args \<or> saValidate args"

lemma sshdRun_cases:
  obtains (failed) err where "sshdRun w argv subs = ([stderrf err], Some 255)"
  | (version) args where "sshdParse argv emptySCLIArgs = Inr args" "saVersion args"
      "sshdRun w argv subs = ([OutLine (''sshd (sshconf) '' @ version @ newline)], Some 0)"
  | (run) args opts where "sshdOptions w argv args opts" "\<not> saVersion args"
      "sshdRun w argv subs =
         (if saPrintConfig args \<or> saTestMode args
          then (map (\<lambda>l. OutLine (l @ newline)) (printConfig opts subs), Some 0)
          else if saValidate args then (fst (validate w opts), Some (snd (validate w opts)))
          else if saInetd args then (fst (serveInetd w opts), Some (snd (serveInetd w opts)))
          else serveAll w (sshdLogger (mwCanOpen w) args opts) opts)"
proof (cases "sshdParse argv emptySCLIArgs")
  case (Inr args)
  show ?thesis
  proof (cases "saVersion args")
    case True
    then show ?thesis using that(2) Inr by (simp add: sshdRun_def)
  next
    case nv: False
    show ?thesis
    proof (cases "sshdDirectives args")
      case d: (Inr ds)
      show ?thesis
      proof (cases "sshdResolve (mwWorld w) (sshdLookup args ds)")
        case o1: (Inr opts)
        show ?thesis
          using that(3)[of args opts] by (simp add: sshdRun_def Inr nv d o1 sshdOptions_def Let_def)
      qed (use that(1) Inr nv d in \<open>simp add: sshdRun_def\<close>)
    qed (use that(1) Inr nv in \<open>simp add: sshdRun_def\<close>)
  qed
qed (use that(1) in \<open>simp add: sshdRun_def\<close>)

section \<open>Properties\<close>

text \<open>The program ends with 0 or 255 or goes on serving; it ends with 255 exactly when it
  has written an error line; and a run that was only asked for its version, its
  configuration or a check (-V, -G, -T, -t) ends without serving a connection.\<close>

theorem sshdRun_exit:
  "snd (sshdRun w argv subs) \<in> {None, Some 0, Some 255} \<and>
   (snd (sshdRun w argv subs) = Some 255 \<longleftrightarrow> list_ex isErrLine (fst (sshdRun w argv subs))) \<and>
   (\<forall>args. sshdParse argv emptySCLIArgs = Inr args \<and> onlyPrints args \<longrightarrow>
      snd (sshdRun w argv subs) \<noteq> None \<and> \<not> list_ex serves (fst (sshdRun w argv subs)))"
proof -
  have good: "goodExit (sshdRun w argv subs)"
    by (rule sshdRun_cases[of w argv subs]) (simp_all add: goodExits goodExit_def[of "([OutLine _], _)"])
  moreover have "snd (sshdRun w argv subs) \<noteq> None \<and> \<not> list_ex serves (fst (sshdRun w argv subs))"
    if "sshdParse argv emptySCLIArgs = Inr args" "onlyPrints args" for args
    using that
    by (rule_tac sshdRun_cases[of w argv subs])
       (auto simp: sshdOptions_def onlyPrints_def list_ex_iff validate_def split: sum.splits)
  ultimately show ?thesis by (auto simp: goodExit_def)
qed

text \<open>A system for the witnesses: no configuration file, every file holds the keys
  \<^verbatim>\<open>a\<close> and \<^verbatim>\<open>b\<close>, one client that gets through the handshake as \<^verbatim>\<open>bob\<close>.\<close>

definition demoSshd :: "(char, char, char) SshdWorld" where
  "demoSshd = \<lparr>mwWorld = emptyWorld, mwAlgs = demoAlgs, mwLib = demoLib (\<lambda>f. Inr ''ab''),
     mwLookupUser = (\<lambda>u. Inr ''/h''),
     mwProc = \<lparr>pwEnviron = [], pwStart = (\<lambda>a e. None), pwWait = (\<lambda>a e. WaitOk)\<rparr>,
     mwSess = demoSess, mwFwd = demoFwd, mwNetListen = (\<lambda>n a. Inl (ErrExt a)),
     mwFwdListen = (\<lambda>n a. Inl (ErrExt a)), mwClose = (\<lambda>l. None), mwCanOpen = (\<lambda>f. False),
     mwAccepts = (\<lambda>l. []), mwIsClosed = (\<lambda>e. True), mwStdio = demoConn\<rparr>"

lemma demoSshd_parse:
  "sshdParse [''-i''] emptySCLIArgs = Inr (emptySCLIArgs\<lparr>saInetd := True\<rparr>)"
  "sshdParse [''-T''] emptySCLIArgs = Inr (emptySCLIArgs\<lparr>saTestMode := True\<rparr>)"
  by code_simp+

theorem sshdRun_exit_witness:
  "\<not> list_ex serves (fst (sshdRun demoSshd [''-T''] []))"
  using sshdRun_exit[of demoSshd "[''-T'']" "[]"] demoSshd_parse(2)
  by (auto simp: onlyPrints_def)

lemma sshd_config_methods:
  assumes "fst (SSHServerConfig algs lib opts (sshdAuthHandlers w)) = Inr cfg"
  shows "scKeyboardInteractive cfg = None" and "scGSSAPI cfg = None"
    and "scPassword cfg = Some cb \<Longrightarrow> \<exists>e. cb user pw = Inl e"
    and "scPublicKey cfg = Some pk \<Longrightarrow>
      sPubkeyAuthentication opts = Some True \<and>
      pk user key = AuthenticatePublicKey (mwLib w) (mwLookupUser w) user key opts"
proof -
  note f = wireAuthCallbacks_fields[OF noCallbacks_base, of algs opts opts "sshdAuthHandlers w"]
  define keys where "keys = scHostKeys cfg"
  have c: "cfg = (wireAuthCallbacks (baseServerConfig algs opts) opts (sshdAuthHandlers w))
      \<lparr>scHostKeys := keys, scAuthLog := ahLogger (sshdAuthHandlers w)\<rparr>"
    using SSHServerConfig_InrD[OF assms] by (simp add: keys_def)
  show "scKeyboardInteractive cfg = None" "scGSSAPI cfg = None"
    by (simp_all add: c f) (simp_all add: sshdAuthHandlers_def)
  show "\<exists>e. cb user pw = Inl e" if "scPassword cfg = Some cb"
  proof -
    have "scPassword cfg = (if enabled (sPasswordAuthentication opts)
        then Some (passwordCallback True DenyPassword opts) else None)"
      by (simp add: c f) (simp add: sshdAuthHandlers_def)
    then show ?thesis using that by (auto simp: passwordCallback_def DenyPassword_def split: if_splits)
  qed
  show "sPubkeyAuthentication opts = Some True \<and>
      pk user key = AuthenticatePublicKey (mwLib w) (mwLookupUser w) user key opts"
    if "scPublicKey cfg = Some pk"
  proof -
    have "scPublicKey cfg = (if enabled (sPubkeyAuthentication opts)
        then Some (\<lambda>u k. AuthenticatePublicKey (mwLib w) (mwLookupUser w) u k opts) else None)"
      by (simp add: c f) (simp add: sshdAuthHandlers_def)
    then show ?thesis using that by (auto simp: enabled_iff split: if_splits)
  qed
qed

lemma ConnRun_serveInetd:
  assumes "ConnRun co \<in> set (fst (sshdRun w argv subs))"
  shows "\<exists>args opts. sshdOptions w argv args opts \<and>
    co = fst (handleConnection (mwAlgs w) (mwLib w) (mwStdio w) opts (sshdAuthHandlers w)
                (sshdConnHandlers w) Map.empty)"
proof -
  have l: "ConnRun co \<notin> set (logOut st n lv m)" for st n lv m
    by (auto simp: logOut_def split: option.splits)
  have s: "ConnRun co \<notin> set (fst (serveListener w lgr l))" for lgr l
    using \<open>\<And>st n lv m. ConnRun co \<notin> set (logOut st n lv m)\<close>
    by (auto simp: serveListener_def case_prod_beta' split: option.splits)
  have a: "ConnRun co \<notin> set (fst (serveAll w lgr opts))" for lgr opts
    using l s by (auto simp: serveAll_def stderrf_def Let_def split: sum.splits)
  have v: "ConnRun co \<notin> set (fst (validate w opts))" for opts
    by (auto simp: validate_def stderrf_def split: sum.splits)
  show ?thesis
  proof (rule sshdRun_cases[of w argv subs])
    fix args opts
    assume o1: "sshdOptions w argv args opts" "\<not> saVersion args"
      and r: "sshdRun w argv subs =
         (if saPrintConfig args \<or> saTestMode args
          then (map (\<lambda>l. OutLine (l @ newline)) (printConfig opts subs), Some 0)
          else if saValidate args then (fst (validate w opts), Some (snd (validate w opts)))
          else if saInetd args then (fst (serveInetd w opts), Some (snd (serveInetd w opts)))
          else serveAll w (sshdLogger (mwCanOpen w) args opts) opts)"
    have "ConnRun co \<in> set (fst (serveInetd w opts))"
      using assms a v unfolding r by (auto split: if_splits)
    then have "co = fst (handleConnection (mwAlgs w) (mwLib w) (mwStdio w) opts (sshdAuthHandlers w)
        (sshdConnHandlers w) Map.empty)"
      by (auto simp: serveInetd_def case_prod_beta' stderrf_def split: option.splits)
    then show ?thesis using o1 by blast
  qed (use assms in \<open>auto simp: stderrf_def\<close>)
qed


definition demoOptions :: ServerOptions where
  "demoOptions = sshdRefreshDialerConfig (sshdExpandPathTokens emptyWorld (sshdApplyDefaults sshdEmptyOptions))"

lemma demoOptions_resolved:
  "sshdOptions demoSshd [''-i''] (emptySCLIArgs\<lparr>saInetd := True\<rparr>) demoOptions"
proof -
  have d: "sshdDirectives (emptySCLIArgs\<lparr>saInetd := True\<rparr>) = Inr []" by code_simp
  have "sshdResolve emptyWorld (sshdLookup (emptySCLIArgs\<lparr>saInetd := True\<rparr>) []) = Inr demoOptions"
    unfolding sshdResolve_Inr
    by (intro exI[of _ "[]"] exI[of _ sshdEmptyOptions])
       (simp add: sshdCliEntries_def sshdFileEntries_def sshdLookup_def emptySLookup_def emptyWorld_def
          matching_def demoOptions_def Let_def)
  then show ?thesis using d demoSshd_parse(1) by (auto simp: sshdOptions_def demoSshd_def)
qed

lemma demoOptions_fields:
  "sAllowUsers demoOptions = []" "sDenyUsers demoOptions = []" "sRefuseConnection demoOptions = None"
  "sHostKey demoOptions \<noteq> []"
  by (simp_all add: demoOptions_def sshdRefreshDialerConfig_def sshdExpandPathTokens_def
      sshdApplyDefaults_def sshdEmptyOptions_def defaultHostKeys_def Let_def)

lemma demo_host_keys:
  assumes "ps \<noteq> []"
  shows "fst (hostKeyLoop (demoLib (\<lambda>f. Inr ''ab'')) lg certs ps) \<noteq> []"
proof -
  obtain p qs where ps: "ps = p # qs" using assms by (cases ps) auto
  have "klReadFile (demoLib (\<lambda>f. Inr ''ab'')) p = Inr ''ab''"
    "klParsePrivate (demoLib (\<lambda>f. Inr ''ab'')) ''ab'' = Inr CHR ''a''" by (simp_all add: demoLib_def)
  then show ?thesis by (simp add: ps Let_def case_prod_beta' split: option.split)
qed


text \<open>Who is let in does not depend on the options PermitRootLogin, AllowGroups,
  DenyGroups, RevokedKeys, StrictModes, AuthenticationMethods and TrustedUserCAKeys: the
  configuration the program gives to the library and its access control are the same
  whatever they say.\<close>

theorem sshd_ignores_policies:
  fixes w :: "('pub, 'cert, 'signer) SshdWorld" and lib :: "('pub, 'cert, 'signer) KeyLib"
  shows "SSHServerConfig algs lib (opts\<lparr>sPermitRootLogin := a, sAllowGroups := b, sDenyGroups := c,
       sRevokedKeys := d, sStrictModes := e, sAuthenticationMethods := f, sTrustedUserCAKeys := g\<rparr>)
     (sshdAuthHandlers w) = SSHServerConfig algs lib opts (sshdAuthHandlers w) \<and>
   CheckAccess user (opts\<lparr>sPermitRootLogin := a, sAllowGroups := b, sDenyGroups := c,
       sRevokedKeys := d, sStrictModes := e, sAuthenticationMethods := f, sTrustedUserCAKeys := g\<rparr>) =
     CheckAccess user opts"
proof -
  let ?o = "opts\<lparr>sPermitRootLogin := a, sAllowGroups := b, sDenyGroups := c,
       sRevokedKeys := d, sStrictModes := e, sAuthenticationMethods := f, sTrustedUserCAKeys := g\<rparr>"
  have "keyFiles ?o = keyFiles opts" by (simp add: keyFiles_def)
  then have "(\<lambda>u k. AuthenticatePublicKey (mwLib w) (mwLookupUser w) u k ?o) =
      (\<lambda>u k. AuthenticatePublicKey (mwLib w) (mwLookupUser w) u k opts)"
    by (intro ext) (simp only: AuthenticatePublicKey_def)
  moreover have "passwordCallback en DenyPassword ?o = passwordCallback en DenyPassword opts" for en
    by (intro ext) (simp add: passwordCallback_def DenyPassword_def)
  ultimately have "wireAuthCallbacks cfg ?o (sshdAuthHandlers w) = wireAuthCallbacks cfg opts (sshdAuthHandlers w)"
    for cfg :: "('pub, 'signer) ServerConfig"
    by (simp add: wireAuthCallbacks_def sshdAuthHandlers_def Let_def)
  moreover have "(baseServerConfig algs ?o :: ('pub, 'signer) ServerConfig) = baseServerConfig algs opts"
    by (simp add: baseServerConfig_def serverVersion_def bannerPath_def Let_def)
  moreover have "loadHostKeys lib ?o (sshdAuthHandlers w) = loadHostKeys lib opts (sshdAuthHandlers w)"
    by (simp add: loadHostKeys_def sshdAuthHandlers_def)
  moreover have "CheckAccess user ?o = CheckAccess user opts"
    by (simp add: CheckAccess_def)
  ultimately show ?thesis by (simp add: SSHServerConfig_def)
qed

end
