(* ===== verification/ToolKeys.thy ===== *)
theory ToolKeys
  imports CliFlags TermIO GoNet
begin

text \<open>
  What the tools (\<^verbatim>\<open>ssh-keygen\<close>, \<^verbatim>\<open>ssh-add\<close>, \<^verbatim>\<open>ssh-copy-id\<close>, \<^verbatim>\<open>ssh-keyscan\<close>) share: the
  files and keys they work on are an argument (record \<^verbatim>\<open>ToolWorld\<close>); what they print and
  do is recorded in order, with the exit code.  A private key read from a file, its PEM
  block and a public key are values of any type.
\<close>

section \<open>Files and keys\<close>

datatype CryptoKey = RSAPublic int | ECDSAPublic int | Ed25519Public | OtherPublic

datatype KeySpec = GenRSA int | GenECDSA int | GenEd25519

text \<open>\<^verbatim>\<open>twCrypto\<close> is \<^term>\<open>None\<close> for a key, such as a certificate, that does not implement
  \<^verbatim>\<open>CryptoPublicKey\<close>; \<^verbatim>\<open>twParseSigner\<close> yields the public key of the signer.\<close>

record ('pub, 'raw, 'pem) ToolWorld =
  twReadFile :: "string \<Rightarrow> go_error + string"
  twExists :: "string \<Rightarrow> bool"
  twHome :: "go_error + string"
  twMkdirAll :: "string \<Rightarrow> go_error option"
  twWriteFile :: "string \<Rightarrow> go_error option"
  twGenerate :: "KeySpec \<Rightarrow> go_error + 'raw"
  twParseRaw :: "string \<Rightarrow> go_error + 'raw"
  twPassphraseMissing :: "go_error \<Rightarrow> bool"
  twParseRawWith :: "string \<Rightarrow> string \<Rightarrow> go_error + 'raw"
  twParseSigner :: "string \<Rightarrow> go_error + 'pub"
  twParseSignerWith :: "string \<Rightarrow> string \<Rightarrow> go_error + 'pub"
  twPublicOf :: "'raw \<Rightarrow> go_error + 'pub"
  twMarshalKey :: "'raw \<Rightarrow> string \<Rightarrow> go_error + 'pem"
  twMarshalKeyWith :: "'raw \<Rightarrow> string \<Rightarrow> string \<Rightarrow> go_error + 'pem"
  twEncode :: "'pem \<Rightarrow> string"
  twParseAuthorized :: "string \<Rightarrow> go_error + 'pub \<times> string"
  twMarshalAuthorized :: "'pub \<Rightarrow> string"
  twSHA256 :: "'pub \<Rightarrow> string"
  twMD5 :: "'pub \<Rightarrow> string"
  twCrypto :: "'pub \<Rightarrow> CryptoKey option"
  twKeyType :: "'pub \<Rightarrow> string"

text \<open>What the SSH library documents of private keys in files: a key written without a
  passphrase is read without one, a key written with one is read with it and only with
  one.\<close>

definition keyFormat :: "('pub, 'raw, 'pem) ToolWorld \<Rightarrow> bool" where
  "keyFormat w \<longleftrightarrow>
     (\<forall>k c b. twMarshalKey w k c = Inr b \<longrightarrow> twParseRaw w (twEncode w b) = Inr k) \<and>
     (\<forall>k c p b. p \<noteq> [] \<longrightarrow> twMarshalKeyWith w k c p = Inr b \<longrightarrow>
        twParseRawWith w (twEncode w b) p = Inr k \<and>
        (\<exists>e. twParseRaw w (twEncode w b) = Inl e \<and> twPassphraseMissing w e))"

lemma keyFormat_plain:
  "keyFormat w \<Longrightarrow> twMarshalKey w k c = Inr b \<Longrightarrow> twParseRaw w (twEncode w b) = Inr k"
  by (simp add: keyFormat_def)

lemma keyFormat_sealed:
  assumes "keyFormat w" and "p \<noteq> []" and "twMarshalKeyWith w k c p = Inr b"
  shows "twParseRawWith w (twEncode w b) p = Inr k"
    and "\<exists>e. twParseRaw w (twEncode w b) = Inl e \<and> twPassphraseMissing w e"
  using assms by (simp_all add: keyFormat_def)

section \<open>What a tool does\<close>

text \<open>A tool ends with an exit code, or panics.\<close>

datatype 'a ToolOut = OutText string | ErrText string | Act 'a

datatype ToolEnd = Exit int | Panic

type_synonym 'a tool_result = "'a ToolOut list \<times> ToolEnd"

definition outThen :: "'a ToolOut list \<Rightarrow> 'a tool_result \<Rightarrow> 'a tool_result" where
  "outThen out r = (out @ fst r, snd r)"

lemma outThen_simps [simp]: "fst (outThen out r) = out @ fst r" "snd (outThen out r) = snd r"
  by (simp_all add: outThen_def)

lemma outThen_eq: "outThen out r = (o', e) \<longleftrightarrow> (\<exists>o1. r = (o1, e) \<and> o' = out @ o1)"
  by (cases r) (auto simp: outThen_def)

definition toolErr :: "string \<Rightarrow> go_error \<Rightarrow> 'a ToolOut" where
  "toolErr tool err = ErrText (tool @ '': '' @ errText err @ newline)"

definition acts :: "'a ToolOut list \<Rightarrow> 'a list" where
  "acts out = concat (map (\<lambda>x. case x of Act a \<Rightarrow> [a] | _ \<Rightarrow> []) out)"

lemma acts_simps [simp]:
  "acts [] = []" "acts (Act a # out) = a # acts out" "acts (OutText s # out) = acts out"
  "acts (ErrText s # out) = acts out" "acts (toolErr t e # out) = acts out"
  "acts (xs @ ys) = acts xs @ acts ys"
  by (simp_all add: acts_def toolErr_def)

lemma set_acts: "a \<in> set (acts out) \<longleftrightarrow> Act a \<in> set out"
  by (force simp: acts_def split: ToolOut.splits)

section \<open>Names of keys\<close>

definition KeySize :: "('pub, 'raw, 'pem) ToolWorld \<Rightarrow> 'pub \<Rightarrow> int option" where
  "KeySize w key =
     map_option (\<lambda>k. case k of RSAPublic n \<Rightarrow> n | ECDSAPublic n \<Rightarrow> n | Ed25519Public \<Rightarrow> 256 | OtherPublic \<Rightarrow> 0)
       (twCrypto w key)"

definition KeyTypeName :: "string \<Rightarrow> string" where
  "KeyTypeName keyType =
     (if keyType = ''ssh-rsa'' then ''RSA''
      else if keyType \<in> {''ecdsa-sha2-nistp256'', ''ecdsa-sha2-nistp384'', ''ecdsa-sha2-nistp521''} then ''ECDSA''
      else if keyType = ''ssh-ed25519'' then ''ED25519''
      else keyType)"

definition keyTypeAlgorithm :: "string \<Rightarrow> string" where
  "keyTypeAlgorithm s =
     (let t = trimSpace s; l = toLower t
      in if l = ''rsa'' then ''ssh-rsa''
         else if l = ''ecdsa'' then ''ecdsa-sha2-nistp256''
         else if l = ''ed25519'' then ''ssh-ed25519''
         else t)"

definition ParseKeyTypes :: "string \<Rightarrow> string list" where
  "ParseKeyTypes spec = map keyTypeAlgorithm (split spec CHR '','')"

section \<open>Numbers\<close>

text \<open>The value \<^verbatim>\<open>strconv.Atoi\<close> returns beside its error: nought for what is no number, the
  nearest \<^verbatim>\<open>int\<close> for one out of range.\<close>

definition atoiValue :: "string \<Rightarrow> int" where
  "atoiValue s =
     (let neg = hasPrefix s ''-'';
          t = (if neg \<or> hasPrefix s ''+'' then drop 1 s else s)
      in case unsignedDigits t of
           None \<Rightarrow> 0
         | Some n \<Rightarrow> max minInt (min maxInt (if neg then - int n else int n)))"

lemma atoiValue_atoi: "atoi s = Some i \<Longrightarrow> atoiValue s = i"
  by (auto simp: atoi_def atoiValue_def Let_def split: option.splits if_splits)

lemma atoiValue_range: "minInt \<le> atoiValue s \<and> atoiValue s \<le> maxInt"
  by (auto simp: atoiValue_def Let_def minInt_def maxInt_def split: option.splits)

text \<open>\<^verbatim>\<open>fmt.Sscanf(s, "%d", &v)\<close> on a 32-bit number without sign: blanks, then as many digits
  as there are; what follows them is not read.  \<^term>\<open>None\<close>: the number is left as it was.\<close>

definition sscanfUint32 :: "string \<Rightarrow> 32 word option" where
  "sscanfUint32 s =
     (let digits = takeWhile isDigit (dropWhile (\<lambda>c. isSpace c \<and> c \<noteq> CHR 0x0A) s);
          n = digitsVal 0 digits
      in if digits = [] \<or> n \<ge> 2 ^ 32 then None else Some (of_nat n))"

lemma sscanfUint32_prefix:
  assumes "list_all isDigit ds" and "ds \<noteq> []" and "digitsVal 0 ds < 2 ^ 32" and "s = [] \<or> \<not> isDigit (hd s)"
  shows "sscanfUint32 (ds @ s) = Some (of_nat (digitsVal 0 ds))"
proof -
  obtain d ds' where ds: "ds = d # ds'" using assms(2) by (cases ds) auto
  have "\<not> isSpace d" using assms(1) ds by (auto simp: isDigit_def isSpace_def Let_def)
  then have "dropWhile (\<lambda>c. isSpace c \<and> c \<noteq> CHR 0x0A) (ds @ s) = ds @ s" by (simp add: ds)
  moreover have "takeWhile isDigit (ds @ s) = ds"
  proof -
    have "takeWhile isDigit s = []" using assms(4) by (cases s) auto
    then show ?thesis using assms(1) by (simp add: list_all_iff takeWhile_append2)
  qed
  ultimately show ?thesis using assms(2,3) by (simp add: sscanfUint32_def Let_def)
qed

end
