(* ===== verification/SshKeygen.thy ===== *)
theory SshKeygen
  imports ToolKeys
begin

text \<open>
  \<^verbatim>\<open>ssh-keygen\<close> (\<^verbatim>\<open>pkg/sshkeygen\<close>): its arguments, and its five actions.  The files it makes
  and writes are the actions of its result; the write of a file records the mode too.
\<close>

section \<open>Arguments\<close>

record KeygenConfig =
  kgKeyType :: string
  kgBits :: int
  kgComment :: string
  kgKeyFile :: string
  kgNewPass :: string
  kgOldPass :: string
  kgFingerprint :: bool
  kgChangePass :: bool
  kgChangeComment :: bool
  kgShowPub :: bool
  kgHashAlgo :: string
  kgQuiet :: bool
  kgVersion :: bool

definition emptyKeygen :: KeygenConfig where
  "emptyKeygen = \<lparr>kgKeyType = [], kgBits = 0, kgComment = [], kgKeyFile = [], kgNewPass = [], kgOldPass = [],
     kgFingerprint = False, kgChangePass = False, kgChangeComment = False, kgShowPub = False, kgHashAlgo = [],
     kgQuiet = False, kgVersion = False\<rparr>"

definition keygenWord0 :: "string \<Rightarrow> (KeygenConfig \<Rightarrow> KeygenConfig) option" where
  "keygenWord0 = map_of
     [(''-l'', \<lambda>c. c\<lparr>kgFingerprint := True\<rparr>),
      (''-c'', \<lambda>c. c\<lparr>kgChangeComment := True\<rparr>),
      (''-p'', \<lambda>c. c\<lparr>kgChangePass := True\<rparr>),
      (''-y'', \<lambda>c. c\<lparr>kgShowPub := True\<rparr>),
      (''-q'', \<lambda>c. c\<lparr>kgQuiet := True\<rparr>),
      (''-V'', \<lambda>c. c\<lparr>kgVersion := True\<rparr>)]"

definition keygenWord1 :: "string \<Rightarrow> (string \<Rightarrow> KeygenConfig \<Rightarrow> KeygenConfig) option" where
  "keygenWord1 = map_of
     [(''-t'', \<lambda>v c. c\<lparr>kgKeyType := v\<rparr>),
      (''-b'', \<lambda>v c. c\<lparr>kgBits := atoiValue v\<rparr>),
      (''-C'', \<lambda>v c. c\<lparr>kgComment := v\<rparr>),
      (''-f'', \<lambda>v c. c\<lparr>kgKeyFile := v\<rparr>),
      (''-N'', \<lambda>v c. c\<lparr>kgNewPass := v\<rparr>),
      (''-P'', \<lambda>v c. c\<lparr>kgOldPass := v\<rparr>),
      (''-E'', \<lambda>v c. c\<lparr>kgHashAlgo := v\<rparr>)]"

definition keygenOther :: "string \<Rightarrow> string list \<Rightarrow> KeygenConfig \<Rightarrow> bool \<times> KeygenConfig" where
  "keygenOther w ws c = (w \<noteq> ''--'', c)"

definition keygenArgs :: "string list \<Rightarrow> KeygenConfig \<Rightarrow> KeygenConfig" where
  "keygenArgs = wordLoop keygenWord0 keygenWord1 keygenOther"

definition keygenDefaults :: "KeygenConfig \<Rightarrow> KeygenConfig" where
  "keygenDefaults c =
     (let c1 = (if kgKeyType c = [] then c\<lparr>kgKeyType := ''ed25519''\<rparr> else c)
      in if kgHashAlgo c1 = [] then c1\<lparr>kgHashAlgo := ''sha256''\<rparr> else c1)"

definition keygenParse :: "string list \<Rightarrow> KeygenConfig \<Rightarrow> KeygenConfig" where
  "keygenParse args c = keygenArgs args (keygenDefaults c)"

interpretation kg: word_cli keygenWord0 keygenWord1 keygenArgs
  unfolding keygenArgs_def by (rule wordLoop_laws)

section \<open>Input\<close>

datatype KeygenAct = MkdirAll string int | WriteFile string string int

text \<open>The modes of the directory and of the two files: 0700, 0600 and 0644.\<close>

definition dirMode :: int where "dirMode = 448"
definition secretMode :: int where "secretMode = 384"
definition publicMode :: int where "publicMode = 420"

type_synonym keygen_result = "KeygenAct tool_result"

definition keygenErr :: "go_error \<Rightarrow> KeygenAct ToolOut" where
  "keygenErr err = toolErr ''ssh-keygen'' err"

definition keygenFails :: "go_error \<Rightarrow> keygen_result" where
  "keygenFails err = ([keygenErr err], Exit 1)"

definition keygenSays :: "string \<Rightarrow> keygen_result" where
  "keygenSays msg = ([ErrText (msg @ newline)], Exit 1)"

definition readLine :: "string list \<Rightarrow> go_error + string" where
  "readLine pieces = map_sum id trimLineEnd (fst (ReadString [] pieces))"

definition keygenReadPassword :: "typed \<Rightarrow> string \<Rightarrow> KeygenAct ToolOut list \<times> (go_error + string) \<times> typed" where
  "keygenReadPassword typed prompt = ([ErrText prompt, ErrText newline], nextTyped typed)"

section \<open>A new key\<close>

definition generateFile :: "('pub, 'raw, 'pem) ToolWorld \<Rightarrow> KeygenConfig \<Rightarrow> go_error + string" where
  "generateFile w cfg =
     (if kgKeyFile cfg = [] then
        (case twHome w of
           Inl err \<Rightarrow> Inl err
         | Inr home \<Rightarrow>
             (let t = toLower (kgKeyType cfg)
              in Inr (pathJoin [home, ''.ssh'',
                   if t = ''rsa'' then ''id_rsa''
                   else if t = ''ecdsa'' then ''id_ecdsa''
                   else if t = ''ed25519'' then ''id_ed25519''
                   else ''id_'' @ kgKeyType cfg])))
      else Inr (kgKeyFile cfg))"

definition confirmOverwrite ::
  "('pub, 'raw, 'pem) ToolWorld \<Rightarrow> string list \<Rightarrow> string \<Rightarrow> KeygenAct ToolOut list \<times> bool" where
  "confirmOverwrite w pieces keyFile =
     (if twExists w keyFile then
        (let out = [ErrText (keyFile @ '' already exists.'' @ newline), ErrText ''Overwrite (y/n)? '']
         in case readLine pieces of
              Inl err \<Rightarrow> (out @ [keygenErr err], False)
            | Inr answer \<Rightarrow> (out, hasPrefix (toLower answer) ''y''))
      else ([], True))"

definition keySpec :: "KeygenConfig \<Rightarrow> string + KeySpec" where
  "keySpec cfg =
     (let t = toLower (kgKeyType cfg)
      in if t = ''rsa'' then
           (let bits = (if kgBits cfg = 0 then 3072 else kgBits cfg)
            in if bits < 1024 then Inl ''Invalid RSA key length: minimum is 1024 bits''
               else Inr (GenRSA bits))
         else if t = ''ecdsa'' then
           (let bits = (if kgBits cfg = 0 then 256 else kgBits cfg)
            in if bits \<in> {256, 384, 521} then Inr (GenECDSA bits)
               else Inl ''Invalid ECDSA key length: valid lengths are 256, 384, or 521 bits'')
         else if t = ''ed25519'' then Inr GenEd25519
         else Inl (''unknown key type '' @ kgKeyType cfg))"

text \<open>The passphrase of a new key; \<^term>\<open>None\<close> when the two answers differ.\<close>

definition newPassphrase :: "typed \<Rightarrow> KeygenConfig \<Rightarrow> KeygenAct ToolOut list \<times> string option" where
  "newPassphrase typed cfg =
     (if kgNewPass cfg = [] \<and> \<not> kgQuiet cfg then
        (let (out, r, typed') = keygenReadPassword typed ''Enter passphrase (empty for no passphrase): ''
         in case r of
              Inl err \<Rightarrow> (out, Some (kgNewPass cfg))
            | Inr pw \<Rightarrow>
                if pw = [] then (out, Some (kgNewPass cfg))
                else (let (out2, r2, _) = keygenReadPassword typed' ''Enter same passphrase again: ''
                      in if r2 = Inr pw then (out @ out2, Some pw) else (out @ out2, None)))
      else ([], Some (kgNewPass cfg)))"

definition sealKey :: "('pub, 'raw, 'pem) ToolWorld \<Rightarrow> 'raw \<Rightarrow> string \<Rightarrow> string \<Rightarrow> go_error + 'pem" where
  "sealKey w priv comment pass =
     (if pass \<noteq> [] then twMarshalKeyWith w priv comment pass else twMarshalKey w priv comment)"

definition FingerprintString :: "('pub, 'raw, 'pem) ToolWorld \<Rightarrow> 'pub \<Rightarrow> string \<Rightarrow> string" where
  "FingerprintString w key algo = (if toLower algo = ''md5'' then twMD5 w key else twSHA256 w key)"

text \<open>A file is written, or the program ends with the error.\<close>

definition writeOr ::
  "('pub, 'raw, 'pem) ToolWorld \<Rightarrow> string \<Rightarrow> string \<Rightarrow> int \<Rightarrow> keygen_result \<Rightarrow> keygen_result" where
  "writeOr w path data mode rest =
     outThen [Act (WriteFile path data mode)]
       (case twWriteFile w path of Some err \<Rightarrow> keygenFails err | None \<Rightarrow> rest)"

definition publicLine :: "('pub, 'raw, 'pem) ToolWorld \<Rightarrow> 'pub \<Rightarrow> string \<Rightarrow> string" where
  "publicLine w pub comment =
     trimSpace (twMarshalAuthorized w pub) @ (if comment \<noteq> [] then '' '' @ comment else []) @ newline"

definition saveKeyPair ::
  "('pub, 'raw, 'pem) ToolWorld \<Rightarrow> KeygenConfig \<Rightarrow> string \<Rightarrow> 'raw \<Rightarrow> string \<Rightarrow> keygen_result" where
  "saveKeyPair w cfg keyFile priv pass =
     (case sealKey w priv (kgComment cfg) pass of
        Inl err \<Rightarrow> keygenFails err
      | Inr block \<Rightarrow>
          writeOr w keyFile (twEncode w block) secretMode
            (case twPublicOf w priv of
               Inl err \<Rightarrow> keygenFails err
             | Inr pub \<Rightarrow>
                 (let pubFile = keyFile @ ''.pub''
                  in writeOr w pubFile (publicLine w pub (kgComment cfg)) publicMode
                       (if kgQuiet cfg then [] else
                          [ErrText (''Your identification has been saved in '' @ keyFile @ newline),
                           ErrText (''Your public key has been saved in '' @ pubFile @ newline),
                           ErrText (''The key fingerprint is:'' @ newline),
                           ErrText (FingerprintString w pub (kgHashAlgo cfg))] @
                          (if kgComment cfg \<noteq> [] then [ErrText ('' '' @ kgComment cfg)] else []) @
                          [ErrText newline],
                        Exit 0))))"

definition generateInto ::
  "('pub, 'raw, 'pem) ToolWorld \<Rightarrow> typed \<Rightarrow> KeygenConfig \<Rightarrow> string \<Rightarrow> keygen_result" where
  "generateInto w typed cfg keyFile =
     outThen [Act (MkdirAll (pathDir keyFile) dirMode)]
       (case twMkdirAll w (pathDir keyFile) of
          Some err \<Rightarrow> keygenFails err
        | None \<Rightarrow>
            (case keySpec cfg of
               Inl msg \<Rightarrow> keygenSays (''ssh-keygen: '' @ msg)
             | Inr spec \<Rightarrow>
                 (case twGenerate w spec of
                    Inl err \<Rightarrow> keygenFails (Wrapf ''key generation failed: %v'' [] err)
                  | Inr priv \<Rightarrow>
                      (case newPassphrase typed cfg of
                         (out, None) \<Rightarrow> outThen out (keygenSays ''Passphrases do not match.'')
                       | (out, Some pass) \<Rightarrow> outThen out (saveKeyPair w cfg keyFile priv pass)))))"

definition Generate ::
  "('pub, 'raw, 'pem) ToolWorld \<Rightarrow> string list \<Rightarrow> typed \<Rightarrow> KeygenConfig \<Rightarrow> keygen_result" where
  "Generate w pieces typed cfg =
     (case generateFile w cfg of
        Inl err \<Rightarrow> keygenFails err
      | Inr keyFile \<Rightarrow>
          (let (out, ok) = confirmOverwrite w pieces keyFile
           in if ok then outThen out (generateInto w typed cfg keyFile) else (out, Exit 1)))"

section \<open>Existing keys\<close>

definition homeOr :: "('pub, 'raw, 'pem) ToolWorld \<Rightarrow> string" where
  "homeOr w = (case twHome w of Inr home \<Rightarrow> home | Inl err \<Rightarrow> [])"

definition existingKeyFile :: "('pub, 'raw, 'pem) ToolWorld \<Rightarrow> KeygenConfig \<Rightarrow> string" where
  "existingKeyFile w cfg =
     (if kgKeyFile cfg = [] then pathJoin [homeOr w, ''.ssh'', ''id_ed25519''] else kgKeyFile cfg)"

text \<open>A key in a file that may need a passphrase: \<^term>\<open>open0\<close> reads it without,
  \<^term>\<open>openWith\<close> with one; a passphrase that is not given is asked for.\<close>

definition unlock ::
  "('pub, 'raw, 'pem) ToolWorld \<Rightarrow> (string \<Rightarrow> go_error + 'k) \<Rightarrow> (string \<Rightarrow> string \<Rightarrow> go_error + 'k) \<Rightarrow>
   typed \<Rightarrow> string \<Rightarrow> string \<Rightarrow> string \<Rightarrow> KeygenAct ToolOut list \<times> 'k option \<times> typed" where
  "unlock w open0 openWith typed prompt given data =
     (case open0 data of
        Inr k \<Rightarrow> ([], Some k, typed)
      | Inl err \<Rightarrow>
          if twPassphraseMissing w err then
            (let (out, r, typed') =
                   (if given = [] then keygenReadPassword typed prompt else ([], Inr given, typed))
             in case r of
                  Inl err \<Rightarrow> (out @ [keygenErr err], None, typed')
                | Inr pw \<Rightarrow>
                    (case openWith data pw of
                       Inl err \<Rightarrow> (out @ [ErrText (''ssh-keygen: incorrect passphrase'' @ newline)], None, typed')
                     | Inr k \<Rightarrow> (out, Some k, typed')))
          else ([keygenErr err], None, typed))"

definition changedPassphrase :: "typed \<Rightarrow> KeygenConfig \<Rightarrow> KeygenAct ToolOut list \<times> string option" where
  "changedPassphrase typed cfg =
     (if kgNewPass cfg = [] then
        (let (out, r, typed') = keygenReadPassword typed ''Enter new passphrase (empty for no passphrase): ''
         in case r of
              Inl err \<Rightarrow> (out @ [keygenErr err], None)
            | Inr pw \<Rightarrow>
                if pw = [] then (out, Some pw)
                else (let (out2, r2, _) = keygenReadPassword typed' ''Enter same passphrase again: ''
                      in if r2 = Inr pw then (out @ out2, Some pw)
                         else (out @ out2 @ [ErrText (''Passphrases do not match.'' @ newline)], None)))
      else ([], Some (kgNewPass cfg)))"

definition ChangePassphrase :: "('pub, 'raw, 'pem) ToolWorld \<Rightarrow> typed \<Rightarrow> KeygenConfig \<Rightarrow> keygen_result" where
  "ChangePassphrase w typed cfg =
     (let keyFile = existingKeyFile w cfg
      in case twReadFile w keyFile of
           Inl err \<Rightarrow> keygenFails err
         | Inr data \<Rightarrow>
             (case unlock w (twParseRaw w) (twParseRawWith w) typed ''Enter old passphrase: '' (kgOldPass cfg) data of
                (out, None, _) \<Rightarrow> (out, Exit 1)
              | (out, Some priv, typed') \<Rightarrow>
                  (case changedPassphrase typed' cfg of
                     (out2, None) \<Rightarrow> (out @ out2, Exit 1)
                   | (out2, Some pass) \<Rightarrow>
                       outThen (out @ out2)
                         (case sealKey w priv [] pass of
                            Inl err \<Rightarrow> keygenFails err
                          | Inr block \<Rightarrow>
                              writeOr w keyFile (twEncode w block) secretMode
                                ([ErrText (''Your identification has been saved with the new passphrase.'' @ newline)],
                                 Exit 0)))))"

definition ChangeComment :: "('pub, 'raw, 'pem) ToolWorld \<Rightarrow> typed \<Rightarrow> KeygenConfig \<Rightarrow> keygen_result" where
  "ChangeComment w typed cfg =
     (let keyFile = kgKeyFile cfg
      in case twReadFile w keyFile of
           Inl err \<Rightarrow> keygenFails err
         | Inr data \<Rightarrow>
             (case unlock w (twParseRaw w) (twParseRawWith w) typed ''Enter passphrase: '' [] data of
                (out, None, _) \<Rightarrow> (out, Exit 1)
              | (out, Some priv, _) \<Rightarrow>
                  outThen out
                    (case twMarshalKey w priv (kgComment cfg) of
                       Inl err \<Rightarrow> keygenFails err
                     | Inr block \<Rightarrow>
                         writeOr w keyFile (twEncode w block) secretMode
                           ((case twPublicOf w priv of
                               Inl err \<Rightarrow> []
                             | Inr pub \<Rightarrow>
                                 [Act (WriteFile (keyFile @ ''.pub'')
                                    (trimSpace (twMarshalAuthorized w pub) @ '' '' @ kgComment cfg @ newline) publicMode)]) @
                            [ErrText (''Comment '' @ squote (kgComment cfg) @ '' applied'' @ newline)],
                            Exit 0))))"

definition ShowPublicKey :: "('pub, 'raw, 'pem) ToolWorld \<Rightarrow> typed \<Rightarrow> KeygenConfig \<Rightarrow> keygen_result" where
  "ShowPublicKey w typed cfg =
     (case twReadFile w (existingKeyFile w cfg) of
        Inl err \<Rightarrow> keygenFails err
      | Inr data \<Rightarrow>
          (case unlock w (twParseSigner w) (twParseSignerWith w) typed ''Enter passphrase: '' [] data of
             (out, None, _) \<Rightarrow> (out, Exit 1)
           | (out, Some pub, _) \<Rightarrow> (out @ [OutText (twMarshalAuthorized w pub)], Exit 0)))"

definition fingerprintFile :: "('pub, 'raw, 'pem) ToolWorld \<Rightarrow> KeygenConfig \<Rightarrow> string option" where
  "fingerprintFile w cfg =
     (if kgKeyFile cfg = []
      then find (twExists w)
             (map (\<lambda>name. pathJoin [homeOr w, ''.ssh'', name @ ''.pub'']) [''id_ed25519'', ''id_ecdsa'', ''id_rsa''])
      else Some (kgKeyFile cfg))"

text \<open>The public key of a file and its comment: a public key file, or a private key without
  passphrase, which has none.\<close>

definition publicKeyIn :: "('pub, 'raw, 'pem) ToolWorld \<Rightarrow> string \<Rightarrow> go_error + 'pub \<times> string" where
  "publicKeyIn w data =
     (case twParseAuthorized w data of
        Inr (pub, comment) \<Rightarrow> Inr (pub, comment)
      | Inl err \<Rightarrow> map_sum id (\<lambda>pub. (pub, [])) (twParseSigner w data))"

definition printFingerprint :: "('pub, 'raw, 'pem) ToolWorld \<Rightarrow> string \<Rightarrow> 'pub \<times> string \<Rightarrow> keygen_result" where
  "printFingerprint w algo key =
     (let (pub, comment) = key
      in case KeySize w pub of
           None \<Rightarrow> ([], Panic)
         | Some bits \<Rightarrow>
             ([OutText (itoaInt bits @ '' '' @ FingerprintString w pub algo @ '' '' @ comment @ '' ('' @
                 KeyTypeName (twKeyType w pub) @ '')'' @ newline)], Exit 0))"

definition Fingerprint :: "('pub, 'raw, 'pem) ToolWorld \<Rightarrow> KeygenConfig \<Rightarrow> keygen_result" where
  "Fingerprint w cfg =
     (case fingerprintFile w cfg of
        None \<Rightarrow> keygenSays ''ssh-keygen: No key file specified and no default key found''
      | Some named \<Rightarrow>
          (let keyFile = (if \<not> hasSuffix named ''.pub'' \<and> twExists w (named @ ''.pub'') then named @ ''.pub'' else named)
           in case twReadFile w keyFile of
                Inl err \<Rightarrow> keygenFails err
              | Inr data \<Rightarrow>
                  (case publicKeyIn w data of
                     Inl err \<Rightarrow> keygenSays (''ssh-keygen: '' @ keyFile @ '' is not a key file'')
                   | Inr key \<Rightarrow> printFingerprint w (kgHashAlgo cfg) key)))"

text \<open>The program: its arguments, what is typed as lines and as passwords.\<close>

definition KeygenRun ::
  "('pub, 'raw, 'pem) ToolWorld \<Rightarrow> string \<Rightarrow> string list \<Rightarrow> typed \<Rightarrow> KeygenConfig \<Rightarrow> keygen_result" where
  "KeygenRun w version pieces typed cfg =
     (if kgVersion cfg then ([OutText (''ssh-keygen (sshconf) '' @ version @ newline)], Exit 0)
      else if kgFingerprint cfg then Fingerprint w cfg
      else if kgChangePass cfg then ChangePassphrase w typed cfg
      else if kgShowPub cfg then ShowPublicKey w typed cfg
      else if kgChangeComment cfg then ChangeComment w typed cfg
      else Generate w pieces typed cfg)"

definition keygenMain ::
  "('pub, 'raw, 'pem) ToolWorld \<Rightarrow> string \<Rightarrow> string list \<Rightarrow> typed \<Rightarrow> string list \<Rightarrow> keygen_result" where
  "keygenMain w version pieces typed argv = KeygenRun w version pieces typed (keygenParse argv emptyKeygen)"

section \<open>Lemmas\<close>

lemma keygen_result_simps [simp]:
  "keygenFails err = ([keygenErr err], Exit 1)"
  "keygenSays msg = ([ErrText (msg @ newline)], Exit 1)"
  "acts (keygenErr err # out) = acts out"
  "keygenErr err \<noteq> Act a"
  by (simp_all add: keygenFails_def keygenSays_def keygenErr_def toolErr_def)

lemma acts_password [simp]: "keygenReadPassword typed prompt = (out, r, typed') \<Longrightarrow> acts out = []"
  by (auto simp: keygenReadPassword_def)

lemma acts_newPassphrase [simp]: "newPassphrase typed cfg = (out, p) \<Longrightarrow> acts out = []"
  by (auto simp: newPassphrase_def keygenReadPassword_def Let_def split: if_splits sum.splits prod.splits)

lemma acts_changedPassphrase [simp]: "changedPassphrase typed cfg = (out, p) \<Longrightarrow> acts out = []"
  by (auto simp: changedPassphrase_def keygenReadPassword_def Let_def split: if_splits sum.splits prod.splits)

lemma changedPassphrase_given: "changedPassphrase typed cfg = (out, Some p) \<Longrightarrow> kgNewPass cfg \<noteq> [] \<Longrightarrow> p = kgNewPass cfg"
  by (auto simp: changedPassphrase_def)

lemma acts_confirmOverwrite [simp]: "confirmOverwrite w pieces f = (out, ok) \<Longrightarrow> acts out = []"
  by (auto simp: confirmOverwrite_def Let_def split: if_splits sum.splits)

lemma acts_unlock [simp]: "unlock w o0 ow typed prompt given data = (out, k, typed') \<Longrightarrow> acts out = []"
  by (auto simp: unlock_def keygenReadPassword_def Let_def split: if_splits sum.splits prod.splits)

lemma unlock_opens:
  "unlock w o0 ow typed prompt given data = (out, Some k, typed') \<Longrightarrow> o0 data = Inr k \<or> (\<exists>pw. ow data pw = Inr k)"
  by (auto simp: unlock_def Let_def split: if_splits sum.splits prod.splits)

text \<open>What the writes of a run are made of.\<close>

definition keyWrite :: "('pub, 'raw, 'pem) ToolWorld \<Rightarrow> KeygenAct \<Rightarrow> bool" where
  "keyWrite w a \<longleftrightarrow>
     (\<exists>dir. a = MkdirAll dir dirMode) \<or>
     (\<exists>f priv comment pass block.
        sealKey w priv comment pass = Inr block \<and> a = WriteFile f (twEncode w block) secretMode) \<or>
     (\<exists>f pub rest. a = WriteFile (f @ ''.pub'') (trimSpace (twMarshalAuthorized w pub) @ rest) publicMode)"

lemma keyWrite_intros:
  "keyWrite w (MkdirAll dir dirMode)"
  "sealKey w priv comment pass = Inr block \<Longrightarrow> keyWrite w (WriteFile f (twEncode w block) secretMode)"
  "keyWrite w (WriteFile (f @ ''.pub'') (trimSpace (twMarshalAuthorized w pub) @ rest) publicMode)"
  unfolding keyWrite_def by blast+

lemma writeOr_writes:
  assumes "keyWrite w (WriteFile f d m)" and "list_all (keyWrite w) (acts (fst r))"
  shows "list_all (keyWrite w) (acts (fst (writeOr w f d m r)))"
  using assms by (auto simp: writeOr_def split: option.split)

lemma saveKeyPair_writes: "list_all (keyWrite w) (acts (fst (saveKeyPair w cfg f priv pass)))"
  by (auto simp: saveKeyPair_def Let_def publicLine_def split: sum.split
      intro!: writeOr_writes intro: keyWrite_intros)

lemma Generate_writes: "list_all (keyWrite w) (acts (fst (Generate w pieces typed cfg)))"
  by (auto simp: Generate_def generateInto_def Let_def keyWrite_intros saveKeyPair_writes
      split: sum.split prod.split option.split)

lemma ChangePassphrase_writes: "list_all (keyWrite w) (acts (fst (ChangePassphrase w typed cfg)))"
  by (auto simp: ChangePassphrase_def Let_def split: sum.split prod.split option.split
      intro!: writeOr_writes intro: keyWrite_intros)

lemma keyWrite_plain: "twMarshalKey w priv comment = Inr block \<Longrightarrow> keyWrite w (WriteFile f (twEncode w block) secretMode)"
  using keyWrite_intros(2)[of w priv comment "[]" block] by (simp add: sealKey_def)

lemma ChangeComment_writes: "list_all (keyWrite w) (acts (fst (ChangeComment w typed cfg)))"
  by (simp add: ChangeComment_def Let_def split: sum.split prod.split option.split)
    (auto simp: keyWrite_intros intro!: writeOr_writes keyWrite_plain split: sum.split)

lemma ShowPublicKey_writes [simp]: "acts (fst (ShowPublicKey w typed cfg)) = []"
  by (auto simp: ShowPublicKey_def split: sum.split prod.split option.split)

lemma printFingerprint_writes [simp]: "acts (fst (printFingerprint w algo key)) = []"
  by (simp add: printFingerprint_def Let_def case_prod_beta' split: option.split)

lemma Fingerprint_writes [simp]: "acts (fst (Fingerprint w cfg)) = []"
  by (simp add: Fingerprint_def Let_def split: sum.split option.split)

lemma KeygenRun_writes: "list_all (keyWrite w) (acts (fst (KeygenRun w version pieces typed cfg)))"
  by (simp add: KeygenRun_def Generate_writes ChangePassphrase_writes ChangeComment_writes)

text \<open>Nothing is done to a file that exists unless the question about it is answered with y.\<close>

lemma Generate_asks:
  assumes "acts (fst (Generate w pieces typed cfg)) \<noteq> []"
  shows "\<exists>f. generateFile w cfg = Inr f \<and>
    (twExists w f \<longrightarrow> (\<exists>answer. readLine pieces = Inr answer \<and> hasPrefix (toLower answer) ''y''))"
  using assms by (auto simp: Generate_def confirmOverwrite_def Let_def split: sum.splits prod.splits if_splits)

lemma writeOr_ok: "writeOr w f d m r = (out, Exit 0) \<longleftrightarrow>
    twWriteFile w f = None \<and> (\<exists>o1. r = (o1, Exit 0) \<and> out = Act (WriteFile f d m) # o1)"
  by (auto simp: writeOr_def outThen_eq split: option.split)

lemma ChangePassphrase_ok:
  assumes "ChangePassphrase w typed cfg = (out, Exit 0)"
  shows "\<exists>data priv pass block. twReadFile w (existingKeyFile w cfg) = Inr data \<and>
    (twParseRaw w data = Inr priv \<or> (\<exists>pw. twParseRawWith w data pw = Inr priv)) \<and>
    sealKey w priv [] pass = Inr block \<and> (kgNewPass cfg \<noteq> [] \<longrightarrow> pass = kgNewPass cfg) \<and>
    acts out = [WriteFile (existingKeyFile w cfg) (twEncode w block) secretMode] \<and>
    twWriteFile w (existingKeyFile w cfg) = None"
proof -
  let ?f = "existingKeyFile w cfg"
  obtain data where d: "twReadFile w ?f = Inr data"
    using assms by (auto simp: ChangePassphrase_def Let_def split: sum.splits)
  obtain o1 priv typed' where u: "unlock w (twParseRaw w) (twParseRawWith w) typed ''Enter old passphrase: ''
      (kgOldPass cfg) data = (o1, Some priv, typed')"
    using assms d by (auto simp: ChangePassphrase_def Let_def split: prod.splits option.splits)
  obtain o2 pass where p: "changedPassphrase typed' cfg = (o2, Some pass)"
    using assms d u by (auto simp: ChangePassphrase_def Let_def split: prod.splits option.splits)
  obtain block where b: "sealKey w priv [] pass = Inr block"
    using assms d u p by (auto simp: ChangePassphrase_def Let_def outThen_eq split: sum.splits)
  have "twWriteFile w ?f = None \<and> acts out = [WriteFile ?f (twEncode w block) secretMode]"
    using assms d u p b by (auto simp: ChangePassphrase_def Let_def outThen_eq writeOr_ok)
  then show ?thesis using d unlock_opens[OF u] b changedPassphrase_given[OF p] by blast
qed

lemma ChangeComment_ok:
  assumes "ChangeComment w typed cfg = (out, Exit 0)"
  shows "\<exists>data priv block. twReadFile w (kgKeyFile cfg) = Inr data \<and>
    (twParseRaw w data = Inr priv \<or> (\<exists>pw. twParseRawWith w data pw = Inr priv)) \<and>
    twMarshalKey w priv (kgComment cfg) = Inr block \<and> twWriteFile w (kgKeyFile cfg) = None \<and>
    WriteFile (kgKeyFile cfg) (twEncode w block) secretMode \<in> set (acts out)"
proof -
  let ?f = "kgKeyFile cfg"
  obtain data where d: "twReadFile w ?f = Inr data"
    using assms by (auto simp: ChangeComment_def Let_def split: sum.splits)
  obtain o1 priv typed' where u: "unlock w (twParseRaw w) (twParseRawWith w) typed ''Enter passphrase: '' [] data =
      (o1, Some priv, typed')"
    using assms d by (auto simp: ChangeComment_def Let_def split: prod.splits option.splits)
  obtain block where b: "twMarshalKey w priv (kgComment cfg) = Inr block"
    using assms d u by (auto simp: ChangeComment_def Let_def outThen_eq split: sum.splits)
  have "twWriteFile w ?f = None \<and> WriteFile ?f (twEncode w block) secretMode \<in> set (acts out)"
    using assms d u b by (auto simp: ChangeComment_def Let_def outThen_eq writeOr_ok)
  then show ?thesis using d unlock_opens[OF u] b by blast
qed

text \<open>A new key is not protected when the question for its passphrase cannot be answered.\<close>

lemma newPassphrase_unreadable:
  "kgNewPass cfg = [] \<Longrightarrow> nextTyped typed = (Inl err, typed') \<Longrightarrow> snd (newPassphrase typed cfg) = Some []"
  by (simp add: newPassphrase_def keygenReadPassword_def)

section \<open>Properties\<close>


text \<open>When ssh-keygen -p ends with 0 it has written one file, the one it read the key from,
  and the key is in it under the new passphrase, the one of -N if there is one: it is read
  with that passphrase and with no other way, or without one if it is empty.\<close>

theorem keygen_new_passphrase:
  assumes "keyFormat w" and "KeygenRun w version pieces typed cfg = (out, Exit 0)"
    and "kgChangePass cfg" and "\<not> kgVersion cfg" and "\<not> kgFingerprint cfg"
  shows "\<exists>data priv pass d. twReadFile w (existingKeyFile w cfg) = Inr data \<and>
    (twParseRaw w data = Inr priv \<or> (\<exists>pw. twParseRawWith w data pw = Inr priv)) \<and>
    acts out = [WriteFile (existingKeyFile w cfg) d secretMode] \<and>
    (kgNewPass cfg \<noteq> [] \<longrightarrow> pass = kgNewPass cfg) \<and>
    (if pass = [] then twParseRaw w d = Inr priv
     else twParseRawWith w d pass = Inr priv \<and> (\<exists>e. twParseRaw w d = Inl e \<and> twPassphraseMissing w e))"
proof -
  have "ChangePassphrase w typed cfg = (out, Exit 0)"
    using assms(2-5) by (simp add: KeygenRun_def)
  from ChangePassphrase_ok[OF this] obtain data priv pass block where
    1: "twReadFile w (existingKeyFile w cfg) = Inr data"
       "twParseRaw w data = Inr priv \<or> (\<exists>pw. twParseRawWith w data pw = Inr priv)"
       "sealKey w priv [] pass = Inr block" "kgNewPass cfg \<noteq> [] \<longrightarrow> pass = kgNewPass cfg"
       "acts out = [WriteFile (existingKeyFile w cfg) (twEncode w block) secretMode]" by blast
  have "if pass = [] then twParseRaw w (twEncode w block) = Inr priv
     else twParseRawWith w (twEncode w block) pass = Inr priv \<and>
       (\<exists>e. twParseRaw w (twEncode w block) = Inl e \<and> twPassphraseMissing w e)"
    using 1(3) keyFormat_plain[OF assms(1)] keyFormat_sealed[OF assms(1)]
    by (auto simp: sealKey_def split: if_splits)
  with 1 show ?thesis by blast
qed

text \<open>C39: when ssh-keygen -c ends with 0 the private key it has written back is read without a
  passphrase, also if the key it read was protected by one: changing the comment removes
  the protection.\<close>

theorem keygen_comment_unprotects:
  assumes "keyFormat w" and "KeygenRun w version pieces typed cfg = (out, Exit 0)"
    and "kgChangeComment cfg" and "\<not> (kgVersion cfg \<or> kgFingerprint cfg \<or> kgChangePass cfg \<or> kgShowPub cfg)"
  shows "\<exists>data priv d. twReadFile w (kgKeyFile cfg) = Inr data \<and>
    (twParseRaw w data = Inr priv \<or> (\<exists>pw. twParseRawWith w data pw = Inr priv)) \<and>
    WriteFile (kgKeyFile cfg) d secretMode \<in> set (acts out) \<and> twWriteFile w (kgKeyFile cfg) = None \<and>
    twParseRaw w d = Inr priv"
proof -
  have "ChangeComment w typed cfg = (out, Exit 0)"
    using assms(2-4) by (simp add: KeygenRun_def)
  from ChangeComment_ok[OF this] show ?thesis using keyFormat_plain[OF assms(1)] by blast
qed

text \<open>A format of keys for the witnesses: a block is a key, and the passphrase it needs.\<close>

definition demoTools :: "(char, char, string) ToolWorld" where
  "demoTools =
     \<lparr>twReadFile = (\<lambda>f. if f = ''k'' then Inr ''apw'' else Inl (ErrExt f)),
      twExists = (\<lambda>f. f = ''k''), twHome = Inr ''/h'', twMkdirAll = (\<lambda>d. None), twWriteFile = (\<lambda>f. None),
      twGenerate = (\<lambda>spec. Inr CHR ''n''),
      twParseRaw = (\<lambda>d. case d of [c] \<Rightarrow> Inr c | _ \<Rightarrow> Inl (ErrExt ''passphrase'')),
      twPassphraseMissing = (\<lambda>e. True),
      twParseRawWith = (\<lambda>d p. case d of c # q \<Rightarrow> if q = p then Inr c else Inl (ErrExt ''wrong'')
                                      | [] \<Rightarrow> Inl (ErrExt ''empty'')),
      twParseSigner = (\<lambda>d. Inl (ErrExt ''signer'')), twParseSignerWith = (\<lambda>d p. Inl (ErrExt ''signer'')),
      twPublicOf = Inr, twMarshalKey = (\<lambda>k c. Inr [k]), twMarshalKeyWith = (\<lambda>k c p. Inr (k # p)),
      twEncode = (\<lambda>b. b),
      twParseAuthorized = (\<lambda>d. case d of c # r \<Rightarrow> Inr (c, r) | [] \<Rightarrow> Inl (ErrExt ''no key'')),
      twMarshalAuthorized = (\<lambda>k. [k] @ newline),
      twSHA256 = (\<lambda>k. [k]), twMD5 = (\<lambda>k. [k]), twCrypto = (\<lambda>k. Some Ed25519Public),
      twKeyType = (\<lambda>k. ''ssh-ed25519'')\<rparr>"

lemma keyFormat_demo: "keyFormat demoTools"
  by (auto simp: keyFormat_def demoTools_def split: list.split)


theorem keygen_new_passphrase_witness:
  "\<exists>d. acts (fst (keygenMain demoTools ''1'' [] [Inr ''pw''] [''-p'', ''-f'', ''k'', ''-N'', ''new''])) =
     [WriteFile ''k'' d secretMode] \<and> twParseRawWith demoTools d ''new'' = Inr CHR ''a''"
proof -
  let ?cfg = "keygenParse [''-p'', ''-f'', ''k'', ''-N'', ''new''] emptyKeygen"
  let ?r = "KeygenRun demoTools ''1'' [] [Inr ''pw''] ?cfg"
  have r: "snd ?r = Exit 0" by code_simp
  have c: "kgChangePass ?cfg" "\<not> kgVersion ?cfg" "\<not> kgFingerprint ?cfg" "kgNewPass ?cfg = ''new''"
    "existingKeyFile demoTools ?cfg = ''k''" by code_simp+
  have "?r = (fst ?r, Exit 0)" using r by (metis prod.collapse)
  from keygen_new_passphrase[OF keyFormat_demo this c(1-3)] c(4,5)
  obtain data priv d where k: "twReadFile demoTools ''k'' = Inr data"
    "twParseRaw demoTools data = Inr priv \<or> (\<exists>pw. twParseRawWith demoTools data pw = Inr priv)"
    "acts (fst ?r) = [WriteFile ''k'' d secretMode]" "twParseRawWith demoTools d ''new'' = Inr priv"
    by (auto split: if_splits)
  have "priv = CHR ''a''" using k(1,2) by (auto simp: demoTools_def split: if_splits)
  then show ?thesis using k by (auto simp: keygenMain_def)
qed

theorem keygen_comment_unprotects_witness:
  "(\<exists>e. twParseRaw demoTools ''apw'' = Inl e) \<and>
   (\<exists>d. WriteFile ''k'' d secretMode \<in>
      set (acts (fst (keygenMain demoTools ''1'' [] [Inr ''pw''] [''-c'', ''-f'', ''k'', ''-C'', ''new'']))) \<and>
      twParseRaw demoTools d = Inr CHR ''a'')"
proof -
  let ?cfg = "keygenParse [''-c'', ''-f'', ''k'', ''-C'', ''new''] emptyKeygen"
  let ?r = "KeygenRun demoTools ''1'' [] [Inr ''pw''] ?cfg"
  have r: "snd ?r = Exit 0" by code_simp
  have c: "kgChangeComment ?cfg" "\<not> (kgVersion ?cfg \<or> kgFingerprint ?cfg \<or> kgChangePass ?cfg \<or> kgShowPub ?cfg)"
    "kgKeyFile ?cfg = ''k''" by code_simp+
  have "?r = (fst ?r, Exit 0)" using r by (metis prod.collapse)
  from keygen_comment_unprotects[OF keyFormat_demo this c(1,2)] c(3)
  obtain data priv d where k: "twReadFile demoTools ''k'' = Inr data"
    "twParseRaw demoTools data = Inr priv \<or> (\<exists>pw. twParseRawWith demoTools data pw = Inr priv)"
    "WriteFile ''k'' d secretMode \<in> set (acts (fst ?r))" "twParseRaw demoTools d = Inr priv"
    by auto
  have "priv = CHR ''a''" using k(1,2) by (auto simp: demoTools_def split: if_splits)
  moreover have "twParseRaw demoTools ''apw'' = Inl (ErrExt ''passphrase'')" by (simp add: demoTools_def)
  ultimately show ?thesis using k by (auto simp: keygenMain_def)
qed

end
