(* ===== verification/SshAdd.thy ===== *)
theory SshAdd
  imports ToolKeys
begin

text \<open>
  \<^verbatim>\<open>ssh-add\<close> (\<^verbatim>\<open>pkg/sshadd\<close>): its arguments and its actions on the agent.  The agent is an
  argument, a state with the operations of the agent protocol (record \<^verbatim>\<open>AgentClient\<close>);
  the requests made of it are the actions of the result.
\<close>

section \<open>Arguments\<close>

record AddConfig =
  adList :: bool
  adListPub :: bool
  adDelete :: bool
  adDeleteAll :: bool
  adLock :: bool
  adUnlock :: bool
  adConfirm :: bool
  adLifetime :: "32 word"
  adFiles :: "string list"
  adVersion :: bool

definition emptyAdd :: AddConfig where
  "emptyAdd = \<lparr>adList = False, adListPub = False, adDelete = False, adDeleteAll = False, adLock = False,
     adUnlock = False, adConfirm = False, adLifetime = 0, adFiles = [], adVersion = False\<rparr>"

definition addWord0 :: "string \<Rightarrow> (AddConfig \<Rightarrow> AddConfig) option" where
  "addWord0 = map_of
     [(''-l'', \<lambda>c. c\<lparr>adList := True\<rparr>),
      (''-L'', \<lambda>c. c\<lparr>adListPub := True\<rparr>),
      (''-d'', \<lambda>c. c\<lparr>adDelete := True\<rparr>),
      (''-D'', \<lambda>c. c\<lparr>adDeleteAll := True\<rparr>),
      (''-x'', \<lambda>c. c\<lparr>adLock := True\<rparr>),
      (''-X'', \<lambda>c. c\<lparr>adUnlock := True\<rparr>),
      (''-c'', \<lambda>c. c\<lparr>adConfirm := True\<rparr>),
      (''-V'', \<lambda>c. c\<lparr>adVersion := True\<rparr>)]"

definition addWord1 :: "string \<Rightarrow> (string \<Rightarrow> AddConfig \<Rightarrow> AddConfig) option" where
  "addWord1 = map_of
     [(''-t'', \<lambda>v c. case sscanfUint32 v of Some n \<Rightarrow> c\<lparr>adLifetime := n\<rparr> | None \<Rightarrow> c)]"

definition addOther :: "string \<Rightarrow> string list \<Rightarrow> AddConfig \<Rightarrow> bool \<times> AddConfig" where
  "addOther w ws c = (True, if hasPrefix w ''-'' then c else c\<lparr>adFiles := adFiles c @ [w]\<rparr>)"

definition addParse :: "string list \<Rightarrow> AddConfig \<Rightarrow> AddConfig" where
  "addParse = wordLoop addWord0 addWord1 addOther"

interpretation ad: word_cli addWord0 addWord1 addParse
  unfolding addParse_def by (rule wordLoop_laws)

section \<open>The agent\<close>

record AgentKey =
  akFormat :: string
  akBlob :: string
  akComment :: string

record 'raw AddedKey =
  aaPrivateKey :: 'raw
  aaComment :: string
  aaConfirmBeforeUse :: bool
  aaLifetimeSecs :: "32 word"

record ('pub, 'raw, 'ag) AgentClient =
  acList :: "'ag \<Rightarrow> go_error + AgentKey list"
  acAdd :: "'raw AddedKey \<Rightarrow> 'ag \<Rightarrow> go_error option \<times> 'ag"
  acRemove :: "'pub \<Rightarrow> 'ag \<Rightarrow> go_error option \<times> 'ag"
  acRemoveAll :: "'ag \<Rightarrow> go_error option \<times> 'ag"
  acLock :: "string \<Rightarrow> 'ag \<Rightarrow> go_error option \<times> 'ag"
  acUnlock :: "string \<Rightarrow> 'ag \<Rightarrow> go_error option \<times> 'ag"
  acParsePublic :: "string \<Rightarrow> go_error + 'pub"
  acAuthorizedLine :: "AgentKey \<Rightarrow> string"
  acGetenv :: "string \<Rightarrow> string"
  acDial :: "string \<Rightarrow> go_error option"

datatype ('pub, 'raw) AgentReq =
  ReqAdd "'raw AddedKey" | ReqRemove 'pub | ReqRemoveAll | ReqLock string | ReqUnlock string

type_synonym ('pub, 'raw) add_out = "('pub, 'raw) AgentReq ToolOut list"
type_synonym ('pub, 'raw, 'ag) add_result = "('pub, 'raw) add_out \<times> ToolEnd \<times> 'ag"

definition ConnectAgent :: "('pub, 'raw, 'ag) AgentClient \<Rightarrow> go_error option" where
  "ConnectAgent ac =
     (let socketPath = acGetenv ac ''SSH_AUTH_SOCK''
      in if socketPath = [] then Some (Errorf ''SSH_AUTH_SOCK not set'' []) else acDial ac socketPath)"

definition DefaultKeyFiles :: "('pub, 'raw, 'pem) ToolWorld \<Rightarrow> string list" where
  "DefaultKeyFiles w =
     (case twHome w of
        Inl err \<Rightarrow> []
      | Inr home \<Rightarrow>
          filter (twExists w)
            (map (\<lambda>name. pathJoin [home, ''.ssh'', name]) [''id_rsa'', ''id_ecdsa'', ''id_ed25519'']))"

definition filesOr :: "('pub, 'raw, 'pem) ToolWorld \<Rightarrow> AddConfig \<Rightarrow> string list" where
  "filesOr w cfg = (if adFiles cfg = [] then DefaultKeyFiles w else adFiles cfg)"

section \<open>Adding keys\<close>

text \<open>The passphrase of a key is asked for at most three times; \<^term>\<open>Inr None\<close> when none of the
  answers is right.\<close>

primrec tryPassphrases ::
  "nat \<Rightarrow> ('pub, 'raw, 'pem) ToolWorld \<Rightarrow> string \<Rightarrow> string \<Rightarrow> typed \<Rightarrow>
   ('pub, 'raw) add_out \<times> (go_error + 'raw option) \<times> typed" where
  "tryPassphrases 0 w path data typed = ([], Inr None, typed)"
| "tryPassphrases (Suc n) w path data typed =
     (let prompt = [ErrText (''Enter passphrase for '' @ path @ '': ''), ErrText newline];
          (r, typed') = nextTyped typed
      in case r of
           Inl err \<Rightarrow> (prompt, Inl err, typed')
         | Inr pw \<Rightarrow>
             (case twParseRawWith w data pw of
                Inr k \<Rightarrow> (prompt, Inr (Some k), typed')
              | Inl err \<Rightarrow>
                  (let again = (if n > 0 then [ErrText (''Bad passphrase, try again.'' @ newline)] else []);
                       (out, res, typed'') = tryPassphrases n w path data typed'
                   in (prompt @ again @ out, res, typed''))))"

definition openKey ::
  "('pub, 'raw, 'pem) ToolWorld \<Rightarrow> string \<Rightarrow> typed \<Rightarrow> ('pub, 'raw) add_out \<times> (go_error + 'raw) \<times> typed" where
  "openKey w path typed =
     (case twReadFile w path of
        Inl err \<Rightarrow> ([], Inl err, typed)
      | Inr data \<Rightarrow>
          (case twParseRaw w data of
             Inr k \<Rightarrow> ([], Inr k, typed)
           | Inl err \<Rightarrow>
               if \<not> twPassphraseMissing w err then ([], Inl err, typed)
               else (case tryPassphrases 3 w path data typed of
                       (out, Inl err, typed') \<Rightarrow> (out, Inl err, typed')
                     | (out, Inr None, typed') \<Rightarrow> (out, Inl (Errorf ''bad passphrase'' []), typed')
                     | (out, Inr (Some k), typed') \<Rightarrow> (out, Inr k, typed'))))"

definition addKey ::
  "('pub, 'raw, 'pem) ToolWorld \<Rightarrow> ('pub, 'raw, 'ag) AgentClient \<Rightarrow> AddConfig \<Rightarrow> string \<Rightarrow> typed \<Rightarrow> 'ag \<Rightarrow>
   ('pub, 'raw) add_out \<times> go_error option \<times> typed \<times> 'ag" where
  "addKey w ac cfg path typed ag =
     (case openKey w path typed of
        (out, Inl err, typed') \<Rightarrow> (out, Some err, typed', ag)
      | (out, Inr k, typed') \<Rightarrow>
          (let req = \<lparr>aaPrivateKey = k, aaComment = path, aaConfirmBeforeUse = adConfirm cfg,
                      aaLifetimeSecs = adLifetime cfg\<rparr>;
               (err, ag') = acAdd ac req ag
           in (out @ [Act (ReqAdd req)], err, typed', ag')))"

primrec addFiles ::
  "('pub, 'raw, 'pem) ToolWorld \<Rightarrow> ('pub, 'raw, 'ag) AgentClient \<Rightarrow> AddConfig \<Rightarrow> string list \<Rightarrow> typed \<Rightarrow> 'ag \<Rightarrow>
   ('pub, 'raw) add_out \<times> int \<times> 'ag" where
  "addFiles w ac cfg [] typed ag = ([], 0, ag)"
| "addFiles w ac cfg (f # fs) typed ag =
     (let (out, err, typed', ag') = addKey w ac cfg f typed ag;
          (rest, code, ag'') = addFiles w ac cfg fs typed' ag'
      in case err of
           Some err \<Rightarrow>
             (out @ [ErrText (''ssh-add: error adding '' @ f @ '': '' @ errText err @ newline)] @ rest, 1, ag'')
         | None \<Rightarrow> (out @ [ErrText (''Identity added: '' @ f @ newline)] @ rest, code, ag''))"

definition AddKeys ::
  "('pub, 'raw, 'pem) ToolWorld \<Rightarrow> ('pub, 'raw, 'ag) AgentClient \<Rightarrow> AddConfig \<Rightarrow> typed \<Rightarrow> 'ag \<Rightarrow>
   ('pub, 'raw, 'ag) add_result" where
  "AddKeys w ac cfg typed ag =
     (let (out, code, ag') = addFiles w ac cfg (filesOr w cfg) typed ag in (out, Exit code, ag'))"

section \<open>The other actions\<close>

definition addErr :: "go_error \<Rightarrow> ('pub, 'raw) AgentReq ToolOut" where
  "addErr err = toolErr ''ssh-add'' err"

definition noIdentities :: "('pub, 'raw) add_out" where
  "noIdentities = [ErrText (''The agent has no identities.'' @ newline)]"

definition fetchError :: "go_error \<Rightarrow> ('pub, 'raw) add_out" where
  "fetchError err = [ErrText (''ssh-add: error fetching identities: '' @ errText err @ newline)]"

text \<open>The package has copies of two functions of \<^verbatim>\<open>ssh-keygen\<close>, which agree with them.\<close>

definition AddKeySize :: "('pub, 'raw, 'pem) ToolWorld \<Rightarrow> 'pub \<Rightarrow> int option" where
  "AddKeySize w key =
     (case twCrypto w key of
        None \<Rightarrow> None
      | Some (RSAPublic n) \<Rightarrow> Some n
      | Some (ECDSAPublic n) \<Rightarrow> Some n
      | Some Ed25519Public \<Rightarrow> Some 256
      | Some OtherPublic \<Rightarrow> Some 0)"

definition AddKeyTypeName :: "string \<Rightarrow> string" where
  "AddKeyTypeName fmt =
     (if fmt = ''ssh-rsa'' then ''RSA''
      else if fmt = ''ecdsa-sha2-nistp256'' \<or> fmt = ''ecdsa-sha2-nistp384'' \<or> fmt = ''ecdsa-sha2-nistp521'' then ''ECDSA''
      else if fmt = ''ssh-ed25519'' then ''ED25519''
      else fmt)"

lemma add_copies_agree: "AddKeySize w key = KeySize w key" "AddKeyTypeName fmt = KeyTypeName fmt"
  by (simp_all add: AddKeySize_def KeySize_def AddKeyTypeName_def KeyTypeName_def split: option.split CryptoKey.split)

text \<open>The lines of the keys up to the first whose size cannot be told, where the program
  panics.\<close>

primrec listLines ::
  "('pub, 'raw, 'pem) ToolWorld \<Rightarrow> ('pub, 'raw, 'ag) AgentClient \<Rightarrow> AgentKey list \<Rightarrow>
   ('pub, 'raw) add_out \<times> ToolEnd" where
  "listLines w ac [] = ([], Exit 0)"
| "listLines w ac (key # keys) =
     (case acParsePublic ac (akBlob key) of
        Inl err \<Rightarrow>
          outThen [OutText (''0 ??? '' @ akComment key @ '' ('' @ akFormat key @ '')'' @ newline)] (listLines w ac keys)
      | Inr pub \<Rightarrow>
          (case AddKeySize w pub of
             None \<Rightarrow> ([], Panic)
           | Some bits \<Rightarrow>
               outThen [OutText (itoaInt bits @ '' '' @ twSHA256 w pub @ '' '' @ akComment key @ '' ('' @
                        AddKeyTypeName (akFormat key) @ '')'' @ newline)] (listLines w ac keys)))"

definition ListKeys ::
  "('pub, 'raw, 'pem) ToolWorld \<Rightarrow> ('pub, 'raw, 'ag) AgentClient \<Rightarrow> 'ag \<Rightarrow> ('pub, 'raw, 'ag) add_result" where
  "ListKeys w ac ag =
     (case acList ac ag of
        Inl err \<Rightarrow> (fetchError err, Exit 1, ag)
      | Inr keys \<Rightarrow>
          if keys = [] then (noIdentities, Exit 0, ag)
          else (let (out, code) = listLines w ac keys in (out, code, ag)))"

definition ListPublicKeys :: "('pub, 'raw, 'ag) AgentClient \<Rightarrow> 'ag \<Rightarrow> ('pub, 'raw, 'ag) add_result" where
  "ListPublicKeys ac ag =
     (case acList ac ag of
        Inl err \<Rightarrow> (fetchError err, Exit 1, ag)
      | Inr keys \<Rightarrow>
          if keys = [] then (noIdentities, Exit 0, ag)
          else (map (\<lambda>key. OutText (trimSpace (acAuthorizedLine ac key) @ '' '' @ akComment key @ newline)) keys,
                Exit 0, ag))"

definition deleteFile ::
  "('pub, 'raw, 'pem) ToolWorld \<Rightarrow> ('pub, 'raw, 'ag) AgentClient \<Rightarrow> string \<Rightarrow> 'ag \<Rightarrow>
   ('pub, 'raw) add_out \<times> bool \<times> 'ag" where
  "deleteFile w ac f ag =
     (let pubFile = (if hasSuffix f ''.pub'' then f else f @ ''.pub'')
      in case twReadFile w pubFile of
           Inl err \<Rightarrow> ([addErr err], False, ag)
         | Inr data \<Rightarrow>
             (case twParseAuthorized w data of
                Inl err \<Rightarrow> ([ErrText (''ssh-add: '' @ pubFile @ '': not a public key file'' @ newline)], False, ag)
              | Inr (pub, comment) \<Rightarrow>
                  (case acRemove ac pub ag of
                     (Some err, ag') \<Rightarrow>
                       ([Act (ReqRemove pub),
                         ErrText (''ssh-add: could not remove identity '' @ [CHR 0x22] @ f @ [CHR 0x22] @ '': '' @
                           errText err @ newline)], False, ag')
                   | (None, ag') \<Rightarrow>
                       ([Act (ReqRemove pub), ErrText (''Identity removed: '' @ f @ newline)], True, ag'))))"

primrec deleteFiles ::
  "('pub, 'raw, 'pem) ToolWorld \<Rightarrow> ('pub, 'raw, 'ag) AgentClient \<Rightarrow> string list \<Rightarrow> 'ag \<Rightarrow>
   ('pub, 'raw) add_out \<times> int \<times> 'ag" where
  "deleteFiles w ac [] ag = ([], 0, ag)"
| "deleteFiles w ac (f # fs) ag =
     (let (out, ok, ag') = deleteFile w ac f ag;
          (rest, code, ag'') = deleteFiles w ac fs ag'
      in (out @ rest, if ok then code else 1, ag''))"

definition DeleteKeys ::
  "('pub, 'raw, 'pem) ToolWorld \<Rightarrow> ('pub, 'raw, 'ag) AgentClient \<Rightarrow> AddConfig \<Rightarrow> 'ag \<Rightarrow>
   ('pub, 'raw, 'ag) add_result" where
  "DeleteKeys w ac cfg ag =
     (let (out, code, ag') = deleteFiles w ac (filesOr w cfg) ag in (out, Exit code, ag'))"

text \<open>One request of the agent, with the message for its failure and for its success.\<close>

definition request ::
  "('pub, 'raw) AgentReq \<Rightarrow> (go_error option \<times> 'ag) \<Rightarrow> string \<Rightarrow> string \<Rightarrow> ('pub, 'raw, 'ag) add_result" where
  "request req answer failure success =
     (case answer of
        (Some err, ag') \<Rightarrow> ([Act req, ErrText (''ssh-add: '' @ failure @ '': '' @ errText err @ newline)], Exit 1, ag')
      | (None, ag') \<Rightarrow> ([Act req, ErrText (success @ newline)], Exit 0, ag'))"

definition DeleteAll :: "('pub, 'raw, 'ag) AgentClient \<Rightarrow> 'ag \<Rightarrow> ('pub, 'raw, 'ag) add_result" where
  "DeleteAll ac ag =
     request ReqRemoveAll (acRemoveAll ac ag) ''could not remove all identities'' ''All identities removed.''"

definition Lock :: "('pub, 'raw, 'ag) AgentClient \<Rightarrow> typed \<Rightarrow> 'ag \<Rightarrow> ('pub, 'raw, 'ag) add_result" where
  "Lock ac typed ag =
     (let out = [ErrText ''Enter lock password: '', ErrText newline];
          (r, typed') = nextTyped typed
      in case r of
           Inl err \<Rightarrow> (out @ [addErr err], Exit 1, ag)
         | Inr pw \<Rightarrow>
             (let out2 = out @ [ErrText ''Again: '', ErrText newline]
              in if fst (nextTyped typed') = Inr pw then
                   (let (out3, code, ag') = request (ReqLock pw) (acLock ac pw ag) ''could not lock agent'' ''Agent locked.''
                    in (out2 @ out3, code, ag'))
                 else (out2 @ [ErrText (''Passwords do not match.'' @ newline)], Exit 1, ag)))"

definition Unlock :: "('pub, 'raw, 'ag) AgentClient \<Rightarrow> typed \<Rightarrow> 'ag \<Rightarrow> ('pub, 'raw, 'ag) add_result" where
  "Unlock ac typed ag =
     (let out = [ErrText ''Enter lock password: '', ErrText newline];
          (r, typed') = nextTyped typed
      in case r of
           Inl err \<Rightarrow> (out @ [addErr err], Exit 1, ag)
         | Inr pw \<Rightarrow>
             (let (out3, code, ag') = request (ReqUnlock pw) (acUnlock ac pw ag) ''could not unlock agent'' ''Agent unlocked.''
              in (out @ out3, code, ag')))"

definition AddRun ::
  "('pub, 'raw, 'pem) ToolWorld \<Rightarrow> ('pub, 'raw, 'ag) AgentClient \<Rightarrow> string \<Rightarrow> AddConfig \<Rightarrow> typed \<Rightarrow> 'ag \<Rightarrow>
   ('pub, 'raw, 'ag) add_result" where
  "AddRun w ac version cfg typed ag =
     (if adVersion cfg then ([OutText (''ssh-add (sshconf) '' @ version @ newline)], Exit 0, ag)
      else case ConnectAgent ac of
        Some err \<Rightarrow> ([ErrText (''ssh-add: could not open connection to agent: '' @ errText err @ newline)], Exit 2, ag)
      | None \<Rightarrow>
          if adList cfg then ListKeys w ac ag
          else if adListPub cfg then ListPublicKeys ac ag
          else if adDeleteAll cfg then DeleteAll ac ag
          else if adDelete cfg then DeleteKeys w ac cfg ag
          else if adLock cfg then Lock ac typed ag
          else if adUnlock cfg then Unlock ac typed ag
          else AddKeys w ac cfg typed ag)"

definition addMain ::
  "('pub, 'raw, 'pem) ToolWorld \<Rightarrow> ('pub, 'raw, 'ag) AgentClient \<Rightarrow> string \<Rightarrow> string list \<Rightarrow> typed \<Rightarrow> 'ag \<Rightarrow>
   ('pub, 'raw, 'ag) add_result" where
  "addMain w ac version argv typed ag = AddRun w ac version (addParse argv emptyAdd) typed ag"

section \<open>Lemmas\<close>

text \<open>The key in a file, as the program reads it.\<close>

definition opensTo :: "('pub, 'raw, 'pem) ToolWorld \<Rightarrow> string \<Rightarrow> 'raw \<Rightarrow> bool" where
  "opensTo w path k \<longleftrightarrow>
     (\<exists>data. twReadFile w path = Inr data \<and>
        (twParseRaw w data = Inr k \<or> (\<exists>pw. twParseRawWith w data pw = Inr k)))"

lemma tryPassphrases_opens:
  "tryPassphrases n w path data typed = (out, Inr (Some k), typed') \<Longrightarrow> \<exists>pw. twParseRawWith w data pw = Inr k"
proof (induction n arbitrary: typed out typed')
  case (Suc n)
  obtain r ts where nt: "nextTyped typed = (r, ts)" by (cases "nextTyped typed")
  obtain pw where r: "r = Inr pw" using Suc.prems nt by (cases r) (auto simp: Let_def)
  show ?case
  proof (cases "twParseRawWith w data pw")
    case (Inl err)
    obtain o2 res ts2 where t: "tryPassphrases n w path data ts = (o2, res, ts2)"
      by (cases "tryPassphrases n w path data ts")
    then show ?thesis using Suc.prems Suc.IH nt r Inl by (auto simp: Let_def)
  next
    case (Inr k')
    then show ?thesis using Suc.prems nt r by (auto simp: Let_def)
  qed
qed simp

text \<open>At most \<^term>\<open>n\<close> passphrases are read.\<close>

lemma tryPassphrases_bound:
  "tryPassphrases n w path data typed = (out, res, typed') \<Longrightarrow> length typed \<le> length typed' + n"
proof (induction n arbitrary: typed out res typed')
  case (Suc n)
  obtain r ts where nt: "nextTyped typed = (r, ts)" by (cases "nextTyped typed")
  then have len: "length typed \<le> Suc (length ts)" by (auto simp: nextTyped_def split: list.splits)
  obtain o2 res2 ts2 where t: "tryPassphrases n w path data ts = (o2, res2, ts2)"
    by (cases "tryPassphrases n w path data ts")
  then show ?case
    using Suc.prems Suc.IH[OF t] nt len by (auto simp: Let_def split: sum.splits)
qed simp

lemma openKey_opens: "openKey w path typed = (out, Inr k, typed') \<Longrightarrow> opensTo w path k"
  by (auto simp: openKey_def opensTo_def dest: tryPassphrases_opens
      split: sum.splits if_splits prod.splits option.splits)

lemma openKey_bound: "openKey w path typed = (out, r, typed') \<Longrightarrow> length typed \<le> length typed' + 3"
  by (auto simp: openKey_def dest: tryPassphrases_bound
      split: sum.splits if_splits prod.splits option.splits)

text \<open>What the agent promises of the addition of keys.\<close>

definition agentAdds :: "('pub, 'raw, 'ag) AgentClient \<Rightarrow> ('ag \<Rightarrow> 'raw AddedKey list) \<Rightarrow> bool" where
  "agentAdds ac keysOf \<longleftrightarrow>
     (\<forall>k ag err ag'. acAdd ac k ag = (err, ag') \<longrightarrow>
        keysOf ag' = (if err = None then keysOf ag @ [k] else keysOf ag))"

lemma agentAddsD:
  "agentAdds ac keysOf \<Longrightarrow> acAdd ac k ag = (err, ag') \<Longrightarrow>
   keysOf ag' = (if err = None then keysOf ag @ [k] else keysOf ag)"
  by (simp add: agentAdds_def)

definition addedFrom :: "('pub, 'raw, 'pem) ToolWorld \<Rightarrow> AddConfig \<Rightarrow> 'raw AddedKey \<Rightarrow> bool" where
  "addedFrom w cfg k \<longleftrightarrow>
     opensTo w (aaComment k) (aaPrivateKey k) \<and> aaConfirmBeforeUse k = adConfirm cfg \<and> aaLifetimeSecs k = adLifetime cfg"

lemma addKey_adds:
  assumes "agentAdds ac keysOf" and "addKey w ac cfg f typed ag = (out, err, typed', ag')"
  shows "\<exists>ks. keysOf ag' = keysOf ag @ ks \<and> list_all (addedFrom w cfg) ks \<and>
    map aaComment ks = (if err = None then [f] else [])"
proof -
  obtain o1 r ts where o: "openKey w f typed = (o1, r, ts)" by (cases "openKey w f typed")
  show ?thesis
  proof (cases r)
    case (Inl e)
    then show ?thesis using assms(2) o by (auto simp: addKey_def)
  next
    case (Inr k)
    let ?k = "\<lparr>aaPrivateKey = k, aaComment = f, aaConfirmBeforeUse = adConfirm cfg, aaLifetimeSecs = adLifetime cfg\<rparr>"
    have "acAdd ac ?k ag = (err, ag')"
      using assms(2) o Inr by (auto simp: addKey_def Let_def split: prod.splits)
    from agentAddsD[OF assms(1) this] openKey_opens[of w f typed o1 k ts] o Inr show ?thesis
      by (cases err) (auto simp: addedFrom_def)
  qed
qed

lemma addFiles_adds:
  assumes "agentAdds ac keysOf"
  shows "addFiles w ac cfg fs typed ag = (out, code, ag') \<Longrightarrow>
    \<exists>ks. keysOf ag' = keysOf ag @ ks \<and> list_all (addedFrom w cfg) ks \<and> subseq (map aaComment ks) fs \<and>
      (code = 0 \<longleftrightarrow> map aaComment ks = fs) \<and> code \<in> {0, 1}"
proof (induction fs arbitrary: typed ag out code ag')
  case Nil
  then show ?case by (auto intro: exI[of _ "[]"])
next
  case (Cons f fs)
  obtain o1 err ts ag1 where k: "addKey w ac cfg f typed ag = (o1, err, ts, ag1)"
    by (cases "addKey w ac cfg f typed ag")
  obtain o2 code2 ag2 where r: "addFiles w ac cfg fs ts ag1 = (o2, code2, ag2)"
    by (cases "addFiles w ac cfg fs ts ag1")
  have ag: "ag' = ag2" and c: "code = (if err = None then code2 else 1)"
    using Cons.prems k r by (auto split: option.splits)
  obtain ks1 where 1: "keysOf ag1 = keysOf ag @ ks1" "list_all (addedFrom w cfg) ks1"
    "map aaComment ks1 = (if err = None then [f] else [])"
    using addKey_adds[OF assms k] by blast
  obtain ks2 where 2: "keysOf ag2 = keysOf ag1 @ ks2" "list_all (addedFrom w cfg) ks2"
    "subseq (map aaComment ks2) fs" "code2 = 0 \<longleftrightarrow> map aaComment ks2 = fs" "code2 \<in> {0, 1}"
    using Cons.IH[OF r] by blast
  have l: "length (map aaComment ks2) \<le> length fs" using 2(3) by (rule list_emb_length)
  show ?case
  proof (intro exI conjI)
    show "keysOf ag' = keysOf ag @ ks1 @ ks2" using 1 2 ag by simp
    show "list_all (addedFrom w cfg) (ks1 @ ks2)" using 1 2 by simp
    show "subseq (map aaComment (ks1 @ ks2)) (f # fs)"
      using 1(3) 2(3) by (auto split: if_splits intro: list_emb_Cons)
    show "(code = 0) = (map aaComment (ks1 @ ks2) = f # fs)"
    proof (cases "err = None")
      case False
      have "map aaComment ks2 \<noteq> f # fs" using l by (metis impossible_Cons)
      then show ?thesis using 1 c False by simp
    qed (use 1 2 c in simp)
    show "code \<in> {0, 1}" using 2 c by auto
  qed
qed

text \<open>A key whose size cannot be told makes \<^verbatim>\<open>ssh-add -l\<close> panic.\<close>

lemma listLines_panics:
  assumes "key \<in> set keys" and "acParsePublic ac (akBlob key) = Inr pub" and "twCrypto w pub = None"
  shows "snd (listLines w ac keys) = Panic"
  using assms(1)
proof (induction keys)
  case (Cons k ks)
  show ?case
  proof (cases "k = key")
    case True
    then show ?thesis using assms by (simp add: AddKeySize_def)
  next
    case False
    then show ?thesis using Cons by (auto split: sum.split option.split)
  qed
qed simp

text \<open>A lifetime with a unit is read as seconds: the number in front of the unit.\<close>

lemma lifetime_unit_ignored: "adLifetime (addParse [''-t'', ''1h''] emptyAdd) = 1"
proof -
  have "sscanfUint32 (''1'' @ ''h'') = Some (of_nat (digitsVal 0 ''1''))"
    by (rule sscanfUint32_prefix) (simp_all add: isDigit_def digitVal_def)
  then show ?thesis
    by (simp add: addParse_def addWord0_def addWord1_def digitVal_def)
qed

section \<open>Properties\<close>

text \<open>C26: without another action ssh-add adds to the keys of the agent, in their order, keys it has
  read from the files it was given (or the default ones), with the confirmation and the
  lifetime asked for; it ends with 0 exactly when every file has given its key, and with 1
  otherwise.\<close>

theorem sshadd_adds:
  assumes "agentAdds ac keysOf" and "AddRun w ac version cfg typed ag = (out, code, ag')"
    and "ConnectAgent ac = None"
    and "\<not> (adVersion cfg \<or> adList cfg \<or> adListPub cfg \<or> adDeleteAll cfg \<or> adDelete cfg \<or> adLock cfg \<or> adUnlock cfg)"
  shows "\<exists>ks. keysOf ag' = keysOf ag @ ks \<and>
    list_all (\<lambda>k. opensTo w (aaComment k) (aaPrivateKey k) \<and> aaConfirmBeforeUse k = adConfirm cfg \<and>
       aaLifetimeSecs k = adLifetime cfg) ks \<and>
    subseq (map aaComment ks) (filesOr w cfg) \<and>
    (if map aaComment ks = filesOr w cfg then code = Exit 0 else code = Exit 1)"
proof -
  obtain o1 n ag1 where a: "addFiles w ac cfg (filesOr w cfg) typed ag = (o1, n, ag1)"
    by (cases "addFiles w ac cfg (filesOr w cfg) typed ag")
  then have c: "code = Exit n" "ag' = ag1"
    using assms(2-4) by (auto simp: AddRun_def AddKeys_def)
  from addFiles_adds[OF assms(1) a] c show ?thesis
    by (auto simp: addedFrom_def[abs_def])
qed

definition demoAgent :: "(char, char, char AddedKey list) AgentClient" where
  "demoAgent = \<lparr>acList = (\<lambda>ag. Inr []), acAdd = (\<lambda>k ag. (None, ag @ [k])), acRemove = (\<lambda>k ag. (None, ag)),
     acRemoveAll = (\<lambda>ag. (None, [])), acLock = (\<lambda>p ag. (None, ag)), acUnlock = (\<lambda>p ag. (None, ag)),
     acParsePublic = (\<lambda>b. Inl (ErrExt b)), acAuthorizedLine = akBlob, acGetenv = (\<lambda>v. ''/sock''),
     acDial = (\<lambda>p. None)\<rparr>"

definition demoAddWorld :: "(char, char, char) ToolWorld" where
  "demoAddWorld =
     \<lparr>twReadFile = (\<lambda>f. if f = ''k'' then Inr ''apw'' else Inl (ErrExt f)),
      twExists = (\<lambda>f. f = ''k''), twHome = Inr ''/h'', twMkdirAll = (\<lambda>d. None), twWriteFile = (\<lambda>f. None),
      twGenerate = (\<lambda>spec. Inr CHR ''n''), twParseRaw = (\<lambda>d. Inl (ErrExt ''passphrase'')),
      twPassphraseMissing = (\<lambda>e. True),
      twParseRawWith = (\<lambda>d p. if p = ''pw'' then Inr CHR ''a'' else Inl (ErrExt ''wrong'')),
      twParseSigner = (\<lambda>d. Inl (ErrExt ''signer'')), twParseSignerWith = (\<lambda>d p. Inl (ErrExt ''signer'')),
      twPublicOf = Inr, twMarshalKey = (\<lambda>k c. Inr k), twMarshalKeyWith = (\<lambda>k c p. Inr k),
      twEncode = (\<lambda>b. [b]), twParseAuthorized = (\<lambda>d. Inl (ErrExt ''no key'')),
      twMarshalAuthorized = (\<lambda>k. [k]), twSHA256 = (\<lambda>k. [k]), twMD5 = (\<lambda>k. [k]),
      twCrypto = (\<lambda>k. Some Ed25519Public), twKeyType = (\<lambda>k. ''ssh-ed25519'')\<rparr>"

theorem sshadd_adds_witness:
  "\<exists>ks. snd (snd (addMain demoAddWorld demoAgent ''1'' [''-c'', ''k'', ''gone'']
      [Inr ''no'', Inr ''pw''] [])) = ks \<and> subseq (map aaComment ks) [''k'', ''gone''] \<and>
     list_all aaConfirmBeforeUse ks \<and> ks \<noteq> []"
proof -
  let ?cfg = "addParse [''-c'', ''k'', ''gone''] emptyAdd"
  let ?r = "AddRun demoAddWorld demoAgent ''1'' ?cfg [Inr ''no'', Inr ''pw''] []"
  have a: "agentAdds demoAgent (\<lambda>ag. ag)" by (simp add: agentAdds_def demoAgent_def)
  have c: "ConnectAgent demoAgent = None" by (simp add: ConnectAgent_def demoAgent_def)
  have n: "\<not> (adVersion ?cfg \<or> adList ?cfg \<or> adListPub ?cfg \<or> adDeleteAll ?cfg \<or> adDelete ?cfg \<or> adLock ?cfg \<or> adUnlock ?cfg)"
    and f: "filesOr demoAddWorld ?cfg = [''k'', ''gone'']" "adConfirm ?cfg" by code_simp+
  have s: "snd (snd ?r) \<noteq> []" by code_simp
  have "?r = (fst ?r, fst (snd ?r), snd (snd ?r))" by simp
  from sshadd_adds[OF a this c n] f s show ?thesis
    by (auto simp: addMain_def list_all_iff)
qed

end
