(* ===== verification/SshAgent.thy ===== *)
theory SshAgent
  imports ToolKeys
begin

text \<open>
  \<^verbatim>\<open>ssh-agent\<close> (\<^verbatim>\<open>pkg/sshagent\<close>): its arguments, the socket it listens on and removes, the
  environment it prints, and the three ways it runs: around a command, in the foreground,
  and as a child started by a parent that returns.  The keys and the protocol are the SSH
  library's.  The operating system is an argument (record \<^verbatim>\<open>AgentWorld\<close>).
\<close>

section \<open>Arguments\<close>

record AgentConfig =
  agKill :: bool
  agForeground :: bool
  agShell :: string
  agBindAddr :: string
  agCommand :: "string list"
  agVersion :: bool

definition emptyAgent :: AgentConfig where
  "emptyAgent = \<lparr>agKill = False, agForeground = False, agShell = [], agBindAddr = [], agCommand = [], agVersion = False\<rparr>"

definition agentWord0 :: "string \<Rightarrow> (AgentConfig \<Rightarrow> AgentConfig) option" where
  "agentWord0 = map_of
     [(''-k'', \<lambda>c. c\<lparr>agKill := True\<rparr>),
      (''-D'', \<lambda>c. c\<lparr>agForeground := True\<rparr>),
      (''-d'', \<lambda>c. c\<lparr>agForeground := True\<rparr>),
      (''-s'', \<lambda>c. c\<lparr>agShell := ''bourne''\<rparr>),
      (''-c'', \<lambda>c. c\<lparr>agShell := ''csh''\<rparr>),
      (''-V'', \<lambda>c. c\<lparr>agVersion := True\<rparr>)]"

definition agentWord1 :: "string \<Rightarrow> (string \<Rightarrow> AgentConfig \<Rightarrow> AgentConfig) option" where
  "agentWord1 = map_of [(''-a'', \<lambda>v c. c\<lparr>agBindAddr := v\<rparr>)]"

text \<open>The rest of the line, from the first word that is no option or behind a double dash, is
  the command.\<close>

definition agentOther :: "string \<Rightarrow> string list \<Rightarrow> AgentConfig \<Rightarrow> bool \<times> AgentConfig" where
  "agentOther w ws c =
     (if w = ''--'' then (False, if ws \<noteq> [] then c\<lparr>agCommand := ws\<rparr> else c)
      else if \<not> hasPrefix w ''-'' then (False, c\<lparr>agCommand := w # ws\<rparr>)
      else (True, c))"

definition agentArgs :: "string list \<Rightarrow> AgentConfig \<Rightarrow> AgentConfig" where
  "agentArgs = wordLoop agentWord0 agentWord1 agentOther"

definition DetectShell :: "string \<Rightarrow> string" where
  "DetectShell shell =
     (if hasSuffix shell ''csh'' \<or> hasSuffix shell ''tcsh'' \<or> hasSuffix shell ''fish'' then ''csh'' else ''bourne'')"

definition agentParse :: "string \<Rightarrow> string list \<Rightarrow> AgentConfig \<Rightarrow> AgentConfig" where
  "agentParse shell args c = agentArgs args (if agShell c = [] then c\<lparr>agShell := DetectShell shell\<rparr> else c)"

interpretation ag: word_cli agentWord0 agentWord1 agentArgs
  unfolding agentArgs_def by (rule wordLoop_laws)

section \<open>The world\<close>

datatype ChildEnd = ChildOk | ChildExit int | ChildError go_error

record AgentWorld =
  avGetenv :: "string \<Rightarrow> string"
  avEnviron :: "string list"
  avMkdirTemp :: "go_error + string"
  avPid :: int
  avListen :: "string \<Rightarrow> go_error option"
  avExecutable :: "go_error + string"
  avStart :: "string list \<Rightarrow> string list \<Rightarrow> go_error + int"
  avRun :: "string list \<Rightarrow> string list \<Rightarrow> ChildEnd"
  avFindProcess :: "int \<Rightarrow> go_error option"
  avSignal :: "int \<Rightarrow> go_error option"

datatype AgentAct =
  ListenOn string | ChmodSocket string | ServeKeys | CloseListener | RemovePath string |
  AwaitSignal | StartChild "string list" "string list" | RunChild "string list" "string list" | SignalTerm int

type_synonym agent_result = "AgentAct tool_result"

definition agentFails :: "go_error \<Rightarrow> agent_result" where
  "agentFails err = ([toolErr ''ssh-agent'' err], Exit 1)"

definition agentSays :: "string \<Rightarrow> agent_result" where
  "agentSays msg = ([ErrText (''ssh-agent: '' @ msg @ newline)], Exit 1)"

section \<open>Operations\<close>

definition PrintEnv :: "string \<Rightarrow> int \<Rightarrow> string \<Rightarrow> AgentAct ToolOut list" where
  "PrintEnv socketPath pid shell =
     (if shell = ''csh'' then
        [OutText (''setenv SSH_AUTH_SOCK '' @ socketPath @ '';'' @ newline),
         OutText (''setenv SSH_AGENT_PID '' @ itoaInt pid @ '';'' @ newline)]
      else
        [OutText (''SSH_AUTH_SOCK='' @ socketPath @ ''; export SSH_AUTH_SOCK;'' @ newline),
         OutText (''SSH_AGENT_PID='' @ itoaInt pid @ ''; export SSH_AGENT_PID;'' @ newline)]) @
     [OutText (''echo Agent pid '' @ itoaInt pid @ '';'' @ newline)]"

definition cleanupSocket :: "string \<Rightarrow> AgentAct ToolOut list" where
  "cleanupSocket socketPath =
     (let dir = pathDir socketPath
      in Act (RemovePath socketPath) #
         (if hasPrefix (pathBase dir) ''ssh-agent-'' then [Act (RemovePath dir)] else []))"

text \<open>The connections served: those accepted before the first error.\<close>

primrec serveAgent :: "(go_error + 'conn) list \<Rightarrow> 'conn list" where
  "serveAgent [] = []"
| "serveAgent (a # as) = (case a of Inl err \<Rightarrow> [] | Inr conn \<Rightarrow> conn # serveAgent as)"

definition StartForeground :: "AgentWorld \<Rightarrow> string \<Rightarrow> string \<Rightarrow> agent_result" where
  "StartForeground w socketPath shell =
     (PrintEnv socketPath (avPid w) shell @ [Act ServeKeys, Act AwaitSignal, Act CloseListener] @
        cleanupSocket socketPath, Exit 0)"

definition childEnv :: "AgentWorld \<Rightarrow> string \<Rightarrow> string list" where
  "childEnv w socketPath =
     avEnviron w @ [''SSH_AUTH_SOCK='' @ socketPath, ''SSH_AGENT_PID='' @ itoaInt (avPid w)]"

definition runWithChild :: "AgentWorld \<Rightarrow> string \<Rightarrow> string list \<Rightarrow> agent_result" where
  "runWithChild w socketPath command =
     (let env = childEnv w socketPath;
          (err, exitCode) =
            (case avRun w command env of
               ChildOk \<Rightarrow> ([], 0)
             | ChildExit code \<Rightarrow> ([], code)
             | ChildError err \<Rightarrow> ([toolErr ''ssh-agent'' err], 1))
      in ([Act ServeKeys, Act (RunChild command env)] @ err @ [Act CloseListener] @ cleanupSocket socketPath,
          Exit exitCode))"

definition daemonArgv :: "string \<Rightarrow> string \<Rightarrow> string list" where
  "daemonArgv exe socketPath = [exe, ''-D'', ''-a'', socketPath]"

definition runDaemon :: "AgentWorld \<Rightarrow> string \<Rightarrow> string \<Rightarrow> agent_result" where
  "runDaemon w socketPath shell =
     (if avGetenv w ''_SSH_AGENT_DAEMON'' \<noteq> [] then StartForeground w socketPath shell
      else
        outThen [Act CloseListener]
          (case avExecutable w of
             Inl err \<Rightarrow> agentFails err
           | Inr exe \<Rightarrow>
               (let argv = daemonArgv exe socketPath; env = avEnviron w @ [''_SSH_AGENT_DAEMON=1'']
                in outThen [Act (StartChild argv env)]
                     (case avStart w argv env of
                        Inl err \<Rightarrow> agentFails err
                      | Inr pid \<Rightarrow> (PrintEnv socketPath pid shell, Exit 0)))))"

definition KillAgent :: "AgentWorld \<Rightarrow> agent_result" where
  "KillAgent w =
     (let pidStr = avGetenv w ''SSH_AGENT_PID''
      in if pidStr = [] then agentSays ''SSH_AGENT_PID not set, cannot kill agent''
         else case atoi pidStr of
           None \<Rightarrow> agentSays (''bad PID: '' @ pidStr)
         | Some pid \<Rightarrow>
             (case avFindProcess w pid of
                Some err \<Rightarrow> agentSays (''cannot find process '' @ itoaInt pid @ '': '' @ errText err)
              | None \<Rightarrow>
                  outThen [Act (SignalTerm pid)]
                    (case avSignal w pid of
                       Some err \<Rightarrow> agentSays (''cannot signal process '' @ itoaInt pid @ '': '' @ errText err)
                     | None \<Rightarrow>
                         ((if DetectShell (avGetenv w ''SHELL'') = ''csh'' then
                             [OutText (''unsetenv SSH_AUTH_SOCK;'' @ newline), OutText (''unsetenv SSH_AGENT_PID;'' @ newline)]
                           else
                             [OutText (''unset SSH_AUTH_SOCK;'' @ newline), OutText (''unset SSH_AGENT_PID;'' @ newline)]) @
                          [OutText (''echo Agent pid '' @ itoaInt pid @ '' killed;'' @ newline)], Exit 0))))"

definition socketOf :: "AgentWorld \<Rightarrow> AgentConfig \<Rightarrow> go_error + string" where
  "socketOf w cfg =
     (if agBindAddr cfg = []
      then map_sum id (\<lambda>dir. pathJoin [dir, ''agent.'' @ itoaInt (avPid w)]) (avMkdirTemp w)
      else Inr (agBindAddr cfg))"

text \<open>What runs once the socket is there; the listener is closed when it returns.\<close>

definition agentServe :: "AgentWorld \<Rightarrow> AgentConfig \<Rightarrow> string \<Rightarrow> agent_result" where
  "agentServe w cfg socketPath =
     (let (out, code) =
            (if agCommand cfg \<noteq> [] then runWithChild w socketPath (agCommand cfg)
             else if agForeground cfg then StartForeground w socketPath (agShell cfg)
             else runDaemon w socketPath (agShell cfg))
      in (out @ [Act CloseListener], code))"

definition AgentRun :: "AgentWorld \<Rightarrow> string \<Rightarrow> AgentConfig \<Rightarrow> agent_result" where
  "AgentRun w version cfg =
     (if agVersion cfg then ([OutText (''ssh-agent (sshconf) '' @ version @ newline)], Exit 0)
      else if agKill cfg then KillAgent w
      else case socketOf w cfg of
        Inl err \<Rightarrow> agentFails err
      | Inr socketPath \<Rightarrow>
          outThen [Act (ListenOn socketPath)]
            (case avListen w socketPath of
               Some err \<Rightarrow> agentSays (''cannot listen on '' @ socketPath @ '': '' @ errText err)
             | None \<Rightarrow> outThen [Act (ChmodSocket socketPath)] (agentServe w cfg socketPath)))"

definition agentMain :: "AgentWorld \<Rightarrow> string \<Rightarrow> string list \<Rightarrow> agent_result" where
  "agentMain w version argv = AgentRun w version (agentParse (avGetenv w ''SHELL'') argv emptyAgent)"

section \<open>Lemmas\<close>

lemma agent_simps [simp]:
  "agentFails err = ([toolErr ''ssh-agent'' err], Exit 1)"
  "agentSays msg = ([ErrText (''ssh-agent: '' @ msg @ newline)], Exit 1)"
  "acts (PrintEnv s pid sh) = []"
  by (simp_all add: agentFails_def agentSays_def PrintEnv_def)

lemma Act_PrintEnv [simp]: "Act a \<notin> set (PrintEnv s pid sh)"
  by (simp add: PrintEnv_def)

text \<open>The child the daemon starts listens on the socket of its parent and serves in the
  foreground, whatever else the environment says, but it prints for the shell it detects.\<close>

lemma daemon_child_config:
  assumes "daemonArgv exe sock = exe # argv"
  shows "agentParse shell argv emptyAgent =
    emptyAgent\<lparr>agShell := DetectShell shell, agForeground := True, agBindAddr := sock\<rparr>"
proof -
  have argv: "argv = concat (map wordsOf [Word ''-D'', WordArg ''-a'' sock]) @ []"
    using assms by (simp add: daemonArgv_def)
  have "list_all (wfWord agentWord0 agentWord1) [Word ''-D'', WordArg ''-a'' sock]"
    by (simp add: agentWord0_def agentWord1_def)
  from ag.loop_options[OF this] show ?thesis
    unfolding agentParse_def argv
    by (simp add: ag.loop_Nil emptyAgent_def agentWord0_def agentWord1_def del: append_Nil2)
qed

lemma daemon_child_runs:
  assumes "sock \<noteq> []" and "avListen w sock = None"
  shows "AgentRun w version (emptyAgent\<lparr>agShell := shell, agForeground := True, agBindAddr := sock\<rparr>) =
    ([Act (ListenOn sock), Act (ChmodSocket sock)] @ fst (StartForeground w sock shell) @ [Act CloseListener], Exit 0)"
  using assms
  by (simp add: AgentRun_def socketOf_def agentServe_def emptyAgent_def StartForeground_def outThen_def)

section \<open>Properties\<close>

text \<open>C34: when ssh-agent returns with 0 after starting itself as a child, the variables it has
  printed name the process it has started and a socket, and that process, given the
  arguments it was started with, listens on this socket, serves, and removes the socket
  when it is told to end.\<close>

theorem agent_daemon_serves:
  assumes "AgentRun w version cfg = (out, Exit 0)" and "Act (StartChild argv env) \<in> set out"
    and "avListen child (last argv) = None" and "last argv \<noteq> []"
  shows "\<exists>exe sock pid. argv = exe # tl argv \<and> sock = last argv \<and> socketOf w cfg = Inr sock \<and>
    avStart w argv env = Inr pid \<and>
    out = [Act (ListenOn sock), Act (ChmodSocket sock), Act CloseListener, Act (StartChild argv env)] @
          PrintEnv sock pid (agShell cfg) @ [Act CloseListener] \<and>
    acts (fst (agentMain child version (tl argv))) =
      [ListenOn sock, ChmodSocket sock, ServeKeys, AwaitSignal, CloseListener] @
      acts (cleanupSocket sock) @ [CloseListener]"
proof -
  have n: "Act a \<notin> set (fst (KillAgent w))" if "\<And>p. a \<noteq> SignalTerm p" for a
    using that by (auto simp: KillAgent_def Let_def toolErr_def split: option.splits if_splits)
  have v: "\<not> agVersion cfg" "\<not> agKill cfg"
    using assms(1,2) n[of "StartChild argv env"] by (auto simp: AgentRun_def split: if_splits)
  then obtain sock where s: "socketOf w cfg = Inr sock" "avListen w sock = None"
    using assms(1) by (auto simp: AgentRun_def outThen_def split: sum.splits option.splits)
  obtain o1 where o1: "agentServe w cfg sock = (o1, Exit 0)"
    "out = [Act (ListenOn sock), Act (ChmodSocket sock)] @ o1"
    using assms(1) v s by (auto simp: AgentRun_def outThen_def) (metis prod.collapse)
  have c: "agCommand cfg = []" "\<not> agForeground cfg" "avGetenv w ''_SSH_AGENT_DAEMON'' = []"
    using o1 assms(2)
    by (auto simp: agentServe_def runWithChild_def StartForeground_def PrintEnv_def cleanupSocket_def
        runDaemon_def toolErr_def Let_def split: if_splits ChildEnd.splits)
  then have d: "o1 = fst (runDaemon w sock (agShell cfg)) @ [Act CloseListener]"
    "snd (runDaemon w sock (agShell cfg)) = Exit 0"
    using o1(1) by (auto simp: agentServe_def split: prod.splits)
  then obtain exe where x: "avExecutable w = Inr exe"
    using c by (auto simp: runDaemon_def split: sum.splits)
  let ?argv = "daemonArgv exe sock" and ?env = "avEnviron w @ [''_SSH_AGENT_DAEMON=1'']"
  obtain pid where p: "avStart w ?argv ?env = Inr pid"
    using d c x by (auto simp: runDaemon_def Let_def split: sum.splits)
  have out: "out = [Act (ListenOn sock), Act (ChmodSocket sock), Act CloseListener, Act (StartChild ?argv ?env)] @
      PrintEnv sock pid (agShell cfg) @ [Act CloseListener]"
    using o1(2) d c x p by (simp add: runDaemon_def Let_def)
  have a: "argv = ?argv" "env = ?env"
    using assms(2) by (simp_all add: out)
  have l: "last argv = sock" "argv = exe # tl argv" by (simp_all add: a daemonArgv_def)
  have "agentMain child version (tl argv) =
      ([Act (ListenOn sock), Act (ChmodSocket sock)] @
        fst (StartForeground child sock (DetectShell (avGetenv child ''SHELL''))) @ [Act CloseListener], Exit 0)"
    using daemon_child_config[of exe sock "tl argv"] l a daemon_child_runs[of sock child] assms(3,4)
    by (simp add: agentMain_def)
  then have "acts (fst (agentMain child version (tl argv))) =
      [ListenOn sock, ChmodSocket sock, ServeKeys, AwaitSignal, CloseListener] @
      acts (cleanupSocket sock) @ [CloseListener]"
    by (simp add: StartForeground_def)
  note child = this
  show ?thesis
  proof (intro exI conjI)
    show "argv = exe # tl argv" by (rule l(2))
    show "sock = last argv" by (simp add: l(1))
    show "socketOf w cfg = Inr sock" by (rule s(1))
    show "avStart w argv env = Inr pid" using p a by simp
    show "out = [Act (ListenOn sock), Act (ChmodSocket sock), Act CloseListener, Act (StartChild argv env)] @
          PrintEnv sock pid (agShell cfg) @ [Act CloseListener]" using out a by simp
  qed (rule child)
qed

text \<open>Around a command: the command sees the socket and the process of the agent in its
  environment, the socket is closed and removed when it ends, with its directory if that
  is one of the agent's own, and its exit code is the agent's.\<close>

lemma agent_around_command:
  assumes "agCommand cfg \<noteq> []" and "\<not> agVersion cfg" and "\<not> agKill cfg"
    and "socketOf w cfg = Inr sock" and "avListen w sock = None"
    and "avRun w (agCommand cfg) (childEnv w sock) = ChildExit code"
  shows "AgentRun w version cfg =
    ([Act (ListenOn sock), Act (ChmodSocket sock), Act ServeKeys, Act (RunChild (agCommand cfg) (childEnv w sock)),
      Act CloseListener] @ cleanupSocket sock @ [Act CloseListener], Exit code)"
  using assms by (simp add: AgentRun_def agentServe_def runWithChild_def outThen_def Let_def)

text \<open>A directory made for the socket stays behind when it cannot be listened on.\<close>

lemma agent_directory_left:
  assumes "avMkdirTemp w = Inr dir" and "agBindAddr cfg = []" and "\<not> agVersion cfg" and "\<not> agKill cfg"
    and "avListen w (pathJoin [dir, ''agent.'' @ itoaInt (avPid w)]) = Some err"
  shows "RemovePath p \<notin> set (acts (fst (AgentRun w version cfg)))"
  using assms by (simp add: AgentRun_def socketOf_def outThen_def)

definition demoAgentWorld :: AgentWorld where
  "demoAgentWorld = \<lparr>avGetenv = (\<lambda>v. []), avEnviron = [], avMkdirTemp = Inr ''/tmp/ssh-agent-1'', avPid = 7,
     avListen = (\<lambda>p. None), avExecutable = Inr ''/ssh-agent'', avStart = (\<lambda>a e. Inr 8),
     avRun = (\<lambda>a e. ChildOk), avFindProcess = (\<lambda>p. None), avSignal = (\<lambda>p. None)\<rparr>"

theorem agent_daemon_serves_witness:
  "\<exists>argv env sock. Act (StartChild argv env) \<in> set (fst (agentMain demoAgentWorld ''1'' [])) \<and>
     ListenOn sock \<in> set (acts (fst (agentMain demoAgentWorld ''1'' (tl argv)))) \<and>
     RemovePath sock \<in> set (acts (fst (agentMain demoAgentWorld ''1'' (tl argv))))"
proof -
  let ?cfg = "agentParse [] [] emptyAgent"
  let ?r = "AgentRun demoAgentWorld ''1'' ?cfg"
  let ?argv = "[''/ssh-agent'', ''-D'', ''-a'', ''/tmp/ssh-agent-1/agent.7'']"
  have r: "snd ?r = Exit 0" and s: "Act (StartChild ?argv [''_SSH_AGENT_DAEMON=1'']) \<in> set (fst ?r)"
    by code_simp+
  have "?r = (fst ?r, Exit 0)" using r by (metis prod.collapse)
  note e = this
  have l: "avListen demoAgentWorld (last ?argv) = None" "last ?argv \<noteq> []" by (simp_all add: demoAgentWorld_def)
  from agent_daemon_serves[OF e s l] obtain sock where
    "acts (fst (agentMain demoAgentWorld ''1'' (tl ?argv))) =
      [ListenOn sock, ChmodSocket sock, ServeKeys, AwaitSignal, CloseListener] @
      acts (cleanupSocket sock) @ [CloseListener]" by blast
  then have "ListenOn sock \<in> set (acts (fst (agentMain demoAgentWorld ''1'' (tl ?argv))))"
    "RemovePath sock \<in> set (acts (fst (agentMain demoAgentWorld ''1'' (tl ?argv))))"
    by (simp_all add: cleanupSocket_def Let_def)
  moreover have "agentMain demoAgentWorld ''1'' [] = ?r" by (simp add: agentMain_def demoAgentWorld_def)
  ultimately show ?thesis using s by (metis list.sel(3))
qed

end
