(* ===== verification/SshKeyscan.thy ===== *)
theory SshKeyscan
  imports ToolKeys ConfParser Dialer "HOL-Library.Multiset"
begin

text \<open>
  \<^verbatim>\<open>ssh-keyscan\<close> (\<^verbatim>\<open>pkg/sshkeyscan\<close>): its arguments, the scan of one host for one type of key,
  and the run that scans all hosts for all types at once.  The network and the SSH library
  are an argument (record \<^verbatim>\<open>ScanWorld\<close>).  The scans are goroutines that each print under a
  mutex, so the order of what they print is a schedule, an argument too.
\<close>

section \<open>Arguments\<close>

record ScanConfig =
  scAddressFamily :: string
  scHosts :: "string list"
  scHostFile :: string
  scPort :: int
  scTimeout :: int
  scKeyTypes :: "string list"
  scHashHosts :: bool
  scVerbose :: bool
  scVersion :: bool
  scDialerConfig :: DialConfig

definition emptyScan :: ScanConfig where
  "emptyScan = \<lparr>scAddressFamily = [], scHosts = [], scHostFile = [], scPort = 0, scTimeout = 0, scKeyTypes = [],
     scHashHosts = False, scVerbose = False, scVersion = False, scDialerConfig = emptyDialConfig\<rparr>"

definition scanWord0 :: "string \<Rightarrow> (ScanConfig \<Rightarrow> ScanConfig) option" where
  "scanWord0 = map_of
     [(''-H'', \<lambda>c. c\<lparr>scHashHosts := True\<rparr>),
      (''-v'', \<lambda>c. c\<lparr>scVerbose := True\<rparr>),
      (''-4'', \<lambda>c. c\<lparr>scAddressFamily := ''inet''\<rparr>),
      (''-6'', \<lambda>c. c\<lparr>scAddressFamily := ''inet6''\<rparr>),
      (''-V'', \<lambda>c. c\<lparr>scVersion := True\<rparr>)]"

text \<open>A copy of the function of \<^verbatim>\<open>ssh-keygen\<close>, as the loop of the code.\<close>

primrec scanTypes :: "string list \<Rightarrow> string list \<Rightarrow> string list" where
  "scanTypes [] result = result"
| "scanTypes (s # ss) result =
     (let t = trimSpace s; l = toLower t
      in scanTypes ss (result @
           [if l = ''rsa'' then ''ssh-rsa''
            else if l = ''ecdsa'' then ''ecdsa-sha2-nistp256''
            else if l = ''ed25519'' then ''ssh-ed25519''
            else t]))"

definition scanParseKeyTypes :: "string \<Rightarrow> string list" where
  "scanParseKeyTypes spec = scanTypes (split spec CHR '','') []"

lemma scanTypes_map: "scanTypes ss result = result @ map keyTypeAlgorithm ss"
  by (induction ss arbitrary: result) (simp_all add: keyTypeAlgorithm_def Let_def)

lemma scan_copy_agrees: "scanParseKeyTypes spec = ParseKeyTypes spec"
  by (simp add: scanParseKeyTypes_def ParseKeyTypes_def scanTypes_map)

definition scanWord1 :: "string \<Rightarrow> (string \<Rightarrow> ScanConfig \<Rightarrow> ScanConfig) option" where
  "scanWord1 = map_of
     [(''-f'', \<lambda>v c. c\<lparr>scHostFile := v\<rparr>),
      (''-p'', \<lambda>v c. c\<lparr>scPort := atoiValue v\<rparr>),
      (''-T'', \<lambda>v c. c\<lparr>scTimeout := atoiValue v\<rparr>),
      (''-t'', \<lambda>v c. c\<lparr>scKeyTypes := scanParseKeyTypes v\<rparr>)]"

definition scanOther :: "string \<Rightarrow> string list \<Rightarrow> ScanConfig \<Rightarrow> bool \<times> ScanConfig" where
  "scanOther w ws c = (True, if hasPrefix w ''-'' then c else c\<lparr>scHosts := scHosts c @ [w]\<rparr>)"

definition scanArgs :: "string list \<Rightarrow> ScanConfig \<Rightarrow> ScanConfig" where
  "scanArgs = wordLoop scanWord0 scanWord1 scanOther"

definition scanDefaults :: "ScanConfig \<Rightarrow> ScanConfig" where
  "scanDefaults c =
     (let c1 = (if scAddressFamily c = [] then c\<lparr>scAddressFamily := ''any''\<rparr> else c);
          c2 = (if scPort c1 = 0 then c1\<lparr>scPort := 22\<rparr> else c1)
      in if scTimeout c2 = 0 then c2\<lparr>scTimeout := 5\<rparr> else c2)"

definition scanSeconds :: "int \<Rightarrow> int" where
  "scanSeconds n = wrap64 (n * 1000000000)"

definition buildScanDialer :: "ScanConfig \<Rightarrow> DialConfig" where
  "buildScanDialer c =
     emptyDialConfig\<lparr>dcAddressFamily := scAddressFamily c, dcConnectTimeout := scanSeconds (scTimeout c)\<rparr>"

definition refreshScanDialer :: "ScanConfig \<Rightarrow> ScanConfig" where
  "refreshScanDialer c =
     c\<lparr>scDialerConfig := (buildScanDialer c)\<lparr>dcWrapper := dcWrapper (scDialerConfig c)\<rparr>\<rparr>"

definition scanParse :: "string list \<Rightarrow> ScanConfig \<Rightarrow> ScanConfig" where
  "scanParse args c = refreshScanDialer (scanArgs args (scanDefaults c))"

interpretation sk: word_cli scanWord0 scanWord1 scanArgs
  unfolding scanArgs_def by (rule wordLoop_laws)

section \<open>One scan\<close>

text \<open>The dialer connects or not; a handshake, with the host key algorithm offered and the
  time until the connection is cut, shows a host key or not and ends with an error or
  not.\<close>

record 'pub ScanWorld =
  svDial :: "Dialer \<Rightarrow> string \<Rightarrow> string \<Rightarrow> go_error option"
  svHandshake :: "string \<Rightarrow> string \<Rightarrow> int \<Rightarrow> 'pub option \<times> go_error option"
  svMarshalAuthorized :: "'pub \<Rightarrow> string"
  svHashHostname :: "string \<Rightarrow> string"
  svOpen :: "string \<Rightarrow> go_error + string"
  svStdin :: string

definition scanHostKey ::
  "'pub ScanWorld \<Rightarrow> ScanConfig \<Rightarrow> string \<Rightarrow> string \<Rightarrow> Dialer \<Rightarrow> int \<Rightarrow> go_error + string" where
  "scanHostKey w cfg host keyType dialer timeout =
     (let addr = JoinHostPort host (itoaInt (scPort cfg))
      in case svDial w dialer ''tcp'' addr of
           Some err \<Rightarrow> Inl (Wrapf ''connect: %w'' [] err)
         | None \<Rightarrow>
             (case svHandshake w addr keyType timeout of
                (Some key, _) \<Rightarrow> Inr (trimSpace (svMarshalAuthorized w key))
              | (None, Some err) \<Rightarrow> Inl (Wrapf ''handshake: %w'' [] err)
              | (None, None) \<Rightarrow> Inl (Errorf ''no host key received'' [])))"

definition ScanHostKey :: "'pub ScanWorld \<Rightarrow> ScanConfig \<Rightarrow> string \<Rightarrow> string \<Rightarrow> go_error + string" where
  "ScanHostKey w cfg host keyType =
     scanHostKey w cfg host keyType (GetDialer (scDialerConfig cfg)) (scanSeconds (scTimeout cfg))"

text \<open>The exported function, with the time-out as a duration.\<close>

definition ScanHostKeyOf :: "'pub ScanWorld \<Rightarrow> string \<Rightarrow> int \<Rightarrow> string \<Rightarrow> int \<Rightarrow> go_error + string" where
  "ScanHostKeyOf w host port keyType timeout =
     (let cfg = refreshScanDialer
                  (emptyScan\<lparr>scAddressFamily := ''any'', scPort := port, scTimeout := sgn timeout * (\<bar>timeout\<bar> div 1000000000)\<rparr>)
      in scanHostKey w cfg host keyType (GetDialer (scDialerConfig cfg)) timeout)"

section \<open>The run\<close>

definition knownLine :: "'pub ScanWorld \<Rightarrow> ScanConfig \<Rightarrow> string \<Rightarrow> string \<Rightarrow> string" where
  "knownLine w cfg host key =
     (if scHashHosts cfg then svHashHostname w host
      else if scPort cfg \<noteq> 22 then ''['' @ host @ '']:'' @ itoaInt (scPort cfg)
      else host) @ '' '' @ key @ newline"

definition scanJob :: "'pub ScanWorld \<Rightarrow> ScanConfig \<Rightarrow> string \<times> string \<Rightarrow> unit ToolOut list" where
  "scanJob w cfg job =
     (let (host, keyType) = job
      in case ScanHostKey w cfg host keyType of
           Inl err \<Rightarrow>
             if scVerbose cfg then
               [ErrText (''# '' @ host @ '':'' @ itoaInt (scPort cfg) @ '' '' @ keyType @ '': '' @ errText err @ newline)]
             else []
         | Inr key \<Rightarrow> [OutText (knownLine w cfg host key)])"

definition scanUsage :: string where
  "scanUsage = ''usage: ssh-keyscan [-46cDHv] [-f file] [-O option] [-p port] [-T timeout] [-t type] '' @
     ''[host | addrlist namelist]'' @ newline"

definition keyTypesOf :: "ScanConfig \<Rightarrow> string list" where
  "keyTypesOf cfg =
     (if scKeyTypes cfg = [] then [''ssh-ed25519'', ''ecdsa-sha2-nistp256'', ''ssh-rsa''] else scKeyTypes cfg)"

definition fileHosts :: "string \<Rightarrow> string list" where
  "fileHosts text = filter (\<lambda>l. l \<noteq> [] \<and> \<not> hasPrefix l ''#'') (map trimSpace (fst (scanLines text)))"

definition hostsOf :: "'pub ScanWorld \<Rightarrow> ScanConfig \<Rightarrow> go_error + string list" where
  "hostsOf w cfg =
     (if scHostFile cfg = [] then Inr (scHosts cfg)
      else map_sum id (\<lambda>text. scHosts cfg @ fileHosts text)
             (if scHostFile cfg = ''-'' then Inr (svStdin w) else svOpen w (scHostFile cfg)))"

definition scanJobs :: "ScanConfig \<Rightarrow> string list \<Rightarrow> (string \<times> string) list" where
  "scanJobs cfg hosts = concat (map (\<lambda>host. map (\<lambda>keyType. (host, keyType)) (keyTypesOf cfg)) hosts)"

definition ScanRun ::
  "'pub ScanWorld \<Rightarrow> string \<Rightarrow> ((string \<times> string) list \<Rightarrow> (string \<times> string) list) \<Rightarrow> ScanConfig \<Rightarrow> unit tool_result" where
  "ScanRun w version schedule cfg =
     (if scVersion cfg then ([OutText (''ssh-keyscan (sshconf) '' @ version @ newline)], Exit 0)
      else if scHosts cfg = [] \<and> scHostFile cfg = [] then ([ErrText scanUsage], Exit 1)
      else case hostsOf w cfg of
        Inl err \<Rightarrow> ([toolErr ''ssh-keyscan'' err], Exit 1)
      | Inr hosts \<Rightarrow> (concat (map (scanJob w cfg) (schedule (scanJobs cfg hosts))), Exit 0))"

definition scanMain ::
  "'pub ScanWorld \<Rightarrow> string \<Rightarrow> ((string \<times> string) list \<Rightarrow> (string \<times> string) list) \<Rightarrow> string list \<Rightarrow> unit tool_result" where
  "scanMain w version schedule argv = ScanRun w version schedule (scanParse argv emptyScan)"

section \<open>Lemmas\<close>

definition isSchedule :: "('j list \<Rightarrow> 'j list) \<Rightarrow> bool" where
  "isSchedule s \<longleftrightarrow> (\<forall>js. mset (s js) = mset js)"

lemma isSchedule_set: "isSchedule s \<Longrightarrow> set (s js) = set js"
  unfolding isSchedule_def by (metis mset_eq_setD)

lemma mset_concat_map: "mset (concat (map f xs)) = sum_mset (image_mset (\<lambda>x. mset (f x)) (mset xs))"
  by (induction xs) auto

lemma scanJobs_iff: "(h, t) \<in> set (scanJobs cfg hosts) \<longleftrightarrow> h \<in> set hosts \<and> t \<in> set (keyTypesOf cfg)"
  by (auto simp: scanJobs_def)

lemma scanJob_line:
  "OutText l \<in> set (scanJob w cfg (h, t)) \<longleftrightarrow> (\<exists>key. ScanHostKey w cfg h t = Inr key \<and> l = knownLine w cfg h key)"
  by (auto simp: scanJob_def split: sum.split)

text \<open>A hashed line is the same whatever the port is.\<close>

lemma hash_forgets_port:
  "scHashHosts cfg \<Longrightarrow> knownLine w (cfg\<lparr>scPort := p\<rparr>) host key = knownLine w (cfg\<lparr>scPort := q\<rparr>) host key"
  by (simp add: knownLine_def)

text \<open>A port or a time-out that is no number becomes nought.\<close>

lemma scan_bad_numbers:
  "unsignedDigits v = None \<Longrightarrow> hd v \<notin> {CHR ''-'', CHR ''+''} \<Longrightarrow> v \<noteq> [] \<Longrightarrow>
   scPort (scanParse [''-p'', v] emptyScan) = 0 \<and> scTimeout (scanParse [''-T'', v] emptyScan) = 0"
  by (cases v) (simp_all add: scanParse_def scanArgs_def scanWord0_def scanWord1_def scanDefaults_def
      emptyScan_def refreshScanDialer_def atoiValue_def Let_def)

section \<open>Properties\<close>


definition demoScan :: "char ScanWorld" where
  "demoScan = \<lparr>svDial = (\<lambda>d n a. None), svHandshake = (\<lambda>a t dl. (Some (hd t), None)),
     svMarshalAuthorized = (\<lambda>k. [k] @ newline), svHashHostname = (\<lambda>h. h), svOpen = (\<lambda>f. Inl (ErrExt f)),
     svStdin = []\<rparr>"


end
