(* ===== verification/SshCopyId.thy ===== *)
theory SshCopyId
  imports ToolKeys ClientConnect
begin

text \<open>
  \<^verbatim>\<open>ssh-copy-id\<close> (\<^verbatim>\<open>pkg/sshcopyid\<close>): its arguments, the public key it installs and where it
  looks for it, and the connection, which it makes as the client does, with the client's
  resolution, dialer, host key check and authentication.  The system, the SSH library and
  the server are arguments (record \<^verbatim>\<open>CopyWorld\<close>).
\<close>

section \<open>Arguments\<close>

record CopyConfig =
  ciIdentityFile :: string
  ciPort :: string
  ciConfigFile :: string
  ciOptions :: "string list"
  ciDryRun :: bool
  ciForceInstall :: bool
  ciDestination :: string
  ciVersion :: bool

definition emptyCopy :: CopyConfig where
  "emptyCopy = \<lparr>ciIdentityFile = [], ciPort = [], ciConfigFile = [], ciOptions = [], ciDryRun = False,
     ciForceInstall = False, ciDestination = [], ciVersion = False\<rparr>"

definition copyWord0 :: "string \<Rightarrow> (CopyConfig \<Rightarrow> CopyConfig) option" where
  "copyWord0 = map_of
     [(''-n'', \<lambda>c. c\<lparr>ciDryRun := True\<rparr>),
      (''-f'', \<lambda>c. c\<lparr>ciForceInstall := True\<rparr>),
      (''-V'', \<lambda>c. c\<lparr>ciVersion := True\<rparr>)]"

definition copyWord1 :: "string \<Rightarrow> (string \<Rightarrow> CopyConfig \<Rightarrow> CopyConfig) option" where
  "copyWord1 = map_of
     [(''-i'', \<lambda>v c. c\<lparr>ciIdentityFile := v\<rparr>),
      (''-p'', \<lambda>v c. c\<lparr>ciPort := v\<rparr>),
      (''-F'', \<lambda>v c. c\<lparr>ciConfigFile := v\<rparr>),
      (''-o'', \<lambda>v c. c\<lparr>ciOptions := ciOptions c @ [v]\<rparr>)]"

definition copyOther :: "string \<Rightarrow> string list \<Rightarrow> CopyConfig \<Rightarrow> bool \<times> CopyConfig" where
  "copyOther w ws c = (True, if hasPrefix w ''-'' then c else c\<lparr>ciDestination := w\<rparr>)"

definition copyParse :: "string list \<Rightarrow> CopyConfig \<Rightarrow> CopyConfig" where
  "copyParse = wordLoop copyWord0 copyWord1 copyOther"

interpretation ci: word_cli copyWord0 copyWord1 copyParse
  unfolding copyParse_def by (rule wordLoop_laws)

definition copyOption :: "string \<Rightarrow> go_error + Directive" where
  "copyOption opt =
     (let parts = splitN2 opt CHR ''='';
          parts' = (if length parts \<noteq> 2 then splitN2 opt CHR '' '' else parts)
      in if length parts' \<noteq> 2 then Inl (Errorf ''invalid -o option: %s'' [opt])
         else Inr \<lparr>dKeyword = trimSpace (parts' ! 0), dValue = trimSpace (parts' ! 1), dSource = noSource\<rparr>)"

definition buildDirectives :: "CopyConfig \<Rightarrow> go_error + Directive list" where
  "buildDirectives c =
     bindE (mapE copyOption (ciOptions c)) (\<lambda>ds.
       Inr ((if ciPort c \<noteq> [] then [\<lparr>dKeyword = ''Port'', dValue = ciPort c, dSource = noSource\<rparr>] else []) @ ds))"

section \<open>The world\<close>

text \<open>\<^verbatim>\<open>cwAgentKeys\<close>: the agent at a socket, its keys as lines with their comments.\<close>

record ('pub, 'cert, 'signer) CopyWorld =
  cwWorld :: World
  cwAlgs :: AlgLib
  cwLib :: "('pub, 'cert, 'signer) KeyLib"
  cwAuthorizedLine :: "'pub \<Rightarrow> string"
  cwGetenv :: "string \<Rightarrow> string"
  cwAgentKeys :: "string \<Rightarrow> go_error + (go_error + (string \<times> string) list)"
  cwHome :: "go_error + string"
  cwHost :: "'pub HostKeyWorld"
  cwConfirm :: "string \<Rightarrow> NetRemote \<Rightarrow> 'pub \<Rightarrow> bool"
  cwAgent :: "string \<Rightarrow> go_error + (go_error + 'signer list)"
  cwPassphrase :: "string \<Rightarrow> go_error + string"
  cwExec :: "string \<Rightarrow> go_error option"
  cwNet :: NetWorld
  cwDial :: "DialPlan \<Rightarrow> go_error option"
  cwHandshake :: "('pub, 'signer) ClientConfig \<Rightarrow> go_error option"
  cwNewSession :: "go_error option"
  cwRunCommand :: "string \<Rightarrow> go_error option"

datatype CopyAct = CopyDial DialPlan | CopyHandshake | CopySession | CopyCommand string

section \<open>The key\<close>

definition defaultPublicKey ::
  "('pub, 'cert, 'signer) CopyWorld \<Rightarrow> go_error + string \<times> string" where
  "defaultPublicKey w =
     (case cwHome w of
        Inl err \<Rightarrow> Inl (Wrapf ''cannot determine home directory: %w'' [] err)
      | Inr home \<Rightarrow>
          (let paths = map (\<lambda>name. pathJoin [home, ''.ssh'', name]) [''id_ed25519.pub'', ''id_ecdsa.pub'', ''id_rsa.pub'']
           in case List.find (\<lambda>p. \<not> isl (klReadFile (cwLib w) p)) paths of
                Some path \<Rightarrow> map_sum id (\<lambda>data. (data, path)) (klReadFile (cwLib w) path)
              | None \<Rightarrow> Inl (Errorf ''no public key found; specify one with -i'' [])))"

definition LoadPublicKey ::
  "('pub, 'cert, 'signer) CopyWorld \<Rightarrow> string \<Rightarrow> go_error + string \<times> string" where
  "LoadPublicKey w identityFile =
     (if identityFile \<noteq> [] then
        (let pubFile = (if hasSuffix identityFile ''.pub'' then identityFile else identityFile @ ''.pub'')
         in case klReadFile (cwLib w) pubFile of
              Inl err \<Rightarrow> Inl (Wrapf ''cannot read public key %s: %w'' [pubFile] err)
            | Inr data \<Rightarrow> Inr (data, pubFile))
      else
        (let socketPath = cwGetenv w ''SSH_AUTH_SOCK''
         in if socketPath = [] then defaultPublicKey w
            else case cwAgentKeys w socketPath of
              Inr (Inr (key # keys)) \<Rightarrow> Inr key
            | _ \<Rightarrow> defaultPublicKey w))"

section \<open>The run\<close>

definition copyErr :: "go_error \<Rightarrow> CopyAct ToolOut" where
  "copyErr err = toolErr ''ssh-copy-id'' err"

definition copyFails :: "go_error \<Rightarrow> CopyAct tool_result" where
  "copyFails err = ([copyErr err], Exit 1)"

definition copyUsage :: string where
  "copyUsage = ''usage: ssh-copy-id [-i identity_file] [-p port] [-o option] [-f] [-n] [-s] user@host'' @ newline"

definition installCmd :: "string \<Rightarrow> string" where
  "installCmd pubKeyLine =
     ''exec sh -c '' @ [CHR 0x27] @
     ''umask 077; mkdir -p ~/.ssh && cat >> ~/.ssh/authorized_keys && echo '' @
     [CHR 0x22] @ ''Key installed successfully'' @ [CHR 0x22, CHR 0x27] @ '' << '' @
     [CHR 0x27] @ ''EOF'' @ [CHR 0x27] @ newline @ pubKeyLine @ newline @ ''EOF''"

definition copyAuthWorld :: "('pub, 'cert, 'signer) CopyWorld \<Rightarrow> 'signer AuthWorld" where
  "copyAuthWorld w = \<lparr>auGetenv = cwGetenv w, auDialAgent = cwAgent w, auGSSAPI = None,
     auUI = Some (cwPassphrase w), auKeyProvider = None, auHostbased = None\<rparr>"

definition copyHostWorld :: "('pub, 'cert, 'signer) CopyWorld \<Rightarrow> 'pub HostKeyWorld" where
  "copyHostWorld w = (cwHost w)\<lparr>hkCallback := None, hkSource := None, hkConfirm := Some (cwConfirm w)\<rparr>"

definition copyLookup :: "('pub, 'cert, 'signer) CopyWorld \<Rightarrow> CopyConfig \<Rightarrow> Directive list \<Rightarrow> Lookup" where
  "copyLookup w cfg dirs =
     (let (destUser, destHost) = ParseDestination (ciDestination cfg)
      in emptyLookup\<lparr>lkHost := destHost, lkUser := destUser,
           lkPort := (if ciPort cfg \<noteq> [] then atoiValue (ciPort cfg) else 0),
           lkOriginalHost := ciDestination cfg, lkVersion := Version, lkCommandLineDirectives := dirs,
           lkCommandExecutor := Some (cwExec w),
           lkUserConfigFile := (if ciConfigFile cfg = [] then []
              else if toLower (ciConfigFile cfg) = ''none'' then ''/dev/null'' else ciConfigFile cfg)\<rparr>)"

text \<open>Over the connection.\<close>

definition copyInstall :: "('pub, 'cert, 'signer) CopyWorld \<Rightarrow> CopyConfig \<Rightarrow> string \<Rightarrow> CopyAct tool_result" where
  "copyInstall w cfg pubKeyLine =
     (case cwNewSession w of
        Some err \<Rightarrow> copyFails (Wrapf ''session error: %v'' [] err)
      | None \<Rightarrow>
          outThen [Act CopySession, Act (CopyCommand (installCmd pubKeyLine))]
            (case cwRunCommand w (installCmd pubKeyLine) of
               Some err \<Rightarrow> copyFails (Wrapf ''failed to install key: %v'' [] err)
             | None \<Rightarrow>
                 ([ErrText (newline @ ''Number of key(s) added: 1'' @ newline @ newline),
                   ErrText (''Now try logging into the machine, with: '' @ [CHR 0x22] @ ''ssh '' @ ciDestination cfg @
                     [CHR 0x22] @ newline)], Exit 0)))"

definition copyConnect ::
  "('pub, 'cert, 'signer) CopyWorld \<Rightarrow> CopyConfig \<Rightarrow> string \<Rightarrow> ClientOptions \<Rightarrow> ('pub, 'signer) ClientConfig \<Rightarrow>
   CopyAct tool_result" where
  "copyConnect w cfg pubKeyLine opts sshConfig =
     (let host = the (cHostname opts); port = itoaInt (the (cPort opts));
          refused = (\<lambda>err. copyFails (Wrapf ''connect to host %s port %d: %v'' [host, port] err))
      in case DialContext (cwNet w) (cDialerConfig opts) ''tcp'' (JoinHostPort host port) of
           Inl err \<Rightarrow> refused err
         | Inr plan \<Rightarrow>
             outThen [Act (CopyDial plan)]
               (case cwDial w plan of
                  Some err \<Rightarrow> refused err
                | None \<Rightarrow>
                    outThen [Act CopyHandshake]
                      (case cwHandshake w sshConfig of
                         Some err \<Rightarrow> copyFails err
                       | None \<Rightarrow> copyInstall w cfg pubKeyLine)))"

text \<open>The key line: what the file or the agent holds, parsed and written again.\<close>

definition copyKeyLine :: "('pub, 'cert, 'signer) CopyWorld \<Rightarrow> CopyConfig \<Rightarrow> go_error + string" where
  "copyKeyLine w cfg =
     bindE (LoadPublicKey w (ciIdentityFile cfg)) (\<lambda>(data, name).
       case klParseAuthorized (cwLib w) data of
         Inl err \<Rightarrow> Inl (Wrapf ''invalid public key: %v'' [] err)
       | Inr (pub, rest) \<Rightarrow> Inr (trimSpace (cwAuthorizedLine w pub)))"

definition CopyRun :: "('pub, 'cert, 'signer) CopyWorld \<Rightarrow> CopyConfig \<Rightarrow> CopyAct tool_result option" where
  "CopyRun w cfg =
     (if ciVersion cfg then Some ([OutText (''ssh-copy-id (sshconf) '' @ Version @ newline)], Exit 0)
      else if ciDestination cfg = [] then Some ([ErrText copyUsage], Exit 1)
      else case copyKeyLine w cfg of
        Inl err \<Rightarrow> Some (copyFails err)
      | Inr line \<Rightarrow>
          if ciDryRun cfg then Some ([OutText (''Would install key: '' @ line @ newline)], Exit 0)
          else case buildDirectives cfg of
            Inl err \<Rightarrow> Some (copyFails err)
          | Inr dirs \<Rightarrow>
              (case Resolve (cwWorld w) (copyLookup w cfg dirs) of
                 Inl err \<Rightarrow> Some (copyFails err)
               | Inr opts \<Rightarrow>
                   map_option (\<lambda>r. case r of Inl err \<Rightarrow> copyFails err | Inr sc \<Rightarrow> copyConnect w cfg line opts sc)
                     (SSHClientConfig (cwAlgs w) (cwLib w) (copyHostWorld w) (copyAuthWorld w) opts)))"

definition copyMain :: "('pub, 'cert, 'signer) CopyWorld \<Rightarrow> string list \<Rightarrow> CopyAct tool_result option" where
  "copyMain w argv = CopyRun w (copyParse argv emptyCopy)"

section \<open>Lemmas\<close>

lemma copyFails_simps [simp]: "fst (copyFails err) = [copyErr err]" "copyErr err \<noteq> Act a" "Act a \<noteq> copyErr err"
    "snd (copyFails err) = Exit 1"
  by (simp_all add: copyFails_def copyErr_def toolErr_def)

lemma copyInstall_command:
  "Act (CopyCommand cmd) \<in> set (fst (copyInstall w cfg line)) \<Longrightarrow> cmd = installCmd line"
  by (auto simp: copyInstall_def split: option.splits)

lemma copyInstall_ok: "snd (copyInstall w cfg line) = Exit 0 \<longleftrightarrow>
    cwNewSession w = None \<and> cwRunCommand w (installCmd line) = None"
  by (simp add: copyInstall_def split: option.split)

lemma copyConnect_command:
  assumes "Act (CopyCommand cmd) \<in> set (fst (copyConnect w cfg line opts sc))"
  shows "cmd = installCmd line \<and> cwHandshake w sc = None \<and>
    (\<exists>plan. DialContext (cwNet w) (cDialerConfig opts) ''tcp''
        (JoinHostPort (the (cHostname opts)) (itoaInt (the (cPort opts)))) = Inr plan \<and> cwDial w plan = None)"
  using assms by (auto simp: copyConnect_def Let_def dest: copyInstall_command split: sum.splits option.splits)

lemma copyKeyLine_from:
  assumes "copyKeyLine w cfg = Inr line"
  shows "\<exists>data name pub rest. LoadPublicKey w (ciIdentityFile cfg) = Inr (data, name) \<and>
    klParseAuthorized (cwLib w) data = Inr (pub, rest) \<and> line = trimSpace (cwAuthorizedLine w pub)"
proof -
  obtain data name where 1: "LoadPublicKey w (ciIdentityFile cfg) = Inr (data, name)"
    using assms by (cases "LoadPublicKey w (ciIdentityFile cfg)") (auto simp: copyKeyLine_def)
  then obtain pub rest where "klParseAuthorized (cwLib w) data = Inr (pub, rest)"
    using assms by (cases "klParseAuthorized (cwLib w) data") (auto simp: copyKeyLine_def)
  with 1 assms show ?thesis by (simp add: copyKeyLine_def)
qed

text \<open>A run that gives a command has come to its connection.\<close>

lemma copyRun_connects:
  assumes "CopyRun w cfg = Some (out, code)" and "Act a \<in> set out"
  shows "\<exists>line dirs opts sc. copyKeyLine w cfg = Inr line \<and> \<not> ciDryRun cfg \<and> buildDirectives cfg = Inr dirs \<and>
    Resolve (cwWorld w) (copyLookup w cfg dirs) = Inr opts \<and>
    SSHClientConfig (cwAlgs w) (cwLib w) (copyHostWorld w) (copyAuthWorld w) opts = Some (Inr sc) \<and>
    (out, code) = copyConnect w cfg line opts sc"
proof -
  have v: "\<not> ciVersion cfg" "ciDestination cfg \<noteq> []"
    using assms by (auto simp: CopyRun_def split: if_splits)
  obtain line where l: "copyKeyLine w cfg = Inr line"
    using assms v by (cases "copyKeyLine w cfg") (auto simp: CopyRun_def copyFails_def)
  have dry: "\<not> ciDryRun cfg" using assms v l by (auto simp: CopyRun_def)
  obtain dirs where d: "buildDirectives cfg = Inr dirs"
    using assms v l dry by (cases "buildDirectives cfg") (auto simp: CopyRun_def copyFails_def)
  obtain opts where r: "Resolve (cwWorld w) (copyLookup w cfg dirs) = Inr opts"
    using assms v l dry d by (cases "Resolve (cwWorld w) (copyLookup w cfg dirs)") (auto simp: CopyRun_def copyFails_def)
  obtain c where c: "SSHClientConfig (cwAlgs w) (cwLib w) (copyHostWorld w) (copyAuthWorld w) opts = Some c"
    using assms v l dry d r by (auto simp: CopyRun_def)
  obtain sc where sc: "c = Inr sc"
    using assms v l dry d r c by (cases c) (auto simp: CopyRun_def copyFails_def)
  have "(out, code) = copyConnect w cfg line opts sc"
    using assms v l dry d r c sc by (simp add: CopyRun_def)
  then show ?thesis using l dry d r c sc by blast
qed

text \<open>The key is installed again when it is there already, and -f changes nothing.\<close>

lemma force_is_ignored: "CopyRun w (cfg\<lparr>ciForceInstall := b\<rparr>) = CopyRun w cfg"
proof -
  have "copyInstall w (cfg\<lparr>ciForceInstall := b\<rparr>) line = copyInstall w cfg line" for line
    by (simp add: copyInstall_def split: option.split)
  then have "copyKeyLine w (cfg\<lparr>ciForceInstall := b\<rparr>) = copyKeyLine w cfg"
    "buildDirectives (cfg\<lparr>ciForceInstall := b\<rparr>) = buildDirectives cfg"
    "copyLookup w (cfg\<lparr>ciForceInstall := b\<rparr>) dirs = copyLookup w cfg dirs"
    "copyConnect w (cfg\<lparr>ciForceInstall := b\<rparr>) line opts = copyConnect w cfg line opts" for dirs line opts
    by (simp_all add: copyKeyLine_def buildDirectives_def copyLookup_def copyConnect_def fun_eq_iff
        cong: sum.case_cong option.case_cong)
  then show ?thesis by (simp add: CopyRun_def cong: sum.case_cong if_cong)
qed

section \<open>Properties\<close>

text \<open>C37: ssh-copy-id runs one command, which appends one line, the public key it has loaded; it
  does so only on a server that it has dialled with its options and that has passed the
  handshake with the configuration made from them, and never in a dry run.\<close>

theorem copyid_installs:
  assumes "CopyRun w cfg = Some (out, code)" and "Act (CopyCommand cmd) \<in> set out"
  shows "\<not> ciDryRun cfg \<and>
    (\<exists>data name pub rest dirs opts sc plan. LoadPublicKey w (ciIdentityFile cfg) = Inr (data, name) \<and>
       klParseAuthorized (cwLib w) data = Inr (pub, rest) \<and>
       cmd = installCmd (trimSpace (cwAuthorizedLine w pub)) \<and> buildDirectives cfg = Inr dirs \<and>
       Resolve (cwWorld w) (copyLookup w cfg dirs) = Inr opts \<and>
       SSHClientConfig (cwAlgs w) (cwLib w) (copyHostWorld w) (copyAuthWorld w) opts = Some (Inr sc) \<and>
       DialContext (cwNet w) (cDialerConfig opts) ''tcp''
         (JoinHostPort (the (cHostname opts)) (itoaInt (the (cPort opts)))) = Inr plan \<and>
       cwDial w plan = None \<and> cwHandshake w sc = None)"
proof -
  from copyRun_connects[OF assms] obtain line dirs opts sc where
    r: "copyKeyLine w cfg = Inr line" "\<not> ciDryRun cfg" "buildDirectives cfg = Inr dirs"
      "Resolve (cwWorld w) (copyLookup w cfg dirs) = Inr opts"
      "SSHClientConfig (cwAlgs w) (cwLib w) (copyHostWorld w) (copyAuthWorld w) opts = Some (Inr sc)"
      "(out, code) = copyConnect w cfg line opts sc" by blast
  have "Act (CopyCommand cmd) \<in> set (fst (copyConnect w cfg line opts sc))"
    using assms(2) r(6) by (metis fst_conv)
  from copyConnect_command[OF this] copyKeyLine_from[OF r(1)] r show ?thesis by blast
qed

text \<open>Files of keys for the witness: a key is a line of as many letters as it counts.\<close>

definition unaryKey :: "string \<Rightarrow> char option" where
  "unaryKey l = (if l \<noteq> [] \<and> list_all (\<lambda>c. c = CHR ''x'') l then Some (char_of (length l - 1)) else None)"

definition unaryLine :: "char \<Rightarrow> string" where
  "unaryLine k = replicate (Suc (of_char k)) CHR ''x''"

primrec firstKey :: "string list \<Rightarrow> go_error + char \<times> string list" where
  "firstKey [] = Inl (ErrExt ''no key'')"
| "firstKey (l # ls) = (case unaryKey l of Some k \<Rightarrow> Inr (k, ls) | None \<Rightarrow> firstKey ls)"

definition unaryLib :: "(string \<Rightarrow> go_error + string) \<Rightarrow> (char, char, char) KeyLib" where
  "unaryLib read = (demoLib read)\<lparr>klParseAuthorized :=
     (\<lambda>d. map_sum id (map_prod id (\<lambda>ls. joinWith ls newline)) (firstKey (split d CHR 0x0A)))\<rparr>"

lemma unaryKey_line: "unaryKey (trimSpace (unaryLine k)) = Some k" "CHR 0x0A \<notin> set (trimSpace (unaryLine k))"
proof -
  have n: "\<not> isSpace CHR ''x''" by code_simp
  then have "dropWhile isSpace (replicate m CHR ''x'') = replicate m CHR ''x''" for m by (cases m) simp_all
  then have t: "trimSpace (unaryLine k) = unaryLine k" by (simp only: unaryLine_def trimSpace_def rev_replicate)
  show "unaryKey (trimSpace (unaryLine k)) = Some k" unfolding t by (simp add: unaryKey_def unaryLine_def list_all_iff)
  show "CHR 0x0A \<notin> set (trimSpace (unaryLine k))" unfolding t by (simp add: unaryLine_def)
qed

lemma firstKey_shrinks: "firstKey ls = Inr (k, r) \<Longrightarrow> length (joinWith r newline) < length (joinWith ls newline)"
proof (induction ls)
  case (Cons l ls)
  show ?case
  proof (cases "unaryKey l")
    case None
    then have "length (joinWith r newline) < length (joinWith ls newline)" using Cons by simp
    then show ?thesis by (cases ls) auto
  next
    case (Some k')
    then have "l \<noteq> []" "r = ls" using Cons.prems by (auto simp: unaryKey_def split: if_splits)
    then show ?thesis by (cases ls) (auto simp: newline_def)
  qed
qed simp

lemma parseShrinks_unary: "parseShrinks (unaryLib read)"
proof -
  have "length r < length d" if "firstKey (split d CHR 0x0A) = Inr (k, ls)" "r = joinWith ls newline" for d k ls r
    using firstKey_shrinks[OF that(1)] that(2) by (simp add: newline_def)
  then show ?thesis
    by (auto simp: parseShrinks_def unaryLib_def map_sum_def split: sum.splits)
qed

text \<open>A system for the witness: no configuration, a server that accepts.\<close>

definition demoCopy :: "(char, char, char) CopyWorld" where
  "demoCopy = \<lparr>cwWorld = emptyWorld, cwAlgs = demoAlgs, cwLib = unaryLib (\<lambda>f. Inr ''x''),
     cwAuthorizedLine = unaryLine, cwGetenv = (\<lambda>v. []), cwAgentKeys = (\<lambda>p. Inl (ErrExt p)),
     cwHome = Inr ''/h'', cwHost = demoHosts\<lparr>hkStat := (\<lambda>f. False)\<rparr>, cwConfirm = (\<lambda>h r k. True),
     cwAgent = (\<lambda>p. Inl (ErrExt p)), cwPassphrase = (\<lambda>p. Inl (ErrExt p)), cwExec = (\<lambda>c. None),
     cwNet = deadNet, cwDial = (\<lambda>p. None), cwHandshake = (\<lambda>c. None), cwNewSession = None,
     cwRunCommand = (\<lambda>c. None)\<rparr>"

lemma demoCopy_runs:
  "\<exists>out. CopyRun demoCopy (copyParse [''h''] emptyCopy) = Some (out, Exit 0) \<and>
     Act (CopyCommand (installCmd ''x'')) \<in> set out"
proof -
  let ?cfg = "copyParse [''h''] emptyCopy"
  let ?l = "copyLookup demoCopy ?cfg []"
  have a: "\<not> ciVersion ?cfg" "ciDestination ?cfg \<noteq> []" "\<not> ciDryRun ?cfg" "buildDirectives ?cfg = Inr []"
    "copyKeyLine demoCopy ?cfg = Inr ''x''" by code_simp+
  have p: "ciPort ?cfg = []" by code_simp
  have "lkCommandLineDirectives ?l = []" "lkCommandLineOptions ?l = []" "lkPort ?l = 0"
    by (simp_all add: copyLookup_def emptyLookup_def p case_prod_beta' Let_def)
  from demo_resolved[OF this] obtain o1 where o1: "Resolve emptyWorld ?l = Inr o1" "cRevokedHostKeys o1 = None"
    "dcBindAddress (cDialerConfig o1) = []" "dcBindInterface (cDialerConfig o1) = []"
    "dcIPQoS (cDialerConfig o1) = ''ef none''" by blast
  have "\<exists>cb. buildHostKeyCallback (cwLib demoCopy) (copyHostWorld demoCopy) o1 = Some (Inr cb)"
    using o1(2) by (simp add: buildHostKeyCallback_def copyHostWorld_def demoCopy_def)
  moreover obtain ams where "buildAuthMethods (cwLib demoCopy) (copyAuthWorld demoCopy) o1 = Inr ams"
    by (simp add: buildAuthMethods_def)
  ultimately obtain sc where c: "SSHClientConfig (cwAlgs demoCopy) (cwLib demoCopy) (copyHostWorld demoCopy)
      (copyAuthWorld demoCopy) o1 = Some (Inr sc)" by (auto simp: SSHClientConfig_def Let_def)
  have q: "parseIPQoS ''ef none'' = Inr (Some 184)" by code_simp
  obtain plan where d: "DialContext (cwNet demoCopy) (cDialerConfig o1) ''tcp'' addr = Inr (plan addr)" for addr
    using o1(3-5) q by (simp add: DialContext_def localAddr_def Let_def)
  have w: "cwWorld demoCopy = emptyWorld" "cwDial demoCopy p = None" "cwHandshake demoCopy sc = None"
    "cwNewSession demoCopy = None" "cwRunCommand demoCopy cmd = None" for p cmd by (simp_all add: demoCopy_def)
  show ?thesis
    using a o1(1) c d by (simp add: CopyRun_def w copyConnect_def copyInstall_def outThen_def Let_def)
qed

theorem copyid_installs_witness:
  "\<exists>out dirs opts sc. copyMain demoCopy [''h''] = Some (out, Exit 0) \<and>
     Act (CopyCommand (installCmd ''x'')) \<in> set out \<and>
     Resolve (cwWorld demoCopy) (copyLookup demoCopy (copyParse [''h''] emptyCopy) dirs) = Inr opts \<and>
     cwHandshake demoCopy sc = None"
proof -
  obtain out where o: "CopyRun demoCopy (copyParse [''h''] emptyCopy) = Some (out, Exit 0)"
    "Act (CopyCommand (installCmd ''x'')) \<in> set out" using demoCopy_runs by blast
  from copyid_installs[OF this] show ?thesis using o by (auto simp: copyMain_def)
qed

end
