(* ===== verification/Gssapi.thy ===== *)
theory Gssapi
  imports ConfTypes
begin

text \<open>
  The two GSSAPI clients (\<^verbatim>\<open>pkg/gssapi\<close>): \<^verbatim>\<open>Krb5Client\<close>, over a Kerberos library in Go, and
  \<^verbatim>\<open>CGOClient\<close>, over the system's C library.  Both are state machines driven by the calls
  of the SSH library; the Kerberos libraries are arguments.  The calls made so far, with
  their results, are the history of a client.
\<close>

section \<open>The client in Go\<close>

record Krb5Config =
  kfConfigPath :: string
  kfConfigString :: string

text \<open>Configurations, credential caches, key tables and tokens are known by handles; a key is
  \<^term>\<open>None\<close> when its value is nil.\<close>

type_synonym krb_handle = nat

record ('cl, 'tkt, 'key) KrbLib =
  kbLoadConfig :: "string \<Rightarrow> go_error + krb_handle"
  kbConfigFromString :: "string \<Rightarrow> go_error + krb_handle"
  kbLoadCCache :: "string \<Rightarrow> go_error + krb_handle"
  kbFromCCache :: "krb_handle \<Rightarrow> krb_handle \<Rightarrow> go_error + 'cl"
  kbLoadKeytab :: "string \<Rightarrow> go_error + krb_handle"
  kbWithKeytab :: "string \<Rightarrow> string \<Rightarrow> krb_handle \<Rightarrow> krb_handle \<Rightarrow> 'cl"
  kbWithPassword :: "string \<Rightarrow> string \<Rightarrow> string \<Rightarrow> krb_handle \<Rightarrow> 'cl"
  kbLogin :: "'cl \<Rightarrow> go_error option"
  kbServiceTicket :: "'cl \<Rightarrow> string \<Rightarrow> go_error + 'tkt \<times> 'key option"
  kbAPReq :: "'cl \<Rightarrow> 'tkt \<Rightarrow> 'key option \<Rightarrow> string list \<Rightarrow> go_error + krb_handle"
  kbMarshalToken :: "krb_handle \<Rightarrow> go_error + string"
  kbUnmarshal :: "string \<Rightarrow> go_error + krb_handle"
  kbIsKRBError :: "krb_handle \<Rightarrow> bool"
  kbErrorText :: "krb_handle \<Rightarrow> string"
  kbIsAPRep :: "krb_handle \<Rightarrow> bool"
  kbMICToken :: "string \<Rightarrow> 'key \<Rightarrow> go_error + krb_handle"
  kbMarshalMIC :: "krb_handle \<Rightarrow> go_error + string"

record ('cl, 'key) Krb5Client =
  kcClient :: 'cl
  kcSessionKey :: "'key option"
  kcEstablished :: bool

definition newKrb5Client :: "'cl \<Rightarrow> ('cl, 'key) Krb5Client" where
  "newKrb5Client cl = \<lparr>kcClient = cl, kcSessionKey = None, kcEstablished = False\<rparr>"

definition wrapErr :: "string \<Rightarrow> string list \<Rightarrow> go_error + 'a \<Rightarrow> go_error + 'a" where
  "wrapErr f args r = map_sum (Wrapf f args) id r"

definition loadKrb5Config :: "('cl, 'tkt, 'key) KrbLib \<Rightarrow> Krb5Config \<Rightarrow> go_error + krb_handle" where
  "loadKrb5Config lib cfg =
     (if kfConfigPath cfg \<noteq> [] then kbLoadConfig lib (kfConfigPath cfg)
      else if kfConfigString cfg \<noteq> [] then kbConfigFromString lib (kfConfigString cfg)
      else kbLoadConfig lib ''/etc/krb5.conf'')"

definition ccachePathOf :: "(string \<Rightarrow> string) \<Rightarrow> int \<Rightarrow> string \<Rightarrow> string" where
  "ccachePathOf getenv uid path =
     (if path \<noteq> [] then path
      else if getenv ''KRB5CCNAME'' \<noteq> [] then getenv ''KRB5CCNAME''
      else ''/tmp/krb5cc_'' @ itoaInt uid)"

definition NewKrb5ClientFromCCache ::
  "('cl, 'tkt, 'key) KrbLib \<Rightarrow> (string \<Rightarrow> string) \<Rightarrow> int \<Rightarrow> string \<Rightarrow> Krb5Config \<Rightarrow>
   go_error + ('cl, 'key) Krb5Client" where
  "NewKrb5ClientFromCCache lib getenv uid path cfg =
     (let ccachePath = ccachePathOf getenv uid path
      in bindE (wrapErr ''loading krb5 config: %w'' [] (loadKrb5Config lib cfg)) (\<lambda>conf.
         bindE (wrapErr ''loading credential cache %s: %w'' [ccachePath] (kbLoadCCache lib ccachePath)) (\<lambda>ccache.
         bindE (wrapErr ''creating client from ccache: %w'' [] (kbFromCCache lib ccache conf)) (\<lambda>cl.
           Inr (newKrb5Client cl)))))"

definition loggedIn :: "('cl, 'tkt, 'key) KrbLib \<Rightarrow> 'cl \<Rightarrow> go_error + ('cl, 'key) Krb5Client" where
  "loggedIn lib cl =
     (case kbLogin lib cl of
        Some err \<Rightarrow> Inl (Wrapf ''kerberos login: %w'' [] err)
      | None \<Rightarrow> Inr (newKrb5Client cl))"

definition NewKrb5ClientFromKeytab ::
  "('cl, 'tkt, 'key) KrbLib \<Rightarrow> string \<Rightarrow> string \<Rightarrow> string \<Rightarrow> Krb5Config \<Rightarrow> go_error + ('cl, 'key) Krb5Client" where
  "NewKrb5ClientFromKeytab lib username realm keytabPath cfg =
     bindE (wrapErr ''loading krb5 config: %w'' [] (loadKrb5Config lib cfg)) (\<lambda>conf.
     bindE (wrapErr ''loading keytab %s: %w'' [keytabPath] (kbLoadKeytab lib keytabPath)) (\<lambda>kt.
       loggedIn lib (kbWithKeytab lib username realm kt conf)))"

definition NewKrb5ClientFromPassword ::
  "('cl, 'tkt, 'key) KrbLib \<Rightarrow> string \<Rightarrow> string \<Rightarrow> string \<Rightarrow> Krb5Config \<Rightarrow> go_error + ('cl, 'key) Krb5Client" where
  "NewKrb5ClientFromPassword lib username realm password cfg =
     bindE (wrapErr ''loading krb5 config: %w'' [] (loadKrb5Config lib cfg)) (\<lambda>conf.
       loggedIn lib (kbWithPassword lib username realm password conf))"

text \<open>The output token and whether a reply is expected.\<close>

type_synonym gss_result = "go_error + string \<times> bool"

definition initContext ::
  "('cl, 'tkt, 'key) KrbLib \<Rightarrow> string \<Rightarrow> bool \<Rightarrow> ('cl, 'key) Krb5Client \<Rightarrow> gss_result \<times> ('cl, 'key) Krb5Client" where
  "initContext lib target delegCreds c =
     (case kbServiceTicket lib (kcClient c) target of
        Inl err \<Rightarrow> (Inl (Wrapf ''gssapi: obtaining service ticket for %s: %w'' [target] err), c)
      | Inr (tkt, key) \<Rightarrow>
          (let flags = [''Mutual'', ''Integ''] @ (if delegCreds then [''Deleg''] else [])
           in (bindE (wrapErr ''gssapi: creating AP-REQ token: %w'' [] (kbAPReq lib (kcClient c) tkt key flags)) (\<lambda>tok.
               bindE (wrapErr ''gssapi: marshaling token: %w'' [] (kbMarshalToken lib tok)) (\<lambda>bytes.
                 Inr (bytes, True))),
               c\<lparr>kcSessionKey := key\<rparr>)))"

definition processReply ::
  "('cl, 'tkt, 'key) KrbLib \<Rightarrow> string \<Rightarrow> ('cl, 'key) Krb5Client \<Rightarrow> gss_result \<times> ('cl, 'key) Krb5Client" where
  "processReply lib token c =
     (case kbUnmarshal lib token of
        Inl err \<Rightarrow> (Inl (Wrapf ''gssapi: unmarshaling server token: %w'' [] err), c)
      | Inr tok \<Rightarrow>
          if kbIsKRBError lib tok then
            (Inl (Errorf ''gssapi: server returned KRB-ERROR: %v'' [kbErrorText lib tok]), c)
          else if \<not> kbIsAPRep lib tok then (Inl (Errorf ''gssapi: expected AP-REP from server'' []), c)
          else (Inr ([], False), c\<lparr>kcEstablished := True\<rparr>))"

definition KrbInitSecContext ::
  "('cl, 'tkt, 'key) KrbLib \<Rightarrow> string \<Rightarrow> string \<Rightarrow> bool \<Rightarrow> ('cl, 'key) Krb5Client \<Rightarrow>
   gss_result \<times> ('cl, 'key) Krb5Client" where
  "KrbInitSecContext lib target token deleg c =
     (if kcEstablished c then (Inl (Errorf ''gssapi: security context already established'' []), c)
      else if token = [] then initContext lib target deleg c
      else processReply lib token c)"

definition KrbGetMIC :: "('cl, 'tkt, 'key) KrbLib \<Rightarrow> string \<Rightarrow> ('cl, 'key) Krb5Client \<Rightarrow> go_error + string" where
  "KrbGetMIC lib micField c =
     (case kcSessionKey c of
        None \<Rightarrow> Inl (Errorf ''gssapi: no session key (InitSecContext not completed)'' [])
      | Some key \<Rightarrow>
          bindE (wrapErr ''gssapi: generating MIC token: %w'' [] (kbMICToken lib micField key)) (\<lambda>tok.
            wrapErr ''gssapi: marshaling MIC token: %w'' [] (kbMarshalMIC lib tok)))"

definition KrbDeleteSecContext :: "('cl, 'key) Krb5Client \<Rightarrow> ('cl, 'key) Krb5Client" where
  "KrbDeleteSecContext c = c\<lparr>kcSessionKey := None, kcEstablished := False\<rparr>"

section \<open>Its life\<close>

datatype GssCall = CallInit string string bool | CallMIC string | CallDelete

datatype GssAnswer = AnsInit gss_result | AnsMIC "go_error + string" | AnsDelete

fun krbCall ::
  "('cl, 'tkt, 'key) KrbLib \<Rightarrow> GssCall \<Rightarrow> ('cl, 'key) Krb5Client \<Rightarrow> GssAnswer \<times> ('cl, 'key) Krb5Client" where
  "krbCall lib (CallInit target token deleg) c =
     (let (r, c') = KrbInitSecContext lib target token deleg c in (AnsInit r, c'))"
| "krbCall lib (CallMIC micField) c = (AnsMIC (KrbGetMIC lib micField c), c)"
| "krbCall lib CallDelete c = (AnsDelete, KrbDeleteSecContext c)"

text \<open>The states a client can be in, with its history, the last call first.\<close>

inductive krbReach ::
  "('cl, 'tkt, 'key) KrbLib \<Rightarrow> 'cl \<Rightarrow> (GssCall \<times> GssAnswer) list \<Rightarrow> ('cl, 'key) Krb5Client \<Rightarrow> bool"
  for lib :: "('cl, 'tkt, 'key) KrbLib" and cl :: 'cl where
  krb_new: "krbReach lib cl [] (newKrb5Client cl)"
| krb_call: "krbReach lib cl h c \<Longrightarrow> krbCall lib x c = (r, c') \<Longrightarrow> krbReach lib cl ((x, r) # h) c'"

inductive_cases krbReach_ConsE: "krbReach lib cl (e # h) c"

definition sinceDelete :: "(GssCall \<times> 'r) list \<Rightarrow> (GssCall \<times> 'r) list" where
  "sinceDelete h = takeWhile (\<lambda>(x, r). x \<noteq> CallDelete) h"

lemma sinceDelete_simps [simp]:
  "sinceDelete [] = []"
  "sinceDelete ((CallDelete, r) # h) = []"
  "sinceDelete ((CallInit t tok d, r) # h) = (CallInit t tok d, r) # sinceDelete h"
  "sinceDelete ((CallMIC f, r) # h) = (CallMIC f, r) # sinceDelete h"
  by (simp_all add: sinceDelete_def)

text \<open>What the state says about the history.\<close>

definition ticketTaken :: "('cl, 'tkt, 'key) KrbLib \<Rightarrow> 'cl \<Rightarrow> (GssCall \<times> GssAnswer) list \<Rightarrow> 'key \<Rightarrow> bool" where
  "ticketTaken lib cl h key \<longleftrightarrow>
     (\<exists>target deleg r tkt. (CallInit target [] deleg, r) \<in> set (sinceDelete h) \<and>
        kbServiceTicket lib cl target = Inr (tkt, Some key))"

definition replyTaken :: "('cl, 'tkt, 'key) KrbLib \<Rightarrow> (GssCall \<times> GssAnswer) list \<Rightarrow> bool" where
  "replyTaken lib h \<longleftrightarrow>
     (\<exists>target token deleg tok. (CallInit target token deleg, AnsInit (Inr ([], False))) \<in> set (sinceDelete h) \<and>
        token \<noteq> [] \<and> kbUnmarshal lib token = Inr tok \<and> kbIsAPRep lib tok \<and> \<not> kbIsKRBError lib tok)"

definition krbInv :: "('cl, 'tkt, 'key) KrbLib \<Rightarrow> 'cl \<Rightarrow> (GssCall \<times> GssAnswer) list \<Rightarrow> ('cl, 'key) Krb5Client \<Rightarrow> bool" where
  "krbInv lib cl h c \<longleftrightarrow>
     kcClient c = cl \<and> (\<forall>key. kcSessionKey c = Some key \<longrightarrow> ticketTaken lib cl h key) \<and>
     (kcEstablished c \<longrightarrow> replyTaken lib h)"

lemma taken_Cons:
  "x \<noteq> CallDelete \<Longrightarrow> ticketTaken lib cl h key \<Longrightarrow> ticketTaken lib cl ((x, r) # h) key"
  "x \<noteq> CallDelete \<Longrightarrow> replyTaken lib h \<Longrightarrow> replyTaken lib ((x, r) # h)"
  unfolding ticketTaken_def replyTaken_def sinceDelete_def by fastforce+

lemma initContext_cases:
  assumes "initContext lib target deleg c = (r, c')"
  shows "c' = c \<or> (\<exists>tkt key. kbServiceTicket lib (kcClient c) target = Inr (tkt, key) \<and> c' = c\<lparr>kcSessionKey := key\<rparr>)"
  using assms by (auto simp: initContext_def split: sum.splits)

lemma processReply_cases:
  assumes "processReply lib token c = (r, c')"
  shows "c' = c \<or> (\<exists>tok. kbUnmarshal lib token = Inr tok \<and> kbIsAPRep lib tok \<and> \<not> kbIsKRBError lib tok \<and>
    r = Inr ([], False) \<and> c' = c\<lparr>kcEstablished := True\<rparr>)"
  using assms by (auto simp: processReply_def split: sum.splits if_splits)

lemma krbInv_init:
  assumes "krbInv lib cl h c" and "KrbInitSecContext lib target token deleg c = (r, c')"
  shows "krbInv lib cl ((CallInit target token deleg, AnsInit r) # h) c'"
proof -
  let ?h = "(CallInit target token deleg, AnsInit r) # h"
  have same: "krbInv lib cl ?h c" using assms(1) taken_Cons[of "CallInit target token deleg"] by (auto simp: krbInv_def)
  consider "c' = c" | "token = []" "initContext lib target deleg c = (r, c')"
    | "token \<noteq> []" "processReply lib token c = (r, c')"
    using assms(2) by (auto simp: KrbInitSecContext_def split: if_splits)
  then show ?thesis
  proof cases
    case 2
    from initContext_cases[OF this(2)] show ?thesis
    proof (elim disjE exE conjE)
      fix tkt key
      assume k: "kbServiceTicket lib (kcClient c) target = Inr (tkt, key)" "c' = c\<lparr>kcSessionKey := key\<rparr>"
      have "ticketTaken lib cl ?h key'" if "key = Some key'" for key'
        unfolding ticketTaken_def using k(1) that same 2(1)
        by (intro exI[of _ target] exI[of _ deleg] exI[of _ "AnsInit r"] exI[of _ tkt]) (simp add: krbInv_def)
      then show ?thesis using same k(2) by (simp add: krbInv_def)
    qed (use same in simp)
  next
    case 3
    from processReply_cases[OF this(2)] show ?thesis
    proof (elim disjE exE conjE)
      fix tok
      assume t: "kbUnmarshal lib token = Inr tok" "kbIsAPRep lib tok" "\<not> kbIsKRBError lib tok"
        "r = Inr ([], False)" "c' = c\<lparr>kcEstablished := True\<rparr>"
      have "replyTaken lib ?h"
        unfolding replyTaken_def using t 3(1)
        by (intro exI[of _ target] exI[of _ token] exI[of _ deleg] exI[of _ tok]) simp
      then show ?thesis using same t(5) by (simp add: krbInv_def)
    qed (use same in simp)
  qed (use same in simp)
qed

lemma krbReach_inv: "krbReach lib cl h c \<Longrightarrow> krbInv lib cl h c"
proof (induction rule: krbReach.induct)
  case krb_new
  then show ?case by (simp add: krbInv_def newKrb5Client_def)
next
  case (krb_call h c x r c')
  show ?case
  proof (cases x)
    case (CallInit target token deleg)
    then show ?thesis using krb_call krbInv_init by (auto split: prod.splits)
  next
    case (CallMIC f)
    then show ?thesis using krb_call taken_Cons[of "CallMIC f"] by (auto simp: krbInv_def)
  next
    case CallDelete
    then show ?thesis using krb_call by (auto simp: krbInv_def KrbDeleteSecContext_def)
  qed
qed

text \<open>The answer to a reply does not depend on the session key: an AP-REP of anyone is taken.\<close>

lemma reply_not_verified: "fst (processReply lib token c) = fst (processReply lib token c')"
  by (simp add: processReply_def split: sum.split)

text \<open>It is taken even by a client that has asked for nothing.\<close>

lemma reply_without_request:
  assumes "kbUnmarshal lib token = Inr tok" and "kbIsAPRep lib tok" and "\<not> kbIsKRBError lib tok" and "token \<noteq> []"
  shows "KrbInitSecContext lib target token deleg (newKrb5Client cl) =
    (Inr ([], False), (newKrb5Client cl)\<lparr>kcEstablished := True\<rparr>)"
  using assms by (simp add: KrbInitSecContext_def newKrb5Client_def processReply_def)

section \<open>Property of the client in Go\<close>

text \<open>C17: a client gives a MIC only under the key of a service ticket it has obtained since the
  context was last deleted, and its context is established only if it has since then been
  given a token that is an AP-REP.\<close>

theorem krb_mic_under_ticket:
  assumes "krbReach lib cl ((x, r) # h) c"
  shows "(x = CallMIC f \<and> r = AnsMIC (Inr mic) \<longrightarrow>
      (\<exists>key tok. ticketTaken lib cl h key \<and> kbMICToken lib f key = Inr tok \<and> kbMarshalMIC lib tok = Inr mic)) \<and>
    (kcEstablished c \<longrightarrow> replyTaken lib ((x, r) # h))"
proof (intro conjI impI)
  assume m: "x = CallMIC f \<and> r = AnsMIC (Inr mic)"
  from assms obtain c0 where c0: "krbReach lib cl h c0" "krbCall lib x c0 = (r, c)"
    by (rule krbReach_ConsE) blast
  have g: "KrbGetMIC lib f c0 = Inr mic" using c0(2) m by auto
  then obtain key where key: "kcSessionKey c0 = Some key"
    by (cases "kcSessionKey c0") (auto simp: KrbGetMIC_def)
  obtain tok where t: "kbMICToken lib f key = Inr tok"
    using g key by (cases "kbMICToken lib f key") (auto simp: KrbGetMIC_def wrapErr_def)
  have "kbMarshalMIC lib tok = Inr mic"
    using g key t by (cases "kbMarshalMIC lib tok") (auto simp: KrbGetMIC_def wrapErr_def)
  then show "\<exists>key tok. ticketTaken lib cl h key \<and> kbMICToken lib f key = Inr tok \<and> kbMarshalMIC lib tok = Inr mic"
    using krbReach_inv[OF c0(1)] key t by (auto simp: krbInv_def)
next
  assume "kcEstablished c"
  then show "replyTaken lib ((x, r) # h)" using krbReach_inv[OF assms] by (simp add: krbInv_def)
qed

text \<open>A library for the witness: every ticket has the key k, a token is an AP-REP.\<close>

definition demoKrb :: "(unit, unit, char) KrbLib" where
  "demoKrb = \<lparr>kbLoadConfig = (\<lambda>p. Inr 0), kbConfigFromString = (\<lambda>s. Inr 0), kbLoadCCache = (\<lambda>p. Inr 0),
     kbFromCCache = (\<lambda>a b. Inr ()), kbLoadKeytab = (\<lambda>p. Inr 0), kbWithKeytab = (\<lambda>u r k c. ()),
     kbWithPassword = (\<lambda>u r p c. ()), kbLogin = (\<lambda>cl. None),
     kbServiceTicket = (\<lambda>cl t. Inr ((), Some CHR ''k'')), kbAPReq = (\<lambda>cl t k fl. Inr 0),
     kbMarshalToken = (\<lambda>h. Inr ''req''), kbUnmarshal = (\<lambda>s. Inr 0), kbIsKRBError = (\<lambda>h. False),
     kbErrorText = (\<lambda>h. []), kbIsAPRep = (\<lambda>h. True), kbMICToken = (\<lambda>f k. Inr 0), kbMarshalMIC = (\<lambda>h. Inr ''mic'')\<rparr>"

theorem krb_mic_under_ticket_witness:
  "\<exists>c h. krbReach demoKrb () ((CallMIC ''f'', AnsMIC (Inr ''mic'')) # h) c \<and> ticketTaken demoKrb () h CHR ''k'' \<and>
     \<not> kcEstablished c"
proof -
  let ?c = "\<lparr>kcClient = (), kcSessionKey = Some CHR ''k'', kcEstablished = False\<rparr>"
  let ?h = "[(CallInit ''t'' [] False, AnsInit (Inr (''req'', True)))]"
  have "krbCall demoKrb (CallInit ''t'' [] False) (newKrb5Client ()) = (AnsInit (Inr (''req'', True)), ?c)"
    by (simp add: KrbInitSecContext_def initContext_def newKrb5Client_def demoKrb_def wrapErr_def)
  from krb_call[OF krb_new this] have r: "krbReach demoKrb () ?h ?c" .
  have "krbCall demoKrb (CallMIC ''f'') ?c = (AnsMIC (Inr ''mic''), ?c)"
    by (simp add: KrbGetMIC_def demoKrb_def wrapErr_def)
  from krb_call[OF r this] have r2: "krbReach demoKrb () ((CallMIC ''f'', AnsMIC (Inr ''mic'')) # ?h) ?c" .
  from krb_mic_under_ticket[OF r2, of "''f''" "''mic''"] obtain key where "ticketTaken demoKrb () ?h key" by auto
  moreover have "key = CHR ''k''" using calculation by (simp add: ticketTaken_def demoKrb_def)
  ultimately show ?thesis using r2 by (intro exI[of _ ?c] exI[of _ ?h]) auto
qed

end
