(* ===== verification/GssapiC.thy ===== *)
theory GssapiC
  imports Gssapi
begin

text \<open>
  The GSSAPI client over the system's library (\<^verbatim>\<open>pkg/gssapi/cgo.go\<close>), with the C functions in
  its preamble.  The library \<^verbatim>\<open>libgssapi_krb5\<close> is an argument (record \<^verbatim>\<open>GssLib\<close>): a status
  is a 32-bit word, a buffer is a byte string.  What is allocated and released is recorded,
  so that leaks can be counted.
\<close>

section \<open>The C side\<close>

text \<open>The answers: major and minor status, and what the call has written.  A context is
  \<^term>\<open>None\<close> when it is \<^verbatim>\<open>GSS_C_NO_CONTEXT\<close>.\<close>

record ('ctx, 'name) GssLib =
  gsImportName :: "string \<Rightarrow> 32 word \<times> 32 word \<times> 'name"
  gsInitSecContext :: "'ctx option \<Rightarrow> 'name \<Rightarrow> string list \<Rightarrow> string option \<Rightarrow>
     32 word \<times> 32 word \<times> 'ctx option \<times> string"
  gsGetMIC :: "'ctx option \<Rightarrow> string \<Rightarrow> 32 word \<times> 32 word \<times> string"
  gsDisplayStatus :: "32 word \<Rightarrow> bool \<Rightarrow> string"

definition gssComplete :: "32 word" where "gssComplete = 0"
definition gssContinueNeeded :: "32 word" where "gssContinueNeeded = 1"

definition c_init_sec_context ::
  "('ctx, 'name) GssLib \<Rightarrow> 'ctx option \<Rightarrow> 'name \<Rightarrow> bool \<Rightarrow> string \<Rightarrow> 32 word \<times> 32 word \<times> 'ctx option \<times> string" where
  "c_init_sec_context lib ctx name deleg input =
     gsInitSecContext lib ctx name ([''Mutual'', ''Integ''] @ (if deleg then [''Deleg''] else []))
       (if length input > 0 then Some input else None)"

text \<open>The text of a status, cut to the buffer of the caller and read back up to the first
  zero byte.\<close>

definition c_display_status :: "('ctx, 'name) GssLib \<Rightarrow> 32 word \<Rightarrow> bool \<Rightarrow> nat \<Rightarrow> string" where
  "c_display_status lib status gssCode buflen =
     (let msg = gsDisplayStatus lib status gssCode;
          copyLen = (if length msg \<ge> buflen then buflen - 1 else length msg)
      in take copyLen msg @ [CHR 0x00])"

definition goString :: "string \<Rightarrow> string" where
  "goString buf = takeWhile (\<lambda>c. c \<noteq> CHR 0x00) buf"

definition gssError :: "('ctx, 'name) GssLib \<Rightarrow> string \<Rightarrow> 32 word \<Rightarrow> 32 word \<Rightarrow> go_error" where
  "gssError lib call major minor =
     Errorf ''gssapi %s: %s (minor: %s)''
       [call, goString (c_display_status lib major True 256), goString (c_display_status lib minor False 256)]"

section \<open>The client\<close>

record ('ctx, 'name) CGOClient =
  cgCtx :: "'ctx option"
  cgTargetName :: "'name option"
  cgNameSet :: bool

definition NewCGOClient :: "('ctx, 'name) CGOClient" where
  "NewCGOClient = \<lparr>cgCtx = None, cgTargetName = None, cgNameSet = False\<rparr>"

datatype Resource = NameImported | NameReleased | BufferFilled | BufferFreed | ContextDeleted

definition importName ::
  "('ctx, 'name) GssLib \<Rightarrow> string \<Rightarrow> ('ctx, 'name) CGOClient \<Rightarrow>
   go_error option \<times> Resource list \<times> ('ctx, 'name) CGOClient" where
  "importName lib target c =
     (let (major, minor, name) = gsImportName lib target;
          c' = c\<lparr>cgTargetName := Some name\<rparr>
      in if major \<noteq> gssComplete then (Some (gssError lib ''gss_import_name'' major minor), [], c')
         else (None, [NameImported], c'\<lparr>cgNameSet := True\<rparr>))"

text \<open>A buffer filled by the library, and freed by \<^verbatim>\<open>c_free_output_token\<close>; an empty one is
  neither.\<close>

definition filled :: "string \<Rightarrow> Resource list" where
  "filled data = (if data \<noteq> [] then [BufferFilled] else [])"

definition c_free_output_token :: "string \<Rightarrow> Resource list" where
  "c_free_output_token data = (if length data > 0 then [BufferFreed] else [])"

definition cgoContext ::
  "('ctx, 'name) GssLib \<Rightarrow> string \<Rightarrow> bool \<Rightarrow> ('ctx, 'name) CGOClient \<Rightarrow>
   gss_result \<times> Resource list \<times> ('ctx, 'name) CGOClient" where
  "cgoContext lib token deleg c =
     (let (major, minor, ctx, output) = c_init_sec_context lib (cgCtx c) (the (cgTargetName c)) deleg token;
          c' = c\<lparr>cgCtx := ctx\<rparr>
      in if major \<noteq> gssComplete \<and> major \<noteq> gssContinueNeeded
         then (Inl (gssError lib ''gss_init_sec_context'' major minor), filled output, c')
         else (Inr (output, major = gssContinueNeeded), filled output @ c_free_output_token output, c'))"

definition CGOInitSecContext ::
  "('ctx, 'name) GssLib \<Rightarrow> string \<Rightarrow> string \<Rightarrow> bool \<Rightarrow> ('ctx, 'name) CGOClient \<Rightarrow>
   gss_result \<times> Resource list \<times> ('ctx, 'name) CGOClient" where
  "CGOInitSecContext lib target token deleg c =
     (if cgNameSet c then cgoContext lib token deleg c
      else case importName lib target c of
        (Some err, res, c') \<Rightarrow> (Inl err, res, c')
      | (None, res, c') \<Rightarrow>
          (let (r, res', c'') = cgoContext lib token deleg c' in (r, res @ res', c'')))"

definition CGOGetMIC ::
  "('ctx, 'name) GssLib \<Rightarrow> string \<Rightarrow> ('ctx, 'name) CGOClient \<Rightarrow> (go_error + string) \<times> Resource list" where
  "CGOGetMIC lib micField c =
     (if micField = [] then (Inl (Errorf ''gssapi: empty MIC field'' []), [])
      else let (major, minor, mic) = gsGetMIC lib (cgCtx c) micField
           in if major \<noteq> gssComplete then (Inl (gssError lib ''gss_get_mic'' major minor), filled mic)
              else (Inr mic, filled mic @ c_free_output_token mic))"

definition CGODeleteSecContext :: "('ctx, 'name) CGOClient \<Rightarrow> Resource list \<times> ('ctx, 'name) CGOClient" where
  "CGODeleteSecContext c =
     (let (res1, c1) = (if cgCtx c \<noteq> None then ([ContextDeleted], c\<lparr>cgCtx := None\<rparr>) else ([], c));
          (res2, c2) = (if cgNameSet c1 then ([NameReleased], c1\<lparr>cgNameSet := False\<rparr>) else ([], c1))
      in (res1 @ res2, c2))"

fun cgoCall ::
  "('ctx, 'name) GssLib \<Rightarrow> GssCall \<Rightarrow> ('ctx, 'name) CGOClient \<Rightarrow> GssAnswer \<times> Resource list \<times> ('ctx, 'name) CGOClient" where
  "cgoCall lib (CallInit target token deleg) c =
     (let (r, res, c') = CGOInitSecContext lib target token deleg c in (AnsInit r, res, c'))"
| "cgoCall lib (CallMIC micField) c = (let (r, res) = CGOGetMIC lib micField c in (AnsMIC r, res, c))"
| "cgoCall lib CallDelete c = (let (res, c') = CGODeleteSecContext c in (AnsDelete, res, c'))"

text \<open>The states of a client, with all it has allocated and released so far and the number of
  calls that have ended with an error.\<close>

fun failedAnswer :: "GssAnswer \<Rightarrow> bool" where
  "failedAnswer (AnsInit r) = isl r"
| "failedAnswer (AnsMIC r) = isl r"
| "failedAnswer AnsDelete = False"

inductive cgoReach ::
  "('ctx, 'name) GssLib \<Rightarrow> Resource list \<Rightarrow> nat \<Rightarrow> ('ctx, 'name) CGOClient \<Rightarrow> bool"
  for lib :: "('ctx, 'name) GssLib" where
  cgo_new: "cgoReach lib [] 0 NewCGOClient"
| cgo_call: "cgoReach lib res n c \<Longrightarrow> cgoCall lib x c = (r, new, c') \<Longrightarrow>
    cgoReach lib (res @ new) (if failedAnswer r then Suc n else n) c'"

section \<open>Resources\<close>

definition balance :: "Resource \<Rightarrow> Resource \<Rightarrow> Resource list \<Rightarrow> int" where
  "balance p m res = int (count_list res p) - int (count_list res m)"

lemma balance_simps [simp]:
  "balance p m [] = 0"
  "balance p m (xs @ ys) = balance p m xs + balance p m ys"
  "balance p m (x # xs) = (if x = p then 1 else 0) - (if x = m then 1 else 0) + balance p m xs"
  by (simp_all add: balance_def)

abbreviation "names \<equiv> balance NameImported NameReleased"
abbreviation "buffers \<equiv> balance BufferFilled BufferFreed"

definition nameCount :: "('ctx, 'name) CGOClient \<Rightarrow> int" where
  "nameCount c = (if cgNameSet c then 1 else 0)"

lemma names_buffers [simp]: "names (filled d) = 0" "names (c_free_output_token d) = 0"
    "buffers (filled d @ c_free_output_token d) = 0" "buffers (filled d) \<in> {0, 1}"
  by (auto simp: filled_def c_free_output_token_def)

lemma cgoContext_resources:
  assumes "cgoContext lib token deleg c = (r, new, c')"
  shows "names new = 0 \<and> cgNameSet c' = cgNameSet c \<and> 0 \<le> buffers new \<and> buffers new \<le> (if isl r then 1 else 0)"
  using assms
  by (auto simp: cgoContext_def Let_def filled_def c_free_output_token_def split: prod.splits if_splits)

lemma importName_resources:
  assumes "importName lib target c = (e, new, c')" and "\<not> cgNameSet c"
  shows "names new = nameCount c' \<and> buffers new = 0 \<and> (e = None \<longleftrightarrow> cgNameSet c')"
  using assms by (auto simp: importName_def Let_def nameCount_def split: prod.splits if_splits)

lemma cgoCall_resources:
  assumes "cgoCall lib x c = (r, new, c')"
  shows "names new = nameCount c' - nameCount c \<and> 0 \<le> buffers new \<and>
    buffers new \<le> (if failedAnswer r then 1 else 0)"
proof (cases x)
  case (CallInit target token deleg)
  show ?thesis
  proof (cases "cgNameSet c")
    case True
    then obtain g where "cgoContext lib token deleg c = (g, new, c')" "r = AnsInit g"
      using assms CallInit by (auto simp: CGOInitSecContext_def split: prod.splits)
    then show ?thesis using cgoContext_resources by (fastforce simp: nameCount_def)
  next
    case False
    obtain e res1 c1 where i: "importName lib target c = (e, res1, c1)" by (cases "importName lib target c")
    note 1 = importName_resources[OF i False]
    show ?thesis
    proof (cases e)
      case None
      obtain g res2 where 2: "cgoContext lib token deleg c1 = (g, res2, c')" "r = AnsInit g" "new = res1 @ res2"
        using assms CallInit False i None by (auto simp: CGOInitSecContext_def Let_def split: prod.splits)
      show ?thesis using 1 2 cgoContext_resources[OF 2(1)] False by (simp add: nameCount_def)
    next
      case (Some err)
      then show ?thesis
        using assms CallInit False i 1 by (auto simp: CGOInitSecContext_def nameCount_def)
    qed
  qed
next
  case (CallMIC f)
  then show ?thesis using assms
    by (auto simp: CGOGetMIC_def Let_def filled_def c_free_output_token_def split: prod.splits if_splits)
next
  case CallDelete
  then show ?thesis using assms
    by (auto simp: CGODeleteSecContext_def Let_def nameCount_def split: if_splits)
qed

text \<open>Deleting twice releases once.\<close>

lemma delete_again: "CGODeleteSecContext (snd (CGODeleteSecContext c)) = ([], snd (CGODeleteSecContext c))"
  by (auto simp: CGODeleteSecContext_def Let_def)

text \<open>C33: over all its calls a client releases every name it has imported when it is deleted, and
  never one it has not; it frees every buffer the library has filled but those of the
  calls that fail, at most one each.\<close>

theorem cgo_resources:
  assumes "cgoReach lib res n c"
  shows "balance NameImported NameReleased res = (if cgNameSet c then 1 else 0) \<and>
    0 \<le> balance BufferFilled BufferFreed res \<and> balance BufferFilled BufferFreed res \<le> int n \<and>
    balance NameImported NameReleased (res @ fst (CGODeleteSecContext c)) = 0 \<and>
    cgCtx (snd (CGODeleteSecContext c)) = None"
proof -
  have inv: "names res = nameCount c \<and> 0 \<le> buffers res \<and> buffers res \<le> int n"
    using assms
  proof (induction rule: cgoReach.induct)
    case cgo_new
    then show ?case by (simp add: nameCount_def NewCGOClient_def)
  next
    case (cgo_call res n c x r new c')
    from cgoCall_resources[OF cgo_call.hyps(2)] cgo_call.IH show ?case by (auto split: if_splits)
  qed
  have "names (fst (CGODeleteSecContext c)) = - nameCount c" "cgCtx (snd (CGODeleteSecContext c)) = None"
    by (auto simp: CGODeleteSecContext_def Let_def nameCount_def)
  then show ?thesis using inv by (simp add: nameCount_def)
qed

definition demoGss :: "(unit, unit) GssLib" where
  "demoGss = \<lparr>gsImportName = (\<lambda>t. (0, 0, ())), gsInitSecContext = (\<lambda>c n f i. (13, 0, Some (), ''e'')),
     gsGetMIC = (\<lambda>c f. (0, 0, ''mic'')), gsDisplayStatus = (\<lambda>s g. ''failure'')\<rparr>"

theorem cgo_resources_witness:
  "\<exists>res c. cgoReach demoGss res 1 c \<and> balance BufferFilled BufferFreed res = 1 \<and>
     balance NameImported NameReleased (res @ fst (CGODeleteSecContext c)) = 0"
proof -
  let ?x = "CallInit ''t'' [] False"
  obtain r new c where k: "cgoCall demoGss ?x NewCGOClient = (r, new, c)" by (cases "cgoCall demoGss ?x NewCGOClient")
  then have f: "failedAnswer r" "new = [NameImported, BufferFilled]"
    by (auto simp: CGOInitSecContext_def importName_def cgoContext_def c_init_sec_context_def NewCGOClient_def
        demoGss_def gssComplete_def gssContinueNeeded_def filled_def)
  have "cgoReach demoGss new 1 c" using cgo_call[OF cgo_new k] f by simp
  from this cgo_resources[OF this] show ?thesis using f(2) by (intro exI[of _ new] exI[of _ c]) (simp add: balance_def)
qed

section \<open>The client of builds without C\<close>

definition errNoCGO :: go_error where
  "errNoCGO = ErrExt ''gssapi: CGOClient requires CGO (rebuild with CGO_ENABLED=1)''"

fun stubCall :: "GssCall \<Rightarrow> GssAnswer" where
  "stubCall (CallInit target token deleg) = AnsInit (Inl errNoCGO)"
| "stubCall (CallMIC micField) = AnsMIC (Inl errNoCGO)"
| "stubCall CallDelete = AnsDelete"

end
