(* ===== verification/Spec2Isabelle.thy ===== *)
theory Spec2Isabelle
  imports ConfType ClientResolve ClientArgs ServerResolve ServerArgs Algorithms ClientSession ServerConn
    ClientHostKey ClientAuth ClientConnect ClientForward ClientTerminal Logger ClientRunning SshdMain
    SshKeygen SshAdd SshAgent SshKeyscan SshCopyId GssapiC
begin

text \<open>
  \<^bold>\<open>The program.\<close>  The repository is an SSH suite in Go over the library
  \<^verbatim>\<open>golang.org/x/crypto/ssh\<close>: a parser for OpenSSH configuration files
  (\<^verbatim>\<open>pkg/sshconfig\<close>), the client's and the server's options and their resolution
  (\<^verbatim>\<open>pkg/sshclient\<close>, \<^verbatim>\<open>pkg/sshserver\<close>), what runs on a connection (\<^verbatim>\<open>pkg/session\<close>,
  \<^verbatim>\<open>pkg/forward\<close>, \<^verbatim>\<open>pkg/terminal\<close>, \<^verbatim>\<open>pkg/dialer\<close>, \<^verbatim>\<open>pkg/gssapi\<close>, \<^verbatim>\<open>pkg/logger\<close>) and seven
  programs (\<^verbatim>\<open>cmd\<close>): ssh, sshd, ssh-keygen, ssh-add, ssh-agent, ssh-keyscan, ssh-copy-id.
  A program reads its arguments into directives and a lookup; the resolution parses the
  configuration files, evaluates their conditions and applies their directives to a
  struct of optional fields; the options then decide which peer is dialled or listened
  for, what is accepted as its key or its proof, and which sessions and forwardings run.

  \<^bold>\<open>Conventions.\<close>  A Go string is a \<^typ>\<open>string\<close>, read as bytes; \<^verbatim>\<open>int\<close> is \<^typ>\<open>int\<close>, with the
  bounds of 64 bits written out where the code can reach them; unsigned types are words.
  A pointer that may be nil is an option.  A result \<^verbatim>\<open>(T, error)\<close> is in \<^verbatim>\<open>go_error + T\<close>.
  What the code calls outside its source (operating system, network, SSH library, keys,
  agent, Kerberos, C library, user) is an argument: a record of functions (\<^verbatim>\<open>World\<close>,
  \<^verbatim>\<open>NetWorld\<close>, \<^verbatim>\<open>KeyLib\<close>, \<^verbatim>\<open>SessWorld\<close>, \<^verbatim>\<open>SshWorld\<close>, \<^verbatim>\<open>ToolWorld\<close> and others).  Nothing is
  assumed of it but what a theorem names (\<^verbatim>\<open>keyFormat\<close>, \<^verbatim>\<open>wireAgrees\<close>, \<^verbatim>\<open>agentAdds\<close>, \<^verbatim>\<open>authorizedFormat\<close>).  What a
  program prints, sends and starts is the list of its outputs, in order.

  \<^bold>\<open>Foundations.\<close>  \<^theory_text>\<open>Prelude\<close> (errors, results, optional fields, their rules),
  \<^theory_text>\<open>GoStrings\<close> and \<^theory_text>\<open>GoNet\<close> (what is used of Go's \<^verbatim>\<open>strings\<close>, \<^verbatim>\<open>strconv\<close>, \<^verbatim>\<open>net\<close>,
  \<^verbatim>\<open>path\<close>), \<^theory_text>\<open>TermIO\<close> (buffered input, passwords), \<^theory_text>\<open>KeyLib\<close> and \<^theory_text>\<open>ToolKeys\<close> (keys),
  \<^theory_text>\<open>Logger\<close>.

  \<^bold>\<open>Configuration files\<close> (\<^verbatim>\<open>pkg/sshconfig\<close>).  \<^theory_text>\<open>ConfTypes\<close> holds the data of
  \<^verbatim>\<open>types.go\<close>.  \<^theory_text>\<open>Pattern\<close> shows that the matching loop decides the language of glob
  patterns, an inductive relation; the locale \<^verbatim>\<open>glob_matcher\<close> is the contract of a
  matcher, and the two other matchers of the program (\<^theory_text>\<open>ClientSession\<close>,
  \<^theory_text>\<open>ServerSession\<close>) are interpretations of it too.  \<^theory_text>\<open>ListOp\<close>, \<^theory_text>\<open>Helpers\<close> and
  \<^theory_text>\<open>Token\<close> are the operators on algorithm lists, the parsers of destinations, sizes
  and times, and the expansions; \<^theory_text>\<open>MatchCond\<close> evaluates and parses conditions.
  \<^theory_text>\<open>ConfParser\<close> is the parser with its Include recursion; \<^theory_text>\<open>ConfRender\<close> shows what it
  answers for a file written out line by line, that it leaves its marks as they were,
  and that the recursion meets the depth bound of the code; \<^theory_text>\<open>ConfType\<close> that every
  entry it returns is well typed.

  \<^bold>\<open>Options.\<close>  \<^theory_text>\<open>OptStore\<close> has the locale \<^verbatim>\<open>option_store\<close>: a struct seen as a list of
  optional fields, where applying a directive fills fields and never changes one.
  \<^theory_text>\<open>ClientOptions\<close> and \<^theory_text>\<open>ServerOptions\<close> are the structs, defaults and merges,
  \<^theory_text>\<open>ClientKeyword\<close> and \<^theory_text>\<open>ServerKeyword\<close> the directives, each with an interpretation
  of the locale.  \<^theory_text>\<open>CliFlags\<close> has the loops over command lines and the locales
  \<^verbatim>\<open>cluster_cli\<close> (flags in clusters: \<^theory_text>\<open>ClientArgs\<close>, \<^theory_text>\<open>ServerArgs\<close>) and \<^verbatim>\<open>word_cli\<close> (flags as
  words: the five tools).  \<^theory_text>\<open>ClientResolve\<close> and \<^theory_text>\<open>ServerResolve\<close> are the resolutions:
  which source wins, and what a resolved configuration has.  \<^theory_text>\<open>Algorithms\<close> are the
  algorithm lists handed to the SSH library.

  \<^bold>\<open>The client.\<close>  \<^theory_text>\<open>Dialer\<close>, \<^theory_text>\<open>ClientHostKey\<close> (which host keys are accepted),
  \<^theory_text>\<open>ClientAuth\<close> (methods and signers), \<^theory_text>\<open>ClientConnect\<close>, \<^theory_text>\<open>ClientSession\<close>,
  \<^theory_text>\<open>ClientForward\<close>, \<^theory_text>\<open>ClientTerminal\<close> (the escape reader as a transducer, the mode of the
  terminal), \<^theory_text>\<open>ClientTui\<close> (queries, prompts and the printed configuration, which parses
  back), \<^theory_text>\<open>Gssapi\<close> and \<^theory_text>\<open>GssapiC\<close> (the two Kerberos clients as step relations),
  \<^theory_text>\<open>SshMain\<close> (the program, from arguments to exit code) and \<^theory_text>\<open>ClientRunning\<close> (its
  goroutines while a session runs, in any order).

  \<^bold>\<open>The server.\<close>  \<^theory_text>\<open>ServerAuth\<close> (access control, authenticators, host keys),
  \<^theory_text>\<open>ServerListen\<close>, \<^theory_text>\<open>ServerForward\<close> (permissions and the shared forwarder, a step relation
  over all connections), \<^theory_text>\<open>ServerSession\<close> (the request loop), \<^theory_text>\<open>ServerConn\<close> (handshake,
  access check, channels and global requests; the locale \<^verbatim>\<open>remote_forwards\<close> is what a
  connection relies on of a forwarder) and \<^theory_text>\<open>SshdMain\<close> (the program).

  \<^bold>\<open>The tools.\<close>  \<^theory_text>\<open>SshKeygen\<close>, \<^theory_text>\<open>SshAdd\<close>, \<^theory_text>\<open>SshAgent\<close>, \<^theory_text>\<open>SshKeyscan\<close> and
  \<^theory_text>\<open>SshCopyId\<close>: arguments and all actions of each.

  \<^bold>\<open>This theory\<close> joins components: the three matchers decide one language; a command the
  client starts runs on the server with the variables and the terminal both ends agree
  on; a key that ssh-keygen has sealed is opened by ssh-add; a key that
  ssh-copy-id has installed is admitted by the server.

  \<^bold>\<open>Bounds and recursion.\<close>  The include depth of the code (16 unless configured) is the
  recursion depth of \<^verbatim>\<open>parseFileN\<close>: depth \<^verbatim>\<open>d\<close> has \<^verbatim>\<open>maxDepth + 1 - d\<close> levels left, and
  \<^verbatim>\<open>parseFile_recursion\<close> shows that the bound is never what ends it early.  A line is at
  most 65535 bytes, as in \<^verbatim>\<open>bufio.Scanner\<close>.  Sizes wrap modulo \<open>2 ^ 64\<close>, times are refused
  beyond a 64-bit int, exit codes reach the wire modulo \<open>2 ^ 32\<close>.  All loops are total
  functions: over lists, or with a measure (the escape reader takes a byte at every read);
  there is no fuel.

  \<^bold>\<open>Not modelled.\<close>  The interface declarations of \<^verbatim>\<open>handlers.go\<close> in both packages have no
  code; their methods are the functions of the records above.  The contexts of
  \<^verbatim>\<open>pkg/sshserver/session.go\<close> only return their fields, \<^verbatim>\<open>pkg/stdio\<close> only groups streams,
  \<^verbatim>\<open>pkg/command\<close> only calls the shell, and the connection over standard input of
  \<^verbatim>\<open>cmd/sshd\<close> only calls the two files.  The C functions of \<^verbatim>\<open>cgo.go\<close> that only forward
  a call are the calls.  Interleaving inside the copy loops of forwarded connections is
  not modelled: each direction is one output.  Cryptography, the SSH protocol and the
  wire format are the SSH library's.  \<^verbatim>\<open>test\<close> and \<^verbatim>\<open>docs\<close> are no part of the programs.
\<close>

section \<open>The three matchers\<close>

text \<open>The three glob matchers of the program, those of the configuration, of the client's
  environment patterns and of the server's, are written three times and in two ways, and
  decide the same language, that of \<^term>\<open>glob\<close>.\<close>

theorem matchers_agree:
  "MatchPattern p v = glob p v \<and> MatchGlob p v = glob p v \<and> matchEnvPattern p v = glob p v \<and>
   MatchEnvPattern p v = (\<not> hasPrefix p ''-'' \<and> glob p v) \<and>
   envNameAccepted v ps = (v = ''TERM'' \<or> (\<exists>q \<in> set ps. glob q v))"
  by (auto simp: MatchPattern_def mp.mtch_glob mg.mtch_glob me.mtch_glob MatchEnvPattern_def
      envNameAccepted_def list_ex_iff)

section \<open>A session from the client to the server\<close>

text \<open>What the SSH library does between the two: it encodes the calls of the client as requests
  that the server decodes.\<close>

record WireEnc =
  weEnv :: "string \<Rightarrow> string \<Rightarrow> bytes"
  wePty :: "string \<Rightarrow> int \<Rightarrow> int \<Rightarrow> (string \<times> int) list \<Rightarrow> bytes"
  weStr :: "string \<Rightarrow> bytes"

definition wireAgrees :: "WireEnc \<Rightarrow> SessWorld \<Rightarrow> bool" where
  "wireAgrees e w \<longleftrightarrow>
     (\<forall>k v. parseEnvRequest w (weEnv e k v) = Inr (k, v)) \<and>
     (\<forall>t h wd m. \<exists>p. parsePTYRequest w (wePty e t h wd m) = Inr p) \<and>
     (\<forall>s. parseExecOrSubsystem w (weStr e s) = Inr s)"

definition wireReq :: "string \<Rightarrow> bytes \<Rightarrow> ChanReq" where
  "wireReq t b = \<lparr>rqType = t, rqWantReply = True, rqPayload = b\<rparr>"

fun callReq :: "WireEnc \<Rightarrow> SessionCall \<Rightarrow> ChanReq" where
  "callReq e (Setenv k v) = wireReq ''env'' (weEnv e k v)"
| "callReq e (RequestPty t h wd m) = wireReq ''pty-req'' (wePty e t h wd m)"

text \<open>The state the server is in behind the calls of a client.\<close>

fun serverStep :: "WireEnc \<Rightarrow> SessWorld \<Rightarrow> ServerOptions \<Rightarrow> SessionCall \<Rightarrow> SessState \<Rightarrow> SessState" where
  "serverStep e w opts (Setenv k v) st =
     (if envNameAccepted k (sAcceptEnv opts) then st\<lparr>ssEnv := ssEnv st @ [k @ ''='' @ v]\<rparr> else st)"
| "serverStep e w opts (RequestPty t h wd m) st =
     (if sPermitTTY opts = Some False then st
      else case parsePTYRequest w (wePty e t h wd m) of Inr p \<Rightarrow> st\<lparr>ssPty := Some p\<rparr> | Inl err \<Rightarrow> st)"

lemma call_handled:
  assumes "wireAgrees e w"
  shows "\<exists>b. handleRequest w opts user st (callReq e c) = ([Reply b], Continue (serverStep e w opts c st))"
proof (cases c)
  case (RequestPty t h wd m)
  obtain p where "parsePTYRequest w (wePty e t h wd m) = Inr p"
    using assms unfolding wireAgrees_def by blast
  then show ?thesis
    using RequestPty by (intro exI[of _ "sPermitTTY opts \<noteq> Some False"]) (simp add: handleRequest_def wireReq_def)
next
  case (Setenv k v)
  then show ?thesis
    using assms by (intro exI[of _ True]) (simp add: handleRequest_def wireReq_def wireAgrees_def)
qed

lemma calls_handled:
  assumes "wireAgrees e w"
  shows "\<exists>out. (\<forall>p. RanProcess p \<notin> set out) \<and>
    sessionLoop w opts user (map (callReq e) cs @ [r]) st =
      (out @ fst (sessionLoop w opts user [r] (fold (serverStep e w opts) cs st)),
       snd (sessionLoop w opts user [r] (fold (serverStep e w opts) cs st)))"
proof (induction cs arbitrary: st)
  case Nil
  then show ?case by (intro exI[of _ "[]"]) simp
next
  case (Cons c cs)
  obtain b where h: "handleRequest w opts user st (callReq e c) = ([Reply b], Continue (serverStep e w opts c st))"
    using call_handled[OF assms] by blast
  from Cons.IH[of "serverStep e w opts c st"] obtain out where
    "\<forall>p. RanProcess p \<notin> set out"
    "sessionLoop w opts user (map (callReq e) cs @ [r]) (serverStep e w opts c st) =
      (out @ fst (sessionLoop w opts user [r] (fold (serverStep e w opts) (c # cs) st)),
       snd (sessionLoop w opts user [r] (fold (serverStep e w opts) (c # cs) st)))" by auto
  moreover have "sessionLoop w opts user (callReq e c # reqs) st =
      (Reply b # fst (sessionLoop w opts user reqs (serverStep e w opts c st)),
       snd (sessionLoop w opts user reqs (serverStep e w opts c st)))" for reqs
    by (simp add: sessionLoop.simps(2) h case_prod_beta' Let_def)
  ultimately show ?case by (intro exI[of _ "Reply b # out"]) (simp del: fold.simps)
qed

text \<open>The environment the server builds, and its terminal.\<close>

definition acceptedEnv :: "ServerOptions \<Rightarrow> SessionCall list \<Rightarrow> string list" where
  "acceptedEnv opts cs =
     concat (map (\<lambda>c. case c of
       Setenv k v \<Rightarrow> if k = ''TERM'' \<or> (\<exists>q \<in> set (sAcceptEnv opts). glob q k) then [k @ ''='' @ v] else []
     | _ \<Rightarrow> []) cs)"

lemma steps_state:
  assumes "wireAgrees e w"
  shows "ssEnv (fold (serverStep e w opts) cs st) = ssEnv st @ acceptedEnv opts cs \<and>
    (ssPty (fold (serverStep e w opts) cs st) \<noteq> None \<longleftrightarrow>
       ssPty st \<noteq> None \<or> sPermitTTY opts \<noteq> Some False \<and> (\<exists>t h wd m. RequestPty t h wd m \<in> set cs))"
proof (induction cs arbitrary: st)
  case (Cons c cs)
  show ?case
  proof (cases c)
    case (Setenv k v)
    then show ?thesis
      using Cons.IH[of "serverStep e w opts c st"]
      by (auto simp: acceptedEnv_def envNameAccepted_def list_ex_iff me.mtch_glob)
  next
    case (RequestPty t h wd m)
    obtain p where p: "parsePTYRequest w (wePty e t h wd m) = Inr p"
      using assms unfolding wireAgrees_def by blast
    have s: "serverStep e w opts c st = (if sPermitTTY opts = Some False then st else st\<lparr>ssPty := Some p\<rparr>)"
      using RequestPty p by simp
    have m: "\<exists>t h wd m. RequestPty t h wd m \<in> set (c # cs)" using RequestPty by auto
    show ?thesis
    proof (cases "sPermitTTY opts = Some False")
      case True
      then show ?thesis using Cons.IH[of st] s RequestPty by (simp add: acceptedEnv_def)
    next
      case False
      then show ?thesis
        using Cons.IH[of "st\<lparr>ssPty := Some p\<rparr>"] s m RequestPty by (simp add: acceptedEnv_def del: list.set)
    qed
  qed
qed (simp add: acceptedEnv_def)


text \<open>A wire for the witness: a string is its bytes, two strings are separated by marks.\<close>

definition byteOf :: "char \<Rightarrow> 8 word" where "byteOf c = of_nat (of_char c)"
definition charOf :: "8 word \<Rightarrow> char" where "charOf b = char_of (unat b)"

lemma charOf_byteOf [simp]: "charOf (byteOf c) = c"
  by (simp add: charOf_def byteOf_def unat_of_nat)

fun markedBytes :: "string \<Rightarrow> bytes" where
  "markedBytes [] = [0]"
| "markedBytes (c # cs) = 1 # byteOf c # markedBytes cs"

fun readMarked :: "bytes \<Rightarrow> string \<times> bytes" where
  "readMarked (m # b # bs) = (if m = 0 then ([], b # bs) else let (s, r) = readMarked bs in (charOf b # s, r))"
| "readMarked bs = ([], [])"

definition demoWire :: WireEnc where
  "demoWire = \<lparr>weEnv = (\<lambda>k v. markedBytes k @ map byteOf v), wePty = (\<lambda>t h w m. []), weStr = map byteOf\<rparr>"

definition demoServer :: SessWorld where
  "demoServer = demoSess\<lparr>uStrStr := (\<lambda>b. let (k, r) = readMarked b in Inr (k, map charOf r)),
     uStr := (\<lambda>b. Inr (map charOf b))\<rparr>"

lemma readMarked_marked: "readMarked (markedBytes k @ r) = (k, r)"
proof (induction k)
  case Nil
  then show ?case by (cases r) auto
qed simp

lemma demo_wireAgrees: "wireAgrees demoWire demoServer"
  by (simp add: wireAgrees_def demoWire_def demoServer_def parseEnvRequest_def parsePTYRequest_def
      parseExecOrSubsystem_def readMarked_marked demoSess_def comp_def)

definition demoClient :: SessionWorld where
  "demoClient = \<lparr>swEnviron = [''LANG=C'', ''X=1''], swGetenv = (\<lambda>v. []), swIsTerminal = False, swGetSize = None,
     swRequestPty = None, swRequestAgent = None, swForwardToRemote = (\<lambda>p. None)\<rparr>"


section \<open>A key from ssh-keygen to the agent\<close>

text \<open>The files after the writes of a tool.\<close>

primrec filesAfter :: "KeygenAct list \<Rightarrow> (string \<Rightarrow> go_error + string) \<Rightarrow> string \<Rightarrow> go_error + string" where
  "filesAfter [] files = files"
| "filesAfter (a # as) files =
     filesAfter as (case a of WriteFile f d m \<Rightarrow> files(f := Inr d) | MkdirAll d m \<Rightarrow> files)"

definition afterTool ::
  "('pub, 'raw, 'pem) ToolWorld \<Rightarrow> KeygenAct ToolOut list \<Rightarrow> ('pub, 'raw, 'pem) ToolWorld" where
  "afterTool w out = w\<lparr>twReadFile := filesAfter (acts out) (twReadFile w)\<rparr>"

lemma openKey_sealed:
  assumes "twReadFile w path = Inr d" and "twParseRaw w d = Inl e" and "twPassphraseMissing w e"
    and "twParseRawWith w d pass = Inr k"
  shows "\<exists>out. openKey w path (Inr pass # typed) = (out, Inr k, typed) \<and> acts out = []"
  using assms by (simp add: openKey_def numeral_3_eq_3 nextTyped_def Let_def)

text \<open>C21: after ssh-keygen has given a key a new passphrase, ssh-add hands that very key to the
  agent for that passphrase, and ends with 0: the two programs agree on the file between
  them.\<close>

theorem keygen_then_add:
  assumes "keyFormat w" and "ChangePassphrase w typed cfg = (out, Exit 0)" and "kgNewPass cfg \<noteq> []"
    and "adFiles add = [existingKeyFile w cfg]"
    and "acAdd ac \<lparr>aaPrivateKey = priv, aaComment = existingKeyFile w cfg,
       aaConfirmBeforeUse = adConfirm add, aaLifetimeSecs = adLifetime add\<rparr> ag = (None, ag')"
    and "\<forall>data k. twReadFile w (existingKeyFile w cfg) = Inr data \<longrightarrow>
       twParseRaw w data = Inr k \<or> (\<exists>pw. twParseRawWith w data pw = Inr k) \<longrightarrow> k = priv"
  shows "snd (AddKeys (afterTool w out) ac add (Inr (kgNewPass cfg) # later) ag) = (Exit 0, ag')"
proof -
  let ?f = "existingKeyFile w cfg" and ?w = "afterTool w out"
  from ChangePassphrase_ok[OF assms(2)] assms(3) obtain data k block where
    k: "twReadFile w ?f = Inr data" "twParseRaw w data = Inr k \<or> (\<exists>pw. twParseRawWith w data pw = Inr k)"
    "sealKey w k [] (kgNewPass cfg) = Inr block"
    "acts out = [WriteFile ?f (twEncode w block) secretMode]" by blast
  have p: "k = priv" using k(1,2) assms(6) by blast
  have s: "twMarshalKeyWith w k [] (kgNewPass cfg) = Inr block" using k(3) assms(3) by (simp add: sealKey_def)
  obtain e where e: "twParseRaw w (twEncode w block) = Inl e" "twPassphraseMissing w e"
    using keyFormat_sealed(2)[OF assms(1,3) s] by blast
  obtain o1 where "openKey ?w ?f (Inr (kgNewPass cfg) # later) = (o1, Inr priv, later)"
    using openKey_sealed[of ?w ?f "twEncode w block" e "kgNewPass cfg" k] k(4) e
      keyFormat_sealed(1)[OF assms(1,3) s] p by (auto simp: afterTool_def)
  then show ?thesis
    using assms(4,5) by (simp add: AddKeys_def filesOr_def addKey_def)
qed

theorem keygen_then_add_witness:
  "snd (AddKeys (afterTool demoTools
       (fst (ChangePassphrase demoTools [Inr ''pw''] (keygenParse [''-p'', ''-f'', ''k'', ''-N'', ''new''] emptyKeygen))))
     demoAgent (addParse [''-c'', ''k''] emptyAdd) [Inr ''new''] []) =
   (Exit 0, [\<lparr>aaPrivateKey = CHR ''a'', aaComment = ''k'', aaConfirmBeforeUse = True, aaLifetimeSecs = 0\<rparr>])"
proof -
  let ?cfg = "keygenParse [''-p'', ''-f'', ''k'', ''-N'', ''new''] emptyKeygen"
  let ?add = "addParse [''-c'', ''k''] emptyAdd"
  let ?r = "ChangePassphrase demoTools [Inr ''pw''] ?cfg"
  have "snd ?r = Exit 0" by code_simp
  then have r: "?r = (fst ?r, Exit 0)" by (metis prod.collapse)
  have c: "kgNewPass ?cfg = ''new''" "existingKeyFile demoTools ?cfg = ''k''" by code_simp+
  have a: "adFiles ?add = [''k'']" "adConfirm ?add" "adLifetime ?add = 0"
    by (simp_all add: addParse_def addWord0_def addWord1_def addOther_def emptyAdd_def hasPrefix_def)
  let ?key = "\<lparr>aaPrivateKey = CHR ''a'', aaComment = ''k'', aaConfirmBeforeUse = True, aaLifetimeSecs = 0\<rparr>"
  have k: "\<forall>data x. twReadFile demoTools ''k'' = Inr data \<longrightarrow>
      twParseRaw demoTools data = Inr x \<or> (\<exists>pw. twParseRawWith demoTools data pw = Inr x) \<longrightarrow> x = CHR ''a''"
    by (simp add: demoTools_def split: if_splits)
  have g: "acAdd demoAgent ?key [] = (None, [?key])" by (simp add: demoAgent_def)
  note added = keygen_then_add[OF keyFormat_demo r, where add = ?add and ac = demoAgent and priv = "CHR ''a''"
      and ag = "[]" and ag' = "[?key]" and later = "[]", unfolded c a]
  show ?thesis
    by (rule added) (use k g a(2) in simp_all)
qed

section \<open>A key from ssh-copy-id to the server\<close>

text \<open>What the SSH library documents of files of authorized keys: they are read line by line, a
  line that holds no key is passed over, and what is behind the line of the first key is
  left; \<^term>\<open>lineKey\<close> is the key of a line.  A key written as such a line is that key.\<close>

definition authorizedFormat :: "('pub, 'cert, 'signer) KeyLib \<Rightarrow> (string \<Rightarrow> 'pub option) \<Rightarrow> bool" where
  "authorizedFormat lib lineKey \<longleftrightarrow>
     (\<forall>l r. CHR 0x0A \<notin> set l \<longrightarrow>
        klParseAuthorized lib (l @ newline @ r) =
          (case lineKey l of Some k \<Rightarrow> Inr (k, r) | None \<Rightarrow> klParseAuthorized lib r))"

definition lineOfKey :: "('pub \<Rightarrow> string) \<Rightarrow> (string \<Rightarrow> 'pub option) \<Rightarrow> bool" where
  "lineOfKey authLine lineKey \<longleftrightarrow>
     (\<forall>k. CHR 0x0A \<notin> set (trimSpace (authLine k)) \<and> lineKey (trimSpace (authLine k)) = Some k)"

lemma keyIn_line:
  assumes "authorizedFormat lib lineKey" and "CHR 0x0A \<notin> set l"
  shows "lineKey l = Some k \<Longrightarrow> keyIn lib (l @ newline @ r) k"
    and "keyIn lib r k \<Longrightarrow> keyIn lib (l @ newline @ r) k"
proof -
  have p: "klParseAuthorized lib (l @ newline @ r) =
      (case lineKey l of Some k \<Rightarrow> Inr (k, r) | None \<Rightarrow> klParseAuthorized lib r)"
    using assms by (simp add: authorizedFormat_def)
  have n: "l @ newline @ r \<noteq> []" by (simp add: newline_def)
  show "lineKey l = Some k \<Longrightarrow> keyIn lib (l @ newline @ r) k"
    using p by (auto intro: keyIn_here[OF n])
  show "keyIn lib (l @ newline @ r) k" if "keyIn lib r k"
  proof (cases "lineKey l")
    case (Some k')
    then show ?thesis using p that by (auto intro: keyIn_later[OF n])
  next
    case None
    then have e: "klParseAuthorized lib (l @ newline @ r) = klParseAuthorized lib r" using p by simp
    from that show ?thesis by cases (use e in \<open>auto intro: keyIn_here[OF n] keyIn_later[OF n]\<close>)
  qed
qed

text \<open>Appending to whole lines keeps the keys of what is appended.\<close>

lemma keyIn_append:
  assumes "authorizedFormat lib lineKey" and "keyIn lib r k"
  shows "old = [] \<or> last old = CHR 0x0A \<Longrightarrow> keyIn lib (old @ r) k"
proof (induction old rule: length_induct)
  case (1 old)
  show ?case
  proof (cases "old = []")
    case False
    let ?l = "takeWhile (\<lambda>c. c \<noteq> CHR 0x0A) old" and ?d = "dropWhile (\<lambda>c. c \<noteq> CHR 0x0A) old"
    have "CHR 0x0A \<in> set old" using "1.prems" last_in_set[OF False] False by auto
    then have "?d \<noteq> []" by (auto simp: dropWhile_eq_Nil_conv)
    then obtain c rest where d: "?d = c # rest" by (cases ?d) auto
    have c: "c = CHR 0x0A" using hd_dropWhile[OF \<open>?d \<noteq> []\<close>] by (simp add: d)
    have o: "old = ?l @ newline @ rest"
      using takeWhile_dropWhile_id[of "\<lambda>c. c \<noteq> CHR 0x0A" old] unfolding d c by (simp add: newline_def)
    have "length ?d \<le> length old" by (rule length_dropWhile_le)
    then have "length rest < length old" by (simp add: d)
    moreover have "rest = [] \<or> last rest = CHR 0x0A"
    proof (cases "rest = []")
      case n: False
      then have "last old = last rest" by (subst o) simp
      then show ?thesis using "1.prems" False by simp
    qed simp
    ultimately have "keyIn lib (rest @ r) k" using "1.IH" by blast
    then have "keyIn lib (?l @ newline @ rest @ r) k"
      by (rule keyIn_line(2)[OF assms(1), rotated]) (auto dest: set_takeWhileD)
    moreover have "old @ r = ?l @ newline @ rest @ r" using o by (metis append_assoc)
    ultimately show ?thesis by metis
  qed (use assms(2) in simp)
qed

lemma installCmd_inject: "installCmd l = installCmd l' \<longleftrightarrow> l = l'"
  by (simp add: installCmd_def)

text \<open>C36: the key that ssh-copy-id has installed for a user is admitted by the server for that user,
  when the command has appended its line to a file of whole lines: the two programs agree
  on the format and the place of the file.\<close>

theorem copyid_then_login:
  assumes "CopyRun w cfg = Some (out, code)" and "Act (CopyCommand (installCmd line)) \<in> set out"
    and "authorizedFormat (cwLib w) lineKey" and "lineOfKey (cwAuthorizedLine w) lineKey"
    and "parseShrinks (cwLib w)"
    and "lookupUser user = Inr home" and "''.ssh/authorized_keys'' \<in> set (keyFiles opts)"
    and "files (pathJoin [home, ''.ssh/authorized_keys'']) = Inr (old @ line @ newline)"
    and "old = [] \<or> last old = CHR 0x0A"
  shows "\<exists>data name pub rest perms. LoadPublicKey w (ciIdentityFile cfg) = Inr (data, name) \<and>
    klParseAuthorized (cwLib w) data = Inr (pub, rest) \<and> line = trimSpace (cwAuthorizedLine w pub) \<and>
    AuthenticatePublicKey ((cwLib w)\<lparr>klReadFile := files\<rparr>) lookupUser user pub opts = Some (Inr perms)"
proof -
  let ?lib = "(cwLib w)\<lparr>klReadFile := files\<rparr>"
  from copyRun_connects[OF assms(1,2)] obtain line' opts' sc where
    c: "copyKeyLine w cfg = Inr line'" "(out, code) = copyConnect w cfg line' opts' sc" by blast
  have "Act (CopyCommand (installCmd line)) \<in> set (fst (copyConnect w cfg line' opts' sc))"
    using assms(2) c(2) by (metis fst_conv)
  then have e: "line = line'" using copyConnect_command installCmd_inject by blast
  from copyKeyLine_from[OF c(1)] obtain data name pub rest where
    k: "LoadPublicKey w (ciIdentityFile cfg) = Inr (data, name)"
      "klParseAuthorized (cwLib w) data = Inr (pub, rest)" and
    l: "line = trimSpace (cwAuthorizedLine w pub)" using e by blast
  have "klParseAuthorized ?lib = klParseAuthorized (cwLib w)" by simp
  then have f: "authorizedFormat ?lib lineKey" using assms(3) unfolding authorizedFormat_def by metis
  have s: "parseShrinks ?lib" using assms(5) by (simp add: parseShrinks_def)
  have "keyIn ?lib (line @ newline @ []) pub"
    using keyIn_line(1)[OF f] assms(4) unfolding l lineOfKey_def by blast
  then have "keyIn ?lib (old @ line @ newline) pub" using keyIn_append[OF f] assms(9) by simp
  moreover have "homePath home ''.ssh/authorized_keys'' = pathJoin [home, ''.ssh/authorized_keys'']"
    by (simp add: homePath_def IsAbs_def)
  ultimately have "fileHolds ?lib (klMarshal ?lib pub) (homePath home ''.ssh/authorized_keys'')"
    using assms(8) by (auto simp: fileHolds_def)
  then have "authorizedFiles ?lib home (klMarshal ?lib pub) (keyFiles opts) = Some True"
    using authorizedFiles_result[OF s] assms(7) by auto
  then show ?thesis using k(1,2) l assms(6) by (simp add: AuthenticatePublicKey_def)
qed

text \<open>When the file does not end with a line, the line of the key is joined to its last one.\<close>

lemma copyid_joins_line:
  assumes "CHR 0x0A \<notin> set partial" and "CHR 0x0A \<notin> set line"
  shows "split (partial @ line @ newline) CHR 0x0A = [partial @ line, []]"
  using split_append_sep[of "CHR 0x0A" "partial @ line" "[]"] assms by (simp add: newline_def)

lemma unary_format: "authorizedFormat (unaryLib read) unaryKey" "lineOfKey unaryLine unaryKey"
proof -
  have "split (l @ newline @ r) CHR 0x0A = l # split r CHR 0x0A" if "CHR 0x0A \<notin> set l" for l r
    using split_append_sep[OF that] by (simp add: newline_def)
  moreover have "joinWith (split r CHR 0x0A) newline = r" for r by (simp add: newline_def)
  ultimately show "authorizedFormat (unaryLib read) unaryKey"
    by (simp add: authorizedFormat_def unaryLib_def split: option.split)
  show "lineOfKey unaryLine unaryKey" by (simp add: lineOfKey_def unaryKey_line)
qed

theorem copyid_then_login_witness:
  "\<exists>data name pub rest perms. LoadPublicKey demoCopy [] = Inr (data, name) \<and>
    klParseAuthorized (cwLib demoCopy) data = Inr (pub, rest) \<and>
    AuthenticatePublicKey ((cwLib demoCopy)\<lparr>klReadFile := (\<lambda>f. if f = ''/h/.ssh/authorized_keys''
         then Inr (''#'' @ newline @ ''x'' @ newline) else Inl (ErrExt f))\<rparr>)
      (\<lambda>u. Inr ''/h'') ''u'' pub sshdEmptyOptions = Some (Inr perms)"
proof -
  let ?files = "\<lambda>f. if f = ''/h/.ssh/authorized_keys'' then Inr (''#'' @ newline @ ''x'' @ newline) else Inl (ErrExt f)"
  obtain out where o: "CopyRun demoCopy (copyParse [''h''] emptyCopy) = Some (out, Exit 0)"
    "Act (CopyCommand (installCmd ''x'')) \<in> set out" using demoCopy_runs by blast
  have w: "cwLib demoCopy = unaryLib (\<lambda>f. Inr ''x'')" "cwAuthorizedLine demoCopy = unaryLine"
    by (simp_all add: demoCopy_def)
  have i: "ciIdentityFile (copyParse [''h''] emptyCopy) = []" by code_simp
  have p: "pathJoin [''/h'', ''.ssh/authorized_keys''] = ''/h/.ssh/authorized_keys''" by code_simp
  have f: "?files (pathJoin [''/h'', ''.ssh/authorized_keys'']) = Inr ((''#'' @ newline) @ ''x'' @ newline)"
    by (simp add: p)
  have l: "last (''#'' @ newline) = CHR 0x0A" by (simp add: newline_def)
  have k: "''.ssh/authorized_keys'' \<in> set (keyFiles sshdEmptyOptions)" by (simp add: keyFiles_def sshdEmptyOptions_def)
  note login = copyid_then_login[OF o, where lineKey = unaryKey and lookupUser = "\<lambda>u. Inr ''/h''" and user = "''u''"
      and home = "''/h''" and opts = sshdEmptyOptions and files = ?files and old = "''#'' @ newline", unfolded w i]
  show ?thesis
    unfolding w using login[OF unary_format parseShrinks_unary refl k f disjI2[OF l]] by blast
qed

end
